(* ===== verification/Prelude.thy ===== *)
theory Prelude
  imports Main "HOL-Library.Sublist" "HOL-Library.List_Lexorder" "HOL-Library.AList" "HOL-Library.Code_Target_Nat"
begin

text \<open>
  The generic layer of the development: results that may be an exception, loops that stop at
  the first exception, loops that append to an error list, and the list lemmas shared by the
  components. An exception of the source is the left injection of a sum, a returned value the
  right one; a validator of the source, which appends to a mutable error list, is a function
  that returns the list of the errors it appends.
\<close>

named_theorems py_ok "rules that split a successful run into its successful parts"

section \<open>Results\<close>

fun bind_py :: "'e + 'a \<Rightarrow> ('a \<Rightarrow> 'e + 'b) \<Rightarrow> 'e + 'b" where
  "bind_py (Inl e) f = Inl e"
| "bind_py (Inr x) f = f x"

lemma bind_py_Inr_iff [py_ok]:
  "bind_py m f = Inr y \<longleftrightarrow> (\<exists>x. m = Inr x \<and> f x = Inr y)"
  by (cases m) auto

lemma bind_py_Inl_iff:
  "bind_py m f = Inl e \<longleftrightarrow> m = Inl e \<or> (\<exists>x. m = Inr x \<and> f x = Inl e)"
  by (cases m) auto

lemma bind_py_assoc: "bind_py (bind_py m f) g = bind_py m (\<lambda>x. bind_py (f x) g)"
  by (cases m) auto

lemma bind_py_cong [fundef_cong]:
  "m = m' \<Longrightarrow> (\<And>x. m' = Inr x \<Longrightarrow> f x = f' x) \<Longrightarrow> bind_py m f = bind_py m' f'"
  by (cases m') auto

definition guard_py :: "bool \<Rightarrow> 'e \<Rightarrow> 'e + unit" where
  "guard_py b e = (if b then Inr () else Inl e)"

lemma guard_py_Inr_iff [simp]: "guard_py b e = Inr x \<longleftrightarrow> b"
  by (simp add: guard_py_def)

lemma guard_py_True [simp]: "guard_py True e = Inr ()"
  and guard_py_False [simp]: "guard_py False e = Inl e"
  by (simp_all add: guard_py_def)

text \<open>A loop whose body may raise, collecting the results.\<close>

fun map_py :: "('a \<Rightarrow> 'e + 'b) \<Rightarrow> 'a list \<Rightarrow> 'e + 'b list" where
  "map_py f [] = Inr []"
| "map_py f (x # xs) = bind_py (f x) (\<lambda>y. bind_py (map_py f xs) (\<lambda>ys. Inr (y # ys)))"

lemma map_py_Inr_iff: "map_py f xs = Inr ys \<longleftrightarrow> list_all2 (\<lambda>x y. f x = Inr y) xs ys"
  by (induction xs arbitrary: ys) (auto simp: py_ok list_all2_Cons1)

lemma map_py_total: "(\<And>x. x \<in> set xs \<Longrightarrow> f x = Inr (g x)) \<Longrightarrow> map_py f xs = Inr (map g xs)"
  by (induction xs) auto

lemma map_py_ex_iff: "(\<exists>ys. map_py f xs = Inr ys) \<longleftrightarrow> (\<forall>x \<in> set xs. \<exists>y. f x = Inr y)"
  by (induction xs) (auto simp: py_ok)

text \<open>A loop of guards stops at the first element that fails.\<close>

lemma map_py_guards:
  "(\<And>x. x \<in> set xs \<Longrightarrow> f x = guard_py (g x) (e x)) \<Longrightarrow>
   map_py f xs = (case filter (\<lambda>x. \<not> g x) xs of
      [] \<Rightarrow> Inr (map (\<lambda>_. ()) xs) | y # _ \<Rightarrow> Inl (e y))"
  by (induction xs) (auto split: list.splits)

lemma map_py_cong [fundef_cong]:
  "xs = xs' \<Longrightarrow> (\<And>x. x \<in> set xs' \<Longrightarrow> f x = g x) \<Longrightarrow> map_py f xs = map_py g xs'"
  by (induction xs arbitrary: xs') auto

section \<open>Error lists\<close>

definition flag :: "bool \<Rightarrow> 'r \<Rightarrow> 'r list" where
  "flag b r = (if b then [r] else [])"

lemma flag_Nil_iff [simp]: "flag b r = [] \<longleftrightarrow> \<not> b"
  by (simp add: flag_def)

lemma set_flag [simp]: "set (flag b r) = (if b then {r} else {})"
  by (simp add: flag_def)

lemma flag_True [simp]: "flag True r = [r]"
  and flag_False [simp]: "flag False r = []"
  by (simp_all add: flag_def)

text \<open>Two validators in sequence, and a validator run on each element of a list.\<close>

definition seq_py :: "'e + 'r list \<Rightarrow> 'e + 'r list \<Rightarrow> 'e + 'r list" where
  "seq_py a b = bind_py a (\<lambda>xs. bind_py b (\<lambda>ys. Inr (xs @ ys)))"

definition each_py :: "('a \<Rightarrow> 'e + 'r list) \<Rightarrow> 'a list \<Rightarrow> 'e + 'r list" where
  "each_py f xs = bind_py (map_py f xs) (\<lambda>rs. Inr (concat rs))"

lemma seq_py_Nil_iff [py_ok]: "seq_py a b = Inr [] \<longleftrightarrow> a = Inr [] \<and> b = Inr []"
  by (auto simp: seq_py_def py_ok)

lemma seq_py_Inr [simp]: "seq_py (Inr xs) (Inr ys) = Inr (xs @ ys)"
  by (simp add: seq_py_def)

lemma seq_py_Inl [simp]: "seq_py (Inl e) b = Inl e"
  by (simp add: seq_py_def)

lemma seq_py_Inr_Inl [simp]: "seq_py (Inr xs) (Inl e) = Inl e"
  by (simp add: seq_py_def)

lemma each_py_simps [simp]:
  "each_py f [] = Inr []"
  "each_py f (x # xs) = seq_py (f x) (each_py f xs)"
  by (cases "f x"; cases "map_py f xs"; simp add: each_py_def seq_py_def)+

lemma each_py_Nil_iff [py_ok]:
  "each_py f xs = Inr [] \<longleftrightarrow> (\<forall>x \<in> set xs. f x = Inr [])"
  by (induction xs) (auto simp: py_ok)

lemma each_py_total:
  "(\<And>x. x \<in> set xs \<Longrightarrow> f x = Inr (g x)) \<Longrightarrow> each_py f xs = Inr (concat (map g xs))"
  by (simp add: each_py_def map_py_total)

fun seqs_py :: "('e + 'r list) list \<Rightarrow> 'e + 'r list" where
  "seqs_py [] = Inr []"
| "seqs_py (v # vs) = seq_py v (seqs_py vs)"

lemma seqs_py_Nil_iff [py_ok]: "seqs_py vs = Inr [] \<longleftrightarrow> (\<forall>v \<in> set vs. v = Inr [])"
  by (induction vs) (auto simp: py_ok)

lemma seq_py_returns: "(\<exists>es. seq_py a b = Inr es) \<longleftrightarrow> (\<exists>x. a = Inr x) \<and> (\<exists>y. b = Inr y)"
  by (cases a; cases b) auto

lemma seqs_py_returns: "(\<exists>es. seqs_py vs = Inr es) \<longleftrightarrow> (\<forall>v \<in> set vs. \<exists>x. v = Inr x)"
  by (induction vs) (auto simp: seq_py_returns)

lemma each_py_returns: "(\<exists>es. each_py f xs = Inr es) \<longleftrightarrow> (\<forall>x \<in> set xs. \<exists>y. f x = Inr y)"
  by (induction xs) (auto simp: seq_py_returns)

lemma seq_py_set: "seq_py a b = Inr es \<Longrightarrow> \<exists>x y. a = Inr x \<and> b = Inr y \<and> set es = set x \<union> set y"
  by (cases a; cases b) auto

lemma each_py_set:
  "each_py f xs = Inr es \<Longrightarrow> e \<in> set es \<Longrightarrow> \<exists>x \<in> set xs. \<exists>ys. f x = Inr ys \<and> e \<in> set ys"
  by (induction xs arbitrary: es) (auto dest!: seq_py_set)

lemma each_py_cong [fundef_cong]:
  "xs = xs' \<Longrightarrow> (\<And>x. x \<in> set xs' \<Longrightarrow> f x = g x) \<Longrightarrow> each_py f xs = each_py g xs'"
  by (simp add: each_py_def cong: map_py_cong)

section \<open>Lists\<close>

lemma sort_Nil_iff [simp]: "sort xs = [] \<longleftrightarrow> xs = []"
  by (metis set_empty set_sort)

lemma sorted_set_unique:
  "set xs = set ys \<Longrightarrow> distinct xs \<Longrightarrow> distinct ys \<Longrightarrow> sort xs = sort ys"
  by (metis sorted_list_of_set_sort_remdups distinct_remdups_id)

lemma list_all2_map_iff: "list_all2 (\<lambda>x y. y = f x) xs ys \<longleftrightarrow> ys = map f xs"
  by (induction xs arbitrary: ys) (auto simp: list_all2_Cons1)

lemma takeWhile_append_stop:
  "(\<forall>x \<in> set xs. P x) \<Longrightarrow> \<not> P y \<Longrightarrow> takeWhile P (xs @ y # ys) = xs"
  by (induction xs) auto

lemma dropWhile_append_stop:
  "(\<forall>x \<in> set xs. P x) \<Longrightarrow> \<not> P y \<Longrightarrow> dropWhile P (xs @ y # ys) = y # ys"
  by (induction xs) auto

end
