(* ===== verification/Py_Text.thy ===== *)
theory Py_Text
  imports Prelude Unicode_Tables
begin

text \<open>
  Python's text types. A \<open>str\<close> is the list of its code points, a \<open>bytes\<close> object the list of
  its octets (\<open>char\<close> is an eight bit value). The operations are the ones the scripts call:
  \<open>in\<close>, \<open>startswith\<close>, \<open>strip\<close>, \<open>split\<close>, \<open>splitlines\<close>, \<open>join\<close>, \<open>int\<close>, UTF-8 and the
  newline translation of text files. They belong to the language, so the program map does not
  list them; the lemmas give each one its specification.
\<close>

type_synonym bytes = string
type_synonym pystr = "nat list"

text \<open>An ASCII literal of the source.\<close>

definition lit :: "string \<Rightarrow> pystr" where
  "lit s = map of_char s"

lemma length_lit [simp]: "length (lit s) = length s"
  by (simp add: lit_def)

lemma lit_Nil [simp]: "lit [] = []"
  by (simp add: lit_def)

lemma lit_eq_Nil [simp]: "lit s = [] \<longleftrightarrow> s = []"
  by (simp add: lit_def)

lemma lit_eq_iff [simp]: "lit s = lit t \<longleftrightarrow> s = t"
  by (simp add: lit_def inj_map_eq_map inj_def)

section \<open>Characters\<close>

definition py_spaces :: "nat list" where
  "py_spaces = [9, 10, 11, 12, 13, 28, 29, 30, 31, 32, 133, 160, 5760, 8192, 8193, 8194, 8195,
     8196, 8197, 8198, 8199, 8200, 8201, 8202, 8232, 8233, 8239, 8287, 12288]"

definition is_space :: "nat \<Rightarrow> bool" where
  "is_space c \<longleftrightarrow> c \<in> set py_spaces"

definition is_linebreak :: "nat \<Rightarrow> bool" where
  "is_linebreak c \<longleftrightarrow> c \<in> set [10, 11, 12, 13, 28, 29, 30, 133, 8232, 8233]"

definition is_word_char :: "nat \<Rightarrow> bool" where
  "is_word_char c \<longleftrightarrow> is_alnum c \<or> c = 95"

definition is_hex_lower :: "nat \<Rightarrow> bool" where
  "is_hex_lower c \<longleftrightarrow> (48 \<le> c \<and> c \<le> 57) \<or> (97 \<le> c \<and> c \<le> 102)"

section \<open>Substrings, stripping, splitting\<close>

text \<open>\<open>t in s\<close>.\<close>

fun contains :: "'a list \<Rightarrow> 'a list \<Rightarrow> bool" where
  "contains t [] = (t = [])"
| "contains t (x # xs) = (prefix t (x # xs) \<or> contains t xs)"

lemma contains_sublist: "contains t s = sublist t s"
  by (induction s) (auto simp: sublist_Cons_right)

lemma contains_iff: "contains t s \<longleftrightarrow> (\<exists>pre post. s = pre @ t @ post)"
  by (auto simp: contains_sublist sublist_def)

text \<open>
  \<open>lower()\<close> for a comparison with ASCII text: the capital letters, and the Kelvin sign, which
  is the only other code point whose lower case is one ASCII character.
\<close>

definition lower_ascii :: "pystr \<Rightarrow> pystr" where
  "lower_ascii s = map (\<lambda>c. if 65 \<le> c \<and> c \<le> 90 then c + 32 else if c = 8490 then 107 else c) s"

text \<open>The number of non-overlapping occurrences, \<open>s.count(t)\<close> for a non-empty \<open>t\<close>.\<close>

fun count_skip :: "nat \<Rightarrow> 'a list \<Rightarrow> 'a list \<Rightarrow> nat" where
  "count_skip k t [] = 0"
| "count_skip (Suc k) t (x # xs) = count_skip k t xs"
| "count_skip 0 t (x # xs) =
     (if prefix t (x # xs) then Suc (count_skip (length t - 1) t xs) else count_skip 0 t xs)"

definition py_count :: "'a list \<Rightarrow> 'a list \<Rightarrow> nat" where
  "py_count t s = count_skip 0 t s"

definition strip_by :: "('a \<Rightarrow> bool) \<Rightarrow> 'a list \<Rightarrow> 'a list" where
  "strip_by P s = rev (dropWhile P (rev (dropWhile P s)))"

abbreviation py_strip :: "pystr \<Rightarrow> pystr" where
  "py_strip \<equiv> strip_by is_space"

definition rstrip_by :: "('a \<Rightarrow> bool) \<Rightarrow> 'a list \<Rightarrow> 'a list" where
  "rstrip_by P s = rev (dropWhile P (rev s))"

lemma strip_by_ends:
  assumes "strip_by P s \<noteq> []"
  shows "\<not> P (hd (strip_by P s)) \<and> \<not> P (last (strip_by P s))"
proof -
  define d where "d = dropWhile P s"
  have e: "strip_by P s = rev (dropWhile P (rev d))" by (simp add: strip_by_def d_def)
  have ne: "dropWhile P (rev d) \<noteq> []" using assms e by simp
  have l: "\<not> P (last (strip_by P s))"
    using hd_dropWhile[OF ne] by (simp add: e last_rev)
  obtain zs where "rev d = zs @ dropWhile P (rev d)" by (metis takeWhile_dropWhile_id)
  then have d: "d = strip_by P s @ rev zs" unfolding e by (metis rev_append rev_rev_ident)
  have "hd (strip_by P s) = hd d" using d assms by (metis hd_append2)
  moreover have "d \<noteq> []" using d assms by auto
  then have "\<not> P (hd d)" unfolding d_def by (rule hd_dropWhile)
  ultimately show ?thesis using l by simp
qed

lemma rstrip_by_id_iff: "rstrip_by P s = s \<longleftrightarrow> s = [] \<or> \<not> P (last s)"
proof (cases s rule: rev_cases)
  case (snoc ys y)
  have "length (rev (dropWhile P (rev ys))) < length s"
    using length_dropWhile_le[of P "rev ys"] by (simp add: snoc)
  then have "rev (dropWhile P (rev ys)) \<noteq> s" by force
  then show ?thesis by (simp add: snoc rstrip_by_def)
qed (simp add: rstrip_by_def)

text \<open>\<open>s.split(c)\<close> for a separator of one character.\<close>

fun split_on :: "'a \<Rightarrow> 'a list \<Rightarrow> 'a list list" where
  "split_on c [] = [[]]"
| "split_on c (x # xs) =
     (if x = c then [] # split_on c xs
      else (case split_on c xs of [] \<Rightarrow> [[x]] | p # ps \<Rightarrow> (x # p) # ps))"

fun join_with :: "'a list \<Rightarrow> 'a list list \<Rightarrow> 'a list" where
  "join_with s [] = []"
| "join_with s [x] = x"
| "join_with s (x # y # ys) = x @ s @ join_with s (y # ys)"

lemma split_on_ne [simp]: "split_on c xs \<noteq> []"
  by (induction xs) (auto split: list.splits)

lemma join_split_on: "join_with [c] (split_on c xs) = xs"
proof (induction xs)
  case (Cons x xs)
  then show ?case
    by (cases "split_on c xs"; cases "tl (split_on c xs)") auto
qed simp

lemma split_on_no_sep: "c \<notin> set xs \<Longrightarrow> split_on c xs = [xs]"
  by (induction xs) auto

lemma split_on_append: "c \<notin> set xs \<Longrightarrow> split_on c (xs @ c # ys) = xs # split_on c ys"
  by (induction xs) auto

lemma split_on_join:
  fixes ps :: "'a list list"
  shows "ps \<noteq> [] \<Longrightarrow> (\<forall>p \<in> set ps. c \<notin> set p) \<Longrightarrow> split_on c (join_with [c] ps) = ps"
proof (induction ps)
  case (Cons p ps)
  then show ?case by (cases ps) (auto simp: split_on_append split_on_no_sep)
qed simp

lemma split_on_parts: "\<forall>p \<in> set (split_on c xs). c \<notin> set p"
  by (induction xs) (auto split: list.splits)

text \<open>\<open>s.split(c, 1)\<close> unpacked into two parts: \<open>None\<close> when the separator is missing.\<close>

definition split_once :: "'a \<Rightarrow> 'a list \<Rightarrow> ('a list \<times> 'a list) option" where
  "split_once c xs =
     (if c \<in> set xs
      then Some (takeWhile (\<lambda>x. x \<noteq> c) xs, tl (dropWhile (\<lambda>x. x \<noteq> c) xs)) else None)"

lemma split_once_append: "c \<notin> set xs \<Longrightarrow> split_once c (xs @ c # ys) = Some (xs, ys)"
  by (auto simp: split_once_def takeWhile_append dropWhile_append)

lemma split_once_Some: "split_once c xs = Some (a, b) \<Longrightarrow> xs = a @ c # b \<and> c \<notin> set a"
proof -
  assume h: "split_once c xs = Some (a, b)"
  then have c: "c \<in> set xs" by (auto simp: split_once_def split: if_splits)
  then obtain ys zs where "xs = ys @ c # zs" "c \<notin> set ys" by (meson split_list_first)
  then show ?thesis using h split_once_append[of c ys zs] by auto
qed

section \<open>Lines\<close>

text \<open>
  \<open>splitlines()\<close>: any boundary ends a line, a carriage return followed by a line feed counts
  once, and no empty line follows a final boundary. The boundaries differ between \<open>str\<close> and
  \<open>bytes\<close>.
\<close>

fun split_lines :: "('a \<Rightarrow> bool) \<Rightarrow> 'a \<Rightarrow> 'a \<Rightarrow> 'a list \<Rightarrow> 'a list list" where
  "split_lines brk cr lf [] = []"
| "split_lines brk cr lf (x # xs) =
     (if x = cr \<and> xs \<noteq> [] \<and> hd xs = lf then [] # split_lines brk cr lf (tl xs)
      else if brk x then [] # split_lines brk cr lf xs
      else (case split_lines brk cr lf xs of [] \<Rightarrow> [[x]] | l # ls \<Rightarrow> (x # l) # ls))"

definition splitlines :: "pystr \<Rightarrow> pystr list" where
  "splitlines = split_lines is_linebreak 13 10"

definition bytes_splitlines :: "bytes \<Rightarrow> bytes list" where
  "bytes_splitlines = split_lines (\<lambda>c. c \<in> set [CHR 0x0A, CHR 0x0D]) (CHR 0x0D) (CHR 0x0A)"

lemma split_lines_line:
  assumes "\<forall>x \<in> set l. \<not> brk x" "brk lf" "brk cr" "cr \<noteq> lf"
  shows "split_lines brk cr lf (l @ lf # rest) = l # split_lines brk cr lf rest"
  using assms by (induction l) auto

lemma split_lines_unlines:
  assumes "\<forall>l \<in> set ls. \<forall>x \<in> set l. \<not> brk x" "brk lf" "brk cr" "cr \<noteq> lf"
  shows "split_lines brk cr lf (concat (map (\<lambda>l. l @ [lf]) ls)) = ls"
  using assms(1) by (induction ls) (auto simp: split_lines_line[OF _ assms(2-4)])

lemma join_newline_unlines:
  "ls \<noteq> [] \<Longrightarrow> join_with [c] ls @ [c] = concat (map (\<lambda>l. l @ [c]) ls)"
proof (induction ls)
  case (Cons l ls)
  then show ?case by (cases ls) auto
qed simp

lemma splitlines_join:
  assumes "ls \<noteq> []" "\<forall>l \<in> set ls. \<forall>x \<in> set l. \<not> is_linebreak x"
  shows "splitlines (join_with [10] ls @ [10]) = ls"
  using assms(2)
  by (simp add: splitlines_def join_newline_unlines[OF assms(1)] split_lines_unlines
      is_linebreak_def)

lemma split_lines_no_break:
  "l \<in> set (split_lines brk cr lf xs) \<Longrightarrow> x \<in> set l \<Longrightarrow> \<not> brk x"
proof (induction brk cr lf xs arbitrary: l x rule: split_lines.induct)
  case (2 brk cr lf y ys)
  consider "y = cr \<and> ys \<noteq> [] \<and> hd ys = lf"
    | "\<not> (y = cr \<and> ys \<noteq> [] \<and> hd ys = lf)" "brk y"
    | "\<not> (y = cr \<and> ys \<noteq> [] \<and> hd ys = lf)" "\<not> brk y" by blast
  then show ?case
  proof cases
    case 1
    then show ?thesis using "2.IH"(1)[OF 1, of l x] "2.prems" by auto
  next
    case 2
    then show ?thesis using "2.IH"(2)[OF 2, of l x] "2.prems" by auto
  next
    case 3
    show ?thesis
    proof (cases "split_lines brk cr lf ys")
      case Nil
      then show ?thesis using 3 "2.prems" by (auto split: if_splits)
    next
      case (Cons a ls)
      then have "l = y # a \<or> l \<in> set ls" using 3 "2.prems"(1) by (auto split: if_splits)
      then show ?thesis using "2.IH"(3)[OF 3, of a x] "2.IH"(3)[OF 3, of l x] 3 "2.prems"(2) Cons
        by auto
    qed
  qed
qed simp

lemma splitlines_no_break: "l \<in> set (splitlines s) \<Longrightarrow> x \<in> set l \<Longrightarrow> \<not> is_linebreak x"
  by (simp add: splitlines_def split_lines_no_break)

text \<open>Reading a text file translates both foreign line ends to a line feed.\<close>

fun universal_newlines :: "pystr \<Rightarrow> pystr" where
  "universal_newlines [] = []"
| "universal_newlines (x # xs) =
     (if x = 13 then 10 # universal_newlines (if xs \<noteq> [] \<and> hd xs = 10 then tl xs else xs)
      else x # universal_newlines xs)"

lemma universal_newlines_id: "13 \<notin> set s \<Longrightarrow> universal_newlines s = s"
  by (induction s) auto

lemma universal_newlines_no_cr: "13 \<notin> set (universal_newlines s)"
  by (induction s rule: universal_newlines.induct) auto

end
