(* ===== verification/Py_Codec.thy ===== *)
theory Py_Codec
  imports Py_Text
begin

text \<open>
  UTF-8 as Python reads and writes it (strict: no surrogates, no overlong forms, nothing past
  the last code point), the newline translation of \<open>read_text\<close>, and \<open>int\<close> of a string.
  \<open>None\<close> is the exception that the codec or \<open>int\<close> raises.
\<close>

section \<open>UTF-8\<close>

definition octet :: "nat \<Rightarrow> char" where
  "octet n = char_of n"

definition utf8_char :: "nat \<Rightarrow> bytes option" where
  "utf8_char c =
     (if c < 128 then Some [octet c]
      else if c < 2048 then Some [octet (192 + c div 64), octet (128 + c mod 64)]
      else if c < 65536 then
        (if 55296 \<le> c \<and> c < 57344 then None
         else Some [octet (224 + c div 4096), octet (128 + c div 64 mod 64),
                    octet (128 + c mod 64)])
      else if c < 1114112 then
        Some [octet (240 + c div 262144), octet (128 + c div 4096 mod 64),
              octet (128 + c div 64 mod 64), octet (128 + c mod 64)]
      else None)"

fun utf8_encode :: "pystr \<Rightarrow> bytes option" where
  "utf8_encode [] = Some []"
| "utf8_encode (c # cs) =
     (case utf8_char c of
        None \<Rightarrow> None
      | Some b \<Rightarrow> map_option (\<lambda>bs. b @ bs) (utf8_encode cs))"

definition is_cont :: "nat \<Rightarrow> bool" where
  "is_cont b \<longleftrightarrow> 128 \<le> b \<and> b < 192"

fun utf8_dec :: "nat list \<Rightarrow> pystr option" where
  "utf8_dec [] = Some []"
| "utf8_dec (a # as) =
     (if a < 128 then map_option (\<lambda>cs. a # cs) (utf8_dec as)
      else if 194 \<le> a \<and> a < 224 then
        (case as of
           b # bs \<Rightarrow>
             if is_cont b
             then map_option (\<lambda>cs. ((a - 192) * 64 + (b - 128)) # cs) (utf8_dec bs) else None
         | _ \<Rightarrow> None)
      else if 224 \<le> a \<and> a < 240 then
        (case as of
           b # c # ds \<Rightarrow>
             let v = (a - 224) * 4096 + (b - 128) * 64 + (c - 128)
             in if is_cont b \<and> is_cont c \<and> 2048 \<le> v \<and> \<not> (55296 \<le> v \<and> v < 57344)
                then map_option (\<lambda>cs. v # cs) (utf8_dec ds) else None
         | _ \<Rightarrow> None)
      else if 240 \<le> a \<and> a < 245 then
        (case as of
           b # c # d # es \<Rightarrow>
             let v = (a - 240) * 262144 + (b - 128) * 4096 + (c - 128) * 64 + (d - 128)
             in if is_cont b \<and> is_cont c \<and> is_cont d \<and> 65536 \<le> v \<and> v < 1114112
                then map_option (\<lambda>cs. v # cs) (utf8_dec es) else None
         | _ \<Rightarrow> None)
      else None)"

definition utf8_decode :: "bytes \<Rightarrow> pystr option" where
  "utf8_decode bs = utf8_dec (map of_char bs)"

lemma of_char_octet: "n < 256 \<Longrightarrow> of_char (octet n) = n"
  by (simp add: octet_def)

lemma map_of_char_octets:
  "(\<forall>n \<in> set ns. n < 256) \<Longrightarrow> map of_char (map octet ns) = ns"
  by (induction ns) (simp_all add: of_char_octet)

lemma utf8_dec2:
  assumes "2 \<le> p" "p < 32" "q < 64"
  shows "utf8_dec ((192 + p) # (128 + q) # rest)
    = map_option (\<lambda>cs. (p * 64 + q) # cs) (utf8_dec rest)"
  using assms by (simp add: is_cont_def)

lemma utf8_dec3:
  assumes "p < 16" "q < 64" "r < 64" "v = p * 4096 + q * 64 + r"
    "2048 \<le> v" "\<not> (55296 \<le> v \<and> v < 57344)"
  shows "utf8_dec ((224 + p) # (128 + q) # (128 + r) # rest)
    = map_option (\<lambda>cs. v # cs) (utf8_dec rest)"
proof -
  have "(224 + p - 224) * 4096 + (128 + q - 128) * 64 + (128 + r - 128) = v" using assms by simp
  then show ?thesis using assms(1,2,3,5,6) by (simp add: is_cont_def del: add_diff_cancel_left')
qed

lemma utf8_dec4:
  assumes "p < 5" "q < 64" "r < 64" "t < 64" "v = p * 262144 + q * 4096 + r * 64 + t"
    "65536 \<le> v" "v < 1114112"
  shows "utf8_dec ((240 + p) # (128 + q) # (128 + r) # (128 + t) # rest)
    = map_option (\<lambda>cs. v # cs) (utf8_dec rest)"
proof -
  have "(240 + p - 240) * 262144 + (128 + q - 128) * 4096 + (128 + r - 128) * 64
      + (128 + t - 128) = v" using assms by simp
  then show ?thesis using assms(1,2,3,4,6,7)
    by (simp add: is_cont_def del: add_diff_cancel_left')
qed

lemma base64_split2: "(c::nat) = c div 4096 * 4096 + c div 64 mod 64 * 64 + c mod 64"
proof -
  have "c div 64 div 64 = c div 4096" by (simp add: div_mult2_eq[symmetric])
  then have "c div 64 = c div 4096 * 64 + c div 64 mod 64" by (metis div_mult_mod_eq)
  then have "c div 64 * 64 = c div 4096 * 4096 + c div 64 mod 64 * 64" by linarith
  then show ?thesis using div_mult_mod_eq[of c 64] by linarith
qed

lemma base64_split3:
  "(c::nat) = c div 262144 * 262144 + c div 4096 mod 64 * 4096 + c div 64 mod 64 * 64 + c mod 64"
proof -
  have "c div 4096 div 64 = c div 262144" by (simp add: div_mult2_eq[symmetric])
  then have "c div 4096 = c div 262144 * 64 + c div 4096 mod 64" by (metis div_mult_mod_eq)
  then have "c div 4096 * 4096 = c div 262144 * 262144 + c div 4096 mod 64 * 4096" by linarith
  then show ?thesis using base64_split2[of c] by linarith
qed

lemma utf8_dec_char:
  assumes "utf8_char c = Some b"
  shows "utf8_dec (map of_char b @ rest) = map_option (\<lambda>cs. c # cs) (utf8_dec rest)"
proof -
  have c: "c < 1114112" using assms by (auto simp: utf8_char_def split: if_splits)
  consider "c < 128" | "128 \<le> c" "c < 2048" | "2048 \<le> c" "c < 65536" | "65536 \<le> c"
    by linarith
  then show ?thesis
  proof cases
    case 1
    then have "map of_char b = [c]" using assms by (auto simp: utf8_char_def of_char_octet)
    then show ?thesis using 1 by simp
  next
    case 2
    have "map of_char b = [192 + c div 64, 128 + c mod 64]"
      using 2 assms by (auto simp: utf8_char_def of_char_octet)
    then show ?thesis using 2 utf8_dec2[of "c div 64" "c mod 64" rest] by (simp del: utf8_dec.simps)
  next
    case 3
    have b: "map of_char b = [224 + c div 4096, 128 + c div 64 mod 64, 128 + c mod 64]"
      and ns: "\<not> (55296 \<le> c \<and> c < 57344)"
      using 3 assms by (auto simp: utf8_char_def of_char_octet split: if_splits)
    have e: "c = c div 4096 * 4096 + c div 64 mod 64 * 64 + c mod 64" by (rule base64_split2)
    have "c div 4096 < 16" using 3 by simp
    from utf8_dec3[OF this _ _ e 3(1) ns] show ?thesis by (simp add: b del: utf8_dec.simps)
  next
    case 4
    have b: "map of_char b = [240 + c div 262144, 128 + c div 4096 mod 64, 128 + c div 64 mod 64,
        128 + c mod 64]"
      using 4 c assms by (auto simp: utf8_char_def of_char_octet split: if_splits)
    have e: "c = c div 262144 * 262144 + c div 4096 mod 64 * 4096 + c div 64 mod 64 * 64
        + c mod 64" by (rule base64_split3)
    have "c div 262144 < 5" using c by simp
    from utf8_dec4[OF this _ _ _ e 4 c] show ?thesis by (simp add: b del: utf8_dec.simps)
  qed
qed

text \<open>What UTF-8 writes, it reads back.\<close>

lemma utf8_decode_encode: "utf8_encode s = Some bs \<Longrightarrow> utf8_decode bs = Some s"
  unfolding utf8_decode_def
  by (induction s arbitrary: bs) (auto simp: utf8_dec_char split: option.splits)

definition is_scalar :: "nat \<Rightarrow> bool" where
  "is_scalar c \<longleftrightarrow> c < 55296 \<or> (57344 \<le> c \<and> c < 1114112)"

lemma utf8_encode_scalars: "(\<forall>c \<in> set s. is_scalar c) \<longleftrightarrow> (\<exists>bs. utf8_encode s = Some bs)"
proof (induction s)
  case (Cons c cs)
  have "is_scalar c \<longleftrightarrow> utf8_char c \<noteq> None" by (auto simp: is_scalar_def utf8_char_def)
  then show ?case using Cons by (auto split: option.splits)
qed simp

lemma utf8_decode_ascii: "(\<forall>b \<in> set bs. of_char b < (128::nat)) \<Longrightarrow> utf8_decode bs = Some (lit bs)"
  unfolding utf8_decode_def lit_def by (induction bs) auto

text \<open>The text of a file: strict UTF-8, then universal newlines.\<close>

definition decode_text :: "bytes \<Rightarrow> pystr option" where
  "decode_text bs = map_option universal_newlines (utf8_decode bs)"

section \<open>Decimal integers\<close>

text \<open>
  \<open>int(s)\<close>: surrounding white space, an optional sign, then digits with single underscores
  between them. The limit of 4300 digits that recent interpreters put on the conversion is
  left out.
\<close>

fun digits_value :: "nat \<Rightarrow> bool \<Rightarrow> pystr \<Rightarrow> nat option" where
  "digits_value acc started [] = (if started then Some acc else None)"
| "digits_value acc started (c # cs) =
     (case digit_value c of
        Some d \<Rightarrow> digits_value (10 * acc + d) True cs
      | None \<Rightarrow> if c = 95 \<and> started then digits_value acc False cs else None)"

definition py_int :: "pystr \<Rightarrow> int option" where
  "py_int s =
     (case py_strip s of
        [] \<Rightarrow> None
      | c # cs \<Rightarrow>
          if c = 43 then map_option int (digits_value 0 False cs)
          else if c = 45 then map_option (\<lambda>n. - int n) (digits_value 0 False cs)
          else map_option int (digits_value 0 False (c # cs)))"

text \<open>\<open>str(n)\<close> of a natural number.\<close>

fun nat_str :: "nat \<Rightarrow> pystr" where
  "nat_str n = (if n < 10 then [48 + n] else nat_str (n div 10) @ [48 + n mod 10])"

declare nat_str.simps [simp del]

lemma nat_str_ascii: "c \<in> set (nat_str n) \<Longrightarrow> 48 \<le> c \<and> c < 58"
proof (induction n rule: nat_str.induct)
  case (1 n)
  then show ?case by (subst (asm) (2) nat_str.simps) (auto split: if_splits)
qed

lemma nat_str_ne [simp]: "nat_str n \<noteq> []"
  by (subst nat_str.simps) simp

lemma digits_value_snoc:
  "digits_value acc st xs = Some v \<Longrightarrow> digit_value c = Some d \<Longrightarrow> xs \<noteq> [] \<Longrightarrow>
   (\<forall>x \<in> set xs. is_digit x) \<Longrightarrow> digits_value acc st (xs @ [c]) = Some (10 * v + d)"
proof (induction xs arbitrary: acc st)
  case (Cons x xs)
  then show ?case by (cases "digit_value x"; cases xs) (auto simp: is_digit_def)
qed simp

lemma digits_value_nat_str: "digits_value 0 False (nat_str n) = Some n"
proof (induction n rule: nat_str.induct)
  case (1 n)
  show ?case
  proof (cases "n < 10")
    case True
    then show ?thesis by (simp add: nat_str.simps[of n] digit_value_ascii)
  next
    case False
    have "\<forall>x \<in> set (nat_str (n div 10)). is_digit x"
      by (auto dest: nat_str_ascii simp: is_digit_ascii)
    then have "digits_value 0 False (nat_str (n div 10) @ [48 + n mod 10])
        = Some (10 * (n div 10) + n mod 10)"
      using 1 False by (intro digits_value_snoc) (auto simp: digit_value_ascii)
    then show ?thesis using False by (simp add: nat_str.simps[of n])
  qed
qed

text \<open>\<open>int(str(n)) = n\<close>.\<close>

lemma py_int_nat_str: "py_int (nat_str n) = Some (int n)"
proof -
  have ns: "\<not> is_space c" if "c \<in> set (nat_str n)" for c
    using nat_str_ascii[OF that] by (auto simp: is_space_def py_spaces_def)
  have "dropWhile is_space (nat_str n) = nat_str n"
    using ns by (simp add: dropWhile_eq_self_iff)
  moreover have "dropWhile is_space (rev (nat_str n)) = rev (nat_str n)"
    using ns by (subst dropWhile_eq_self_iff) (auto simp: hd_rev)
  ultimately have s: "py_strip (nat_str n) = nat_str n" by (simp add: strip_by_def)
  obtain c cs where cs: "nat_str n = c # cs" by (cases "nat_str n") auto
  then have "c \<noteq> 43" "c \<noteq> 45" using nat_str_ascii[of c n] by auto
  then show ?thesis using s cs digits_value_nat_str[of n] by (simp add: py_int_def)
qed

end
