(* ===== verification/Py_Path.thy ===== *)
theory Py_Path
  imports Py_Codec
begin

text \<open>
  \<open>pathlib\<close> paths under the repository root and the file tree the scripts read and write.
  A tree is the list of its entries in the order the operating system enumerates them, which no
  property may depend on; symbolic links are already followed. Reading raises what Python
  raises.
\<close>

section \<open>Paths\<close>

datatype path = Path (parts: "pystr list")

text \<open>\<open>pathlib\<close> orders paths by their parts, not by their text.\<close>

instantiation path :: linorder
begin

definition less_eq_path :: "path \<Rightarrow> path \<Rightarrow> bool" where
  "less_eq_path p q \<longleftrightarrow> parts p \<le> parts q"

definition less_path :: "path \<Rightarrow> path \<Rightarrow> bool" where
  "less_path p q \<longleftrightarrow> parts p < parts q"

instance
  by standard (auto simp: less_eq_path_def less_path_def intro: path.expand)

end

definition root_dir :: path where
  "root_dir = Path []"

text \<open>The components of a path text: empty components and single dots vanish.\<close>

definition path_parts :: "pystr \<Rightarrow> pystr list" where
  "path_parts s = filter (\<lambda>p. p \<noteq> [] \<and> p \<noteq> [46]) (split_on 47 s)"

definition rel :: "string \<Rightarrow> path" where
  "rel s = Path (path_parts (lit s))"

definition join_rel :: "path \<Rightarrow> string \<Rightarrow> path" where
  "join_rel p s = Path (parts p @ path_parts (lit s))"

definition parent :: "path \<Rightarrow> path" where
  "parent p = Path (butlast (parts p))"

definition path_name :: "path \<Rightarrow> pystr" where
  "path_name p = (if parts p = [] then [] else last (parts p))"

definition as_posix :: "path \<Rightarrow> pystr" where
  "as_posix p = join_with [47] (parts p)"

text \<open>\<open>suffix\<close>: from the last dot on, unless that dot is the first or the last character.\<close>

definition name_suffix :: "pystr \<Rightarrow> pystr" where
  "name_suffix n =
     (let tail = takeWhile (\<lambda>c. c \<noteq> 46) (rev n)
      in if 46 \<in> set n \<and> tail \<noteq> [] \<and> length tail + 1 < length n then 46 # rev tail else [])"

definition component_ok :: "pystr \<Rightarrow> bool" where
  "component_ok c \<longleftrightarrow> c \<noteq> [] \<and> c \<noteq> [46] \<and> 47 \<notin> set c"

definition path_ok :: "path \<Rightarrow> bool" where
  "path_ok p \<longleftrightarrow> parts p \<noteq> [] \<and> (\<forall>c \<in> set (parts p). component_ok c)"

lemma path_parts_as_posix: "path_ok p \<Longrightarrow> path_parts (as_posix p) = parts p"
  by (auto simp: path_parts_def as_posix_def path_ok_def component_ok_def split_on_join
      filter_id_conv)

lemma as_posix_inj: "path_ok p \<Longrightarrow> path_ok q \<Longrightarrow> as_posix p = as_posix q \<Longrightarrow> p = q"
  by (metis path_parts_as_posix path.expand)

lemma component_ok_split: "p \<in> set (path_parts s) \<Longrightarrow> component_ok p"
  using split_on_parts[of 47 s] by (auto simp: path_parts_def component_ok_def)

section \<open>Exceptions and subprocesses\<close>

text \<open>
  Git, run as a subprocess: the bytes it prints for an argument list, or \<open>None\<close> when it fails.
\<close>

type_synonym git = "pystr list \<Rightarrow> bytes option"

datatype pyexc =
    File_Not_Found path
  | Is_A_Directory path
  | Unicode_Decode_Error path
  | Unicode_Encode_Error
  | Value_Error
  | Index_Error
  | Stop_Iteration
  | Overflow_Error
  | Xml_Parse_Error
  | Called_Process_Error
  | Validation_Error

section \<open>The file tree\<close>

datatype node = Directory | Regular (content: bytes) (executable: bool)

type_synonym fs = "(path \<times> node) list"

definition fs_ok :: "fs \<Rightarrow> bool" where
  "fs_ok fs \<longleftrightarrow> distinct (map fst fs) \<and> (\<forall>p \<in> fst ` set fs. path_ok p)"

definition is_file :: "fs \<Rightarrow> path \<Rightarrow> bool" where
  "is_file fs p = (case map_of fs p of Some (Regular b x) \<Rightarrow> True | _ \<Rightarrow> False)"

definition path_exists :: "fs \<Rightarrow> path \<Rightarrow> bool" where
  "path_exists fs p \<longleftrightarrow> p = root_dir \<or> map_of fs p \<noteq> None"

definition read_bytes :: "fs \<Rightarrow> path \<Rightarrow> pyexc + bytes" where
  "read_bytes fs p =
     (case map_of fs p of
        None \<Rightarrow> Inl (if p = root_dir then Is_A_Directory p else File_Not_Found p)
      | Some Directory \<Rightarrow> Inl (Is_A_Directory p)
      | Some (Regular b x) \<Rightarrow> Inr b)"

definition read_text :: "fs \<Rightarrow> path \<Rightarrow> pyexc + pystr" where
  "read_text fs p =
     bind_py (read_bytes fs p)
       (\<lambda>b. case decode_text b of None \<Rightarrow> Inl (Unicode_Decode_Error p) | Some t \<Rightarrow> Inr t)"

text \<open>Creating or truncating a file keeps the mode of an existing one.\<close>

definition write_bytes :: "path \<Rightarrow> bytes \<Rightarrow> fs \<Rightarrow> pyexc + fs" where
  "write_bytes p b fs =
     (case map_of fs p of
        Some Directory \<Rightarrow> Inl (Is_A_Directory p)
      | Some (Regular b' x) \<Rightarrow> Inr (AList.update p (Regular b x) fs)
      | None \<Rightarrow> Inr (AList.update p (Regular b False) fs))"

definition write_text :: "path \<Rightarrow> pystr \<Rightarrow> fs \<Rightarrow> pyexc + fs" where
  "write_text p t fs =
     (case utf8_encode t of None \<Rightarrow> Inl Unicode_Encode_Error | Some b \<Rightarrow> write_bytes p b fs)"

text \<open>\<open>ROOT.rglob(...)\<close>: every entry below the root whose name matches, in the system's order.\<close>

definition rglob :: "(pystr \<Rightarrow> bool) \<Rightarrow> fs \<Rightarrow> path list" where
  "rglob pat fs = filter (\<lambda>p. pat (path_name p)) (map fst fs)"

definition any_name :: "pystr \<Rightarrow> bool" where
  "any_name n = True"

definition ends_with :: "string \<Rightarrow> pystr \<Rightarrow> bool" where
  "ends_with s n = suffix (lit s) n"

definition below :: "path \<Rightarrow> path \<Rightarrow> bool" where
  "below d p \<longleftrightarrow> strict_prefix (parts d) (parts p)"

lemma is_file_iff: "is_file fs p \<longleftrightarrow> (\<exists>b. read_bytes fs p = Inr b)"
  by (auto simp: is_file_def read_bytes_def split: option.splits node.splits)

lemma read_bytes_Inr_iff: "read_bytes fs p = Inr b \<longleftrightarrow> (\<exists>x. map_of fs p = Some (Regular b x))"
  by (auto simp: read_bytes_def split: option.splits node.splits)

lemma read_text_Inr_iff:
  "read_text fs p = Inr t \<longleftrightarrow> (\<exists>b. read_bytes fs p = Inr b \<and> decode_text b = Some t)"
  by (auto simp: read_text_def py_ok split: option.splits)

lemma read_text_is_file: "read_text fs p = Inr t \<Longrightarrow> is_file fs p"
  by (auto simp: read_text_Inr_iff is_file_iff)

lemma is_file_in_fs: "is_file fs p \<Longrightarrow> p \<in> fst ` set fs"
  by (auto simp: is_file_def split: option.splits dest: map_of_SomeD intro: rev_image_eqI)

lemma write_bytes_lookup:
  "write_bytes p b fs = Inr fs' \<Longrightarrow>
   map_of fs' q = (if q = p then Some (Regular b (case map_of fs p of
       Some (Regular b' x) \<Rightarrow> x | _ \<Rightarrow> False)) else map_of fs q)"
  by (auto simp: write_bytes_def update_conv' split: option.splits node.splits)

lemma update_keys: "fst ` set (AList.update k v al) = insert k (fst ` set al)"
  using dom_update[of k v al] by simp

lemma write_bytes_update:
  "write_bytes p b fs = Inr fs' \<Longrightarrow> \<exists>x. fs' = AList.update p (Regular b x) fs"
  by (auto simp: write_bytes_def split: option.splits node.splits)

lemma write_bytes_keys:
  assumes "write_bytes p b fs = Inr fs'"
  shows "fst ` set fs' = insert p (fst ` set fs)"
  using write_bytes_update[OF assms] by (elim exE) (simp only: update_keys)

lemma write_bytes_ok:
  assumes "write_bytes p b fs = Inr fs'" "fs_ok fs" "path_ok p"
  shows "fs_ok fs'"
  using assms(2,3) write_bytes_keys[OF assms(1)] write_bytes_update[OF assms(1)]
  by (auto simp: fs_ok_def distinct_update)

section \<open>The interface of a text store\<close>

text \<open>
  What the scripts rely on when one writes a file that another reads: the written content
  comes back, and other files do not change.
\<close>

locale text_store =
  fixes get :: "'s \<Rightarrow> 'p \<Rightarrow> 'e + 'b"
    and put :: "'p \<Rightarrow> 'b \<Rightarrow> 's \<Rightarrow> 'e + 's"
  assumes get_put_same: "put p b s = Inr s' \<Longrightarrow> get s' p = Inr b"
    and get_put_other: "put p b s = Inr s' \<Longrightarrow> q \<noteq> p \<Longrightarrow> get s' q = get s q"
begin

lemma put_put_same:
  assumes "put p b s = Inr s'" "put p c s' = Inr s''"
  shows "get s'' q = (if q = p then Inr c else get s q)"
  using get_put_same[OF assms(2)] get_put_other[OF assms(1)] get_put_other[OF assms(2)] by auto

lemma put_commute:
  assumes "put p b s = Inr s1" "put q c s1 = Inr s2" "p \<noteq> q"
  shows "get s2 p = Inr b"
  using get_put_other[OF assms(2) assms(3)] get_put_same[OF assms(1)] by simp

end

interpretation tree: text_store read_bytes write_bytes
proof unfold_locales
  fix p b fs fs' assume "write_bytes p b fs = Inr fs'"
  then show "read_bytes fs' p = Inr b" by (simp add: read_bytes_def write_bytes_lookup)
next
  fix p b fs fs' q assume "write_bytes p b fs = Inr fs'" "q \<noteq> p"
  then show "read_bytes fs' q = read_bytes fs q" by (simp add: read_bytes_def write_bytes_lookup)
qed

end
