(* ===== verification/Xml_Tree.thy ===== *)
theory Xml_Tree
  imports Py_Path
begin

text \<open>
  \<open>xml.etree.ElementTree\<close> elements as the scripts use them: a tag, attributes, the text before
  the first child, and the children. Tails, comments and processing instructions are never read.
  The parser and the serialiser are the C library expat and its inverse: parameters of the model.
\<close>

datatype elem =
  Elem (tag: pystr) (attrib: "(pystr \<times> pystr) list") (etext: "pystr option") (children: "elem list")

definition attr :: "elem \<Rightarrow> pystr \<Rightarrow> pystr option" where
  "attr e k = map_of (attrib e) k"

definition attr_or_empty :: "elem \<Rightarrow> string \<Rightarrow> pystr" where
  "attr_or_empty e k = (case attr e (lit k) of None \<Rightarrow> [] | Some v \<Rightarrow> v)"

definition set_attr :: "pystr \<Rightarrow> pystr \<Rightarrow> elem \<Rightarrow> elem" where
  "set_attr k v e = Elem (tag e) (AList.update k v (attrib e)) (etext e) (children e)"

definition with_children :: "elem \<Rightarrow> elem list \<Rightarrow> elem" where
  "with_children e cs = Elem (tag e) (attrib e) (etext e) cs"

text \<open>\<open>findall\<close> of one tag and of a path of tags, and \<open>findall('.//tag')\<close>.\<close>

definition child_elems :: "pystr \<Rightarrow> elem \<Rightarrow> elem list" where
  "child_elems t e = filter (\<lambda>c. tag c = t) (children e)"

fun findall_path :: "pystr list \<Rightarrow> elem \<Rightarrow> elem list" where
  "findall_path [] e = [e]"
| "findall_path (t # ts) e = concat (map (findall_path ts) (child_elems t e))"

fun descendants :: "elem \<Rightarrow> elem list" where
  "descendants (Elem t a x cs) = concat (map (\<lambda>c. c # descendants c) cs)"

definition find_path :: "pystr list \<Rightarrow> elem \<Rightarrow> elem option" where
  "find_path ts e = (case findall_path ts e of [] \<Rightarrow> None | c # _ \<Rightarrow> Some c)"

text \<open>The tag \<open>m:name\<close> in the Maven namespace.\<close>

definition mvn :: "string \<Rightarrow> pystr" where
  "mvn s = lit ''{http://maven.apache.org/POM/4.0.0}'' @ lit s"

text \<open>The first element of a list with a property changed in place.\<close>

fun update_first :: "('a \<Rightarrow> bool) \<Rightarrow> ('a \<Rightarrow> 'a) \<Rightarrow> 'a list \<Rightarrow> 'a list" where
  "update_first P f [] = []"
| "update_first P f (x # xs) = (if P x then f x # xs else x # update_first P f xs)"

lemma set_attr_simps [simp]:
  "tag (set_attr k v e) = tag e" "children (set_attr k v e) = children e"
  "attr (set_attr k v e) k' = (if k' = k then Some v else attr e k')"
  by (auto simp: set_attr_def attr_def update_conv')

lemma with_children_simps [simp]:
  "tag (with_children e cs) = tag e" "children (with_children e cs) = cs"
  "attr (with_children e cs) k = attr e k"
  by (simp_all add: with_children_def attr_def)

lemma attr_or_empty_with_children [simp]:
  "attr_or_empty (with_children e cs) k = attr_or_empty e k"
  by (simp add: attr_or_empty_def)

lemma child_elems_with_children [simp]:
  "child_elems t (with_children e cs) = filter (\<lambda>c. tag c = t) cs"
  by (simp add: child_elems_def)

lemma filter_update_first:
  "(\<And>x. P x \<Longrightarrow> Q x \<and> Q (f x)) \<Longrightarrow> filter Q (update_first P f xs) = update_first P f (filter Q xs)"
  by (induction xs) auto

lemma find_update_first_same:
  "(\<And>x. P x \<Longrightarrow> P (f x)) \<Longrightarrow> find P (update_first P f xs) = map_option f (find P xs)"
  by (induction xs) auto

end
