(* ===== verification/Py_Float.thy ===== *)
theory Py_Float
  imports Complex_Main "HOL-Library.Log_Nat"
begin

text \<open>
  The division of two integers as Python computes it: the exact quotient rounded to the nearest
  double, ties to the even significand. A double is kept as the rational number it denotes;
  quotients here are far above the subnormal range. A decimal literal is the double nearest to it.
\<close>

definition round_half_even :: "rat \<Rightarrow> int" where
  "round_half_even x =
     (let f = \<lfloor>x\<rfloor>; r = x - of_int f
      in if r < 1 / 2 \<or> (r = 1 / 2 \<and> even f) then f else f + 1)"

text \<open>The exponent of a positive rational: the integer part of its binary logarithm.\<close>

definition exponent2 :: "rat \<Rightarrow> int" where
  "exponent2 q =
     (let (n, d) = quotient_of q; k = bitlen n - bitlen d
      in if 2 powi k \<le> q then k else k - 1)"

definition fl :: "rat \<Rightarrow> rat" where
  "fl q =
     (if q = 0 then 0
      else let s = 2 powi (exponent2 \<bar>q\<bar> - 52)
           in sgn q * (of_int (round_half_even (\<bar>q\<bar> / s)) * s))"

lemma round_half_even_error: "\<bar>of_int (round_half_even x) - x\<bar> \<le> 1 / 2"
proof -
  have "of_int \<lfloor>x\<rfloor> \<le> x" "x < of_int \<lfloor>x\<rfloor> + 1" by linarith+
  then show ?thesis by (auto simp: round_half_even_def Let_def abs_le_iff)
qed

lemma exponent2_bounds:
  assumes "0 < q"
  shows "2 powi exponent2 q \<le> q" "q < 2 powi (exponent2 q + 1)"
proof -
  obtain n d where nd: "quotient_of q = (n, d)" by (cases "quotient_of q") auto
  have d: "0 < d" using quotient_of_denom_pos[OF nd] .
  have q: "q = of_int n / of_int d" using quotient_of_div[OF nd] .
  have n: "0 < n" using assms d by (simp add: q zero_less_divide_iff)
  have bound: "2 powi (bitlen m - 1) \<le> (of_int m :: rat)" "(of_int m :: rat) < 2 powi bitlen m"
    if "0 < m" for m :: int
  proof -
    have b: "2 ^ nat (bitlen m - 1) \<le> m" "m < 2 ^ nat (bitlen m)"
      using bitlen_bounds[OF that] by auto
    have p: "0 < bitlen m" using that bitlen_nonneg[of m] bitlen_eq_zero_iff[of m] by linarith
    have "(2::rat) powi (bitlen m - 1) = of_int (2 ^ nat (bitlen m - 1))"
      using p by (simp add: power_int_def)
    then show "2 powi (bitlen m - 1) \<le> (of_int m :: rat)" using b(1) by (simp only: of_int_le_iff)
    have "(2::rat) powi bitlen m = of_int (2 ^ nat (bitlen m))"
      using p by (simp add: power_int_def)
    then show "(of_int m :: rat) < 2 powi bitlen m" using b(2) by (simp only: of_int_less_iff)
  qed
  let ?k = "bitlen n - bitlen d"
  have dq: "0 < (of_int d :: rat)" using d by simp
  have up: "q < 2 powi (?k + 1)"
  proof -
    have "of_int n < (2::rat) powi bitlen n" by (rule bound(2)[OF n])
    also have "\<dots> = 2 powi (?k + 1) * 2 powi (bitlen d - 1)"
      by (simp add: power_int_add[symmetric])
    also have "\<dots> \<le> 2 powi (?k + 1) * of_int d" using bound(1)[OF d] by (simp add: mult_left_mono)
    finally show ?thesis using dq by (simp add: q divide_less_eq)
  qed
  have low: "2 powi (?k - 1) \<le> q"
  proof -
    have "2 powi (?k - 1) * of_int d \<le> (2::rat) powi (?k - 1) * 2 powi bitlen d"
      using bound(2)[OF d] by (intro mult_left_mono) auto
    also have "\<dots> = 2 powi (bitlen n - 1)" by (simp add: power_int_add[symmetric])
    also have "\<dots> \<le> of_int n" by (rule bound(1)[OF n])
    finally show ?thesis using dq by (simp add: q le_divide_eq)
  qed
  show "2 powi exponent2 q \<le> q" "q < 2 powi (exponent2 q + 1)"
    using up low by (auto simp: exponent2_def nd Let_def)
qed

text \<open>The rounding error of a quotient between zero and one is at most half an ulp.\<close>

lemma fl_error:
  assumes "0 \<le> q" "q \<le> 1"
  shows "\<bar>fl q - q\<bar> \<le> 1 / 2 ^ 53"
proof (cases "q = 0")
  case False
  then have pos: "0 < q" using assms by simp
  let ?s = "2 powi (exponent2 q - 52) :: rat"
  have "(2::rat) powi exponent2 q \<le> 2 powi 0" using exponent2_bounds(1)[OF pos] assms(2) by simp
  then have e: "exponent2 q \<le> 0" using power_int_le_imp_le_exp[of "2::rat" "exponent2 q" 0] by simp
  have "?s \<le> 2 powi (- 52)" using e by (intro power_int_increasing) auto
  also have "\<dots> = 1 / 2 ^ 52" by (simp add: power_int_def power_one_over)
  finally have s: "?s \<le> 1 / 2 ^ 52" .
  have "fl q - q = (of_int (round_half_even (q / ?s)) - q / ?s) * ?s"
    using pos by (simp add: fl_def Let_def field_simps)
  then have "\<bar>fl q - q\<bar> = \<bar>of_int (round_half_even (q / ?s)) - q / ?s\<bar> * ?s"
    by (simp add: abs_mult)
  also have "\<dots> \<le> 1 / 2 * ?s" using round_half_even_error by (intro mult_right_mono) auto
  also have "\<dots> \<le> 1 / 2 ^ 53" using s by simp
  finally show ?thesis .
qed (simp add: fl_def)

text \<open>
  Comparing the rounded quotient with the rounded threshold decides the exact comparison, as
  long as the denominators are below the precision of a double.
\<close>

lemma fl_less_iff:
  fixes c t a b :: int
  assumes "0 \<le> c" "c \<le> t" "0 < t" "0 \<le> a" "a \<le> b" "0 < b" "t * b < 2 ^ 52"
  shows "fl (of_int c / of_int t) < fl (of_int a / of_int b) \<longleftrightarrow> c * b < a * t"
proof -
  let ?q = "of_int c / of_int t :: rat" and ?r = "of_int a / of_int b :: rat"
  have q: "\<bar>fl ?q - ?q\<bar> \<le> 1 / 2 ^ 53" "\<bar>fl ?r - ?r\<bar> \<le> 1 / 2 ^ 53"
    by (rule fl_error; use assms in simp)+
  have tb: "0 < of_int t * (of_int b :: rat)" using assms by simp
  have diff: "?r - ?q = of_int (a * t - c * b) / of_int (t * b)"
    using assms by (simp add: field_simps)
  have small: "2 / 2 ^ 53 < 1 / (of_int (t * b) :: rat)"
  proof -
    have "(of_int (t * b) :: rat) < of_int (2 ^ 52)" using assms(7) by (simp only: of_int_less_iff)
    then show ?thesis using tb by (simp add: field_simps)
  qed
  have gap: "1 / of_int (t * b) \<le> (of_int m :: rat) / of_int (t * b)" if "1 \<le> m" for m
    using that tb by (intro divide_right_mono) auto
  consider "c * b < a * t" | "c * b = a * t" | "a * t < c * b" by linarith
  then show ?thesis
  proof cases
    case 1
    then have "1 / of_int (t * b) \<le> ?r - ?q" unfolding diff by (intro gap) simp
    then show ?thesis using q small 1 by linarith
  next
    case 2
    then have "?q = ?r" using assms by (simp add: field_simps flip: of_int_mult)
    then show ?thesis using 2 by simp
  next
    case 3
    then have "1 / of_int (t * b) \<le> of_int (c * b - a * t) / (of_int (t * b) :: rat)" by (intro gap) simp
    also have "\<dots> = ?q - ?r" using assms by (simp add: field_simps)
    finally show ?thesis using q small 3 by linarith
  qed
qed

end
