(* ===== verification/Jacoco_Report.thy ===== *)
theory Jacoco_Report
  imports Xml_Tree Py_Float
begin

text \<open>
  \<open>scripts/check_emp008.py\<close>, the measured half: the counters of a JaCoCo report, their ratios as
  doubles, the validation of a report tree, and the self-test that mutates the report and
  requires each mutant to be rejected. A message is a constructor with the values it prints.
\<close>

section \<open>Thresholds and patterns\<close>

definition GLOBAL_THRESHOLDS :: "(pystr \<times> rat) list" where
  "GLOBAL_THRESHOLDS = [(lit ''LINE'', fl (4 / 5)), (lit ''BRANCH'', fl (7 / 10))]"

definition CRITICAL_THRESHOLDS :: "(pystr \<times> rat) list" where
  "CRITICAL_THRESHOLDS = [(lit ''LINE'', fl (3 / 4)), (lit ''BRANCH'', fl (13 / 20))]"

definition CRITICAL_PATTERNS :: "pystr list" where
  "CRITICAL_PATTERNS = map lit
     [''pl/radoslawpiatek/couponservice/coupon/domain/**'',
      ''pl/radoslawpiatek/couponservice/coupon/application/**'',
      ''pl/radoslawpiatek/couponservice/coupon/adapters/persistence/**'',
      ''pl/radoslawpiatek/couponservice/geolocation/domain/**'',
      ''pl/radoslawpiatek/couponservice/geolocation/adapters/**'']"

definition removesuffix :: "pystr \<Rightarrow> pystr \<Rightarrow> pystr" where
  "removesuffix suf s = (if suf \<noteq> [] \<and> suffix suf s then take (length s - length suf) s else s)"

definition CRITICAL_PREFIXES :: "pystr list" where
  "CRITICAL_PREFIXES = map (removesuffix (lit ''/**'')) CRITICAL_PATTERNS"

section \<open>Counters\<close>

record Counter =
  missed :: int
  covered :: int

definition total :: "Counter \<Rightarrow> int" where
  "total c = missed c + covered c"

text \<open>\<open>covered / total\<close> raises when the quotient exceeds the largest double.\<close>

definition ratio :: "Counter \<Rightarrow> pyexc + rat" where
  "ratio c =
     (if total c = 0 then Inr 1
      else let q = fl (of_int (covered c) / of_int (total c))
           in if \<bar>q\<bar> \<ge> 2 ^ 1024 then Inl Overflow_Error else Inr q)"

text \<open>The first counter of the type decides, also when its numbers do not parse.\<close>

definition is_counter :: "pystr \<Rightarrow> elem \<Rightarrow> bool" where
  "is_counter ct e \<longleftrightarrow> tag e = lit ''counter'' \<and> attr e (lit ''type'') = Some ct"

definition counter :: "elem \<Rightarrow> pystr \<Rightarrow> Counter option" where
  "counter e ct =
     (case find (\<lambda>i. attr i (lit ''type'') = Some ct) (child_elems (lit ''counter'') e) of
        None \<Rightarrow> None
      | Some i \<Rightarrow>
          (case (py_int (attr_or_empty i ''missed''), py_int (attr_or_empty i ''covered'')) of
             (Some m, Some c) \<Rightarrow> Some \<lparr>missed = m, covered = c\<rparr>
           | _ \<Rightarrow> None))"

definition in_group :: "pystr \<Rightarrow> pystr \<Rightarrow> bool" where
  "in_group name pre \<longleftrightarrow> name = pre \<or> prefix (pre @ lit ''/'') name"

definition is_critical_package :: "pystr \<Rightarrow> bool" where
  "is_critical_package name \<longleftrightarrow> list_ex (in_group name) CRITICAL_PREFIXES"

fun aggregate_loop :: "Counter \<Rightarrow> elem list \<Rightarrow> pystr \<Rightarrow> Counter" where
  "aggregate_loop acc [] ct = acc"
| "aggregate_loop acc (p # ps) ct =
     (case counter p ct of
        None \<Rightarrow> aggregate_loop acc ps ct
      | Some cur \<Rightarrow>
          aggregate_loop \<lparr>missed = missed acc + missed cur, covered = covered acc + covered cur\<rparr> ps ct)"

definition aggregate_package_counter :: "elem list \<Rightarrow> pystr \<Rightarrow> Counter" where
  "aggregate_package_counter packages ct = aggregate_loop \<lparr>missed = 0, covered = 0\<rparr> packages ct"

section \<open>Validation of a report\<close>

datatype report_error =
    Root_Not_Report
  | Global_Missing pystr
  | Global_Below pystr rat rat
  | No_Critical_Packages
  | Group_Missing pystr
  | Critical_Empty pystr
  | Critical_Below pystr rat rat
  | Class_Missing pystr pystr
  | Report_Missing
  | Report_Malformed

type_synonym metrics = "(pystr \<times> Counter) list"

definition gate :: "pystr \<Rightarrow> pystr \<Rightarrow> (rat \<Rightarrow> report_error) \<Rightarrow> rat \<Rightarrow> Counter
    \<Rightarrow> pyexc + report_error list \<times> metrics" where
  "gate scope ct err minimum current =
     bind_py (ratio current) (\<lambda>r. Inr (flag (r < minimum) (err r), [(scope @ ct, current)]))"

fun global_step :: "elem \<Rightarrow> pystr \<times> rat \<Rightarrow> pyexc + report_error list \<times> metrics" where
  "global_step rt (ct, minimum) =
     (case counter rt ct of
        None \<Rightarrow> Inr ([Global_Missing ct], [])
      | Some current \<Rightarrow>
          if total current = 0 then Inr ([Global_Missing ct], [])
          else gate (lit ''GLOBAL_'') ct (\<lambda>r. Global_Below ct r minimum) minimum current)"

fun critical_step :: "elem list \<Rightarrow> pystr \<times> rat \<Rightarrow> pyexc + report_error list \<times> metrics" where
  "critical_step packages (ct, minimum) =
     (let current = aggregate_package_counter packages ct
      in if total current = 0 then Inr ([Critical_Empty ct], [])
         else gate (lit ''CRITICAL_'') ct (\<lambda>r. Critical_Below ct r minimum) minimum current)"

definition missing_groups :: "elem list \<Rightarrow> report_error list" where
  "missing_groups packages =
     (let present = map (\<lambda>p. attr_or_empty p ''name'') packages
      in map Group_Missing
           (filter (\<lambda>pre. \<not> list_ex (\<lambda>name. in_group name pre) present) CRITICAL_PREFIXES))"

definition required_classes :: "(pystr \<times> pystr) list" where
  "required_classes =
     [(lit ''coupon persistence'',
       lit ''pl/radoslawpiatek/couponservice/coupon/adapters/persistence/JdbcCouponRedemptionRepository''),
      (lit ''transactional redemption'',
       lit ''pl/radoslawpiatek/couponservice/coupon/application/TransactionalCouponRedemptionService''),
      (lit ''geolocation adapter'',
       lit ''pl/radoslawpiatek/couponservice/geolocation/adapters/ServletClientIpResolver'')]"

definition class_names :: "elem list \<Rightarrow> pystr list" where
  "class_names packages =
     concat (map (\<lambda>p. map (\<lambda>c. attr_or_empty c ''name'') (child_elems (lit ''class'') p)) packages)"

definition missing_classes :: "elem list \<Rightarrow> report_error list" where
  "missing_classes packages =
     map (\<lambda>(label, cls). Class_Missing label cls)
       (filter (\<lambda>(label, cls). cls \<notin> set (class_names packages)) required_classes)"

definition critical_packages :: "elem \<Rightarrow> elem list" where
  "critical_packages rt =
     filter (\<lambda>p. is_critical_package (attr_or_empty p ''name'')) (child_elems (lit ''package'') rt)"

definition critical_part :: "elem list \<Rightarrow> pyexc + report_error list \<times> metrics" where
  "critical_part packages =
     (if packages = [] then Inr ([No_Critical_Packages], [])
      else bind_py (map_py (critical_step packages) CRITICAL_THRESHOLDS) (\<lambda>rs.
             Inr (missing_groups packages @ concat (map fst rs), concat (map snd rs))))"

definition validate_report_tree :: "elem \<Rightarrow> pyexc + report_error list \<times> metrics" where
  "validate_report_tree rt =
     (if tag rt \<noteq> lit ''report'' then Inr ([Root_Not_Report], [])
      else bind_py (map_py (global_step rt) GLOBAL_THRESHOLDS) (\<lambda>gs.
           bind_py (critical_part (critical_packages rt)) (\<lambda>(errors, metrics).
           Inr (concat (map fst gs) @ errors @ missing_classes (child_elems (lit ''package'') rt),
                concat (map snd gs) @ metrics))))"

text \<open>The report file: its bytes, or \<open>None\<close> when the path is not a regular file.\<close>

definition validate_report ::
    "(bytes \<Rightarrow> elem option) \<Rightarrow> bytes option \<Rightarrow> pyexc + report_error list \<times> metrics" where
  "validate_report parse_xml file =
     (case file of
        None \<Rightarrow> Inr ([Report_Missing], [])
      | Some data \<Rightarrow>
          if data = [] then Inr ([Report_Missing], [])
          else (case parse_xml data of
                  None \<Rightarrow> Inr ([Report_Malformed], [])
                | Some rt \<Rightarrow> validate_report_tree rt))"

definition print_metrics :: "metrics \<Rightarrow> pyexc + (pystr \<times> int \<times> int \<times> rat) list" where
  "print_metrics metrics =
     bind_py (map_py (\<lambda>key. case map_of metrics key of
                None \<Rightarrow> Inr []
              | Some v \<Rightarrow> bind_py (ratio v) (\<lambda>r. Inr [(key, covered v, total v, r)]))
        [lit ''GLOBAL_LINE'', lit ''GLOBAL_BRANCH'', lit ''CRITICAL_LINE'', lit ''CRITICAL_BRANCH''])
       (\<lambda>ls. Inr (concat ls))"

section \<open>The negative self-test\<close>

definition set_counter :: "nat \<Rightarrow> nat \<Rightarrow> elem \<Rightarrow> elem" where
  "set_counter m c item =
     set_attr (lit ''covered'') (nat_str c) (set_attr (lit ''missed'') (nat_str m) item)"

definition set_first_counter :: "pystr \<Rightarrow> nat \<Rightarrow> nat \<Rightarrow> elem \<Rightarrow> elem" where
  "set_first_counter ct m c e = with_children e (update_first (is_counter ct) (set_counter m c) (children e))"

definition has_counter :: "pystr \<Rightarrow> elem \<Rightarrow> bool" where
  "has_counter ct e \<longleftrightarrow> list_ex (is_counter ct) (children e)"

definition critical_elem :: "elem \<Rightarrow> bool" where
  "critical_elem p \<longleftrightarrow> tag p = lit ''package'' \<and> is_critical_package (attr_or_empty p ''name'')"

text \<open>The mutators; \<open>next\<close> without a default raises when nothing matches.\<close>

definition mutate_global :: "pystr \<Rightarrow> nat \<Rightarrow> nat \<Rightarrow> elem \<Rightarrow> pyexc + elem" where
  "mutate_global ct m c rt =
     (if has_counter ct rt then Inr (set_first_counter ct m c rt) else Inl Stop_Iteration)"

definition mutate_critical :: "pystr \<Rightarrow> nat \<Rightarrow> nat \<Rightarrow> elem \<Rightarrow> pyexc + elem" where
  "mutate_critical ct m c rt =
     (let zeroed = map (\<lambda>p. if critical_elem p then set_first_counter ct 0 0 p else p) (children rt)
      in case find critical_elem zeroed of
           None \<Rightarrow> Inl Index_Error
         | Some first \<Rightarrow>
             if has_counter ct first
             then Inr (with_children rt
                    (update_first critical_elem (set_first_counter ct m c) zeroed))
             else Inl Stop_Iteration)"

definition remove_critical :: "elem \<Rightarrow> pyexc + elem" where
  "remove_critical rt = Inr (with_children rt (filter (\<lambda>p. \<not> critical_elem p) (children rt)))"

datatype self_case = Global_Case pystr | Critical_Case pystr | Removed_Case
datatype self_error = Not_Rejected self_case | Malformed_Accepted

definition expect_failure ::
    "(bytes \<Rightarrow> elem option) \<Rightarrow> (elem \<Rightarrow> bytes) \<Rightarrow> elem \<Rightarrow> self_case \<Rightarrow> (elem \<Rightarrow> pyexc + elem)
       \<Rightarrow> pyexc + self_error list" where
  "expect_failure parse_xml write_tree original name mutator =
     bind_py (mutator original) (\<lambda>rt.
     bind_py (validate_report parse_xml (Some (write_tree rt))) (\<lambda>(errors, metrics).
     Inr (flag (errors = []) (Not_Rejected name))))"

definition self_cases :: "(self_case \<times> (elem \<Rightarrow> pyexc + elem)) list" where
  "self_cases =
     [(Global_Case (lit ''LINE''), mutate_global (lit ''LINE'') 21 79),
      (Global_Case (lit ''BRANCH''), mutate_global (lit ''BRANCH'') 31 69),
      (Critical_Case (lit ''LINE''), mutate_critical (lit ''LINE'') 26 74),
      (Critical_Case (lit ''BRANCH''), mutate_critical (lit ''BRANCH'') 36 64),
      (Removed_Case, remove_critical)]"

definition run_negative_self_test ::
    "(bytes \<Rightarrow> elem option) \<Rightarrow> (elem \<Rightarrow> bytes) \<Rightarrow> bytes \<Rightarrow> pyexc + self_error list" where
  "run_negative_self_test parse_xml write_tree report =
     (case parse_xml report of
        None \<Rightarrow> Inl Xml_Parse_Error
      | Some original \<Rightarrow>
          seq_py
            (each_py (\<lambda>(name, mutator). expect_failure parse_xml write_tree original name mutator)
               self_cases)
            (bind_py (validate_report parse_xml (Some ''<report>'')) (\<lambda>(errors, metrics).
               Inr (flag (errors = []) Malformed_Accepted))))"

section \<open>Ratios decide exactly\<close>

definition plausible :: "Counter \<Rightarrow> bool" where
  "plausible c \<longleftrightarrow> 0 \<le> missed c \<and> 0 \<le> covered c \<and> total c < 2 ^ 47"

lemma ratio_plausible:
  fixes a b :: int
  assumes "plausible c" "total c \<noteq> 0" "0 \<le> a" "a \<le> b" "0 < b" "b \<le> 20"
  shows "\<exists>r. ratio c = Inr r \<and> (r < fl (of_int a / of_int b) \<longleftrightarrow> covered c * b < a * total c)"
proof -
  have c: "0 \<le> covered c" "covered c \<le> total c" "0 < total c" "total c < 2 ^ 47"
    using assms(1,2) by (auto simp: plausible_def total_def)
  have "total c * b < 2 ^ 47 * 32" using c assms(5,6) by (intro mult_strict_mono) auto
  then have tb: "total c * b < 2 ^ 52" by simp
  let ?q = "of_int (covered c) / of_int (total c) :: rat"
  have q: "0 \<le> ?q" "?q \<le> 1" using c by auto
  have "\<bar>fl ?q - ?q\<bar> \<le> 1" by (rule order_trans[OF fl_error[OF q]]) simp
  then have "\<bar>fl ?q\<bar> \<le> 2" using q by linarith
  moreover have "(2::rat) < 2 ^ 1024"
    using power_strict_increasing[of 1 1024 "2::rat"] by simp
  ultimately have "ratio c = Inr (fl ?q)" using assms(2) by (auto simp: ratio_def Let_def)
  then show ?thesis using fl_less_iff[OF c(1,2,3) assms(3-5) tb] by simp
qed

section \<open>The verdict\<close>

text \<open>The exact condition behind a threshold \<open>a / b\<close>.\<close>

definition meets :: "int \<Rightarrow> int \<Rightarrow> Counter \<Rightarrow> bool" where
  "meets a b c \<longleftrightarrow> total c \<noteq> 0 \<and> a * total c \<le> covered c * b"

lemma gate_plausible:
  fixes a b :: int
  assumes "plausible c" "total c \<noteq> 0" "0 \<le> a" "a \<le> b" "0 < b" "b \<le> 20"
  shows "\<exists>es. gate scope ct err (fl (of_int a / of_int b)) c = Inr (es, [(scope @ ct, c)])
    \<and> (es = [] \<longleftrightarrow> meets a b c)"
  using ratio_plausible[OF assms] assms(2) by (auto simp: gate_def meets_def)

lemma global_step_plausible:
  fixes a b :: int
  assumes "\<forall>c. counter rt ct = Some c \<longrightarrow> plausible c" "0 \<le> a" "a \<le> b" "0 < b" "b \<le> 20"
  shows "\<exists>es ms. global_step rt (ct, fl (of_int a / of_int b)) = Inr (es, ms)
    \<and> (es = [] \<longleftrightarrow> (\<exists>c. counter rt ct = Some c \<and> meets a b c))"
proof (cases "counter rt ct")
  case (Some c)
  then show ?thesis
    using gate_plausible[OF assms(1)[rule_format, OF Some] _ assms(2-5), of "lit ''GLOBAL_''" ct]
    by (cases "total c = 0") (fastforce simp: meets_def)+
qed simp

lemma critical_step_plausible:
  fixes a b :: int
  assumes "plausible (aggregate_package_counter ps ct)" "0 \<le> a" "a \<le> b" "0 < b" "b \<le> 20"
  shows "\<exists>es ms. critical_step ps (ct, fl (of_int a / of_int b)) = Inr (es, ms)
    \<and> (es = [] \<longleftrightarrow> meets a b (aggregate_package_counter ps ct))"
  using gate_plausible[OF assms(1) _ assms(2-5), of "lit ''CRITICAL_''" ct]
  by (cases "total (aggregate_package_counter ps ct) = 0") (fastforce simp: meets_def Let_def)+

lemma global_thresholds_exact:
  "GLOBAL_THRESHOLDS = [(lit ''LINE'', fl (of_int 4 / of_int 5)), (lit ''BRANCH'', fl (of_int 7 / of_int 10))]"
  "CRITICAL_THRESHOLDS = [(lit ''LINE'', fl (of_int 3 / of_int 4)), (lit ''BRANCH'', fl (of_int 13 / of_int 20))]"
  by (simp_all add: GLOBAL_THRESHOLDS_def CRITICAL_THRESHOLDS_def)

lemma missing_groups_Nil_iff:
  "missing_groups ps = [] \<longleftrightarrow>
     (\<forall>pre \<in> set CRITICAL_PREFIXES. \<exists>p \<in> set ps. in_group (attr_or_empty p ''name'') pre)"
  by (auto simp: missing_groups_def Let_def filter_empty_conv list_ex_iff)

lemma missing_classes_Nil_iff:
  "missing_classes ps = [] \<longleftrightarrow> (\<forall>(label, cls) \<in> set required_classes. cls \<in> set (class_names ps))"
  by (auto simp: missing_classes_def filter_empty_conv)

lemma critical_part_plausible:
  assumes "\<And>ct. plausible (aggregate_package_counter ps ct)"
  shows "\<exists>es ms. critical_part ps = Inr (es, ms)
    \<and> (es = [] \<longleftrightarrow> missing_groups ps = [] \<and> meets 3 4 (aggregate_package_counter ps (lit ''LINE''))
         \<and> meets 13 20 (aggregate_package_counter ps (lit ''BRANCH'')))"
proof (cases "ps = []")
  case False
  obtain e1 m1 where
    "critical_step ps (lit ''LINE'', fl (of_int 3 / of_int 4)) = Inr (e1, m1)"
    "e1 = [] \<longleftrightarrow> meets 3 4 (aggregate_package_counter ps (lit ''LINE''))"
    using critical_step_plausible[OF assms[of "lit ''LINE''"], of 3 4] by (auto simp del: critical_step.simps)
  moreover obtain e2 m2 where
    "critical_step ps (lit ''BRANCH'', fl (of_int 13 / of_int 20)) = Inr (e2, m2)"
    "e2 = [] \<longleftrightarrow> meets 13 20 (aggregate_package_counter ps (lit ''BRANCH''))"
    using critical_step_plausible[OF assms[of "lit ''BRANCH''"], of 13 20] by (auto simp del: critical_step.simps)
  ultimately show ?thesis using False
    unfolding critical_part_def global_thresholds_exact by (auto simp del: critical_step.simps)
qed (simp add: critical_part_def meets_def aggregate_package_counter_def total_def)

lemma validate_report_tree_plausible:
  assumes "\<And>ct c. counter rt ct = Some c \<Longrightarrow> plausible c"
    "\<And>ct. plausible (aggregate_package_counter (critical_packages rt) ct)"
  shows "\<exists>es ms. validate_report_tree rt = Inr (es, ms) \<and> (es = [] \<longleftrightarrow>
      tag rt = lit ''report''
    \<and> (\<exists>c. counter rt (lit ''LINE'') = Some c \<and> meets 4 5 c)
    \<and> (\<exists>c. counter rt (lit ''BRANCH'') = Some c \<and> meets 7 10 c)
    \<and> missing_groups (critical_packages rt) = []
    \<and> meets 3 4 (aggregate_package_counter (critical_packages rt) (lit ''LINE''))
    \<and> meets 13 20 (aggregate_package_counter (critical_packages rt) (lit ''BRANCH''))
    \<and> missing_classes (child_elems (lit ''package'') rt) = [])"
proof -
  obtain e1 m1 where
    "global_step rt (lit ''LINE'', fl (of_int 4 / of_int 5)) = Inr (e1, m1)"
    "e1 = [] \<longleftrightarrow> (\<exists>c. counter rt (lit ''LINE'') = Some c \<and> meets 4 5 c)"
    using global_step_plausible[of rt "lit ''LINE''" 4 5] assms(1) by (auto simp del: global_step.simps)
  moreover obtain e2 m2 where
    "global_step rt (lit ''BRANCH'', fl (of_int 7 / of_int 10)) = Inr (e2, m2)"
    "e2 = [] \<longleftrightarrow> (\<exists>c. counter rt (lit ''BRANCH'') = Some c \<and> meets 7 10 c)"
    using global_step_plausible[of rt "lit ''BRANCH''" 7 10] assms(1) by (auto simp del: global_step.simps)
  moreover obtain e3 m3 where "critical_part (critical_packages rt) = Inr (e3, m3)"
    "e3 = [] \<longleftrightarrow> missing_groups (critical_packages rt) = []
       \<and> meets 3 4 (aggregate_package_counter (critical_packages rt) (lit ''LINE''))
       \<and> meets 13 20 (aggregate_package_counter (critical_packages rt) (lit ''BRANCH''))"
    using critical_part_plausible[OF assms(2)] by blast
  ultimately show ?thesis
    unfolding validate_report_tree_def global_thresholds_exact by (auto simp del: global_step.simps)
qed

section \<open>Properties of the verdict\<close>

lemma split_on_sep: "split_on c (p @ c # r) = split_on c p @ split_on c r"
  by (induction p) (auto split: list.splits)

lemma join_append: "ps \<noteq> [] \<Longrightarrow> qs \<noteq> [] \<Longrightarrow> join_with s (ps @ qs) = join_with s ps @ s @ join_with s qs"
proof (induction ps)
  case (Cons p ps)
  then show ?case by (cases ps; cases qs) auto
qed simp

lemma prefix_split_on_iff:
  fixes p n :: pystr
  shows "prefix (split_on c p) (split_on c n) \<longleftrightarrow> n = p \<or> prefix (p @ [c]) n"
proof
  assume "prefix (split_on c p) (split_on c n)"
  then obtain zs where zs: "split_on c n = split_on c p @ zs" by (auto simp: prefix_def)
  have n: "n = join_with [c] (split_on c p @ zs)" using join_split_on[of c n] zs by simp
  show "n = p \<or> prefix (p @ [c]) n"
    by (cases "zs = []") (simp_all add: n join_append join_split_on)
next
  assume "n = p \<or> prefix (p @ [c]) n"
  then show "prefix (split_on c p) (split_on c n)"
    by (auto simp: prefix_def split_on_sep)
qed

lemma prefixes_eq:
  "CRITICAL_PREFIXES = map lit
     [''pl/radoslawpiatek/couponservice/coupon/domain'',
      ''pl/radoslawpiatek/couponservice/coupon/application'',
      ''pl/radoslawpiatek/couponservice/coupon/adapters/persistence'',
      ''pl/radoslawpiatek/couponservice/geolocation/domain'',
      ''pl/radoslawpiatek/couponservice/geolocation/adapters'']"
proof -
  have r: "removesuffix (lit ''/**'') (lit (s @ ''/**'')) = lit s" for s
    by (simp add: removesuffix_def lit_def suffix_def)
  have p: "CRITICAL_PATTERNS = map (\<lambda>s. lit (s @ ''/**''))
     [''pl/radoslawpiatek/couponservice/coupon/domain'',
      ''pl/radoslawpiatek/couponservice/coupon/application'',
      ''pl/radoslawpiatek/couponservice/coupon/adapters/persistence'',
      ''pl/radoslawpiatek/couponservice/geolocation/domain'',
      ''pl/radoslawpiatek/couponservice/geolocation/adapters'']"
    by (simp add: CRITICAL_PATTERNS_def)
  show ?thesis unfolding CRITICAL_PREFIXES_def p by (simp only: list.map r)
qed

lemma list_ex_lit: "list_ex f (map lit ss) = list_ex (\<lambda>s. f (lit s)) ss"
  by (induction ss) auto

text \<open>
  The function \<open>is_critical_package\<close> compares whole path components: a package is critical exactly when
  the components of one of the five prefixes begin the components of its name, so a sibling
  whose name only starts with the same characters is not.
\<close>

theorem critical_package_components:
  "is_critical_package name \<longleftrightarrow>
     list_ex (\<lambda>pre. prefix (split_on 47 (lit pre)) (split_on 47 name))
       [''pl/radoslawpiatek/couponservice/coupon/domain'',
        ''pl/radoslawpiatek/couponservice/coupon/application'',
        ''pl/radoslawpiatek/couponservice/coupon/adapters/persistence'',
        ''pl/radoslawpiatek/couponservice/geolocation/domain'',
        ''pl/radoslawpiatek/couponservice/geolocation/adapters'']"
proof -
  have slash: "lit ''/'' = [47]" by (simp add: lit_def)
  have "in_group name (lit pre) \<longleftrightarrow> prefix (split_on 47 (lit pre)) (split_on 47 name)" for pre
    by (simp add: in_group_def prefix_split_on_iff slash)
  then show ?thesis unfolding is_critical_package_def prefixes_eq by (simp only: list_ex_lit)
qed

text \<open>
  C10: the verdict on a report whose counters are natural numbers below 2^47 is exact integer
  arithmetic although the script divides floating point numbers: the report is accepted exactly
  when the root is a report, the global counters cover 4/5 of the lines and 7/10 of the branches,
  the sums over the critical packages cover 3/4 and 13/20, every critical group has a package,
  and the three evidence classes are present.
\<close>

theorem report_accepted_iff:
  assumes "\<forall>ct c. counter rt ct = Some c \<longrightarrow> plausible c"
    "\<forall>ct. plausible (aggregate_package_counter (critical_packages rt) ct)"
  shows "(\<exists>ms. validate_report_tree rt = Inr ([], ms)) \<longleftrightarrow>
      tag rt = lit ''report''
    \<and> (\<exists>l b. counter rt (lit ''LINE'') = Some l \<and> total l > 0 \<and> 4 * total l \<le> 5 * covered l
         \<and> counter rt (lit ''BRANCH'') = Some b \<and> total b > 0 \<and> 7 * total b \<le> 10 * covered b)
    \<and> (\<exists>l b. aggregate_package_counter (critical_packages rt) (lit ''LINE'') = l
         \<and> total l > 0 \<and> 3 * total l \<le> 4 * covered l
         \<and> aggregate_package_counter (critical_packages rt) (lit ''BRANCH'') = b
         \<and> total b > 0 \<and> 13 * total b \<le> 20 * covered b)
    \<and> (\<forall>pre \<in> set CRITICAL_PREFIXES. \<exists>p \<in> set (critical_packages rt).
         in_group (attr_or_empty p ''name'') pre)
    \<and> (\<forall>(label, cls) \<in> set required_classes.
         cls \<in> set (class_names (child_elems (lit ''package'') rt)))"
proof -
  have pos: "meets a b c \<longleftrightarrow> total c > 0 \<and> a * total c \<le> b * covered c" if "plausible c" for a b c
    using that by (auto simp: meets_def plausible_def total_def mult.commute)
  obtain es ms where v: "validate_report_tree rt = Inr (es, ms)" "es = [] \<longleftrightarrow>
      tag rt = lit ''report''
    \<and> (\<exists>c. counter rt (lit ''LINE'') = Some c \<and> meets 4 5 c)
    \<and> (\<exists>c. counter rt (lit ''BRANCH'') = Some c \<and> meets 7 10 c)
    \<and> missing_groups (critical_packages rt) = []
    \<and> meets 3 4 (aggregate_package_counter (critical_packages rt) (lit ''LINE''))
    \<and> meets 13 20 (aggregate_package_counter (critical_packages rt) (lit ''BRANCH''))
    \<and> missing_classes (child_elems (lit ''package'') rt) = []"
    using validate_report_tree_plausible[of rt] assms by blast
  have "(\<exists>ms. validate_report_tree rt = Inr ([], ms)) \<longleftrightarrow> es = []" using v(1) by auto
  also note v(2)
  finally show ?thesis
    unfolding missing_groups_Nil_iff missing_classes_Nil_iff pos[OF assms(2)[rule_format]]
    using pos[OF assms(1)[rule_format]] by blast
qed

section \<open>What the mutators do to the counters\<close>

lemma find_filter: "find P (filter Q xs) = find (\<lambda>x. Q x \<and> P x) xs"
  by (induction xs) auto

lemma counter_eq:
  "counter e ct = (case find (is_counter ct) (children e) of
     None \<Rightarrow> None
   | Some i \<Rightarrow>
       (case (py_int (attr_or_empty i ''missed''), py_int (attr_or_empty i ''covered'')) of
          (Some m, Some c) \<Rightarrow> Some \<lparr>missed = m, covered = c\<rparr>
        | _ \<Rightarrow> None))"
  by (simp add: counter_def child_elems_def find_filter is_counter_def[abs_def])

lemma has_counter_find: "has_counter ct e \<longleftrightarrow> find (is_counter ct) (children e) \<noteq> None"
  by (auto simp: has_counter_def list_ex_iff find_None_iff simp del: not_None_eq)

lemma counter_has: "counter e ct = Some c \<Longrightarrow> has_counter ct e"
  by (auto simp: has_counter_find counter_eq split: option.splits)

lemma set_counter_attrs:
  "attr_or_empty (set_counter m c i) ''missed'' = nat_str m"
  "attr_or_empty (set_counter m c i) ''covered'' = nat_str c"
  "tag (set_counter m c i) = tag i" "is_counter ct (set_counter m c i) = is_counter ct i"
  by (simp_all add: set_counter_def attr_or_empty_def is_counter_def)

lemma find_update_other:
  "(\<And>x. P x \<Longrightarrow> \<not> Q x \<and> \<not> Q (f x)) \<Longrightarrow> find Q (update_first P f xs) = find Q xs"
  by (induction xs) auto

lemma filter_update_other:
  "(\<And>x. P x \<Longrightarrow> \<not> Q x \<and> \<not> Q (f x)) \<Longrightarrow> filter Q (update_first P f xs) = filter Q xs"
  by (induction xs) auto

lemma update_first_none: "\<not> list_ex P xs \<Longrightarrow> update_first P f xs = xs"
  by (induction xs) auto

lemma set_first_counter_simps [simp]:
  "tag (set_first_counter ct m c e) = tag e"
  "attr_or_empty (set_first_counter ct m c e) k = attr_or_empty e k"
  "critical_elem (set_first_counter ct m c e) = critical_elem e"
  "has_counter ct (set_first_counter ct m c e) = has_counter ct e"
proof -
  show "has_counter ct (set_first_counter ct m c e) = has_counter ct e"
    unfolding has_counter_find set_first_counter_def
    by (simp add: find_update_first_same set_counter_attrs)
qed (simp_all add: set_first_counter_def critical_elem_def)

lemma counter_set_first:
  "counter (set_first_counter ct m c e) ct' =
     (if ct' = ct then (if has_counter ct e then Some \<lparr>missed = int m, covered = int c\<rparr> else None)
      else counter e ct')"
proof (cases "ct' = ct")
  case True
  then show ?thesis
    by (auto simp: counter_eq set_first_counter_def has_counter_find find_update_first_same
        set_counter_attrs py_int_nat_str)
next
  case False
  have "find (is_counter ct') (update_first (is_counter ct) (set_counter m c) (children e))
      = find (is_counter ct') (children e)"
    using False by (intro find_update_other) (simp add: set_counter_attrs(4), auto simp: is_counter_def)
  then show ?thesis using False by (simp add: counter_eq set_first_counter_def)
qed

lemma packages_set_first:
  "child_elems (lit ''package'') (set_first_counter ct m c e) = child_elems (lit ''package'') e"
proof -
  have "filter (\<lambda>c. tag c = lit ''package'') (update_first (is_counter ct) (set_counter m c) (children e))
      = filter (\<lambda>c. tag c = lit ''package'') (children e)"
    by (rule filter_update_other) (simp add: is_counter_def set_counter_attrs(3))
  then show ?thesis by (simp add: child_elems_def set_first_counter_def)
qed

section \<open>Sums over the critical packages\<close>

definition counted :: "(Counter \<Rightarrow> int) \<Rightarrow> pystr \<Rightarrow> elem \<Rightarrow> int" where
  "counted sel ct p = (case counter p ct of None \<Rightarrow> 0 | Some c \<Rightarrow> sel c)"

lemma aggregate_loop_sum:
  "aggregate_loop acc ps ct = \<lparr>missed = missed acc + sum_list (map (counted missed ct) ps),
     covered = covered acc + sum_list (map (counted covered ct) ps)\<rparr>"
  by (induction ps arbitrary: acc) (auto simp: counted_def split: option.splits)

lemma aggregate_sum:
  "aggregate_package_counter ps ct = \<lparr>missed = sum_list (map (counted missed ct) ps),
     covered = sum_list (map (counted covered ct) ps)\<rparr>"
  by (simp add: aggregate_package_counter_def aggregate_loop_sum)

lemma aggregate_cong:
  "list_all2 (\<lambda>p q. counter p ct = counter q ct) ps qs \<Longrightarrow>
   aggregate_package_counter ps ct = aggregate_package_counter qs ct"
proof -
  assume "list_all2 (\<lambda>p q. counter p ct = counter q ct) ps qs"
  then have "map (counted sel ct) ps = map (counted sel ct) qs" for sel
    by (induction ps qs rule: list_all2_induct) (auto simp: counted_def)
  then show ?thesis by (simp add: aggregate_sum)
qed

lemma critical_packages_eq: "critical_packages rt = filter critical_elem (children rt)"
  by (simp add: critical_packages_def child_elems_def critical_elem_def[abs_def] conj_commute)

section \<open>The mutants are rejected\<close>

lemma map_py_no_errors:
  "map_py f xs = Inr rs \<Longrightarrow> concat (map fst rs) = [] \<Longrightarrow> \<forall>x \<in> set xs. \<exists>m. f x = Inr ([], m)"
  by (induction xs arbitrary: rs) (auto simp: py_ok)

lemma accepted_parts:
  assumes "validate_report_tree rt = Inr ([], ms)"
  shows "tag rt = lit ''report''" "\<forall>t \<in> set GLOBAL_THRESHOLDS. \<exists>m. global_step rt t = Inr ([], m)"
    "critical_packages rt \<noteq> []"
    "\<forall>t \<in> set CRITICAL_THRESHOLDS. \<exists>m. critical_step (critical_packages rt) t = Inr ([], m)"
proof -
  obtain gs es m where "tag rt = lit ''report''" and g: "map_py (global_step rt) GLOBAL_THRESHOLDS = Inr gs"
    "concat (map fst gs) = []" and c: "critical_part (critical_packages rt) = Inr ([], m)"
    using assms by (auto simp: validate_report_tree_def py_ok split: if_splits)
  then show "tag rt = lit ''report''" by simp
  show "\<forall>t \<in> set GLOBAL_THRESHOLDS. \<exists>m. global_step rt t = Inr ([], m)"
    by (rule map_py_no_errors[OF g])
  show ne: "critical_packages rt \<noteq> []" using c by (auto simp: critical_part_def)
  obtain rs where r: "map_py (critical_step (critical_packages rt)) CRITICAL_THRESHOLDS = Inr rs"
    "concat (map fst rs) = []" using c ne by (auto simp: critical_part_def py_ok)
  show "\<forall>t \<in> set CRITICAL_THRESHOLDS. \<exists>m. critical_step (critical_packages rt) t = Inr ([], m)"
    by (rule map_py_no_errors[OF r])
qed

lemma rejected_if:
  assumes "\<forall>t \<in> set GLOBAL_THRESHOLDS. \<exists>r. global_step rt t = Inr r"
    "\<exists>r. critical_part (critical_packages rt) = Inr r"
    "(\<exists>t \<in> set GLOBAL_THRESHOLDS. \<exists>es m. global_step rt t = Inr (es, m) \<and> es \<noteq> [])
     \<or> (\<exists>es m. critical_part (critical_packages rt) = Inr (es, m) \<and> es \<noteq> [])"
  shows "\<exists>es ms. validate_report_tree rt = Inr (es, ms) \<and> es \<noteq> []"
proof -
  obtain gs where gs: "map_py (global_step rt) GLOBAL_THRESHOLDS = Inr gs"
    using assms(1) map_py_ex_iff[of "global_step rt" GLOBAL_THRESHOLDS] by blast
  obtain es ms where c: "critical_part (critical_packages rt) = Inr (es, ms)" using assms(2) by auto
  have "concat (map fst gs) \<noteq> []" if "t \<in> set GLOBAL_THRESHOLDS" "global_step rt t = Inr (e, m)" "e \<noteq> []" for t e m
  proof -
    have "(e, m) \<in> set gs"
      using gs that(1,2) by (fastforce simp: map_py_Inr_iff list_all2_conv_all_nth in_set_conv_nth)
    then show ?thesis using that(3) by fastforce
  qed
  then show ?thesis using assms(3) gs c by (auto simp: validate_report_tree_def)
qed

lemma critical_part_if:
  assumes "ps \<noteq> []" "\<forall>t \<in> set CRITICAL_THRESHOLDS. \<exists>r. critical_step ps t = Inr r"
    "\<exists>t \<in> set CRITICAL_THRESHOLDS. \<exists>es m. critical_step ps t = Inr (es, m) \<and> es \<noteq> []"
  shows "\<exists>es m. critical_part ps = Inr (es, m) \<and> es \<noteq> []"
proof -
  obtain rs where rs: "map_py (critical_step ps) CRITICAL_THRESHOLDS = Inr rs"
    using assms(2) map_py_ex_iff[of "critical_step ps" CRITICAL_THRESHOLDS] by blast
  obtain t e m where t: "t \<in> set CRITICAL_THRESHOLDS" "critical_step ps t = Inr (e, m)" "e \<noteq> []"
    using assms(3) by blast
  then have "(e, m) \<in> set rs"
    using rs by (fastforce simp: map_py_Inr_iff list_all2_conv_all_nth in_set_conv_nth)
  then show ?thesis using assms(1) rs t(3) by (fastforce simp: critical_part_def)
qed

lemma global_step_cong: "counter rt ct = counter rt' ct \<Longrightarrow> global_step rt (ct, m) = global_step rt' (ct, m)"
  by simp

lemma global_mutant_rejected:
  assumes acc: "validate_report_tree rt = Inr ([], ms)"
    and thr: "(ct, fl (of_int a / of_int b)) \<in> set GLOBAL_THRESHOLDS"
    and low: "\<not> meets a b \<lparr>missed = int m, covered = int c\<rparr>" "0 \<le> a" "a \<le> b" "0 < b" "b \<le> 20"
      "plausible \<lparr>missed = int m, covered = int c\<rparr>"
  shows "\<exists>rt'. mutate_global ct m c rt = Inr rt' \<and>
    (\<exists>es ms. validate_report_tree rt' = Inr (es, ms) \<and> es \<noteq> [])"
proof -
  let ?rt = "set_first_counter ct m c rt"
  note p = accepted_parts[OF acc]
  obtain m0 where "global_step rt (ct, fl (of_int a / of_int b)) = Inr ([], m0)" using p(2) thr by blast
  then have h: "has_counter ct rt" using counter_has by (cases "counter rt ct") auto
  have crit: "critical_packages ?rt = critical_packages rt"
    by (simp add: critical_packages_def packages_set_first)
  have new: "\<exists>es m. global_step ?rt (ct, fl (of_int a / of_int b)) = Inr (es, m) \<and> es \<noteq> []"
    using global_step_plausible[of ?rt ct a b] low h
    by (auto simp: counter_set_first simp del: global_step.simps)
  have old: "global_step ?rt (ct', x) = global_step rt (ct', x)" if "ct' \<noteq> ct" for ct' x
    using that by (intro global_step_cong) (simp add: counter_set_first)
  have "\<exists>r. global_step ?rt t = Inr r" if t: "t \<in> set GLOBAL_THRESHOLDS" for t
  proof (cases "fst t = ct")
    case True
    then have "t = (ct, fl (of_int a / of_int b))" using t thr by (auto simp: GLOBAL_THRESHOLDS_def)
    then show ?thesis using new by auto
  next
    case False
    then show ?thesis using old[of "fst t" "snd t"] p(2) t by auto
  qed
  moreover have "\<exists>r. critical_part (critical_packages ?rt) = Inr r"
    using acc unfolding crit by (auto simp: validate_report_tree_def py_ok split: if_splits)
  ultimately have "\<exists>es ms. validate_report_tree ?rt = Inr (es, ms) \<and> es \<noteq> []"
    using new thr by (intro rejected_if) blast+
  then show ?thesis using h by (simp add: mutate_global_def)
qed

lemma find_critical_map:
  "(\<And>p. critical_elem p \<Longrightarrow> tag (g p) = tag p) \<Longrightarrow>
   find (is_counter ct) (map (\<lambda>p. if critical_elem p then g p else p) xs) = find (is_counter ct) xs"
  by (induction xs) (auto simp: is_counter_def critical_elem_def)

lemma critical_not_counter: "critical_elem p \<Longrightarrow> \<not> is_counter ct p"
  by (auto simp: critical_elem_def is_counter_def)

lemma filter_critical_map:
  "(\<And>p. critical_elem (g p) = critical_elem p) \<Longrightarrow>
   filter critical_elem (map (\<lambda>p. if critical_elem p then g p else p) xs) = map g (filter critical_elem xs)"
  by (induction xs) auto

lemma find_filter_hd: "find P xs = (case filter P xs of [] \<Rightarrow> None | x # _ \<Rightarrow> Some x)"
  by (induction xs) auto

lemma critical_mutant_shape:
  assumes "critical_packages rt = p # ps"
  shows "mutate_critical ct m c rt =
    (if has_counter ct p then Inr (with_children rt (update_first critical_elem (set_first_counter ct m c)
       (map (\<lambda>p. if critical_elem p then set_first_counter ct 0 0 p else p) (children rt))))
     else Inl Stop_Iteration)"
proof -
  have "filter critical_elem (map (\<lambda>p. if critical_elem p then set_first_counter ct 0 0 p else p) (children rt))
      = map (set_first_counter ct 0 0) (p # ps)"
    using assms by (subst filter_critical_map) (simp_all add: critical_packages_eq)
  then show ?thesis by (simp add: mutate_critical_def Let_def find_filter_hd)
qed

lemma critical_mutant_facts:
  assumes "critical_packages rt = p # ps" "mutate_critical ct m c rt = Inr rt'"
  shows "tag rt' = tag rt" "counter rt' ct' = counter rt ct'"
    "critical_packages rt' = set_first_counter ct m c (set_first_counter ct 0 0 p)
       # map (set_first_counter ct 0 0) ps"
    "has_counter ct p"
proof -
  let ?z = "map (\<lambda>p. if critical_elem p then set_first_counter ct 0 0 p else p) (children rt)"
  show h: "has_counter ct p"
    using assms(2) unfolding critical_mutant_shape[OF assms(1)] by (auto split: if_splits)
  then have rt': "rt' = with_children rt (update_first critical_elem (set_first_counter ct m c) ?z)"
    using assms(2) unfolding critical_mutant_shape[OF assms(1)] by simp
  show "tag rt' = tag rt" by (simp add: rt')
  have "find (is_counter ct') (update_first critical_elem (set_first_counter ct m c) ?z)
      = find (is_counter ct') ?z"
    by (rule find_update_other) (simp add: critical_not_counter)
  also have "\<dots> = find (is_counter ct') (children rt)" by (rule find_critical_map) simp
  finally show "counter rt' ct' = counter rt ct'" by (simp add: rt' counter_eq)
  have "filter critical_elem (update_first critical_elem (set_first_counter ct m c) ?z)
      = update_first critical_elem (set_first_counter ct m c) (filter critical_elem ?z)"
    by (rule filter_update_first) simp
  moreover have "filter critical_elem ?z = map (set_first_counter ct 0 0) (p # ps)"
    using assms(1) by (subst filter_critical_map) (simp_all add: critical_packages_eq)
  moreover have "critical_elem p"
    using assms(1) unfolding critical_packages_eq by (metis filter_eq_ConsD)
  ultimately show "critical_packages rt' = set_first_counter ct m c (set_first_counter ct 0 0 p)
      # map (set_first_counter ct 0 0) ps"
    by (simp add: critical_packages_eq rt')
qed

lemma critical_mutant_sum:
  "has_counter ct p \<Longrightarrow>
   aggregate_package_counter (set_first_counter ct m c (set_first_counter ct 0 0 p)
       # map (set_first_counter ct 0 0) ps) ct = \<lparr>missed = int m, covered = int c\<rparr>"
  "ct' \<noteq> ct \<Longrightarrow>
   aggregate_package_counter (set_first_counter ct m c (set_first_counter ct 0 0 p)
       # map (set_first_counter ct 0 0) ps) ct' = aggregate_package_counter (p # ps) ct'"
proof -
  have z: "sum_list (map (counted sel ct) (map (set_first_counter ct 0 0) ps)) = 0"
    if "sel \<lparr>missed = 0, covered = 0\<rparr> = 0" for sel
    using that by (induction ps) (auto simp: counted_def counter_set_first)
  then show "has_counter ct p \<Longrightarrow>
    aggregate_package_counter (set_first_counter ct m c (set_first_counter ct 0 0 p)
       # map (set_first_counter ct 0 0) ps) ct = \<lparr>missed = int m, covered = int c\<rparr>"
    using z[of missed] z[of covered] by (simp add: aggregate_sum counted_def counter_set_first)
  show "ct' \<noteq> ct \<Longrightarrow>
    aggregate_package_counter (set_first_counter ct m c (set_first_counter ct 0 0 p)
       # map (set_first_counter ct 0 0) ps) ct' = aggregate_package_counter (p # ps) ct'"
    by (rule aggregate_cong) (auto simp: counter_set_first list_all2_map1 list.rel_refl)
qed

lemma critical_mutant_rejected:
  assumes acc: "validate_report_tree rt = Inr ([], ms)"
    and thr: "(ct, fl (of_int a / of_int b)) \<in> set CRITICAL_THRESHOLDS"
    and low: "\<not> meets a b \<lparr>missed = int m, covered = int c\<rparr>" "0 \<le> a" "a \<le> b" "0 < b" "b \<le> 20"
      "plausible \<lparr>missed = int m, covered = int c\<rparr>"
    and mut: "mutate_critical ct m c rt = Inr rt'"
  shows "\<exists>es ms. validate_report_tree rt' = Inr (es, ms) \<and> es \<noteq> []"
proof -
  note a = accepted_parts[OF acc]
  obtain p ps where ps: "critical_packages rt = p # ps" using a(3) by (cases "critical_packages rt") auto
  note f = critical_mutant_facts[OF ps mut]
  let ?ps = "critical_packages rt'"
  have "aggregate_package_counter ?ps ct = \<lparr>missed = int m, covered = int c\<rparr>"
    unfolding f(3) by (rule critical_mutant_sum(1)[OF f(4)])
  then have new: "\<exists>es m. critical_step ?ps (ct, fl (of_int a / of_int b)) = Inr (es, m) \<and> es \<noteq> []"
    using critical_step_plausible[of ?ps ct a b] low by (auto simp del: critical_step.simps)
  have old: "critical_step ?ps (ct', x) = critical_step (critical_packages rt) (ct', x)"
    if "ct' \<noteq> ct" for ct' x
    unfolding f(3) ps by (simp add: critical_mutant_sum(2)[OF that])
  have "\<exists>r. critical_step ?ps t = Inr r" if t: "t \<in> set CRITICAL_THRESHOLDS" for t
  proof (cases "fst t = ct")
    case True
    then have "t = (ct, fl (of_int a / of_int b))" using t thr by (auto simp: CRITICAL_THRESHOLDS_def)
    then show ?thesis using new by auto
  next
    case False
    then show ?thesis using old[of "fst t" "snd t"] a(4) t by auto
  qed
  moreover have "?ps \<noteq> []" by (simp add: f(3))
  ultimately have c: "\<exists>es m. critical_part ?ps = Inr (es, m) \<and> es \<noteq> []"
    using new thr by (intro critical_part_if) blast+
  have "\<forall>t \<in> set GLOBAL_THRESHOLDS. \<exists>r. global_step rt' t = Inr r"
  proof
    fix t assume t: "t \<in> set GLOBAL_THRESHOLDS"
    have "global_step rt' (fst t, snd t) = global_step rt (fst t, snd t)"
      by (intro global_step_cong f(2))
    then show "\<exists>r. global_step rt' t = Inr r" using a(2) t by auto
  qed
  then show ?thesis using c by (intro rejected_if) blast+
qed

lemma removed_rejected:
  assumes "validate_report_tree rt = Inr ([], ms)" "remove_critical rt = Inr rt'"
  shows "\<exists>es ms. validate_report_tree rt' = Inr (es, ms) \<and> es \<noteq> []"
proof -
  have rt': "rt' = with_children rt (filter (\<lambda>p. \<not> critical_elem p) (children rt))"
    using assms(2) by (simp add: remove_critical_def)
  have c: "critical_part (critical_packages rt') = Inr ([No_Critical_Packages], [])"
    by (simp add: rt' critical_packages_eq critical_part_def)
  have "counter rt' ct = counter rt ct" for ct
    using critical_not_counter[of _ ct] unfolding counter_eq rt' with_children_simps find_filter
    by (intro arg_cong[of _ _ "case_option _ _"] arg_cong[of _ _ "\<lambda>P. find P (children rt)"]) auto
  then have "\<forall>t \<in> set GLOBAL_THRESHOLDS. \<exists>r. global_step rt' t = Inr r"
    using accepted_parts(2)[OF assms(1)] global_step_cong[of rt' _ rt] by fastforce
  then show ?thesis using c by (intro rejected_if) auto
qed

section \<open>Properties of the self-test\<close>

lemma low_ratios:
  "\<not> meets 4 5 \<lparr>missed = int 21, covered = int 79\<rparr>" "\<not> meets 7 10 \<lparr>missed = int 31, covered = int 69\<rparr>"
  "\<not> meets 3 4 \<lparr>missed = int 26, covered = int 74\<rparr>" "\<not> meets 13 20 \<lparr>missed = int 36, covered = int 64\<rparr>"
  "plausible \<lparr>missed = int 21, covered = int 79\<rparr>" "plausible \<lparr>missed = int 31, covered = int 69\<rparr>"
  "plausible \<lparr>missed = int 26, covered = int 74\<rparr>" "plausible \<lparr>missed = int 36, covered = int 64\<rparr>"
  by (simp_all add: meets_def plausible_def total_def)

lemma thresholds_mem:
  "(lit ''LINE'', fl (of_int 4 / of_int 5)) \<in> set GLOBAL_THRESHOLDS"
  "(lit ''BRANCH'', fl (of_int 7 / of_int 10)) \<in> set GLOBAL_THRESHOLDS"
  "(lit ''LINE'', fl (of_int 3 / of_int 4)) \<in> set CRITICAL_THRESHOLDS"
  "(lit ''BRANCH'', fl (of_int 13 / of_int 20)) \<in> set CRITICAL_THRESHOLDS"
  by (simp_all add: global_thresholds_exact)

text \<open>Every mutant that a case of the self-test produces is rejected.\<close>

lemma self_case_rejected:
  assumes "validate_report_tree rt = Inr ([], ms)" "(name, mutator) \<in> set self_cases" "mutator rt = Inr rt'"
  shows "\<exists>es ms. validate_report_tree rt' = Inr (es, ms) \<and> es \<noteq> []"
proof -
  note gl = global_mutant_rejected[OF assms(1) thresholds_mem(1) low_ratios(1) _ _ _ _ low_ratios(5)]
  note gb = global_mutant_rejected[OF assms(1) thresholds_mem(2) low_ratios(2) _ _ _ _ low_ratios(6)]
  note cl = critical_mutant_rejected[OF assms(1) thresholds_mem(3) low_ratios(3) _ _ _ _ low_ratios(7)]
  note cb = critical_mutant_rejected[OF assms(1) thresholds_mem(4) low_ratios(4) _ _ _ _ low_ratios(8)]
  show ?thesis
    using assms(2,3) gl gb cl[of rt'] cb[of rt'] removed_rejected[OF assms(1), of rt']
    by (auto simp: self_cases_def)
qed

lemma self_case_outcome:
  assumes "validate_report_tree rt = Inr ([], ms)" "(name, mutator) \<in> set self_cases"
    "\<forall>(name, mutator) \<in> set self_cases. \<forall>t. mutator rt = Inr t \<longrightarrow> parse_xml (write_tree t) = Some t"
  shows "expect_failure parse_xml write_tree rt name mutator
    = (case mutator rt of Inl e \<Rightarrow> Inl e | Inr t \<Rightarrow> Inr [])"
proof (cases "mutator rt")
  case (Inr t)
  then show ?thesis
    using self_case_rejected[OF assms(1,2) Inr] assms(2,3)
    by (auto simp: expect_failure_def validate_report_def)
qed (simp add: expect_failure_def)

text \<open>
  C11: the self-test on an accepted report: every mutant is rejected, so it reports no failure,
  provided the first critical package has a line and a branch counter; otherwise it ends with an
  uncaught \<open>StopIteration\<close>. The XML library is assumed to read back the trees the self-test
  writes and to reject a document without an end tag.
\<close>

theorem self_test_outcome:
  assumes "validate_report parse_xml (Some report) = Inr ([], ms)" "parse_xml report = Some rt"
    "\<forall>(name, mutator) \<in> set self_cases. \<forall>t. mutator rt = Inr t \<longrightarrow> parse_xml (write_tree t) = Some t"
    "parse_xml ''<report>'' = None"
  shows "\<exists>p ps. critical_packages rt = p # ps \<and>
    run_negative_self_test parse_xml write_tree report =
      (if has_counter (lit ''LINE'') p \<and> has_counter (lit ''BRANCH'') p then Inr []
       else Inl Stop_Iteration)"
proof -
  have acc: "validate_report_tree rt = Inr ([], ms)"
    using assms(1,2) by (auto simp: validate_report_def split: if_splits)
  obtain p ps where ps: "critical_packages rt = p # ps"
    using accepted_parts(3)[OF acc] by (cases "critical_packages rt") auto
  note outcome = self_case_outcome[OF acc _ assms(3)]
  obtain t1 t2 where g: "mutate_global (lit ''LINE'') 21 79 rt = Inr t1"
    "mutate_global (lit ''BRANCH'') 31 69 rt = Inr t2"
    using global_mutant_rejected[OF acc thresholds_mem(1) low_ratios(1) _ _ _ _ low_ratios(5)]
      global_mutant_rejected[OF acc thresholds_mem(2) low_ratios(2) _ _ _ _ low_ratios(6)] by auto
  have mal: "validate_report parse_xml (Some ''<report>'') = Inr ([Report_Malformed], [])"
    using assms(4) by (simp add: validate_report_def)
  have "each_py (\<lambda>(name, mutator). expect_failure parse_xml write_tree rt name mutator) self_cases
      = each_py (\<lambda>(name, mutator). case mutator rt of Inl e \<Rightarrow> Inl e | Inr t \<Rightarrow> Inr []) self_cases"
    unfolding each_py_def
    by (rule arg_cong[of _ _ "\<lambda>m. bind_py m _"], rule map_py_cong) (auto simp: outcome)
  also have "\<dots> = (if has_counter (lit ''LINE'') p \<and> has_counter (lit ''BRANCH'') p then Inr []
      else Inl Stop_Iteration)"
    by (simp add: self_cases_def g critical_mutant_shape[OF ps] remove_critical_def)
  finally show ?thesis
    using ps by (simp add: run_negative_self_test_def assms(2) mal)
qed

section \<open>Where the verdict is not exact\<close>

lemma find_append_single: "find P (xs @ [x]) = (case find P xs of None \<Rightarrow> if P x then Some x else None | Some y \<Rightarrow> Some y)"
  by (induction xs) auto

text \<open>
  C39: the gate does not fail closed on a broken counter: adding a critical package both of whose
  counters are missing or unreadable to an accepted report leaves the report accepted, with the
  same metrics.
\<close>

theorem unreadable_counter_ignored:
  assumes "validate_report_tree rt = Inr ([], ms)"
    "tag p = lit ''package''" "is_critical_package (attr_or_empty p ''name'')"
    "counter p (lit ''LINE'') = None" "counter p (lit ''BRANCH'') = None"
  shows "validate_report_tree (with_children rt (children rt @ [p])) = Inr ([], ms)"
proof -
  let ?rt = "with_children rt (children rt @ [p])"
  have p: "critical_elem p" using assms(2,3) by (simp add: critical_elem_def)
  have "find (is_counter ct) (children rt @ [p]) = find (is_counter ct) (children rt)" for ct
    using critical_not_counter[OF p] by (simp add: find_append_single split: option.split)
  then have cnt: "counter ?rt ct = counter rt ct" for ct by (simp add: counter_eq)
  have g: "global_step ?rt t = global_step rt t" for t
    by (cases t) (simp add: cnt)
  have crit: "critical_packages ?rt = critical_packages rt @ [p]"
    using p by (simp add: critical_packages_eq)
  have agg: "aggregate_package_counter (critical_packages rt @ [p]) ct
      = aggregate_package_counter (critical_packages rt) ct"
    if "ct \<in> {lit ''LINE'', lit ''BRANCH''}" for ct
    using that assms(4,5) by (auto simp: aggregate_sum counted_def)
  have steps: "map_py (critical_step (critical_packages rt @ [p])) CRITICAL_THRESHOLDS
      = map_py (critical_step (critical_packages rt)) CRITICAL_THRESHOLDS"
    by (rule map_py_cong) (auto simp: CRITICAL_THRESHOLDS_def agg)
  have tag: "tag rt = lit ''report''" and ne: "critical_packages rt \<noteq> []"
    using accepted_parts[OF assms(1)] by simp_all
  obtain gs m where gs: "map_py (global_step rt) GLOBAL_THRESHOLDS = Inr gs" "concat (map fst gs) = []"
    and c: "critical_part (critical_packages rt) = Inr ([], m)"
    and cl: "missing_classes (child_elems (lit ''package'') rt) = []" and ms: "ms = concat (map snd gs) @ m"
    using assms(1) tag by (auto simp: validate_report_tree_def py_ok)
  have "missing_groups (critical_packages rt) = []" using c ne by (auto simp: critical_part_def py_ok)
  then have mg: "missing_groups (critical_packages rt @ [p]) = []"
    by (auto simp: missing_groups_Nil_iff)
  have "critical_part (critical_packages rt @ [p]) = Inr ([], m)"
    using c ne mg by (auto simp: critical_part_def steps py_ok)
  moreover have "missing_classes (child_elems (lit ''package'') ?rt) = []"
    using cl by (auto simp: missing_classes_Nil_iff class_names_def child_elems_def)
  ultimately show ?thesis
    using gs ms tag by (simp add: validate_report_tree_def g[abs_def] crit)
qed

section \<open>Counters of any size\<close>

lemma fl_small:
  assumes "0 \<le> q" "q \<le> 1"
  shows "\<bar>fl q\<bar> < 2 ^ 1024"
proof -
  have "\<bar>fl q - q\<bar> \<le> 1" by (rule order_trans[OF fl_error[OF assms]]) simp
  then have "\<bar>fl q\<bar> \<le> 2 ^ 1" using assms by simp
  also have "(2::rat) ^ 1 < 2 ^ 1024" by (rule power_strict_increasing) simp_all
  finally show ?thesis .
qed

text \<open>The exact quotient, and the counters that count something.\<close>

definition coverage :: "Counter \<Rightarrow> rat" where
  "coverage c = of_int (covered c) / of_int (total c)"

definition natural :: "Counter \<Rightarrow> bool" where
  "natural c \<longleftrightarrow> 0 \<le> missed c \<and> 0 \<le> covered c"

lemma coverage_unit: "natural c \<Longrightarrow> total c \<noteq> 0 \<Longrightarrow> 0 \<le> coverage c \<and> coverage c \<le> 1"
  by (auto simp: coverage_def natural_def total_def)

lemma ratio_natural:
  assumes "natural c" "total c \<noteq> 0"
  shows "ratio c = Inr (fl (coverage c))"
  using fl_small[of "coverage c"] coverage_unit[OF assms] assms(2) by (auto simp: ratio_def coverage_def Let_def)

lemma gate_slack:
  assumes "natural c" "total c \<noteq> 0" "0 \<le> m" "m \<le> 1" "gate scope ct err (fl m) c = Inr ([], ms)"
  shows "m - 1 / 2 ^ 52 \<le> coverage c"
proof -
  have "fl m \<le> fl (coverage c)"
    using assms(5) ratio_natural[OF assms(1,2)] by (auto simp: gate_def flag_Nil_iff)
  moreover have "\<bar>fl m - m\<bar> \<le> 1 / 2 ^ 53" by (rule fl_error[OF assms(3,4)])
  moreover have "\<bar>fl (coverage c) - coverage c\<bar> \<le> 1 / 2 ^ 53"
    by (rule fl_error) (use coverage_unit[OF assms(1,2)] in simp_all)
  moreover have "(1::rat) / 2 ^ 52 = 1 / 2 ^ 53 + 1 / 2 ^ 53" by simp
  ultimately show ?thesis by linarith
qed

lemma aggregate_natural:
  assumes "\<forall>p \<in> set ps. \<forall>c. counter p ct = Some c \<longrightarrow> natural c"
  shows "natural (aggregate_package_counter ps ct)"
proof -
  have "0 \<le> counted missed ct p \<and> 0 \<le> counted covered ct p" if "p \<in> set ps" for p
    using assms that by (auto simp: counted_def natural_def split: option.splits)
  then show ?thesis by (auto simp: aggregate_sum natural_def intro!: sum_list_nonneg)
qed

text \<open>
  C40: an accepted report covers what the gate demands up to one rounding error, however large its
  counters: the exact quotients of the global counters are at least 4/5 of the lines and 7/10 of the
  branches, and those of the sums over the critical packages at least 3/4 and 13/20, each less a
  slack of \<open>2 ^ -52\<close>, the rounding of the quotient and of the threshold.
\<close>

theorem accepted_coverage_bound:
  assumes "validate_report_tree rt = Inr ([], ms)"
    and "\<forall>p \<in> set (rt # critical_packages rt). \<forall>ct c. counter p ct = Some c \<longrightarrow> natural c"
  shows "(\<exists>l b. counter rt (lit ''LINE'') = Some l \<and> total l > 0 \<and> 4 / 5 - 1 / 2 ^ 52 \<le> coverage l
        \<and> counter rt (lit ''BRANCH'') = Some b \<and> total b > 0 \<and> 7 / 10 - 1 / 2 ^ 52 \<le> coverage b)
    \<and> (\<exists>l b. aggregate_package_counter (critical_packages rt) (lit ''LINE'') = l
        \<and> total l > 0 \<and> 3 / 4 - 1 / 2 ^ 52 \<le> coverage l
        \<and> aggregate_package_counter (critical_packages rt) (lit ''BRANCH'') = b
        \<and> total b > 0 \<and> 13 / 20 - 1 / 2 ^ 52 \<le> coverage b)"
proof -
  have pos: "total c > 0" if "natural c" "total c \<noteq> 0" for c
    using that by (auto simp: natural_def total_def)
  have g: "\<exists>c. counter rt ct = Some c \<and> total c > 0 \<and> m - 1 / 2 ^ 52 \<le> coverage c"
    if thr: "(ct, fl m) \<in> set GLOBAL_THRESHOLDS" and m: "0 \<le> m" "m \<le> 1" for ct m
  proof -
    obtain n where "global_step rt (ct, fl m) = Inr ([], n)" 
      using bspec[OF accepted_parts(2)[OF assms(1)] thr] by (elim exE)
    then obtain c where c: "counter rt ct = Some c" "total c \<noteq> 0"
      and "gate (lit ''GLOBAL_'') ct (\<lambda>r. Global_Below ct r (fl m)) (fl m) c = Inr ([], n)"
      by (auto split: option.splits if_splits)
    moreover have "natural c" using assms(2) c(1) by simp
    ultimately show ?thesis using gate_slack[OF _ c(2) m] pos by blast
  qed
  have cr: "total (aggregate_package_counter (critical_packages rt) ct) > 0
      \<and> m - 1 / 2 ^ 52 \<le> coverage (aggregate_package_counter (critical_packages rt) ct)"
    if thr: "(ct, fl m) \<in> set CRITICAL_THRESHOLDS" and m: "0 \<le> m" "m \<le> 1" for ct m
  proof -
    let ?c = "aggregate_package_counter (critical_packages rt) ct"
    obtain n where "critical_step (critical_packages rt) (ct, fl m) = Inr ([], n)"
      using bspec[OF accepted_parts(4)[OF assms(1)] thr] by (elim exE)
    then have "total ?c \<noteq> 0" "gate (lit ''CRITICAL_'') ct (\<lambda>r. Critical_Below ct r (fl m)) (fl m) ?c = Inr ([], n)"
      by (auto simp: Let_def split: if_splits)
    moreover have "natural ?c" using assms(2) by (intro aggregate_natural) simp
    ultimately show ?thesis using gate_slack[OF _ _ m] pos by blast
  qed
  show ?thesis
    using g[of "lit ''LINE''" "4 / 5"] g[of "lit ''BRANCH''" "7 / 10"] cr[of "lit ''LINE''" "3 / 4"]
      cr[of "lit ''BRANCH''" "13 / 20"] by (simp add: global_thresholds_exact)
qed

text \<open>The slack is real: the first quotients below 4/5 are rounded to the threshold itself.\<close>

lemma exponent2_eq:
  assumes "0 < q" "2 powi k \<le> q" "q < 2 powi (k + 1)"
  shows "exponent2 q = k"
proof -
  have "(2::rat) powi exponent2 q < 2 powi (k + 1)" "(2::rat) powi k < 2 powi (exponent2 q + 1)"
    using exponent2_bounds[OF assms(1)] assms(2,3) by linarith+
  moreover have "(2::rat) powi i \<le> 2 powi j" if "i \<le> j" for i j using that by (intro power_int_increasing) auto
  ultimately have "\<not> k + 1 \<le> exponent2 q" "\<not> exponent2 q + 1 \<le> k" by (meson not_less)+
  then show ?thesis by simp
qed

lemma fl_upper_half:
  assumes "1 / 2 \<le> q" "q < 1"
  shows "fl q = of_int (round_half_even (q * 2 ^ 53)) / 2 ^ 53"
proof -
  have e: "exponent2 q = - 1" using assms by (intro exponent2_eq) (simp_all add: power_int_def)
  have "(2::rat) powi (- 53) = 1 / 2 ^ 53" by (simp add: power_int_def power_one_over)
  then show ?thesis using assms by (simp add: fl_def e Let_def)
qed

theorem ratio_not_exact:
  assumes "2 ^ 54 \<le> n" "missed c = n + 1" "covered c = 4 * n - 1"
  shows "coverage c < 4 / 5 \<and> gate scope ct err (fl (4 / 5)) c = Inr ([], [(scope @ ct, c)])"
proof -
  let ?f = "7205759403792793 :: int" and ?n = "of_int n :: rat"
  have n: "(2::rat) ^ 54 \<le> ?n" using assms(1) by (metis of_int_le_iff of_int_numeral of_int_power)
  have t: "total c = 5 * n" using assms(2,3) by (simp add: total_def)
  define x where "x = 1 / ?n"
  have x: "0 < x" "x \<le> 1 / 2 ^ 54" using n by (simp_all add: x_def field_simps)
  have "?n \<noteq> 0" using n by auto
  then have q: "coverage c = 4 / 5 - x / 5" by (simp add: coverage_def t assms(3) x_def field_simps)
  have f: "of_int ?f + 1 / 2 \<le> coverage c * 2 ^ 53" "coverage c * 2 ^ 53 < of_int ?f + 1"
    using x by (simp_all add: q)
  then have "\<lfloor>coverage c * 2 ^ 53\<rfloor> = ?f" by (simp add: floor_eq_iff)
  then have "round_half_even (coverage c * 2 ^ 53) = ?f + 1"
    using f(1) by (simp only: round_half_even_def Let_def) simp
  moreover have "round_half_even (4 / 5 * 2 ^ 53) = ?f + 1" by code_simp
  moreover have "1 / 2 \<le> coverage c" "coverage c < 1" using x by (simp_all add: q)
  ultimately have "fl (coverage c) = fl (4 / 5)" by (simp add: fl_upper_half del: power_numeral)
  moreover have "natural c" "total c \<noteq> 0" using assms by (auto simp: natural_def t)
  ultimately show ?thesis using x(1) by (simp add: gate_def ratio_natural q)
qed

end
