(* ===== verification/Jacoco_Contract.thy ===== *)
theory Jacoco_Contract
  imports Jacoco_Report
begin

text \<open>
  \<open>scripts/check_emp008.py\<close>, the static half and the run: the JaCoCo configuration of
  \<open>pom.xml\<close>, the tracked and ignored build artifacts, and \<open>main\<close>, which combines them with the
  validation of a report and its self-test into an exit code.
\<close>

section \<open>Reading the POM\<close>

definition POM :: path where
  "POM = rel ''pom.xml''"

definition elem_text :: "elem \<Rightarrow> string list \<Rightarrow> pystr option" where
  "elem_text e path =
     (case find_path (map mvn path) e of
        None \<Rightarrow> None
      | Some node \<Rightarrow>
          (case etext node of
             None \<Rightarrow> None
           | Some t \<Rightarrow> if t = [] then None else Some (py_strip t)))"

definition execution :: "elem \<Rightarrow> pystr \<Rightarrow> elem option" where
  "execution plugin execution_id =
     find (\<lambda>item. elem_text item [''id''] = Some execution_id)
       (findall_path (map mvn [''executions'', ''execution'']) plugin)"

definition has_text :: "elem option \<Rightarrow> string list \<Rightarrow> string \<Rightarrow> bool" where
  "has_text e path s = (case e of None \<Rightarrow> False | Some x \<Rightarrow> elem_text x path = Some (lit s))"

datatype static_error =
    Version_Not_Pinned
  | No_Jacoco_Plugin
  | Plugin_Version
  | Exclusions
  | No_Prepare_Agent
  | Prepare_Not_Appending
  | Report_Not_Verify
  | Missing_Check pystr
  | Not_Bundle pystr
  | Wrong_Limits pystr
  | Wrong_Includes pystr
  | Forbids_Pit
  | Forbidden_Prompt
  | Target_Tracked
  | Target_Not_Ignored

definition prepare_errors :: "elem \<Rightarrow> static_error list" where
  "prepare_errors jacoco =
     (let prepare = execution jacoco (lit ''jacoco-prepare-agent'')
      in if \<not> has_text prepare [''goals'', ''goal''] ''prepare-agent'' then [No_Prepare_Agent]
         else flag (\<not> has_text prepare [''configuration'', ''destFile'']
                      ''${project.build.directory}/jacoco.exec''
                    \<or> \<not> has_text prepare [''configuration'', ''append''] ''true'')
                Prepare_Not_Appending)"

definition report_errors :: "elem \<Rightarrow> static_error list" where
  "report_errors jacoco =
     (let report = execution jacoco (lit ''jacoco-report'')
      in flag (\<not> has_text report [''phase''] ''verify'' \<or> \<not> has_text report [''goals'', ''goal''] ''report'')
           Report_Not_Verify)"

text \<open>The dictionary of limits: a later limit of the same counter and value wins.\<close>

definition limit_minimum :: "elem \<Rightarrow> string \<Rightarrow> pystr option" where
  "limit_minimum check counter_name =
     (case map_of (rev (map (\<lambda>limit. ((elem_text limit [''counter''], elem_text limit [''value'']),
                elem_text limit [''minimum'']))
              (findall_path (map mvn [''configuration'', ''rules'', ''rule'', ''limits'', ''limit'']) check)))
            (Some (lit counter_name), Some (lit ''COVEREDRATIO'')) of
        None \<Rightarrow> None
      | Some m \<Rightarrow> m)"

definition actual_includes :: "elem \<Rightarrow> pystr list" where
  "actual_includes check =
     concat (map (\<lambda>node. case etext node of
                    None \<Rightarrow> [] | Some t \<Rightarrow> if t = [] then [] else [py_strip t])
       (findall_path (map mvn [''configuration'', ''includes'', ''include'']) check))"

definition expected :: "(string \<times> string \<times> string \<times> pystr list) list" where
  "expected = [(''jacoco-check-global'', ''0.80'', ''0.70'', []),
               (''jacoco-check-critical'', ''0.75'', ''0.65'', CRITICAL_PATTERNS)]"

fun check_errors :: "elem \<Rightarrow> string \<times> string \<times> string \<times> pystr list \<Rightarrow> static_error list" where
  "check_errors jacoco (execution_id, line, branch, includes) =
     (case execution jacoco (lit execution_id) of
        None \<Rightarrow> [Missing_Check (lit execution_id)]
      | Some check \<Rightarrow>
          if elem_text check [''phase''] \<noteq> Some (lit ''verify'')
             \<or> elem_text check [''goals'', ''goal''] \<noteq> Some (lit ''check'')
          then [Missing_Check (lit execution_id)]
          else flag (elem_text check [''configuration'', ''rules'', ''rule'', ''element''] \<noteq> Some (lit ''BUNDLE''))
                 (Not_Bundle (lit execution_id))
             @ flag (limit_minimum check ''LINE'' \<noteq> Some (lit line)
                     \<or> limit_minimum check ''BRANCH'' \<noteq> Some (lit branch)) (Wrong_Limits (lit execution_id))
             @ flag (actual_includes check \<noteq> includes) (Wrong_Includes (lit execution_id)))"

definition jacoco_plugin :: "elem \<Rightarrow> elem option" where
  "jacoco_plugin rt =
     find (\<lambda>p. elem_text p [''groupId''] = Some (lit ''org.jacoco'')
             \<and> elem_text p [''artifactId''] = Some (lit ''jacoco-maven-plugin''))
       (findall_path (map mvn [''build'', ''plugins'', ''plugin'']) rt)"

definition plugin_errors :: "elem \<Rightarrow> static_error list" where
  "plugin_errors jacoco =
     flag (elem_text jacoco [''version''] \<noteq> Some (lit ''${jacoco-maven-plugin.version}'')) Plugin_Version
     @ flag (filter (\<lambda>e. tag e = mvn ''excludes'') (descendants jacoco) \<noteq> []) Exclusions
     @ prepare_errors jacoco
     @ report_errors jacoco
     @ concat (map (check_errors jacoco) expected)"

definition pom_errors :: "elem \<Rightarrow> static_error list" where
  "pom_errors rt =
     flag (\<not> has_text (find_path [mvn ''properties''] rt) [''jacoco-maven-plugin.version''] ''0.8.15'')
       Version_Not_Pinned
     @ (case jacoco_plugin rt of None \<Rightarrow> [No_Jacoco_Plugin] | Some jacoco \<Rightarrow> plugin_errors jacoco)"

section \<open>The static contract\<close>

definition tracked_target :: "git \<Rightarrow> fs \<Rightarrow> pyexc + static_error list" where
  "tracked_target git fs =
     (if path_exists fs (rel ''.git'')
      then (case git [lit ''git'', lit ''ls-files''] of
              None \<Rightarrow> Inl Called_Process_Error
            | Some out \<Rightarrow>
                (case decode_text out of
                   None \<Rightarrow> Inl (Unicode_Decode_Error root_dir)
                 | Some t \<Rightarrow>
                     Inr (flag (list_ex (prefix (lit ''target/'')) (splitlines t)) Target_Tracked)))
      else Inr [])"

definition ignored_target :: "fs \<Rightarrow> pyexc + static_error list" where
  "ignored_target fs =
     bind_py (if path_exists fs (rel ''.gitignore'') then read_text fs (rel ''.gitignore'') else Inr [])
       (\<lambda>gitignore.
          Inr (flag (\<not> list_ex (\<lambda>line. rstrip_by (\<lambda>c. c = 47) (py_strip line) = lit ''target'')
                 (splitlines gitignore)) Target_Not_Ignored))"

definition static_contract_errors ::
    "(bytes \<Rightarrow> elem option) \<Rightarrow> git \<Rightarrow> fs \<Rightarrow> pyexc + static_error list" where
  "static_contract_errors parse_xml git fs =
     bind_py (read_bytes fs POM) (\<lambda>data.
       case parse_xml data of
         None \<Rightarrow> Inl Xml_Parse_Error
       | Some rt \<Rightarrow>
           seqs_py
             [Inr (pom_errors rt),
              bind_py (read_text fs POM) (\<lambda>t.
                Inr (flag (contains (lit ''pitest'') (lower_ascii t)) Forbids_Pit)),
              Inr (flag (rglob (\<lambda>n. n = lit ''CODEX_PROMPT.md'') fs \<noteq> []) Forbidden_Prompt),
              tracked_target git fs,
              ignored_target fs])"

section \<open>The run\<close>

record gate_args =
  arg_report :: "path option"
  arg_self_test :: bool

datatype gate_error =
    Static static_error
  | Self_Test_Needs_Report
  | Measured report_error
  | Self_Test self_error

definition report_file :: "fs \<Rightarrow> path \<Rightarrow> bytes option" where
  "report_file fs p = (case read_bytes fs p of Inl e \<Rightarrow> None | Inr b \<Rightarrow> Some b)"

definition measured_errors ::
    "(bytes \<Rightarrow> elem option) \<Rightarrow> (elem \<Rightarrow> bytes) \<Rightarrow> fs \<Rightarrow> gate_args \<Rightarrow> pyexc + gate_error list \<times> metrics" where
  "measured_errors parse_xml write_tree fs args =
     (case arg_report args of
        None \<Rightarrow> Inr ([], [])
      | Some p \<Rightarrow>
          bind_py (validate_report parse_xml (report_file fs p)) (\<lambda>(errors, metrics).
          bind_py
            (if errors = [] \<and> arg_self_test args
             then bind_py (read_bytes fs p) (run_negative_self_test parse_xml write_tree)
             else Inr []) (\<lambda>failures.
          Inr (map Measured errors @ map Self_Test failures, metrics))))"

text \<open>The exit code, the messages on the error stream, and the metrics printed on success.\<close>

definition gate_main ::
    "(bytes \<Rightarrow> elem option) \<Rightarrow> (elem \<Rightarrow> bytes) \<Rightarrow> git \<Rightarrow> fs \<Rightarrow> gate_args
       \<Rightarrow> pyexc + nat \<times> gate_error list \<times> (pystr \<times> int \<times> int \<times> rat) list" where
  "gate_main parse_xml write_tree git fs args =
     bind_py (static_contract_errors parse_xml git fs) (\<lambda>static.
     bind_py (measured_errors parse_xml write_tree fs args) (\<lambda>(measured, metrics).
     let errors = map Static static
           @ flag (arg_self_test args \<and> arg_report args = None) Self_Test_Needs_Report @ measured
     in if errors \<noteq> [] then Inr (1, errors, [])
        else bind_py (if arg_report args = None then Inr [] else print_metrics metrics)
               (\<lambda>printed. Inr (0, [], printed))))"

section \<open>Properties\<close>

lemma static_contract_Nil:
  "static_contract_errors parse_xml git fs = Inr [] \<longleftrightarrow>
    (\<exists>data rt t. read_bytes fs POM = Inr data \<and> parse_xml data = Some rt \<and> pom_errors rt = []
       \<and> read_text fs POM = Inr t \<and> \<not> contains (lit ''pitest'') (lower_ascii t)
       \<and> rglob (\<lambda>n. n = lit ''CODEX_PROMPT.md'') fs = []
       \<and> tracked_target git fs = Inr [] \<and> ignored_target fs = Inr [])"
  by (auto simp: static_contract_errors_def py_ok split: option.splits)

lemma pom_errors_Nil:
  assumes "pom_errors rt = []"
  shows "\<exists>jacoco. jacoco_plugin rt = Some jacoco \<and> filter (\<lambda>e. tag e = mvn ''excludes'') (descendants jacoco) = []
    \<and> (\<forall>x \<in> set expected. check_errors jacoco x = [])"
  using assms by (auto simp: pom_errors_def plugin_errors_def split: option.splits)

lemma check_errors_Nil:
  assumes "check_errors jacoco (execution_id, line, branch, includes) = []"
  shows "\<exists>check. execution jacoco (lit execution_id) = Some check
    \<and> elem_text check [''phase''] = Some (lit ''verify'')
    \<and> limit_minimum check ''LINE'' = Some (lit line) \<and> limit_minimum check ''BRANCH'' = Some (lit branch)
    \<and> actual_includes check = includes"
  using assms by (auto split: option.splits if_splits)

text \<open>The value of a decimal numeral below one, such as the minimum of a Maven rule.\<close>

definition decimal_value :: "pystr \<Rightarrow> rat" where
  "decimal_value s = of_nat (foldl (\<lambda>n c. 10 * n + (c - 48)) 0 (drop 2 s)) / 10 ^ (length s - 2)"

lemma decimal_values:
  "decimal_value (lit ''0.80'') = 4 / 5" "decimal_value (lit ''0.70'') = 7 / 10"
  "decimal_value (lit ''0.75'') = 3 / 4" "decimal_value (lit ''0.65'') = 13 / 20"
  by (simp_all add: decimal_value_def lit_def)

text \<open>
  C13: the two coverage gates agree. When the static contract holds, the JaCoCo plugin of the POM
  excludes nothing and runs two checks during \<open>verify\<close> whose minimum ratios, rounded to a double,
  are the thresholds that \<open>validate_report_tree\<close> compares with; the critical check includes the
  critical patterns and the global check everything.
\<close>

theorem gates_agree:
  assumes "static_contract_errors parse_xml git fs = Inr []"
  shows "\<exists>data rt jacoco all critical. read_bytes fs POM = Inr data \<and> parse_xml data = Some rt
    \<and> jacoco_plugin rt = Some jacoco
    \<and> filter (\<lambda>e. tag e = mvn ''excludes'') (descendants jacoco) = []
    \<and> execution jacoco (lit ''jacoco-check-global'') = Some all
    \<and> execution jacoco (lit ''jacoco-check-critical'') = Some critical
    \<and> elem_text all [''phase''] = Some (lit ''verify'')
    \<and> elem_text critical [''phase''] = Some (lit ''verify'')
    \<and> map (\<lambda>ct. map_option (fl \<circ> decimal_value) (limit_minimum all ct)) [''LINE'', ''BRANCH'']
        = map (\<lambda>ct. map_of GLOBAL_THRESHOLDS (lit ct)) [''LINE'', ''BRANCH'']
    \<and> map (\<lambda>ct. map_option (fl \<circ> decimal_value) (limit_minimum critical ct)) [''LINE'', ''BRANCH'']
        = map (\<lambda>ct. map_of CRITICAL_THRESHOLDS (lit ct)) [''LINE'', ''BRANCH'']
    \<and> actual_includes all = [] \<and> actual_includes critical = CRITICAL_PATTERNS"
proof -
  obtain data rt where d: "read_bytes fs POM = Inr data" "parse_xml data = Some rt" "pom_errors rt = []"
    using assms by (auto simp: static_contract_Nil)
  obtain jacoco where j: "jacoco_plugin rt = Some jacoco"
    "filter (\<lambda>e. tag e = mvn ''excludes'') (descendants jacoco) = []"
    "\<forall>x \<in> set expected. check_errors jacoco x = []"
    using pom_errors_Nil[OF d(3)] by blast
  have "check_errors jacoco (''jacoco-check-global'', ''0.80'', ''0.70'', []) = []"
    "check_errors jacoco (''jacoco-check-critical'', ''0.75'', ''0.65'', CRITICAL_PATTERNS) = []"
    using j(3) by (auto simp: expected_def simp del: check_errors.simps)
  then obtain a c where
    "execution jacoco (lit ''jacoco-check-global'') = Some a" "elem_text a [''phase''] = Some (lit ''verify'')"
    "limit_minimum a ''LINE'' = Some (lit ''0.80'')" "limit_minimum a ''BRANCH'' = Some (lit ''0.70'')"
    "actual_includes a = []"
    "execution jacoco (lit ''jacoco-check-critical'') = Some c" "elem_text c [''phase''] = Some (lit ''verify'')"
    "limit_minimum c ''LINE'' = Some (lit ''0.75'')" "limit_minimum c ''BRANCH'' = Some (lit ''0.65'')"
    "actual_includes c = CRITICAL_PATTERNS"
    using check_errors_Nil by metis
  then show ?thesis
    using d j(1,2)
    by (intro exI[of _ data] exI[of _ rt] exI[of _ jacoco] exI[of _ a] exI[of _ c])
      (simp add: decimal_values GLOBAL_THRESHOLDS_def CRITICAL_THRESHOLDS_def)
qed

lemma gate_main_zero:
  "gate_main parse_xml write_tree git fs args = Inr (0, es, printed) \<longleftrightarrow>
     static_contract_errors parse_xml git fs = Inr [] \<and> es = []
   \<and> \<not> (arg_self_test args \<and> arg_report args = None)
   \<and> (\<exists>ms. measured_errors parse_xml write_tree fs args = Inr ([], ms)
        \<and> (if arg_report args = None then Inr [] else print_metrics ms) = Inr printed)"
proof -
  have fin: "(let errors = map Static st @ flag u Self_Test_Needs_Report @ m
      in if errors \<noteq> [] then Inr (1::nat, errors, []) else bind_py pr (\<lambda>printed. Inr (0, [], printed)))
    = Inr (0, es, printed) \<longleftrightarrow> st = [] \<and> \<not> u \<and> m = [] \<and> es = [] \<and> pr = Inr printed"
    for st u m and pr :: "pyexc + (pystr \<times> int \<times> int \<times> rat) list"
    by (cases pr) (auto simp: Let_def flag_def)
  show ?thesis unfolding gate_main_def py_ok by (auto simp: fin py_ok)
qed

text \<open>
  C12: the run exits with zero exactly when the static contract holds, a requested self-test has
  a report to work on, and the given report is accepted, its self-test finds no failure, and its
  metrics can be printed; every other run that ends normally exits with one and a message.
\<close>

theorem gate_exit_zero_iff:
  "(\<exists>es printed. gate_main parse_xml write_tree git fs args = Inr (0, es, printed)) \<longleftrightarrow>
     static_contract_errors parse_xml git fs = Inr []
   \<and> (case arg_report args of
        None \<Rightarrow> \<not> arg_self_test args
      | Some p \<Rightarrow>
          (\<exists>data ms printed. read_bytes fs p = Inr data
             \<and> validate_report parse_xml (Some data) = Inr ([], ms)
             \<and> (if arg_self_test args then run_negative_self_test parse_xml write_tree data = Inr [] else True)
             \<and> print_metrics ms = Inr printed))"
proof (cases "arg_report args")
  case None
  then show ?thesis
    by (cases "static_contract_errors parse_xml git fs")
      (auto simp: gate_main_zero measured_errors_def)
next
  case (Some p)
  show ?thesis
  proof (cases "read_bytes fs p")
    case (Inl e)
    then show ?thesis using Some
      by (cases "static_contract_errors parse_xml git fs")
        (auto simp: gate_main_zero measured_errors_def report_file_def validate_report_def)
  next
    case (Inr data)
    have "measured_errors parse_xml write_tree fs args = Inr ([], ms) \<longleftrightarrow>
        validate_report parse_xml (Some data) = Inr ([], ms)
        \<and> (if arg_self_test args then run_negative_self_test parse_xml write_tree data = Inr [] else True)" for ms
      using Some Inr by (auto simp: measured_errors_def report_file_def py_ok)
    then show ?thesis unfolding gate_main_zero using Some Inr by auto
  qed
qed

end
