(* ===== verification/Jacoco_Examples.thy ===== *)
theory Jacoco_Examples
  imports Jacoco_Contract
begin

text \<open>
  A small JaCoCo report and a small POM on which the properties of the coverage gate are applied.
\<close>

section \<open>A report\<close>

definition demo_counter :: "string \<Rightarrow> nat \<Rightarrow> nat \<Rightarrow> elem" where
  "demo_counter ct m c = Elem (lit ''counter'')
     [(lit ''type'', lit ct), (lit ''missed'', nat_str m), (lit ''covered'', nat_str c)] None []"

definition demo_package :: "string \<Rightarrow> string list \<Rightarrow> elem list \<Rightarrow> elem" where
  "demo_package name classes counters = Elem (lit ''package'') [(lit ''name'', lit name)] None
     (map (\<lambda>c. Elem (lit ''class'') [(lit ''name'', lit c)] None []) classes @ counters)"

definition demo_packages :: "elem list" where
  "demo_packages =
     [demo_package ''pl/radoslawpiatek/couponservice/coupon/domain'' []
        [demo_counter ''LINE'' 10 90, demo_counter ''BRANCH'' 20 80],
      demo_package ''pl/radoslawpiatek/couponservice/coupon/application''
        [''pl/radoslawpiatek/couponservice/coupon/application/TransactionalCouponRedemptionService'']
        [demo_counter ''LINE'' 1 9],
      demo_package ''pl/radoslawpiatek/couponservice/coupon/adapters/persistence''
        [''pl/radoslawpiatek/couponservice/coupon/adapters/persistence/JdbcCouponRedemptionRepository''] [],
      demo_package ''pl/radoslawpiatek/couponservice/geolocation/domain'' [] [],
      demo_package ''pl/radoslawpiatek/couponservice/geolocation/adapters''
        [''pl/radoslawpiatek/couponservice/geolocation/adapters/ServletClientIpResolver''] []]"

definition demo_report :: elem where
  "demo_report = Elem (lit ''report'') [] None
     (demo_packages @ [demo_counter ''LINE'' 11 99, demo_counter ''BRANCH'' 20 80])"

lemma demo_counter_simps [simp]:
  "is_counter ct (demo_counter t m c) \<longleftrightarrow> lit t = ct"
  "tag (demo_counter t m c) = lit ''counter''"
  "attr_or_empty (demo_counter t m c) ''missed'' = nat_str m"
  "attr_or_empty (demo_counter t m c) ''covered'' = nat_str c"
  by (simp_all add: is_counter_def demo_counter_def attr_def attr_or_empty_def)

lemma demo_package_simps [simp]:
  "\<not> is_counter ct (demo_package n cl cs)"
  "tag (demo_package n cl cs) = lit ''package''"
  "attr_or_empty (demo_package n cl cs) ''name'' = lit n"
  by (simp_all add: is_counter_def demo_package_def attr_def attr_or_empty_def)

lemma find_counter_package:
  "find (is_counter ct) (children (demo_package n cl cs)) = find (is_counter ct) cs"
proof -
  have "find (is_counter ct) (map (\<lambda>c. Elem (lit ''class'') (f c) None []) cl @ cs)
      = find (is_counter ct) cs" for f
    by (induction cl) (auto simp: is_counter_def)
  then show ?thesis by (simp add: demo_package_def)
qed

lemma counter_package:
  "counter (demo_package n cl cs) ct =
     (case find (is_counter ct) cs of None \<Rightarrow> None | Some i \<Rightarrow>
       (case (py_int (attr_or_empty i ''missed''), py_int (attr_or_empty i ''covered'')) of
          (Some m, Some c) \<Rightarrow> Some \<lparr>missed = m, covered = c\<rparr> | _ \<Rightarrow> None))"
  by (simp add: counter_eq find_counter_package)

lemma demo_global:
  "counter demo_report ct = (if ct = lit ''LINE'' then Some \<lparr>missed = 11, covered = 99\<rparr>
     else if ct = lit ''BRANCH'' then Some \<lparr>missed = 20, covered = 80\<rparr> else None)"
  by (auto simp: counter_eq demo_report_def demo_packages_def py_int_nat_str)

lemma lit_append: "lit (s @ t) = lit s @ lit t"
  by (simp add: lit_def)

lemma prefix_lit: "prefix (lit s) (lit t) \<longleftrightarrow> prefix s t"
proof
  assume "prefix (lit s) (lit t)"
  then have "lit s = take (length s) (lit t)" by (auto simp: prefix_def)
  then have "lit s = lit (take (length s) t)" by (simp add: lit_def take_map)
  then show "prefix s t" by (metis lit_eq_iff take_is_prefix)
qed (auto simp: prefix_def lit_append)

lemma in_group_lit: "in_group (lit n) (lit p) \<longleftrightarrow> n = p \<or> prefix (p @ ''/'') n"
  by (simp add: in_group_def prefix_lit flip: lit_append)

lemma critical_lit:
  "is_critical_package (lit n) \<longleftrightarrow> list_ex (\<lambda>p. n = p \<or> prefix (p @ ''/'') n)
     [''pl/radoslawpiatek/couponservice/coupon/domain'',
      ''pl/radoslawpiatek/couponservice/coupon/application'',
      ''pl/radoslawpiatek/couponservice/coupon/adapters/persistence'',
      ''pl/radoslawpiatek/couponservice/geolocation/domain'',
      ''pl/radoslawpiatek/couponservice/geolocation/adapters'']"
  unfolding is_critical_package_def prefixes_eq list_ex_lit in_group_lit ..

lemma demo_critical: "critical_packages demo_report = demo_packages"
  by (simp add: critical_packages_def child_elems_def demo_report_def demo_packages_def critical_lit)

lemma demo_aggregate:
  "aggregate_package_counter demo_packages ct =
     (if ct = lit ''LINE'' then \<lparr>missed = 11, covered = 99\<rparr>
      else if ct = lit ''BRANCH'' then \<lparr>missed = 20, covered = 80\<rparr> else \<lparr>missed = 0, covered = 0\<rparr>)"
  by (auto simp: aggregate_sum demo_packages_def counted_def counter_package py_int_nat_str)

lemma demo_plausible:
  "\<forall>ct c. counter demo_report ct = Some c \<longrightarrow> plausible c"
  "\<forall>ct. plausible (aggregate_package_counter (critical_packages demo_report) ct)"
  by (auto simp: demo_global demo_critical demo_aggregate plausible_def total_def split: if_splits)

lemma demo_accepted: "\<exists>ms. validate_report_tree demo_report = Inr ([], ms)"
proof -
  have "missing_groups demo_packages = []"
    by (simp add: missing_groups_Nil_iff prefixes_eq demo_packages_def in_group_lit)
  moreover have "missing_classes (child_elems (lit ''package'') demo_report) = []"
    by (simp add: missing_classes_Nil_iff required_classes_def class_names_def child_elems_def
        demo_report_def demo_packages_def demo_package_def demo_counter_def attr_or_empty_def attr_def)
  moreover have "tag demo_report = lit ''report''" by (simp add: demo_report_def)
  ultimately show ?thesis
    using validate_report_tree_plausible[of demo_report] demo_plausible
    by (auto simp: demo_global demo_critical demo_aggregate meets_def total_def)
qed

section \<open>The self-test on the report\<close>

text \<open>A store of documents: each is written as a numeral in unary.\<close>

definition demo_documents :: "elem list" where
  "demo_documents = demo_report
     # concat (map (\<lambda>(name, mutator). case mutator demo_report of Inl e \<Rightarrow> [] | Inr t \<Rightarrow> [t]) self_cases)"

definition demo_write :: "elem \<Rightarrow> bytes" where
  "demo_write t = replicate (Suc (length (takeWhile (\<lambda>u. u \<noteq> t) demo_documents))) CHR ''x''"

definition demo_parse :: "bytes \<Rightarrow> elem option" where
  "demo_parse b =
     (if b \<noteq> [] \<and> list_all (\<lambda>c. c = CHR ''x'') b \<and> length b \<le> length demo_documents
      then Some (demo_documents ! (length b - 1)) else None)"

lemma demo_parse_write: "t \<in> set demo_documents \<Longrightarrow> demo_parse (demo_write t) = Some t"
proof -
  assume t: "t \<in> set demo_documents"
  then obtain ys zs where d: "demo_documents = ys @ t # zs" "t \<notin> set ys" by (meson split_list_first)
  then have "takeWhile (\<lambda>u. u \<noteq> t) demo_documents = ys"
    using takeWhile_append_stop[of ys "\<lambda>u. u \<noteq> t" t zs] by auto
  moreover have "demo_documents ! length ys = t" "Suc (length ys) \<le> length demo_documents"
    unfolding d(1) by simp_all
  ultimately show ?thesis by (simp add: demo_parse_def demo_write_def list_all_iff)
qed

lemma demo_validated: "\<exists>ms. validate_report demo_parse (Some (demo_write demo_report)) = Inr ([], ms)"
  using demo_accepted demo_parse_write[of demo_report]
  by (auto simp: validate_report_def demo_documents_def demo_write_def)

lemma demo_first_counters:
  "has_counter (lit t) (demo_package n cl [demo_counter ''LINE'' a b, demo_counter ''BRANCH'' c d])
     \<longleftrightarrow> t \<in> {''LINE'', ''BRANCH''}"
  unfolding has_counter_find find_counter_package by auto

lemma self_test_outcome_witness:
  "run_negative_self_test demo_parse demo_write (demo_write demo_report) = Inr []"
proof -
  obtain ms where ms: "validate_report demo_parse (Some (demo_write demo_report)) = Inr ([], ms)"
    using demo_validated by blast
  have doc: "demo_parse (demo_write demo_report) = Some demo_report"
    by (rule demo_parse_write) (simp add: demo_documents_def)
  have "\<forall>(name, mutator) \<in> set self_cases. \<forall>t. mutator demo_report = Inr t \<longrightarrow>
      demo_parse (demo_write t) = Some t"
    by (force simp: demo_documents_def intro!: demo_parse_write)
  moreover have "demo_parse ''<report>'' = None" by (simp add: demo_parse_def)
  ultimately have "\<exists>p ps. critical_packages demo_report = p # ps \<and>
    run_negative_self_test demo_parse demo_write (demo_write demo_report) =
      (if has_counter (lit ''LINE'') p \<and> has_counter (lit ''BRANCH'') p then Inr [] else Inl Stop_Iteration)"
    by (rule self_test_outcome[OF ms doc])
  then obtain p ps where "critical_packages demo_report = p # ps"
    "run_negative_self_test demo_parse demo_write (demo_write demo_report) =
      (if has_counter (lit ''LINE'') p \<and> has_counter (lit ''BRANCH'') p then Inr [] else Inl Stop_Iteration)"
    by blast
  moreover from this have "p = hd demo_packages" using demo_critical by (metis list.sel(1))
  ultimately show ?thesis by (simp add: demo_packages_def demo_first_counters)
qed

lemma report_accepted_iff_witness: "\<exists>ms. validate_report_tree demo_report = Inr ([], ms)"
  unfolding report_accepted_iff[OF demo_plausible]
proof (intro conjI)
  show "\<exists>l b. counter demo_report (lit ''LINE'') = Some l \<and> 0 < total l \<and> 4 * total l \<le> 5 * covered l
      \<and> counter demo_report (lit ''BRANCH'') = Some b \<and> 0 < total b \<and> 7 * total b \<le> 10 * covered b"
    by (simp add: demo_global total_def)
  show "\<exists>l b. aggregate_package_counter (critical_packages demo_report) (lit ''LINE'') = l
      \<and> 0 < total l \<and> 3 * total l \<le> 4 * covered l
      \<and> aggregate_package_counter (critical_packages demo_report) (lit ''BRANCH'') = b
      \<and> 0 < total b \<and> 13 * total b \<le> 20 * covered b"
    by (simp add: demo_critical demo_aggregate total_def)
  show "\<forall>pre \<in> set CRITICAL_PREFIXES. \<exists>p \<in> set (critical_packages demo_report).
      in_group (attr_or_empty p ''name'') pre"
    by (simp add: demo_critical prefixes_eq demo_packages_def in_group_lit)
  show "\<forall>(label, cls) \<in> set required_classes.
      cls \<in> set (class_names (child_elems (lit ''package'') demo_report))"
    by (simp add: required_classes_def class_names_def child_elems_def
        demo_report_def demo_packages_def demo_package_def demo_counter_def attr_or_empty_def attr_def)
qed (simp add: demo_report_def)

lemma accepted_coverage_bound_witness:
  "\<exists>l. counter demo_report (lit ''LINE'') = Some l \<and> 4 / 5 - 1 / 2 ^ 52 \<le> coverage l"
proof -
  obtain ms where ms: "validate_report_tree demo_report = Inr ([], ms)" using demo_accepted by blast
  have "natural c" if "counter demo_report ct = Some c" for ct c
    using demo_plausible(1) that by (auto simp: natural_def plausible_def)
  moreover have "natural c" if "p \<in> set demo_packages" "counter p ct = Some c" for p ct c
    using that by (auto simp: demo_packages_def counter_package py_int_nat_str natural_def split: if_splits)
  ultimately have "\<forall>p \<in> set (demo_report # critical_packages demo_report). \<forall>ct c. counter p ct = Some c \<longrightarrow> natural c"
    by (simp add: demo_critical)
  from accepted_coverage_bound[OF ms this] show ?thesis by blast
qed

definition broken_package :: elem where
  "broken_package = demo_package ''pl/radoslawpiatek/couponservice/coupon/domain/model'' []
     [Elem (lit ''counter'') [(lit ''type'', lit ''LINE''), (lit ''covered'', nat_str 0)] None [],
      Elem (lit ''counter'') [(lit ''type'', lit ''BRANCH''), (lit ''covered'', nat_str 0)] None []]"

lemma unreadable_counter_ignored_witness:
  "\<exists>ms. validate_report_tree (with_children demo_report (children demo_report @ [broken_package])) = Inr ([], ms)"
proof -
  obtain ms where ms: "validate_report_tree demo_report = Inr ([], ms)" using demo_accepted by blast
  have none: "py_int [] = None" by (simp add: py_int_def strip_by_def)
  have "validate_report_tree (with_children demo_report (children demo_report @ [broken_package])) = Inr ([], ms)"
  proof (rule unreadable_counter_ignored[OF ms])
    show "counter broken_package (lit ''LINE'') = None" "counter broken_package (lit ''BRANCH'') = None"
      by (simp_all add: broken_package_def counter_package is_counter_def attr_def attr_or_empty_def none)
  qed (simp_all add: broken_package_def critical_lit)
  then show ?thesis by blast
qed

section \<open>A POM\<close>

definition node :: "string \<Rightarrow> elem list \<Rightarrow> elem" where
  "node t cs = Elem (mvn t) [] None cs"

definition leaf :: "string \<Rightarrow> string \<Rightarrow> elem" where
  "leaf t s = Elem (mvn t) [] (Some (lit s)) []"

definition demo_limits :: "string \<Rightarrow> string \<Rightarrow> elem" where
  "demo_limits line branch = node ''rules'' [node ''rule'' [leaf ''element'' ''BUNDLE'', node ''limits''
     [node ''limit'' [leaf ''counter'' ''LINE'', leaf ''value'' ''COVEREDRATIO'', leaf ''minimum'' line],
      node ''limit'' [leaf ''counter'' ''BRANCH'', leaf ''value'' ''COVEREDRATIO'', leaf ''minimum'' branch]]]]"

definition demo_execution :: "string \<Rightarrow> string \<Rightarrow> string \<Rightarrow> elem list \<Rightarrow> elem" where
  "demo_execution i phase goal cs = node ''execution''
     [leaf ''id'' i, leaf ''phase'' phase, node ''goals'' [leaf ''goal'' goal], node ''configuration'' cs]"

definition demo_executions :: "elem list" where
  "demo_executions =
     [demo_execution ''jacoco-prepare-agent'' ''initialize'' ''prepare-agent''
        [leaf ''destFile'' ''${project.build.directory}/jacoco.exec'', leaf ''append'' ''true''],
      demo_execution ''jacoco-report'' ''verify'' ''report'' [],
      demo_execution ''jacoco-check-global'' ''verify'' ''check'' [demo_limits ''0.80'' ''0.70''],
      demo_execution ''jacoco-check-critical'' ''verify'' ''check''
        [node ''includes'' (map (\<lambda>p. Elem (mvn ''include'') [] (Some p) []) CRITICAL_PATTERNS),
         demo_limits ''0.75'' ''0.65'']]"

definition demo_jacoco :: elem where
  "demo_jacoco = node ''plugin''
     [leaf ''groupId'' ''org.jacoco'', leaf ''artifactId'' ''jacoco-maven-plugin'',
      leaf ''version'' ''${jacoco-maven-plugin.version}'', node ''executions'' demo_executions]"

definition demo_pom :: elem where
  "demo_pom = node ''project''
     [node ''properties'' [leaf ''jacoco-maven-plugin.version'' ''0.8.15''],
      node ''build'' [node ''plugins'' [demo_jacoco]]]"

lemma mvn_eq [simp]: "mvn s = mvn t \<longleftrightarrow> s = t"
  by (simp add: mvn_def)

lemma child_elems_node:
  "child_elems (mvn t) (node u cs) = filter (\<lambda>c. tag c = mvn t) cs"
  "child_elems (mvn t) (leaf u s) = []"
  "tag (node u cs) = mvn u" "tag (leaf u s) = mvn u"
  by (simp_all add: child_elems_def node_def leaf_def)

lemma strip_plain:
  assumes "list_all (\<lambda>c. 33 \<le> (of_char c :: nat) \<and> (of_char c :: nat) < 128) s"
  shows "py_strip (lit s) = lit s"
proof -
  have "\<not> is_space c" if "c \<in> set (lit s)" for c
    using assms that by (auto simp: lit_def list_all_iff is_space_def py_spaces_def dest!: bspec)
  then have "dropWhile is_space (lit s) = lit s" "dropWhile is_space (rev (lit s)) = rev (lit s)"
    by (metis dropWhile_eq_self_iff hd_in_set set_rev)+
  then show ?thesis by (simp add: strip_by_def)
qed

lemma leaf_text: "etext (leaf t s) = Some (lit s)"
  by (simp add: leaf_def)

lemmas pom_eval = elem_text_def find_path_def child_elems_node leaf_text strip_plain

lemma demo_plugin: "jacoco_plugin demo_pom = Some demo_jacoco"
  by (simp add: jacoco_plugin_def demo_pom_def demo_jacoco_def pom_eval)

lemma execution_ids:
  "elem_text (demo_execution i ph g cs) [''id''] = (if i = [] then None else Some (py_strip (lit i)))"
  "elem_text (demo_execution i ph g cs) [''phase''] = (if ph = [] then None else Some (py_strip (lit ph)))"
  "elem_text (demo_execution i ph g cs) [''goals'', ''goal''] = (if g = [] then None else Some (py_strip (lit g)))"
  "elem_text (demo_execution i ph g cs) (''configuration'' # path) = elem_text (node ''configuration'' cs) path"
  by (simp_all add: demo_execution_def pom_eval)

lemma findall_executions:
  "findall_path (map mvn [''executions'', ''execution'']) demo_jacoco = demo_executions"
  by (simp add: demo_jacoco_def child_elems_node demo_executions_def demo_execution_def)

lemma demo_execution_found:
  "execution demo_jacoco (lit ''jacoco-prepare-agent'') = Some (demo_executions ! 0)"
  "execution demo_jacoco (lit ''jacoco-report'') = Some (demo_executions ! 1)"
  "execution demo_jacoco (lit ''jacoco-check-global'') = Some (demo_executions ! 2)"
  "execution demo_jacoco (lit ''jacoco-check-critical'') = Some (demo_executions ! 3)"
  unfolding execution_def findall_executions
  by (simp_all add: demo_executions_def execution_ids strip_plain)

lemma demo_limits_found:
  "findall_path (map mvn [''configuration'', ''rules'', ''rule'', ''limits'', ''limit''])
     (demo_execution i ph g (cs @ [demo_limits l b]))
   = [node ''limit'' [leaf ''counter'' ''LINE'', leaf ''value'' ''COVEREDRATIO'', leaf ''minimum'' l],
      node ''limit'' [leaf ''counter'' ''BRANCH'', leaf ''value'' ''COVEREDRATIO'', leaf ''minimum'' b]]"
  if "\<forall>c \<in> set cs. tag c \<noteq> mvn ''rules''"
  using that by (simp add: demo_execution_def demo_limits_def child_elems_node)

lemma demo_minimum:
  assumes "\<forall>c \<in> set cs. tag c \<noteq> mvn ''rules''" "l \<noteq> []" "b \<noteq> []"
  shows "limit_minimum (demo_execution i ph g (cs @ [demo_limits l b])) ''LINE'' = Some (py_strip (lit l))"
    "limit_minimum (demo_execution i ph g (cs @ [demo_limits l b])) ''BRANCH'' = Some (py_strip (lit b))"
  unfolding limit_minimum_def demo_limits_found[OF assms(1)]
  using assms(2,3) by (simp_all add: pom_eval)

lemma demo_bundle:
  assumes "\<forall>c \<in> set cs. tag c \<noteq> mvn ''rules''"
  shows "elem_text (demo_execution i ph g (cs @ [demo_limits l b])) [''configuration'', ''rules'', ''rule'', ''element'']
    = Some (lit ''BUNDLE'')"
  using assms by (simp add: execution_ids) (simp add: demo_limits_def pom_eval)

lemma patterns_plain: "p \<in> set CRITICAL_PATTERNS \<Longrightarrow> p \<noteq> [] \<and> py_strip p = p"
  by (auto simp: CRITICAL_PATTERNS_def strip_plain)

lemma includes_of:
  "(\<forall>p \<in> set ps. p \<noteq> [] \<and> py_strip p = p) \<Longrightarrow>
   concat (map (\<lambda>node. case etext node of None \<Rightarrow> [] | Some t \<Rightarrow> if t = [] then [] else [py_strip t])
     (map (\<lambda>p. Elem (mvn ''include'') [] (Some p) []) ps)) = ps"
  by (induction ps) auto

lemma demo_includes:
  "actual_includes (demo_execution i ph g [demo_limits l b]) = []"
  "actual_includes (demo_execution i ph g
     [node ''includes'' (map (\<lambda>p. Elem (mvn ''include'') [] (Some p) []) CRITICAL_PATTERNS), demo_limits l b])
   = CRITICAL_PATTERNS"
proof -
  show "actual_includes (demo_execution i ph g [demo_limits l b]) = []"
    by (simp add: actual_includes_def demo_execution_def demo_limits_def child_elems_node)
  have "filter (\<lambda>c. tag c = mvn ''include'') (map (\<lambda>p. Elem (mvn ''include'') [] (Some p) []) ps)
      = map (\<lambda>p. Elem (mvn ''include'') [] (Some p) []) ps" for ps
    by (induction ps) auto
  then have "findall_path (map mvn [''configuration'', ''includes'', ''include''])
      (demo_execution i ph g [node ''includes'' (map (\<lambda>p. Elem (mvn ''include'') [] (Some p) []) CRITICAL_PATTERNS),
        demo_limits l b]) = map (\<lambda>p. Elem (mvn ''include'') [] (Some p) []) CRITICAL_PATTERNS"
    by (simp add: demo_execution_def demo_limits_def child_elems_node comp_def)
  then show "actual_includes (demo_execution i ph g
     [node ''includes'' (map (\<lambda>p. Elem (mvn ''include'') [] (Some p) []) CRITICAL_PATTERNS), demo_limits l b])
   = CRITICAL_PATTERNS"
    unfolding actual_includes_def using includes_of[of CRITICAL_PATTERNS] patterns_plain by simp
qed

lemma demo_checks: "concat (map (check_errors demo_jacoco) expected) = []"
proof -
  have e: "demo_executions ! 2 = demo_execution ''jacoco-check-global'' ''verify'' ''check'' ([] @ [demo_limits ''0.80'' ''0.70''])"
    "demo_executions ! 3 = demo_execution ''jacoco-check-critical'' ''verify'' ''check''
        ([node ''includes'' (map (\<lambda>p. Elem (mvn ''include'') [] (Some p) []) CRITICAL_PATTERNS)]
         @ [demo_limits ''0.75'' ''0.65''])"
    by (simp_all add: demo_executions_def)
  have "check_errors demo_jacoco (''jacoco-check-global'', ''0.80'', ''0.70'', []) = []"
    unfolding check_errors.simps demo_execution_found e option.case
    using demo_bundle[of "[]"] demo_minimum[of "[]" "''0.80''" "''0.70''"]
    by (simp add: execution_ids strip_plain demo_includes)
  moreover have "check_errors demo_jacoco (''jacoco-check-critical'', ''0.75'', ''0.65'', CRITICAL_PATTERNS) = []"
    unfolding check_errors.simps demo_execution_found e option.case
    using demo_bundle[of "[node ''includes'' (map (\<lambda>p. Elem (mvn ''include'') [] (Some p) []) CRITICAL_PATTERNS)]"]
      demo_minimum[of "[node ''includes'' (map (\<lambda>p. Elem (mvn ''include'') [] (Some p) []) CRITICAL_PATTERNS)]"
        "''0.75''" "''0.65''"]
    by (simp add: execution_ids strip_plain demo_includes child_elems_node)
  ultimately show ?thesis by (simp add: expected_def)
qed

lemma demo_pom_ok: "pom_errors demo_pom = []"
proof -
  have p: "prepare_errors demo_jacoco = []" "report_errors demo_jacoco = []"
    unfolding prepare_errors_def report_errors_def demo_execution_found Let_def has_text_def option.case
    by (simp_all add: demo_executions_def demo_execution_def pom_eval)
  have "elem_text demo_jacoco [''version''] = Some (lit ''${jacoco-maven-plugin.version}'')"
    by (simp add: demo_jacoco_def pom_eval)
  moreover have "filter (\<lambda>e. tag e = mvn ''excludes'') (descendants demo_jacoco) = []"
    by (auto simp: demo_jacoco_def demo_executions_def demo_execution_def demo_limits_def node_def
        leaf_def filter_empty_conv)
  moreover have "has_text (find_path [mvn ''properties''] demo_pom) [''jacoco-maven-plugin.version''] ''0.8.15''"
    by (simp add: has_text_def demo_pom_def pom_eval)
  ultimately show ?thesis using p demo_checks
    by (simp add: pom_errors_def demo_plugin plugin_errors_def del: concat_eq_Nil_conv)
qed

definition demo_tree :: fs where
  "demo_tree = [(POM, Regular ''<project/>'' False), (rel ''.gitignore'', Regular ''target/'' False)]"

lemma demo_tree_paths: "POM = Path [lit ''pom.xml'']" "rel ''.gitignore'' = Path [lit ''.gitignore'']"
  "rel ''.git'' = Path [lit ''.git'']"
  by (simp_all add: POM_def rel_def path_parts_def lit_def)

lemma demo_texts:
  "decode_text ''<project/>'' = Some (lit ''<project/>'')" "decode_text ''target/'' = Some (lit ''target/'')"
  by code_simp+

lemma demo_contract: "static_contract_errors (\<lambda>b. Some demo_pom) git demo_tree = Inr []"
proof -
  have r: "read_bytes demo_tree POM = Inr ''<project/>''" "read_text demo_tree POM = Inr (lit ''<project/>'')"
    "path_exists demo_tree (rel ''.gitignore'')" "\<not> path_exists demo_tree (rel ''.git'')"
    "read_text demo_tree (rel ''.gitignore'') = Inr (lit ''target/'')"
    by (simp_all add: read_text_def read_bytes_def demo_tree_def demo_tree_paths demo_texts path_exists_def
        root_dir_def)
  have "\<not> contains (lit ''pitest'') (lower_ascii (lit ''<project/>''))"
    by (simp add: lower_ascii_def lit_def)
  moreover have "rglob (\<lambda>n. n = lit ''CODEX_PROMPT.md'') demo_tree = []"
    by (simp add: rglob_def demo_tree_def demo_tree_paths path_name_def)
  moreover have "ignored_target demo_tree = Inr []"
  proof -
    have "splitlines (lit ''target/'') = [lit ''target/'']"
      by (simp add: splitlines_def lit_def is_linebreak_def)
    moreover have "py_strip (lit ''target/'') = lit ''target/''" by (rule strip_plain) simp
    moreover have "rstrip_by (\<lambda>c. c = 47) (lit ''target/'') = lit ''target''"
      by (simp add: rstrip_by_def lit_def)
    ultimately show ?thesis using r by (simp add: ignored_target_def)
  qed
  ultimately show ?thesis
    using r by (auto simp: static_contract_Nil demo_pom_ok tracked_target_def)
qed

lemma gates_agree_witness:
  "\<exists>jacoco critical. jacoco_plugin demo_pom = Some jacoco
    \<and> execution jacoco (lit ''jacoco-check-critical'') = Some critical
    \<and> map_option (fl \<circ> decimal_value) (limit_minimum critical ''LINE'')
        = map_of CRITICAL_THRESHOLDS (lit ''LINE'')"
  using gates_agree[OF demo_contract[of "\<lambda>args. None"]] by auto

end
