(* ===== verification/Py_Regex.thy ===== *)
theory Py_Regex
  imports Py_Text
begin

text \<open>
  The part of Python's \<open>re\<close> module that the scripts use, as a backtracking matcher. A match
  state holds the text already passed (reversed), the text still ahead and the captured groups;
  \<open>matches\<close> lists every way to match in the engine's order of preference, so the first one is
  the match that \<open>re\<close> reports: left alternative first, greedy repetition longest first, lazy
  repetition shortest first. A repetition never iterates on an empty match.
\<close>

type_synonym mstate = "pystr \<times> pystr \<times> (nat \<times> pystr) list"

datatype regex =
    Eps
  | Lit pystr
  | Cls "nat \<Rightarrow> bool"
  | Seq regex regex
  | Alt regex regex
  | Star bool regex
  | Grp nat regex
  | LineStart
  | LineEnd
  | TextEnd
  | WordEdge

fun star_matches :: "bool \<Rightarrow> (mstate \<Rightarrow> mstate list) \<Rightarrow> nat \<Rightarrow> mstate \<Rightarrow> mstate list" where
  "star_matches greedy f 0 st = [st]"
| "star_matches greedy f (Suc n) st =
     (let more = concat (map (star_matches greedy f n)
                   (filter (\<lambda>st'. length (fst (snd st')) < length (fst (snd st))) (f st)))
      in if greedy then more @ [st] else st # more)"

fun edge_before :: "pystr \<Rightarrow> bool" where
  "edge_before [] = False"
| "edge_before (c # cs) = is_word_char c"

primrec matches :: "regex \<Rightarrow> mstate \<Rightarrow> mstate list" where
  "matches Eps st = [st]"
| "matches (Lit t) st =
     (case st of (pre, post, caps) \<Rightarrow>
        if prefix t post then [(rev t @ pre, drop (length t) post, caps)] else [])"
| "matches (Cls P) st =
     (case st of (pre, post, caps) \<Rightarrow>
        (case post of [] \<Rightarrow> [] | c # cs \<Rightarrow> if P c then [(c # pre, cs, caps)] else []))"
| "matches (Seq r s) st = concat (map (matches s) (matches r st))"
| "matches (Alt r s) st = matches r st @ matches s st"
| "matches (Star greedy r) st = star_matches greedy (matches r) (length (fst (snd st))) st"
| "matches (Grp k r) st =
     map (\<lambda>(pre', post', caps').
            (pre', post', (k, rev (take (length pre' - length (fst st)) pre')) # caps'))
         (matches r st)"
| "matches LineStart st =
     (case st of (pre, post, caps) \<Rightarrow> if pre = [] \<or> hd pre = 10 then [st] else [])"
| "matches LineEnd st =
     (case st of (pre, post, caps) \<Rightarrow> if post = [] \<or> hd post = 10 then [st] else [])"
| "matches TextEnd st =
     (case st of (pre, post, caps) \<Rightarrow> if post = [] \<or> post = [10] then [st] else [])"
| "matches WordEdge st =
     (case st of (pre, post, caps) \<Rightarrow> if edge_before pre \<noteq> edge_before post then [st] else [])"

section \<open>Derived forms\<close>

definition Opt :: "regex \<Rightarrow> regex" where
  "Opt r = Alt r Eps"

definition Plus :: "bool \<Rightarrow> regex \<Rightarrow> regex" where
  "Plus greedy r = Seq r (Star greedy r)"

fun Times :: "nat \<Rightarrow> regex \<Rightarrow> regex" where
  "Times 0 r = Eps"
| "Times (Suc n) r = Seq r (Times n r)"

fun UpTo :: "nat \<Rightarrow> regex \<Rightarrow> regex" where
  "UpTo 0 r = Eps"
| "UpTo (Suc n) r = Opt (Seq r (UpTo n r))"

fun Cat :: "regex list \<Rightarrow> regex" where
  "Cat [] = Eps"
| "Cat (r # rs) = Seq r (Cat rs)"

definition Dot :: regex where
  "Dot = Cls (\<lambda>c. c \<noteq> 10)"

definition digits :: "nat \<Rightarrow> regex" where
  "digits n = Times n (Cls is_digit)"

section \<open>The functions of the module\<close>

definition re_match :: "regex \<Rightarrow> pystr \<Rightarrow> mstate option" where
  "re_match r s = (case matches r ([], s, []) of [] \<Rightarrow> None | st # _ \<Rightarrow> Some st)"

definition re_fullmatch :: "regex \<Rightarrow> pystr \<Rightarrow> mstate option" where
  "re_fullmatch r s = find (\<lambda>(pre, post, caps). post = []) (matches r ([], s, []))"

fun re_search_from :: "regex \<Rightarrow> pystr \<Rightarrow> pystr \<Rightarrow> mstate option" where
  "re_search_from r pre [] =
     (case matches r (pre, [], []) of [] \<Rightarrow> None | st # _ \<Rightarrow> Some st)"
| "re_search_from r pre (c # cs) =
     (case matches r (pre, c # cs, []) of
        [] \<Rightarrow> re_search_from r (c # pre) cs
      | st # _ \<Rightarrow> Some st)"

definition re_search :: "regex \<Rightarrow> pystr \<Rightarrow> mstate option" where
  "re_search r s = re_search_from r [] s"

text \<open>
  \<open>findall\<close>: the captured groups of the non-overlapping matches from left to right; after an
  empty match the scan moves one character on.
\<close>

function re_findall_from :: "regex \<Rightarrow> pystr \<Rightarrow> pystr \<Rightarrow> (nat \<times> pystr) list list" where
  "re_findall_from r pre post =
     (case matches r (pre, post, []) of
        [] \<Rightarrow> (case post of [] \<Rightarrow> [] | c # cs \<Rightarrow> re_findall_from r (c # pre) cs)
      | (pre', post', caps) # _ \<Rightarrow>
          if length post' < length post then caps # re_findall_from r pre' post'
          else caps # (case post of [] \<Rightarrow> [] | c # cs \<Rightarrow> re_findall_from r (c # pre) cs))"
  by pat_completeness auto
termination
  by (relation "measure (\<lambda>(r, pre, post). length post)") auto

declare re_findall_from.simps [simp del]

definition re_findall :: "regex \<Rightarrow> pystr \<Rightarrow> (nat \<times> pystr) list list" where
  "re_findall r s = re_findall_from r [] s"

text \<open>\<open>match.group(k)\<close>; the empty string stands for a group that took no part.\<close>

definition cap :: "nat \<Rightarrow> (nat \<times> pystr) list \<Rightarrow> pystr" where
  "cap k caps = (case map_of caps k of None \<Rightarrow> [] | Some t \<Rightarrow> t)"

definition group :: "nat \<Rightarrow> mstate \<Rightarrow> pystr" where
  "group k st = cap k (snd (snd st))"

section \<open>Matching facts\<close>

lemma matches_Opt [simp]: "matches (Opt r) st = matches r st @ [st]"
  by (simp add: Opt_def)

lemma matches_Dot [simp]: "matches Dot st = matches (Cls (\<lambda>c. c \<noteq> 10)) st"
  by (simp add: Dot_def)

lemma take_takeWhile_len: "take (length (takeWhile P xs)) xs = takeWhile P xs"
  by (metis takeWhile_eq_take)

lemma matches_Times_Cls:
  "matches (Times n (Cls P)) (pre, post, caps) =
     (if n \<le> length (takeWhile P post) then [(rev (take n post) @ pre, drop n post, caps)] else [])"
proof (induction n arbitrary: pre post)
  case (Suc n)
  then show ?case by (cases post) auto
qed simp

lemma star_matches_Cls:
  assumes f: "\<And>pre c cs. f (pre, c # cs, caps) = (if P c then [(c # pre, cs, caps)] else [])"
  shows "length post \<le> n \<Longrightarrow> star_matches greedy f n (pre, post, caps) =
     map (\<lambda>k. (rev (take k post) @ pre, drop k post, caps))
       (if greedy then rev [0..<Suc (length (takeWhile P post))]
        else [0..<Suc (length (takeWhile P post))])"
proof (induction n arbitrary: pre post)
  case (Suc n)
  have up: "[0..<Suc (Suc m)] = 0 # map Suc [0..<Suc m]" for m
    by (simp add: map_Suc_upt upt_conv_Cons del: upt_Suc)
  have lt: "filter (\<lambda>st'. length (fst (snd st')) < 0) xs = []" for xs :: "mstate list" by simp
  show ?case
  proof (cases post)
    case (Cons c cs)
    have IH: "star_matches greedy f n (c # pre, cs, caps) =
      map (\<lambda>k. (rev (take k cs) @ c # pre, drop k cs, caps))
       (if greedy then rev [0..<Suc (length (takeWhile P cs))]
        else [0..<Suc (length (takeWhile P cs))])"
      using Suc Cons by simp
    show ?thesis
    proof (cases "P c")
      case True
      with IH show ?thesis
        by (cases greedy) (simp_all add: Cons Let_def f up rev_map comp_def del: upt_Suc)
    next
      case False
      then show ?thesis by (simp add: Cons Let_def f)
    qed
  qed (simp add: Let_def lt)
qed simp

lemma matches_UpTo_Cls:
  "matches (UpTo n (Cls P)) (pre, post, caps) =
     map (\<lambda>k. (rev (take k post) @ pre, drop k post, caps))
       (rev [0..<Suc (min n (length (takeWhile P post)))])"
proof (induction n arbitrary: pre post)
  case (Suc n)
  have up: "[0..<Suc (Suc m)] = 0 # map Suc [0..<Suc m]" for m
    by (simp add: map_Suc_upt upt_conv_Cons del: upt_Suc)
  have one: "[0..<Suc 0] = [0]" by simp
  show ?case
  proof (cases post)
    case (Cons c cs)
    then show ?thesis using Suc[of "c # pre" cs]
      by (cases "P c") (simp_all add: up one rev_map comp_def del: upt_Suc)
  qed simp
qed simp

lemma matches_Star_Cls:
  "matches (Star greedy (Cls P)) (pre, post, caps) =
     map (\<lambda>k. (rev (take k post) @ pre, drop k post, caps))
       (if greedy then rev [0..<Suc (length (takeWhile P post))]
        else [0..<Suc (length (takeWhile P post))])"
  by (simp add: star_matches_Cls del: upt_Suc)

lemma matches_Plus_Cls:
  "matches (Plus True (Cls P)) (pre, post, caps) =
     map (\<lambda>k. (rev (take (Suc k) post) @ pre, drop (Suc k) post, caps))
       (rev [0..<length (takeWhile P post)])"
  by (cases post) (auto simp: Plus_def matches_Star_Cls simp del: upt_Suc matches.simps(6))

section \<open>Full matches of class repetitions\<close>

lemma le_takeWhile_iff:
  "n \<le> length (takeWhile P xs) \<longleftrightarrow> n \<le> length xs \<and> (\<forall>x \<in> set (take n xs). P x)"
proof (induction n arbitrary: xs)
  case (Suc n)
  then show ?case by (cases xs) auto
qed simp

lemma takeWhile_all_len: "length (takeWhile P xs) = length xs \<longleftrightarrow> (\<forall>x \<in> set xs. P x)"
  by (metis takeWhile_eq_all_conv take_takeWhile_len take_all order_refl)

lemma takeWhile_all_le: "length xs \<le> length (takeWhile P xs) \<longleftrightarrow> (\<forall>x \<in> set xs. P x)"
  using takeWhile_all_len[of P xs] length_takeWhile_le[of P xs] by linarith

text \<open>Exactly \<open>n\<close> characters of a class.\<close>

lemma fullmatch_Times_Cls:
  "re_fullmatch (Times n (Cls P)) s \<noteq> None \<longleftrightarrow> length s = n \<and> (\<forall>c \<in> set s. P c)"
proof -
  have "re_fullmatch (Times n (Cls P)) s \<noteq> None \<longleftrightarrow>
      n \<le> length (takeWhile P s) \<and> length s \<le> n"
    by (simp add: re_fullmatch_def matches_Times_Cls)
  also have "\<dots> \<longleftrightarrow> length s = n \<and> length s \<le> length (takeWhile P s)"
    using length_takeWhile_le[of P s] by auto
  finally show ?thesis by (simp only: takeWhile_all_le)
qed

text \<open>Between \<open>m\<close> and \<open>m + n\<close> characters of a class.\<close>

lemma fullmatch_Times_UpTo_Cls:
  "re_fullmatch (Seq (Times m (Cls P)) (UpTo n (Cls P))) s \<noteq> None \<longleftrightarrow>
     m \<le> length s \<and> length s \<le> m + n \<and> (\<forall>c \<in> set s. P c)"
proof (cases "m \<le> length (takeWhile P s)")
  case True
  have len: "length (takeWhile P (drop m s)) = length (takeWhile P s) - m"
  proof -
    have "s = take m s @ drop m s" by simp
    moreover have "\<forall>x \<in> set (take m s). P x"
      using True by (metis set_take_subset set_takeWhileD subset_iff take_take take_takeWhile_len
          min.absorb1 set_take_subset)
    ultimately have "takeWhile P s = take m s @ takeWhile P (drop m s)"
      by (metis takeWhile_append2)
    then have "length (takeWhile P s) = min (length s) m + length (takeWhile P (drop m s))"
      by (metis length_append length_take min.commute)
    then show ?thesis using True length_takeWhile_le[of P s] by linarith
  qed
  let ?k = "min n (length (takeWhile P s) - m)"
  have "re_fullmatch (Seq (Times m (Cls P)) (UpTo n (Cls P))) s \<noteq> None \<longleftrightarrow>
      (\<exists>k \<in> set (rev [0..<Suc ?k]). length s - m \<le> k)"
    using True
    by (simp add: re_fullmatch_def matches_Times_Cls matches_UpTo_Cls len find_None_iff
        image_iff del: upt_Suc drop_drop min_less_iff_conj)
  also have "\<dots> \<longleftrightarrow> (\<exists>k \<le> ?k. length s \<le> m + k)"
    by (simp add: less_Suc_eq_le Bex_def add.commute le_diff_conv del: upt_Suc min_less_iff_conj)
  also have "\<dots> \<longleftrightarrow> length s \<le> m + ?k" by (meson add_le_mono1 add_left_mono le_trans order_refl)
  also have "\<dots> \<longleftrightarrow> length s \<le> m + n \<and> length s \<le> length (takeWhile P s)"
    using True by auto
  finally show ?thesis using True length_takeWhile_le[of P s] by (auto simp: takeWhile_all_le)
next
  case False
  have "\<not> (m \<le> length s \<and> (\<forall>c \<in> set s. P c))"
    using False takeWhile_all_len[of P s] by auto
  then show ?thesis using False by (auto simp: re_fullmatch_def matches_Times_Cls)
qed

text \<open>A non-empty greedy run of a class that has to reach the end of the text.\<close>

lemma find_drop_rev:
  assumes "n \<le> length r"
  shows "find (\<lambda>(pre, post, caps). post = [])
           (map (\<lambda>k. (f k, drop (Suc k) r, g k)) (rev [0..<n]))
         = (if n = length r \<and> r \<noteq> [] then Some (f (n - 1), [], g (n - 1)) else None)"
proof (cases n)
  case (Suc m)
  then show ?thesis using assms by (cases "n = length r") (auto simp: find_None_iff)
qed auto

text \<open>A greedy run of a class as a captured group.\<close>

lemma captured_run: "rev (take (length (rev w @ z) - length z) (rev w @ z)) = (w :: 'a list)"
  by simp

lemma matches_Grp_Plus_Cls:
  "matches (Grp g (Plus True (Cls P))) (pre, post, caps) =
     map (\<lambda>k. (rev (take (Suc k) post) @ pre, drop (Suc k) post, (g, take (Suc k) post) # caps))
       (rev [0..<length (takeWhile P post)])"
  unfolding matches.simps(7) matches_Plus_Cls map_map comp_def prod.case fst_conv captured_run ..

end
