(* ===== verification/Doc_Text.thy ===== *)
theory Doc_Text
  imports Py_Path Py_Regex
begin

text \<open>
  \<open>scripts/check_documentation.py\<close>, the parsing half: the backlog table, the metadata lines of a
  refinement, link targets and their resolution below the repository root. A
  \<open>ValidationError\<close> is an exception like the others, because only one caller catches it.
\<close>

section \<open>Messages and exceptions\<close>

datatype doc_error =
    Not_Utf8 path
  | Incomplete_Table path
  | No_Table path
  | Missing_Required path
  | Unexpected_Columns "pystr list"
  | Bad_Task_Id pystr
  | Duplicate_Task_Id pystr
  | Bad_Status pystr pystr
  | Bad_Priority pystr pystr
  | Bad_Refinement_Ref pystr pystr
  | Empty_Backlog
  | No_Refinement pystr pystr
  | Wrong_Task_Id pystr
  | Bad_Refinement_State pystr
  | Bad_Acceptance_Date pystr
  | Implementation_Not_Allowed pystr
  | Has_Todo pystr
  | Blocking_Questions pystr
  | Not_Accepted pystr pystr
  | No_Active_Task
  | No_Iso_Date
  | Unknown_Active_Task pystr
  | Planned_Not_Refinement pystr
  | Active_Status pystr pystr
  | Link_Outside path pystr
  | Broken_Link path pystr
  | Not_Indexed pystr
  | Stale_Index pystr
  | Crlf path
  | No_Final_Newline path
  | Trailing_Whitespace path nat
  | Duplicate_Register_Id pystr pystr
  | Empty_Register pystr path

datatype doc_exc = Validation_Exc doc_error | Py_Exc pyexc

definition doc_read :: "fs \<Rightarrow> path \<Rightarrow> doc_exc + pystr" where
  "doc_read fs path =
     (case read_text fs path of
        Inr t \<Rightarrow> Inr t
      | Inl (Unicode_Decode_Error p) \<Rightarrow> Inl (Validation_Exc (Not_Utf8 path))
      | Inl e \<Rightarrow> Inl (Py_Exc e))"

section \<open>Patterns\<close>

definition TASK_RE :: regex where
  "TASK_RE = Cat [LineStart, Lit (lit ''EMP-''), digits 3, TextEnd]"

definition MARKDOWN_LINK_RE :: regex where
  "MARKDOWN_LINK_RE = Cat [Lit (lit ''[''), Plus True (Cls (\<lambda>c. c \<noteq> 93)), Lit (lit ''](''),
     Grp 1 (Plus True (Cls (\<lambda>c. c \<noteq> 41))), Lit (lit '')'')]"

definition is_key_char :: "nat \<Rightarrow> bool" where
  "is_key_char c \<longleftrightarrow> (65 \<le> c \<and> c \<le> 90) \<or> (97 \<le> c \<and> c \<le> 122) \<or> c = 45"

definition METADATA_RE :: regex where
  "METADATA_RE = Cat [LineStart, Grp 1 (Plus True (Cls is_key_char)), Lit (lit '':''),
     Star True (Cls is_space), Grp 2 (Plus False Dot), Star True (Cls is_space), LineEnd]"

definition ISO_DATE_RE :: regex where
  "ISO_DATE_RE = Cat [digits 4, Lit (lit ''-''), digits 2, Lit (lit ''-''), digits 2]"

definition PRIORITY_RE :: regex where
  "PRIORITY_RE = Cat [Lit (lit ''P''), Cls (\<lambda>c. 48 \<le> c \<and> c \<le> 50)]"

definition TODO_RE :: regex where
  "TODO_RE = Cat [WordEdge, Grp 1 (Alt (Lit (lit ''TBD'')) (Lit (lit ''TODO''))), WordEdge]"

definition ACTIVE_RE :: regex where
  "ACTIVE_RE = Cat [Lit (lit ''**Active task:** '' @ [96]), Grp 1 (Plus True (Cls (\<lambda>c. c \<noteq> 96))),
     Lit [96]]"

definition DATA_RE :: regex where
  "DATA_RE = Cat [Lit (lit ''**Data:** ''), ISO_DATE_RE]"

definition ACTIVE_TASK_RE :: regex where
  "ACTIVE_TASK_RE = Cat [Grp 1 (Cat [Lit (lit ''EMP-''), Plus True (Cls is_digit)]),
     Opt (Cat [Plus True (Cls is_space), Lit [8212], Plus True (Cls is_space), Plus True Dot]),
     TextEnd]"

definition register_re :: "string \<Rightarrow> regex" where
  "register_re letter = Cat [Lit (lit ''| ''), Grp 1 (Cat [Lit (lit letter), Lit (lit ''-''), digits 3]),
     Lit (lit '' |'')]"

definition matched :: "regex \<Rightarrow> pystr \<Rightarrow> bool" where
  "matched r s \<longleftrightarrow> re_match r s \<noteq> None"

definition full :: "regex \<Rightarrow> pystr \<Rightarrow> bool" where
  "full r s \<longleftrightarrow> re_fullmatch r s \<noteq> None"

definition found :: "regex \<Rightarrow> pystr \<Rightarrow> bool" where
  "found r s \<longleftrightarrow> re_search r s \<noteq> None"

section \<open>The backlog table\<close>

definition cells :: "pystr \<Rightarrow> pystr list" where
  "cells line = map py_strip (split_on 124 (strip_by (\<lambda>c. c = 124) line))"

definition table_rows :: "pystr list \<Rightarrow> pystr list \<Rightarrow> pystr list list" where
  "table_rows headers candidates =
     filter (\<lambda>row. length row = length headers)
       (map cells (takeWhile (prefix (lit ''|'')) candidates))"

fun table_scan :: "path \<Rightarrow> pystr list \<Rightarrow> doc_exc + pystr list \<times> pystr list list" where
  "table_scan path [] = Inl (Validation_Exc (No_Table path))"
| "table_scan path (line # rest) =
     (if prefix (lit ''| ID |'') line
      then (if rest = [] then Inl (Validation_Exc (Incomplete_Table path))
            else Inr (cells line, table_rows (cells line) (tl rest)))
      else table_scan path rest)"

definition parse_markdown_table :: "fs \<Rightarrow> path \<Rightarrow> doc_exc + pystr list \<times> pystr list list" where
  "parse_markdown_table fs path = bind_py (doc_read fs path) (\<lambda>t. table_scan path (splitlines t))"

section \<open>Metadata\<close>

text \<open>A later line of the same key replaces an earlier one.\<close>

type_synonym metadata = "(pystr \<times> pystr) list"

definition metadata_of :: "pystr \<Rightarrow> metadata" where
  "metadata_of t =
     foldl (\<lambda>md caps. AList.update (cap 1 caps) (cap 2 caps) md) [] (re_findall METADATA_RE t)"

definition parse_refinement_metadata :: "fs \<Rightarrow> path \<Rightarrow> doc_exc + metadata" where
  "parse_refinement_metadata fs path = bind_py (doc_read fs path) (\<lambda>t. Inr (metadata_of t))"

section \<open>Links\<close>

definition before_char :: "nat \<Rightarrow> pystr \<Rightarrow> pystr" where
  "before_char c s = takeWhile (\<lambda>x. x \<noteq> c) s"

definition normalize_link_target :: "pystr \<Rightarrow> pystr" where
  "normalize_link_target raw =
     (let target = py_strip raw;
          target = (if prefix (lit ''<'') target \<and> suffix (lit ''>'') target
                    then butlast (tl target) else target)
      in before_char 63 (before_char 35 target))"

definition links :: "pystr \<Rightarrow> pystr list" where
  "links t = map (cap 1) (re_findall MARKDOWN_LINK_RE t)"

text \<open>
  \<open>resolve()\<close> of a path in a tree without symbolic links: \<open>..\<close> removes the component before it,
  and is dropped at the top. The first argument is reversed.
\<close>

fun normal_parts :: "pystr list \<Rightarrow> pystr list \<Rightarrow> pystr list" where
  "normal_parts done [] = rev done"
| "normal_parts done (p # ps) =
     (if p = [46, 46] then normal_parts (tl done) ps else normal_parts (p # done) ps)"

text \<open>
  \<open>(base / target).resolve()\<close> as absolute parts; \<open>root\<close> is the absolute path of the repository.
  A target with exactly two leading slashes has a root of its own, below which nothing lies in
  the repository.
\<close>

definition resolve_target :: "pystr list \<Rightarrow> path \<Rightarrow> pystr \<Rightarrow> pystr list option" where
  "resolve_target root base target =
     (let slashes = length (takeWhile (\<lambda>c. c = 47) target)
      in if slashes = 2 then None
         else if slashes = 0 then Some (normal_parts [] (root @ parts base @ path_parts target))
         else Some (normal_parts [] (path_parts target)))"

text \<open>\<open>relative_to\<close>: the path below a directory, or \<open>None\<close> for a \<open>ValueError\<close>.\<close>

definition relative_parts :: "pystr list \<Rightarrow> pystr list option \<Rightarrow> path option" where
  "relative_parts base resolved =
     (case resolved of
        None \<Rightarrow> None
      | Some ps \<Rightarrow> if prefix base ps then Some (Path (drop (length base) ps)) else None)"

end
