(* ===== verification/Doc_Governance.thy ===== *)
theory Doc_Governance
  imports Doc_Text
begin

text \<open>
  \<open>scripts/check_documentation.py\<close>, the validators and the run: required files, the backlog, the
  refinements it refers to, the active task, the links, the documentation index, the hygiene of
  text files and the registers. Every validator returns the messages it appends to the shared
  error list, in order, or the exception that ends the run.
\<close>

definition docs :: "string \<Rightarrow> path" where
  "docs s = join_rel (rel ''docs'') s"

definition REQUIRED_FILES :: "path list" where
  "REQUIRED_FILES = map rel
     [''README.md'', ''CHANGELOG.md'', ''PROJECT_RULES.md'', ''AUDIT.md'', ''docs/README.md'',
      ''docs/DOCUMENTATION_INDEX.md'', ''docs/project/documentation-governance.md'',
      ''docs/project/refinement-process.md'', ''docs/project/definition-of-ready-and-done.md'',
      ''docs/project/backlog.md'', ''docs/project/current-status.md'',
      ''docs/project/decision-log.md'', ''docs/project/risk-register.md'',
      ''docs/project/lessons-learned.md'', ''docs/project/release-history.md'',
      ''docs/project/refinements/README.md'',
      ''docs/project/refinements/EMP-001.md'', ''docs/project/refinements/EMP-001-summary.md'',
      ''docs/project/refinements/EMP-001-review-checklist.md'',
      ''docs/project/refinements/EMP-003.md'', ''docs/project/refinements/EMP-003-summary.md'',
      ''docs/project/refinements/EMP-003-review-checklist.md'',
      ''docs/project/refinements/EMP-004.md'', ''docs/project/refinements/EMP-004-summary.md'',
      ''docs/project/refinements/EMP-004-review-checklist.md'',
      ''docs/project/refinements/EMP-006.md'', ''docs/project/refinements/EMP-006-summary.md'',
      ''docs/project/refinements/EMP-006-review-checklist.md'',
      ''docs/project/refinements/EMP-007.md'', ''docs/project/refinements/EMP-007-summary.md'',
      ''docs/project/refinements/EMP-007-review-checklist.md'',
      ''docs/project/refinements/EMP-008.md'', ''docs/project/refinements/EMP-008-summary.md'',
      ''docs/project/refinements/EMP-008-review-checklist.md'',
      ''docs/project/refinements/EMP-009.md'', ''docs/project/refinements/EMP-009-summary.md'',
      ''docs/project/refinements/EMP-009-review-checklist.md'',
      ''docs/project/refinements/EMP-010.md'', ''docs/project/refinements/EMP-010-summary.md'',
      ''docs/project/refinements/EMP-010-review-checklist.md'',
      ''docs/project/refinements/EMP-011.md'', ''docs/project/refinements/EMP-011-summary.md'',
      ''docs/project/refinements/EMP-011-review-checklist.md'',
      ''docs/architecture/overview.md'', ''docs/architecture/data-model.md'',
      ''docs/api/api-contract.md'', ''docs/testing/test-strategy.md'',
      ''docs/product/requirements-traceability.md'', ''docs/adr/README.md'',
      ''docs/adr/ADR-0001-modular-monolith-and-technology-stack.md'',
      ''docs/adr/ADR-0002-concurrency-and-redemption-consistency.md'',
      ''docs/adr/ADR-0003-geolocation-client-ip-and-privacy.md'']"

definition ALLOWED_STATUSES :: "pystr list" where
  "ALLOWED_STATUSES = map lit
     [''PLANNED'', ''REFINEMENT'', ''READY'', ''IN_PROGRESS'', ''BLOCKED'', ''DONE'',
      ''DONE_AND_VERIFIED'']"

type_synonym doc_errors = "doc_exc + doc_error list"

definition validate_required_files :: "fs \<Rightarrow> doc_errors" where
  "validate_required_files fs =
     Inr (map Missing_Required (filter (\<lambda>p. \<not> is_file fs p) REQUIRED_FILES))"

section \<open>The backlog\<close>

record task =
  task_id :: pystr
  task_priority :: pystr
  task_status :: pystr
  task_refinement :: pystr

type_synonym tasks = "(pystr \<times> task) list"

definition backlog_columns :: "pystr list" where
  "backlog_columns = [lit ''ID'', lit ''Parent'', lit ''Priority'', lit ''Status'',
     lit ''Refinement'', lit ''Zadanie'', lit ''Docelowy dow'' @ [243] @ lit ''d'']"

text \<open>\<open>dict(zip(headers, row))\<close> with the columns of the backlog.\<close>

definition task_of_row :: "pystr list \<Rightarrow> task" where
  "task_of_row row = \<lparr>task_id = row ! 0, task_priority = row ! 2, task_status = row ! 3,
     task_refinement = row ! 4\<rparr>"

definition task_errors :: "task \<Rightarrow> doc_error list" where
  "task_errors t =
     flag (task_status t \<notin> set ALLOWED_STATUSES) (Bad_Status (task_status t) (task_id t))
     @ flag (\<not> full PRIORITY_RE (task_priority t)) (Bad_Priority (task_priority t) (task_id t))
     @ flag (\<not> matched TASK_RE (task_refinement t)) (Bad_Refinement_Ref (task_refinement t) (task_id t))"

fun backlog_loop :: "tasks \<Rightarrow> pystr list list \<Rightarrow> doc_error list \<times> tasks" where
  "backlog_loop tasks [] = ([], tasks)"
| "backlog_loop tasks (row # rows) =
     (let t = task_of_row row
      in if \<not> matched TASK_RE (task_id t)
         then (let (es, ts) = backlog_loop tasks rows in (Bad_Task_Id (task_id t) # es, ts))
         else if task_id t \<in> set (map fst tasks)
         then (let (es, ts) = backlog_loop tasks rows in (Duplicate_Task_Id (task_id t) # es, ts))
         else (let (es, ts) = backlog_loop (tasks @ [(task_id t, t)]) rows in (task_errors t @ es, ts)))"

definition validate_backlog :: "fs \<Rightarrow> doc_exc + doc_error list \<times> tasks" where
  "validate_backlog fs =
     (case parse_markdown_table fs (docs ''project/backlog.md'') of
        Inl (Validation_Exc e) \<Rightarrow> Inr ([e], [])
      | Inl (Py_Exc e) \<Rightarrow> Inl (Py_Exc e)
      | Inr (headers, rows) \<Rightarrow>
          if headers \<noteq> backlog_columns then Inr ([Unexpected_Columns headers], [])
          else (let (es, ts) = backlog_loop [] rows in Inr (es @ flag (ts = []) Empty_Backlog, ts)))"

section \<open>The refinements\<close>

text \<open>
  The operating system follows a refinement id that holds slashes; a \<open>..\<close> component leads out
  of a directory that exists, and anything outside the repository is not a file.
\<close>

fun walk :: "fs \<Rightarrow> pystr list \<Rightarrow> pystr list \<Rightarrow> path option" where
  "walk fs done [] = Some (Path (rev done))"
| "walk fs done (p # ps) =
     (if done \<noteq> [] \<and> map_of fs (Path (rev done)) \<noteq> Some Directory then None
      else if p = [46, 46] then (if done = [] then None else walk fs (tl done) ps)
      else walk fs (p # done) ps)"

definition refinement_path :: "fs \<Rightarrow> pystr \<Rightarrow> path option" where
  "refinement_path fs rid =
     (if prefix (lit ''/'') rid then None
      else walk fs [] (parts (docs ''project/refinements'') @ path_parts (rid @ lit ''.md'')))"

definition refinement_file :: "fs \<Rightarrow> pystr \<Rightarrow> path option" where
  "refinement_file fs rid =
     (case refinement_path fs rid of
        None \<Rightarrow> None
      | Some p \<Rightarrow> if is_file fs p then Some p else None)"

definition no_blocking_questions :: pystr where
  "no_blocking_questions = lit ''### Blokuj'' @ [261] @ lit ''ce'' @ [10, 10] @ lit ''Brak.''"

definition refinement_errors :: "pystr \<Rightarrow> metadata \<Rightarrow> doc_exc + pystr \<Rightarrow> doc_errors" where
  "refinement_errors rid md text_again =
     seq_py
       (Inr (flag (map_of md (lit ''Task-ID'') \<noteq> Some rid) (Wrong_Task_Id rid)
           @ flag (map_of md (lit ''Stan-Refinementu'') \<notin> {Some (lit ''DRAFT''), Some (lit ''ACCEPTED'')})
               (Bad_Refinement_State rid)))
       (if map_of md (lit ''Stan-Refinementu'') = Some (lit ''ACCEPTED'')
        then seq_py
          (Inr (flag (\<not> full ISO_DATE_RE (case map_of md (lit ''Data-Akceptacji'') of
                         None \<Rightarrow> [] | Some v \<Rightarrow> v)) (Bad_Acceptance_Date rid)
              @ flag (map_of md (lit ''Implementation-Allowed'') \<noteq> Some (lit ''YES''))
                  (Implementation_Not_Allowed rid)))
          (bind_py text_again (\<lambda>t.
             Inr (flag (found TODO_RE t) (Has_Todo rid)
               @ flag (\<not> contains no_blocking_questions t) (Blocking_Questions rid))))
        else Inr [])"

definition NEEDS_ACCEPTED :: "pystr list" where
  "NEEDS_ACCEPTED = map lit [''READY'', ''IN_PROGRESS'', ''DONE'', ''DONE_AND_VERIFIED'']"

definition gate_errors :: "(pystr \<times> metadata) list \<Rightarrow> task \<Rightarrow> doc_error list" where
  "gate_errors checked t =
     (let md = (case map_of checked (task_refinement t) of None \<Rightarrow> [] | Some m \<Rightarrow> m)
      in flag (task_status t \<in> set NEEDS_ACCEPTED
               \<and> map_of md (lit ''Stan-Refinementu'') \<noteq> Some (lit ''ACCEPTED''))
           (Not_Accepted (task_id t) (task_status t)))"

fun refinements_loop :: "fs \<Rightarrow> (pystr \<times> metadata) list \<Rightarrow> task list \<Rightarrow> doc_errors" where
  "refinements_loop fs checked [] = Inr []"
| "refinements_loop fs checked (t # ts) =
     (let rid = task_refinement t
      in if rid \<in> set (map fst checked)
         then seq_py (Inr (gate_errors checked t)) (refinements_loop fs checked ts)
         else (case refinement_file fs rid of
                 None \<Rightarrow> seq_py (Inr [No_Refinement rid (task_id t)]) (refinements_loop fs checked ts)
               | Some p \<Rightarrow>
                   bind_py (parse_refinement_metadata fs p) (\<lambda>md.
                     let checked' = checked @ [(rid, md)]
                     in seq_py (refinement_errors rid md (doc_read fs p))
                          (seq_py (Inr (gate_errors checked' t)) (refinements_loop fs checked' ts)))))"

definition validate_refinements :: "fs \<Rightarrow> tasks \<Rightarrow> doc_errors" where
  "validate_refinements fs tasks = refinements_loop fs [] (map snd tasks)"

section \<open>The active task\<close>

definition awaiting_next :: pystr where
  "awaiting_next = lit ''awaiting next refinement''"

definition date_errors :: "pystr \<Rightarrow> doc_error list" where
  "date_errors t = flag (\<not> found DATA_RE t) No_Iso_Date"

definition active_id :: "pystr \<Rightarrow> pystr" where
  "active_id shown =
     (case re_match ACTIVE_TASK_RE shown of None \<Rightarrow> shown | Some st \<Rightarrow> group 1 st)"

definition ACTIVE_STATUSES :: "pystr list" where
  "ACTIVE_STATUSES = map lit [''PLANNED'', ''REFINEMENT'', ''READY'', ''IN_PROGRESS'', ''BLOCKED'']"

definition active_errors :: "tasks \<Rightarrow> pystr \<Rightarrow> doc_error list" where
  "active_errors tasks shown =
     (let active = active_id shown
      in case map_of tasks active of
           None \<Rightarrow> [Unknown_Active_Task active]
         | Some t \<Rightarrow>
             if task_status t = lit ''PLANNED'' \<and> \<not> contains (lit ''refinement'') (lower_ascii shown)
             then [Planned_Not_Refinement active]
             else flag (task_status t \<notin> set ACTIVE_STATUSES) (Active_Status active (task_status t)))"

definition status_errors :: "tasks \<Rightarrow> pystr \<Rightarrow> doc_error list" where
  "status_errors tasks t =
     (case re_search ACTIVE_RE t of
        None \<Rightarrow> [No_Active_Task]
      | Some st \<Rightarrow>
          if group 1 st = awaiting_next then date_errors t
          else active_errors tasks (group 1 st) @ date_errors t)"

definition validate_current_status :: "fs \<Rightarrow> tasks \<Rightarrow> doc_errors" where
  "validate_current_status fs tasks =
     bind_py (doc_read fs (docs ''project/current-status.md'')) (\<lambda>t. Inr (status_errors tasks t))"

section \<open>The links\<close>

text \<open>\<open>resolve()\<close> raises \<open>ValueError\<close> for a null character; it stands outside the \<open>try\<close>.\<close>

definition resolve_link :: "pystr list \<Rightarrow> path \<Rightarrow> pystr \<Rightarrow> doc_exc + pystr list option" where
  "resolve_link root base target =
     (if 0 \<in> set target then Inl (Py_Exc Value_Error) else Inr (resolve_target root base target))"

definition external :: "string list \<Rightarrow> pystr \<Rightarrow> bool" where
  "external schemes target \<longleftrightarrow> target = [] \<or> list_ex (\<lambda>s. prefix (lit s) target) schemes"

definition link_errors :: "pystr list \<Rightarrow> fs \<Rightarrow> path \<Rightarrow> pystr \<Rightarrow> doc_errors" where
  "link_errors root fs path raw =
     (let target = normalize_link_target raw
      in if external [''http://'', ''https://'', ''mailto:'', ''urn:''] target then Inr []
         else bind_py (resolve_link root (parent path) target) (\<lambda>resolved.
           Inr (case relative_parts root resolved of
                  None \<Rightarrow> [Link_Outside path raw]
                | Some p \<Rightarrow> flag (\<not> path_exists fs p) (Broken_Link path raw))))"

definition markdown_files :: "fs \<Rightarrow> path list" where
  "markdown_files fs = sort (rglob (ends_with ''.md'') fs)"

definition file_links :: "pystr list \<Rightarrow> fs \<Rightarrow> path \<Rightarrow> doc_errors" where
  "file_links root fs path =
     bind_py (doc_read fs path) (\<lambda>t. each_py (link_errors root fs path) (links t))"

definition validate_links :: "pystr list \<Rightarrow> fs \<Rightarrow> doc_errors" where
  "validate_links root fs = each_py (file_links root fs) (markdown_files fs)"

section \<open>The documentation index\<close>

definition index_path :: path where
  "index_path = docs ''DOCUMENTATION_INDEX.md''"

text \<open>The suffix of a link that leaves \<open>docs\<close> has no effect: such a link is dropped in any case.\<close>

definition listed_document :: "pystr list \<Rightarrow> pystr \<Rightarrow> doc_exc + pystr list" where
  "listed_document root raw =
     (let target = normalize_link_target raw
      in if external [''http://'', ''https://''] target then Inr []
         else bind_py (resolve_link root (parent index_path) target) (\<lambda>resolved.
           Inr (case relative_parts (root @ [lit ''docs'']) resolved of
                  None \<Rightarrow> []
                | Some p \<Rightarrow> if name_suffix (path_name p) = lit ''.md'' then [as_posix p] else [])))"

definition docs_markdown :: "fs \<Rightarrow> path list" where
  "docs_markdown fs = filter (below (rel ''docs'')) (rglob (ends_with ''.md'') fs)"

definition actual_documents :: "fs \<Rightarrow> pystr list" where
  "actual_documents fs =
     map (\<lambda>p. as_posix (Path (tl (parts p)))) (filter (\<lambda>p. p \<noteq> index_path) (docs_markdown fs))"

definition difference :: "pystr list \<Rightarrow> pystr list \<Rightarrow> pystr list" where
  "difference xs ys = sort (remdups (filter (\<lambda>x. x \<notin> set ys) xs))"

definition validate_documentation_index :: "pystr list \<Rightarrow> fs \<Rightarrow> doc_errors" where
  "validate_documentation_index root fs =
     bind_py (doc_read fs index_path) (\<lambda>t.
       bind_py (each_py (listed_document root) (links t)) (\<lambda>listed.
         Inr (map Not_Indexed (difference (actual_documents fs) listed)
            @ map Stale_Index (difference listed (actual_documents fs)))))"

section \<open>Text hygiene\<close>

definition text_suffixes :: "pystr list" where
  "text_suffixes = map lit [''.md'', ''.py'', ''.sh'', ''.yml'', ''.yaml'', ''.json'']"

definition is_text_file :: "fs \<Rightarrow> path \<Rightarrow> bool" where
  "is_text_file fs p \<longleftrightarrow> is_file fs p \<and> name_suffix (path_name p) \<in> set text_suffixes"

definition blank_byte :: "char \<Rightarrow> bool" where
  "blank_byte c \<longleftrightarrow> c = CHR '' '' \<or> c = CHR 0x09"

definition trailing_errors :: "path \<Rightarrow> bytes \<Rightarrow> doc_error list" where
  "trailing_errors p data =
     concat (map (\<lambda>(number, line). flag (rstrip_by blank_byte line \<noteq> line) (Trailing_Whitespace p number))
       (zip [1..<Suc (length (bytes_splitlines data))] (bytes_splitlines data)))"

definition hygiene_errors :: "path \<Rightarrow> bytes \<Rightarrow> doc_error list" where
  "hygiene_errors p data =
     flag (contains [CHR 0x0D, CHR 0x0A] data) (Crlf p)
     @ flag (data \<noteq> [] \<and> \<not> suffix [CHR 0x0A] data) (No_Final_Newline p)
     @ (if name_suffix (path_name p) \<noteq> lit ''.md'' then trailing_errors p data else [])"

definition file_hygiene :: "fs \<Rightarrow> path \<Rightarrow> doc_errors" where
  "file_hygiene fs p =
     (case read_bytes fs p of Inl e \<Rightarrow> Inl (Py_Exc e) | Inr data \<Rightarrow> Inr (hygiene_errors p data))"

definition validate_text_hygiene :: "fs \<Rightarrow> doc_errors" where
  "validate_text_hygiene fs =
     each_py (file_hygiene fs) (filter (is_text_file fs) (sort (rglob any_name fs)))"

section \<open>The registers\<close>

definition duplicates :: "pystr list \<Rightarrow> pystr list" where
  "duplicates ids = sort (remdups (filter (\<lambda>v. 1 < count_list ids v) ids))"

definition register_ids :: "string \<Rightarrow> pystr \<Rightarrow> pystr list" where
  "register_ids letter t = map (cap 1) (re_findall (register_re letter) t)"

definition register_errors :: "fs \<Rightarrow> path \<times> string \<times> string \<Rightarrow> doc_errors" where
  "register_errors fs = (\<lambda>(path, letter, label).
     bind_py (doc_read fs path) (\<lambda>t.
       let ids = register_ids letter t
       in Inr (map (Duplicate_Register_Id (lit label)) (duplicates ids)
             @ flag (ids = []) (Empty_Register (lit label) path))))"

definition validate_unique_register_ids :: "fs \<Rightarrow> doc_errors" where
  "validate_unique_register_ids fs =
     each_py (register_errors fs)
       [(docs ''project/decision-log.md'', ''D'', ''decision''),
        (docs ''project/risk-register.md'', ''R'', ''risk'')]"

section \<open>The run\<close>

datatype doc_outcome = Doc_Failed "doc_error list" | Doc_Success nat nat nat

fun doc_exit_code :: "doc_outcome \<Rightarrow> int" where
  "doc_exit_code (Doc_Failed es) = 1"
| "doc_exit_code (Doc_Success tasks refs files) = 0"

definition doc_errors_of :: "pystr list \<Rightarrow> fs \<Rightarrow> doc_error list \<times> tasks \<Rightarrow> doc_errors" where
  "doc_errors_of root fs = (\<lambda>(backlog_es, tasks).
     seqs_py
       [validate_required_files fs, Inr backlog_es, validate_refinements fs tasks,
        validate_current_status fs tasks, validate_links root fs,
        validate_documentation_index root fs, validate_text_hygiene fs,
        validate_unique_register_ids fs])"

definition doc_main :: "pystr list \<Rightarrow> fs \<Rightarrow> doc_exc + doc_outcome" where
  "doc_main root fs =
     bind_py (validate_backlog fs) (\<lambda>(backlog_es, tasks).
       bind_py (doc_errors_of root fs (backlog_es, tasks)) (\<lambda>errors.
         Inr (if errors \<noteq> [] then Doc_Failed errors
              else Doc_Success (length tasks) (length (remdups (map (task_refinement \<circ> snd) tasks)))
                     (length (docs_markdown fs)))))"

end
