(* ===== verification/Doc_Properties.thy ===== *)
theory Doc_Properties
  imports Doc_Governance
begin

text \<open>
  The properties of the documentation gate: what a successful run guarantees about the backlog,
  the refinements and the active task, the exact meaning of the hygiene and index checks, and
  how the run ends when a file it reads is missing.
\<close>

section \<open>A successful run\<close>

lemma doc_main_success:
  "doc_main root fs = Inr (Doc_Success a b c) \<Longrightarrow>
   \<exists>ts. validate_backlog fs = Inr ([], ts) \<and> doc_errors_of root fs ([], ts) = Inr []
     \<and> a = length ts"
  by (auto simp: doc_main_def doc_errors_of_def py_ok seq_py_def split: prod.splits if_splits)

lemma doc_errors_of_Nil:
  assumes "doc_errors_of root fs (es, ts) = Inr []"
  shows "es = []" and "validate_required_files fs = Inr []"
    and "validate_refinements fs ts = Inr []" and "validate_current_status fs ts = Inr []"
    and "validate_links root fs = Inr []" and "validate_documentation_index root fs = Inr []"
    and "validate_text_hygiene fs = Inr []" and "validate_unique_register_ids fs = Inr []"
  using assms by (simp_all add: doc_errors_of_def py_ok)

section \<open>The backlog\<close>

definition task_ok :: "task \<Rightarrow> bool" where
  "task_ok t \<longleftrightarrow> matched TASK_RE (task_id t) \<and> task_status t \<in> set ALLOWED_STATUSES
     \<and> full PRIORITY_RE (task_priority t) \<and> matched TASK_RE (task_refinement t)"

text \<open>Whatever the loop reports, its dictionary keeps one task per identifier.\<close>

definition tasks_ok :: "tasks \<Rightarrow> bool" where
  "tasks_ok ts \<longleftrightarrow> distinct (map fst ts)
     \<and> (\<forall>(k, t) \<in> set ts. k = task_id t \<and> matched TASK_RE (task_id t))"

lemma backlog_loop_tasks_ok: "tasks_ok ts \<Longrightarrow> tasks_ok (snd (backlog_loop ts rows))"
proof (induction ts rows rule: backlog_loop.induct)
  case (2 ts row rows)
  let ?t = "task_of_row row"
  have "tasks_ok (ts @ [(task_id ?t, ?t)])"
    if "matched TASK_RE (task_id ?t)" "task_id ?t \<notin> set (map fst ts)"
    using 2(4) that by (auto simp: tasks_ok_def)
  then show ?case using 2
    by (cases "backlog_loop ts rows"; cases "backlog_loop (ts @ [(task_id ?t, ?t)]) rows")
      (auto simp: Let_def)
qed simp

text \<open>A loop without errors keeps every row, in order.\<close>

lemma backlog_loop_clean:
  "backlog_loop ts rows = ([], ts') \<Longrightarrow>
   ts' = ts @ map (\<lambda>r. (task_id (task_of_row r), task_of_row r)) rows
   \<and> (\<forall>r \<in> set rows. task_ok (task_of_row r))"
proof (induction ts rows arbitrary: ts' rule: backlog_loop.induct)
  case (2 ts row rows)
  let ?t = "task_of_row row"
  obtain es us where l: "backlog_loop (ts @ [(task_id ?t, ?t)]) rows = (es, us)" by force
  have m: "matched TASK_RE (task_id ?t)" "task_id ?t \<notin> set (map fst ts)"
    using 2(4) by (auto simp: Let_def split: if_splits prod.splits)
  then have e: "task_errors ?t = []" and u: "es = []" "us = ts'"
    using 2(4) l by (simp_all add: Let_def)
  from 2(3)[OF refl _ m(2) l[unfolded u]] m(1)
  have "ts' = (ts @ [(task_id ?t, ?t)]) @ map (\<lambda>r. (task_id (task_of_row r), task_of_row r)) rows
     \<and> (\<forall>r \<in> set rows. task_ok (task_of_row r))" by simp
  then show ?case using m(1) e by (auto simp: task_errors_def task_ok_def)
qed simp

definition backlog_rows :: "fs \<Rightarrow> pystr list list" where
  "backlog_rows fs =
     (case parse_markdown_table fs (docs ''project/backlog.md'') of Inr (h, rs) \<Rightarrow> rs | _ \<Rightarrow> [])"

lemma validate_backlog_clean:
  assumes "validate_backlog fs = Inr ([], ts)"
  shows "ts = map (\<lambda>r. (task_id (task_of_row r), task_of_row r)) (backlog_rows fs)"
    and "ts \<noteq> []" and "tasks_ok ts" and "\<forall>(k, t) \<in> set ts. task_ok t"
proof -
  obtain rows where r: "parse_markdown_table fs (docs ''project/backlog.md'') = Inr (backlog_columns, rows)"
    and l: "backlog_loop [] rows = ([], ts)" and ne: "ts \<noteq> []"
    using assms by (auto simp: validate_backlog_def split: sum.splits doc_exc.splits if_splits prod.splits)
  from backlog_loop_clean[OF l] r ne
  show "ts = map (\<lambda>r. (task_id (task_of_row r), task_of_row r)) (backlog_rows fs)"
    "ts \<noteq> []" "\<forall>(k, t) \<in> set ts. task_ok t" by (auto simp: backlog_rows_def)
  have "tasks_ok []" by (simp add: tasks_ok_def)
  from backlog_loop_tasks_ok[OF this, of rows] l show "tasks_ok ts" by simp
qed

text \<open>The table in the lines of the page.\<close>

lemma table_scan_Inr:
  "table_scan p lines = Inr (h, rows) \<Longrightarrow>
   \<exists>front header under body. lines = front @ header # under # body
     \<and> (\<forall>line \<in> set front. \<not> prefix (lit ''| ID |'') line) \<and> prefix (lit ''| ID |'') header
     \<and> h = cells header \<and> rows = table_rows h body"
proof (induction p lines rule: table_scan.induct)
  case (2 p line rest)
  show ?case
  proof (cases "prefix (lit ''| ID |'') line")
    case True
    then obtain under body where "rest = under # body" using "2.prems" by (cases rest) (auto split: if_splits)
    then have "line # rest = [] @ line # under # body \<and> h = cells line \<and> rows = table_rows h body"
      using True "2.prems" by auto
    then show ?thesis using True by (metis empty_iff empty_set)
  next
    case False
    then obtain front header under body where "rest = front @ header # under # body"
      "\<forall>line \<in> set front. \<not> prefix (lit ''| ID |'') line" "prefix (lit ''| ID |'') header"
      "h = cells header" "rows = table_rows h body"
      using 2 by auto
    then have "line # rest = (line # front) @ header # under # body
        \<and> (\<forall>l \<in> set (line # front). \<not> prefix (lit ''| ID |'') l)" using False by simp
    then show ?thesis using \<open>prefix (lit ''| ID |'') header\<close> \<open>h = cells header\<close> \<open>rows = table_rows h body\<close> by blast
  qed
qed simp

text \<open>A line of the table with another number of cells than the header is skipped, without a message.\<close>

lemma odd_line_skipped:
  assumes "\<forall>l \<in> set ls. prefix (lit ''|'') l" "prefix (lit ''|'') line" "length (cells line) \<noteq> length headers"
  shows "table_rows headers (ls @ line # ls') = table_rows headers (ls @ ls')"
  using assms by (simp add: table_rows_def takeWhile_append2)

text \<open>
  C15: when the gate succeeds, the page of the backlog has a table under the first line that starts
  with \<open>| ID |\<close>, and that line has the seven columns of the backlog. The rows are the lines of the
  table with seven cells; there is at least one, each became one task, and the number of tasks that
  the gate prints is theirs. The identifiers are distinct, and every task has an identifier and a
  refinement reference of the form EMP-nnn, an allowed status and a priority from P0 to P2. (A line
  of the table with another number of cells is no row, and nothing is known about it.)
\<close>

theorem accepted_backlog:
  assumes "doc_main root fs = Inr (Doc_Success tasks refs files)"
  shows "\<exists>page front header under body rows. doc_read fs (docs ''project/backlog.md'') = Inr page
    \<and> splitlines page = front @ header # under # body
    \<and> (\<forall>line \<in> set front. \<not> prefix (lit ''| ID |'') line)
    \<and> prefix (lit ''| ID |'') header \<and> cells header = backlog_columns
    \<and> rows = filter (\<lambda>row. length row = 7) (map cells (takeWhile (prefix (lit ''|'')) body))
    \<and> rows \<noteq> [] \<and> tasks = length rows
    \<and> distinct (map (\<lambda>r. task_id (task_of_row r)) rows)
    \<and> (\<forall>r \<in> set rows. task_ok (task_of_row r))"
proof -
  obtain ts where b: "validate_backlog fs = Inr ([], ts)" and n: "tasks = length ts"
    using doc_main_success[OF assms] by blast
  note c = validate_backlog_clean[OF b]
  let ?rows = "backlog_rows fs"
  have t: "parse_markdown_table fs (docs ''project/backlog.md'') = Inr (backlog_columns, ?rows)"
    using b by (auto simp: validate_backlog_def backlog_rows_def split: sum.splits doc_exc.splits if_splits prod.splits)
  then obtain page where page: "doc_read fs (docs ''project/backlog.md'') = Inr page"
    and scan: "table_scan (docs ''project/backlog.md'') (splitlines page) = Inr (backlog_columns, ?rows)"
    by (auto simp: parse_markdown_table_def py_ok)
  obtain front header under body where l: "splitlines page = front @ header # under # body"
    "\<forall>line \<in> set front. \<not> prefix (lit ''| ID |'') line" "prefix (lit ''| ID |'') header"
    "backlog_columns = cells header" "?rows = table_rows backlog_columns body"
    using table_scan_Inr[OF scan] by blast
  have "length backlog_columns = 7" by (simp add: backlog_columns_def)
  then have rows: "?rows = filter (\<lambda>row. length row = 7) (map cells (takeWhile (prefix (lit ''|'')) body))"
    using l(5) by (simp add: table_rows_def)
  have "map fst ts = map (\<lambda>r. task_id (task_of_row r)) ?rows"
    by (subst c(1)) simp
  then have "distinct (map (\<lambda>r. task_id (task_of_row r)) ?rows)"
    using c(3) by (auto simp: tasks_ok_def)
  moreover have "length ts = length ?rows" by (subst c(1)) simp
  moreover have "\<forall>r \<in> set ?rows. task_ok (task_of_row r)"
    using c(4) by (subst (asm) c(1)) auto
  moreover have "?rows \<noteq> []" using c(1,2) by auto
  ultimately show ?thesis using page l(1-4) rows n by metis
qed

section \<open>The refinements\<close>

text \<open>What the process demands of a refinement before its task may be implemented.\<close>

definition accepted_text :: "pystr \<Rightarrow> pystr \<Rightarrow> bool" where
  "accepted_text rid t \<longleftrightarrow>
     map_of (metadata_of t) (lit ''Task-ID'') = Some rid
     \<and> map_of (metadata_of t) (lit ''Stan-Refinementu'') = Some (lit ''ACCEPTED'')
     \<and> (\<exists>date. map_of (metadata_of t) (lit ''Data-Akceptacji'') = Some date \<and> full ISO_DATE_RE date)
     \<and> map_of (metadata_of t) (lit ''Implementation-Allowed'') = Some (lit ''YES'')
     \<and> \<not> found TODO_RE t \<and> contains no_blocking_questions t"

definition refinement_accepted :: "fs \<Rightarrow> pystr \<Rightarrow> bool" where
  "refinement_accepted fs rid \<longleftrightarrow>
     (\<exists>p t. refinement_file fs rid = Some p \<and> doc_read fs p = Inr t \<and> accepted_text rid t)"

lemma full_iso_Nil: "\<not> full ISO_DATE_RE []"
  by (simp add: full_def ISO_DATE_RE_def digits_def re_fullmatch_def numeral_eq_Suc)

definition entry_ok :: "fs \<Rightarrow> pystr \<times> metadata \<Rightarrow> bool" where
  "entry_ok fs = (\<lambda>(rid, md). \<exists>p t. refinement_file fs rid = Some p \<and> doc_read fs p = Inr t
     \<and> md = metadata_of t \<and> refinement_errors rid md (Inr t) = Inr [])"

lemma gate_errors_Nil:
  "gate_errors checked t = [] \<longleftrightarrow> (task_status t \<in> set NEEDS_ACCEPTED \<longrightarrow>
     (\<exists>md. map_of checked (task_refinement t) = Some md
        \<and> map_of md (lit ''Stan-Refinementu'') = Some (lit ''ACCEPTED'')))"
  by (auto simp: gate_errors_def split: option.splits)

lemma refinement_errors_accepted:
  assumes "refinement_errors rid (metadata_of t) (Inr t) = Inr []"
    and "map_of (metadata_of t) (lit ''Stan-Refinementu'') = Some (lit ''ACCEPTED'')"
  shows "accepted_text rid t"
  using assms full_iso_Nil
  by (auto simp: refinement_errors_def accepted_text_def py_ok split: option.splits)

lemma gate_accepted:
  assumes "gate_errors c t = []" "list_all (entry_ok fs) c" "task_status t \<in> set NEEDS_ACCEPTED"
  shows "refinement_accepted fs (task_refinement t)"
proof -
  obtain md where md: "map_of c (task_refinement t) = Some md"
    "map_of md (lit ''Stan-Refinementu'') = Some (lit ''ACCEPTED'')"
    using assms(1,3) by (auto simp: gate_errors_Nil)
  then have "entry_ok fs (task_refinement t, md)"
    using assms(2) by (auto simp: list_all_iff dest: map_of_SomeD)
  then show ?thesis using md(2) refinement_errors_accepted
    by (auto simp: entry_ok_def refinement_accepted_def)
qed

lemma checked_file:
  "list_all (entry_ok fs) c \<Longrightarrow> rid \<in> set (map fst c) \<Longrightarrow> refinement_file fs rid \<noteq> None"
  by (auto simp: list_all_iff entry_ok_def)

lemma refinements_loop_ok:
  "refinements_loop fs checked ts = Inr [] \<Longrightarrow> list_all (entry_ok fs) checked \<Longrightarrow> t \<in> set ts \<Longrightarrow>
   refinement_file fs (task_refinement t) \<noteq> None
   \<and> (task_status t \<in> set NEEDS_ACCEPTED \<longrightarrow> refinement_accepted fs (task_refinement t))"
proof (induction fs checked ts rule: refinements_loop.induct)
    case (2 fs checked u us)
    show ?case
    proof (cases "task_refinement u \<in> set (map fst checked)")
      case True
      then have g: "gate_errors checked u = []" and r: "refinements_loop fs checked us = Inr []"
        using 2(4) by (simp_all add: py_ok)
      show ?thesis
      proof (cases "t = u")
        case eq: True
        show ?thesis using gate_accepted[OF g 2(5)] checked_file[OF 2(5) True] by (simp add: eq)
      next
        case False
        then show ?thesis using 2(1)[OF refl True r 2(5)] 2(6) by simp
      qed
    next
      case False
      then obtain p md where p: "refinement_file fs (task_refinement u) = Some p"
        and md: "parse_refinement_metadata fs p = Inr md"
        and rest: "refinement_errors (task_refinement u) md (doc_read fs p) = Inr []"
          "gate_errors (checked @ [(task_refinement u, md)]) u = []"
          "refinements_loop fs (checked @ [(task_refinement u, md)]) us = Inr []"
        using 2(4) by (auto simp: py_ok Let_def split: option.splits)
      then have ok: "list_all (entry_ok fs) (checked @ [(task_refinement u, md)])"
        using 2(5) by (auto simp: entry_ok_def parse_refinement_metadata_def py_ok)
      show ?thesis
      proof (cases "t = u")
        case eq: True
        show ?thesis using gate_accepted[OF rest(2) ok] p by (simp add: eq)
      next
        case neq: False
        then show ?thesis using 2(3)[OF refl False p md refl rest(3) ok] 2(6) by simp
      qed
    qed
qed simp

text \<open>
  C14: When the gate succeeds, no task is ready, in progress or done on an unaccepted refinement:
  the refinement file that its row names exists, carries the row's identifier, is accepted with a
  date, allows the implementation, and holds neither an open marker nor a blocking question.
  The metadata of a refinement that several tasks share is checked once and remembered.
\<close>

theorem accepted_refinements:
  assumes "doc_main root fs = Inr (Doc_Success tasks refs files)" "row \<in> set (backlog_rows fs)"
    "task_status (task_of_row row) \<in> set NEEDS_ACCEPTED"
  shows "refinement_accepted fs (task_refinement (task_of_row row))"
proof -
  obtain ts where b: "validate_backlog fs = Inr ([], ts)" and e: "doc_errors_of root fs ([], ts) = Inr []"
    using doc_main_success[OF assms(1)] by blast
  have "task_of_row row \<in> set (map snd ts)"
    using assms(2) by (subst validate_backlog_clean(1)[OF b]) auto
  then show ?thesis
    using refinements_loop_ok[of fs "[]" "map snd ts" "task_of_row row"] doc_errors_of_Nil(3)[OF e] assms(3)
    by (simp add: validate_refinements_def)
qed

section \<open>The active task\<close>

lemma active_errors_Nil:
  "active_errors ts shown = [] \<longleftrightarrow>
     (\<exists>t. map_of ts (active_id shown) = Some t \<and> task_status t \<in> set ACTIVE_STATUSES
        \<and> (task_status t = lit ''PLANNED'' \<longrightarrow> contains (lit ''refinement'') (lower_ascii shown)))"
  by (auto simp: active_errors_def Let_def ACTIVE_STATUSES_def split: option.splits)

lemma status_errors_Nil:
  "status_errors ts t = [] \<longleftrightarrow> found DATA_RE t
     \<and> (\<exists>st. re_search ACTIVE_RE t = Some st
          \<and> (group 1 st = awaiting_next \<or> active_errors ts (group 1 st) = []))"
  by (auto simp: status_errors_def date_errors_def split: option.splits)

text \<open>The task that the status page shows as active.\<close>

definition active_task :: "fs \<Rightarrow> pystr \<Rightarrow> bool" where
  "active_task fs shown \<longleftrightarrow>
     (\<exists>row \<in> set (backlog_rows fs). task_id (task_of_row row) = active_id shown
        \<and> task_status (task_of_row row) \<in> set ACTIVE_STATUSES
        \<and> (task_status (task_of_row row) = lit ''PLANNED'' \<longrightarrow>
             contains (lit ''refinement'') (lower_ascii shown)))"

text \<open>
  When the gate succeeds, the status page has an ISO date and an active task, which is either
  the text that awaits the next refinement or a row of the backlog that is not finished; a task
  that is only planned has to be announced as a refinement.
\<close>

theorem accepted_active_task:
  assumes "doc_main root fs = Inr (Doc_Success tasks refs files)"
  shows "\<exists>page st. doc_read fs (docs ''project/current-status.md'') = Inr page \<and> found DATA_RE page
    \<and> re_search ACTIVE_RE page = Some st
    \<and> (group 1 st = awaiting_next \<or> active_task fs (group 1 st))"
proof -
  obtain ts where b: "validate_backlog fs = Inr ([], ts)" and e: "doc_errors_of root fs ([], ts) = Inr []"
    using doc_main_success[OF assms] by blast
  have row: "\<exists>row \<in> set (backlog_rows fs). task_of_row row = t \<and> task_id t = k" if "map_of ts k = Some t" for k t
    using map_of_SomeD[OF that] by (subst (asm) validate_backlog_clean(1)[OF b]) auto
  have "active_task fs shown" if a: "active_errors ts shown = []" for shown
  proof -
    obtain t where t: "map_of ts (active_id shown) = Some t" "task_status t \<in> set ACTIVE_STATUSES"
      "task_status t = lit ''PLANNED'' \<longrightarrow> contains (lit ''refinement'') (lower_ascii shown)"
      using a by (auto simp: active_errors_Nil)
    show ?thesis using row[OF t(1)] t(2,3) by (auto simp: active_task_def)
  qed
  then show ?thesis
    using doc_errors_of_Nil(4)[OF e] by (auto simp: validate_current_status_def py_ok status_errors_Nil)
qed

section \<open>Text hygiene\<close>

text \<open>A blank directly before a line break or the end of the file.\<close>

definition blank_at_end :: "bytes \<Rightarrow> bool" where
  "blank_at_end data \<longleftrightarrow> (\<exists>pre b post. data = pre @ b # post \<and> blank_byte b
     \<and> (post = [] \<or> hd post \<in> {CHR 0x0A, CHR 0x0D}))"

lemma blank_at_end_Cons:
  "blank_at_end (x # xs) \<longleftrightarrow>
     (blank_byte x \<and> (xs = [] \<or> hd xs \<in> {CHR 0x0A, CHR 0x0D})) \<or> blank_at_end xs"
  unfolding blank_at_end_def by (simp only: Cons_eq_append_conv) blast

lemma blank_at_end_Nil [simp]: "\<not> blank_at_end []"
  by (simp add: blank_at_end_def)

lemma split_lines_blank:
  assumes "brk = (\<lambda>c. c \<in> set [CHR 0x0A, CHR 0x0D])" "cr = CHR 0x0D" "lf = CHR 0x0A"
  shows "(\<exists>l \<in> set (split_lines brk cr lf data). l \<noteq> [] \<and> blank_byte (last l)) \<longleftrightarrow> blank_at_end data"
  using assms
proof (induction brk cr lf data rule: split_lines.induct)
  case (2 brk cr lf x xs)
  consider (crlf) "x = cr \<and> xs \<noteq> [] \<and> hd xs = lf"
    | (brk) "\<not> (x = cr \<and> xs \<noteq> [] \<and> hd xs = lf)" "brk x"
    | (plain) "\<not> (x = cr \<and> xs \<noteq> [] \<and> hd xs = lf)" "\<not> brk x" by blast
  then show ?case
  proof cases
    case crlf
    then obtain ys where xs: "xs = lf # ys" by (cases xs) auto
    have "\<not> blank_byte cr" "\<not> blank_byte lf" by (simp_all add: 2(5,6) blank_byte_def)
    then show ?thesis using 2(1)[OF crlf 2(4,5,6)] crlf by (simp add: xs blank_at_end_Cons)
  next
    case brk
    then have "\<not> blank_byte x" by (auto simp: 2(4) blank_byte_def)
    then show ?thesis using 2(2)[OF brk 2(4,5,6)] brk by (auto simp: blank_at_end_Cons)
  next
    case plain
    note IH = 2(3)[OF plain 2(4,5,6)]
    show ?thesis
    proof (cases "split_lines brk cr lf xs")
      case Nil
      then have "xs = []" by (cases xs) (auto split: if_splits list.splits)
      then show ?thesis using plain by (simp add: blank_at_end_Cons)
    next
      case (Cons l ls)
      have hd: "l = [] \<longleftrightarrow> hd xs \<in> {CHR 0x0A, CHR 0x0D}" and ne: "xs \<noteq> []"
        using Cons 2(4,5,6) by (cases xs; auto split: if_splits list.splits)+
      show ?thesis using IH plain hd ne by (auto simp: Cons blank_at_end_Cons)
    qed
  qed
qed simp

lemma trailing_errors_Nil: "trailing_errors p data = [] \<longleftrightarrow> \<not> blank_at_end data"
proof -
  have "trailing_errors p data = [] \<longleftrightarrow>
      (\<forall>line \<in> set (map snd (zip [1..<Suc (length (bytes_splitlines data))] (bytes_splitlines data))).
         rstrip_by blank_byte line = line)"
    unfolding trailing_errors_def by (auto simp del: map_snd_zip upt_Suc)
  then have "trailing_errors p data = [] \<longleftrightarrow>
      (\<forall>line \<in> set (bytes_splitlines data). line = [] \<or> \<not> blank_byte (last line))"
    by (simp add: rstrip_by_id_iff del: upt_Suc)
  then show ?thesis using split_lines_blank[OF refl refl refl, of data]
    by (auto simp: bytes_splitlines_def)
qed

lemma file_hygiene_Inr: "read_bytes fs p = Inr data \<Longrightarrow> file_hygiene fs p = Inr (hygiene_errors p data)"
  by (simp add: file_hygiene_def)

text \<open>
  The hygiene check never raises, and it accepts the tree exactly when every text file ends
  with a line feed unless it is empty, holds no carriage return before a line feed, and, unless
  it is Markdown, has no blank in front of a line break or at its end.
\<close>

theorem hygiene_accepted_iff:
  "(\<exists>es. validate_text_hygiene fs = Inr es)
   \<and> (validate_text_hygiene fs = Inr [] \<longleftrightarrow>
        (\<forall>p data. read_bytes fs p = Inr data \<and> name_suffix (path_name p) \<in> set text_suffixes \<longrightarrow>
           \<not> contains [CHR 0x0D, CHR 0x0A] data \<and> (data = [] \<or> last data = CHR 0x0A)
           \<and> (name_suffix (path_name p) = lit ''.md'' \<or> \<not> blank_at_end data)))"
proof -
  define ps where "ps = filter (is_text_file fs) (sort (rglob any_name fs))"
  have ps: "set ps = {p. is_text_file fs p}"
    using is_file_in_fs[of fs] by (auto simp: ps_def rglob_def any_name_def is_text_file_def)
  have h: "\<exists>data. read_bytes fs p = Inr data \<and> file_hygiene fs p = Inr (hygiene_errors p data)"
    if "p \<in> set ps" for p
    using that by (auto simp: ps is_text_file_def is_file_iff file_hygiene_def)
  have "\<exists>es. each_py (file_hygiene fs) ps = Inr es"
  proof (rule exI, rule each_py_total)
    fix p assume "p \<in> set ps"
    from h[OF this] show "file_hygiene fs p = Inr (case file_hygiene fs p of Inr es \<Rightarrow> es)" by auto
  qed
  moreover have "hygiene_errors p data = [] \<longleftrightarrow> \<not> contains [CHR 0x0D, CHR 0x0A] data
      \<and> (data = [] \<or> last data = CHR 0x0A) \<and> (name_suffix (path_name p) = lit ''.md'' \<or> \<not> blank_at_end data)"
    for p data
    by (cases data rule: rev_cases) (auto simp: hygiene_errors_def trailing_errors_Nil)
  moreover have "validate_text_hygiene fs = Inr [] \<longleftrightarrow>
      (\<forall>p data. read_bytes fs p = Inr data \<and> name_suffix (path_name p) \<in> set text_suffixes \<longrightarrow>
         hygiene_errors p data = [])"
    unfolding validate_text_hygiene_def ps_def[symmetric] py_ok ps is_text_file_def is_file_iff
    by (auto simp: file_hygiene_Inr)
  ultimately show ?thesis by (simp add: validate_text_hygiene_def ps_def)
qed

section \<open>The documentation index\<close>

lemma set_difference: "set (difference xs ys) = set xs - set ys"
  by (auto simp: difference_def)

lemma distinct_difference: "distinct (difference xs ys)"
  by (simp add: difference_def)

lemma rel_docs: "parts (rel ''docs'') = [lit ''docs'']"
  by code_simp

lemma index_parts: "parts index_path = lit ''docs'' # parts (rel ''DOCUMENTATION_INDEX.md'')"
  by code_simp

lemma index_ok: "path_ok (rel ''DOCUMENTATION_INDEX.md'')"
  unfolding path_ok_def by (auto simp: rel_def intro: component_ok_split) code_simp

lemma index_not_actual:
  assumes "fs_ok fs"
  shows "as_posix (rel ''DOCUMENTATION_INDEX.md'') \<notin> set (actual_documents fs)"
proof
  assume "as_posix (rel ''DOCUMENTATION_INDEX.md'') \<in> set (actual_documents fs)"
  then obtain p where p: "p \<in> fst ` set fs" "below (rel ''docs'') p" "p \<noteq> index_path"
    and eq: "as_posix (rel ''DOCUMENTATION_INDEX.md'') = as_posix (Path (tl (parts p)))"
    by (auto simp: actual_documents_def docs_markdown_def rglob_def)
  obtain rest where r: "parts p = lit ''docs'' # rest" "rest \<noteq> []"
    using p(2) by (auto simp: below_def rel_docs strict_prefix_def prefix_def)
  have "path_ok p" using p(1) assms by (auto simp: fs_ok_def)
  then have "path_ok (Path rest)" using r by (auto simp: path_ok_def)
  then have "rel ''DOCUMENTATION_INDEX.md'' = Path rest"
    using eq r index_ok by (auto dest: as_posix_inj)
  then have "parts p = parts index_path" using r by (simp add: index_parts)
  then show False using p(3) by (simp add: path.expand)
qed

text \<open>
  The index check reports every document that the index does not list and every listed path
  that is not a document, each once. A link of the index to itself counts as a listed path that
  is not a document, although the file exists.
\<close>

theorem index_reported:
  assumes "validate_documentation_index root fs = Inr es" "fs_ok fs"
  shows "\<exists>t listed. doc_read fs index_path = Inr t
    \<and> each_py (listed_document root) (links t) = Inr listed
    \<and> set es = Not_Indexed ` (set (actual_documents fs) - set listed)
        \<union> Stale_Index ` (set listed - set (actual_documents fs))
    \<and> distinct es
    \<and> (es = [] \<longleftrightarrow> set listed = set (actual_documents fs))
    \<and> (as_posix (rel ''DOCUMENTATION_INDEX.md'') \<in> set listed
        \<longrightarrow> Stale_Index (as_posix (rel ''DOCUMENTATION_INDEX.md'')) \<in> set es)"
proof -
  obtain t listed where t: "doc_read fs index_path = Inr t"
    "each_py (listed_document root) (links t) = Inr listed"
    and es: "es = map Not_Indexed (difference (actual_documents fs) listed)
      @ map Stale_Index (difference listed (actual_documents fs))"
    using assms by (auto simp: validate_documentation_index_def py_ok)
  have set: "set es = Not_Indexed ` (set (actual_documents fs) - set listed)
        \<union> Stale_Index ` (set listed - set (actual_documents fs))"
    by (simp add: es set_difference)
  have "distinct es"
    by (auto simp: es distinct_map distinct_difference inj_on_def)
  moreover have "es = [] \<longleftrightarrow> set listed = set (actual_documents fs)"
    using set by (auto simp flip: set_empty)
  moreover have "as_posix (rel ''DOCUMENTATION_INDEX.md'') \<notin> set (actual_documents fs)"
    by (rule index_not_actual[OF assms(2)])
  ultimately show ?thesis using t set by auto
qed

section \<open>Links and the place of the checkout\<close>

text \<open>A path text that never climbs above the directory \<open>d\<close> levels up.\<close>

fun stays :: "nat \<Rightarrow> pystr list \<Rightarrow> bool" where
  "stays d [] = True"
| "stays d (p # ps) = (if p = [46, 46] then 0 < d \<and> stays (d - 1) ps else stays (Suc d) ps)"

lemma normal_parts_below:
  "stays (length d) ps \<Longrightarrow> normal_parts (d @ rev base) ps = base @ normal_parts d ps"
proof (induction ps arbitrary: d)
  case (Cons p ps)
  show ?case
  proof (cases "p = [46, 46]")
    case True
    then obtain x d' where d: "d = x # d'" using Cons.prems by (cases d) auto
    then show ?thesis using Cons.IH[of d'] Cons.prems True by simp
  next
    case False
    then show ?thesis using Cons.IH[of "p # d"] Cons.prems by simp
  qed
qed simp

lemma normal_parts_plain:
  "[46, 46] \<notin> set ps \<Longrightarrow> normal_parts d (ps @ qs) = normal_parts (rev ps @ d) qs"
  by (induction ps arbitrary: d) auto

lemma relative_below:
  assumes "[46, 46] \<notin> set root" "stays 0 (parts base @ path_parts target)"
    "length (takeWhile (\<lambda>c. c = 47) target) = 0"
  shows "relative_parts root (resolve_target root base target)
    = Some (Path (normal_parts [] (parts base @ path_parts target)))"
proof -
  have "normal_parts [] (root @ parts base @ path_parts target)
      = root @ normal_parts [] (parts base @ path_parts target)"
    using normal_parts_plain[OF assms(1), of "[]"] normal_parts_below[of "[]" _ root] assms(2) by simp
  then show ?thesis using assms(3) by (simp add: resolve_target_def relative_parts_def)
qed

text \<open>A link that is external, or relative and never above the repository.\<close>

definition stays_inside :: "path \<Rightarrow> pystr \<Rightarrow> bool" where
  "stays_inside path raw \<longleftrightarrow>
     external [''http://'', ''https://'', ''mailto:'', ''urn:''] (normalize_link_target raw)
     \<or> \<not> prefix [47] (normalize_link_target raw)
       \<and> stays 0 (parts (parent path) @ path_parts (normalize_link_target raw))"

lemma no_slash: "\<not> prefix [47] t \<Longrightarrow> length (takeWhile (\<lambda>c. c = 47) t) = 0"
  by (cases t) auto

lemma link_errors_inside:
  assumes "[46, 46] \<notin> set root" "stays_inside path raw"
  shows "link_errors root fs path raw =
    (let target = normalize_link_target raw
     in if external [''http://'', ''https://'', ''mailto:'', ''urn:''] target then Inr []
        else if 0 \<in> set target then Inl (Py_Exc Value_Error)
        else Inr (flag (\<not> path_exists fs (Path (normal_parts [] (parts (parent path) @ path_parts target))))
                    (Broken_Link path raw)))"
  using assms relative_below[OF assms(1), of "parent path" "normalize_link_target raw"]
  by (auto simp: link_errors_def Let_def stays_inside_def resolve_link_def dest: no_slash)

text \<open>
  The verdict on the links does not depend on where the repository is checked out, as long
  as no relative link climbs above its root and no link is absolute: then each broken link is
  reported, and nothing else.
\<close>

theorem links_relocatable:
  assumes "[46, 46] \<notin> set root" "[46, 46] \<notin> set root'"
    "list_all (\<lambda>p. case doc_read fs p of Inr t \<Rightarrow> list_all (stays_inside p) (links t) | Inl e \<Rightarrow> True)
       (markdown_files fs)"
  shows "validate_links root fs = validate_links root' fs
    \<and> (\<forall>es p raw. validate_links root fs = Inr es \<longrightarrow> Link_Outside p raw \<notin> set es)"
proof -
  have inside: "stays_inside p raw" if "p \<in> set (markdown_files fs)" "doc_read fs p = Inr t" "raw \<in> set (links t)" for p t raw
    using assms(3) that by (auto simp: list_all_iff split: sum.splits)
  have "file_links root fs p = file_links root' fs p" if p: "p \<in> set (markdown_files fs)" for p
  proof (cases "doc_read fs p")
    case (Inr t)
    have "each_py (link_errors root fs p) (links t) = each_py (link_errors root' fs p) (links t)"
      using link_errors_inside[OF assms(1)] link_errors_inside[OF assms(2)] inside[OF p Inr]
      by (intro each_py_cong) simp_all
    then show ?thesis by (simp add: file_links_def Inr)
  qed (simp add: file_links_def)
  then have same: "validate_links root fs = validate_links root' fs"
    unfolding validate_links_def by (intro each_py_cong) simp_all
  have "Link_Outside q raw \<notin> set es" if es: "validate_links root fs = Inr es" for es q raw
  proof
    assume "Link_Outside q raw \<in> set es"
    then obtain p ys where p: "p \<in> set (markdown_files fs)" "file_links root fs p = Inr ys"
      "Link_Outside q raw \<in> set ys"
      using each_py_set[OF es[unfolded validate_links_def]] by blast
    obtain t where t: "doc_read fs p = Inr t" "each_py (link_errors root fs p) (links t) = Inr ys"
      using p(2) by (auto simp: file_links_def py_ok)
    obtain l zs where l: "l \<in> set (links t)" "link_errors root fs p l = Inr zs" "Link_Outside q raw \<in> set zs"
      using each_py_set[OF t(2) p(3)] by blast
    then show False
      using link_errors_inside[OF assms(1) inside[OF p(1) t(1) l(1)], of fs]
      by (auto simp: Let_def split: if_splits)
  qed
  then show ?thesis using same by blast
qed

section \<open>Missing files\<close>

lemma doc_read_Inr: "doc_read fs p = Inr t \<Longrightarrow> is_file fs p"
  by (auto simp: doc_read_def read_text_is_file split: sum.splits pyexc.splits)

lemma required_read:
  "set [docs ''project/current-status.md'', index_path, docs ''project/decision-log.md'',
     docs ''project/risk-register.md''] \<subseteq> set REQUIRED_FILES"
  by code_simp

text \<open>
  Four of the required files are also read: when one of them is missing, or its place is a
  directory, the required-file check notes it, but the run ends with an exception and prints
  none of the collected errors.
\<close>

theorem missing_file_raises:
  assumes "p \<in> {docs ''project/current-status.md'', index_path, docs ''project/decision-log.md'',
      docs ''project/risk-register.md''}"
    "\<not> is_file fs p"
  shows "\<exists>es e. validate_required_files fs = Inr es \<and> Missing_Required p \<in> set es
    \<and> doc_main root fs = Inl e"
proof -
  have raises: "validate_current_status fs ts \<noteq> Inr es1 \<or> validate_documentation_index root fs \<noteq> Inr es2
      \<or> validate_unique_register_ids fs \<noteq> Inr es3" for ts es1 es2 es3
  proof (rule ccontr)
    assume "\<not> ?thesis"
    then have "is_file fs q" if "q \<in> {docs ''project/current-status.md'', index_path,
        docs ''project/decision-log.md'', docs ''project/risk-register.md''}" for q
      using that by (auto simp: validate_current_status_def validate_documentation_index_def
          validate_unique_register_ids_def register_errors_def py_ok dest!: seq_py_set doc_read_Inr)
    then show False using assms by blast
  qed
  have "doc_errors_of root fs (es, ts) \<noteq> Inr out" for es ts out
    using raises[of ts] seqs_py_returns
    unfolding doc_errors_of_def prod.case by (metis list.set_intros)
  then have "\<nexists>out. doc_main root fs = Inr out"
    by (auto simp: doc_main_def py_ok)
  then obtain e where "doc_main root fs = Inl e" by (cases "doc_main root fs") auto
  moreover have "p \<in> set REQUIRED_FILES" using required_read assms(1) by auto
  ultimately show ?thesis using assms(2) by (simp add: validate_required_files_def)
qed

end
