(* ===== verification/Doc_Metadata.thy ===== *)
theory Doc_Metadata
  imports Doc_Text
begin

text \<open>
  What \<open>METADATA_RE\<close> reads from a refinement: the exact match at the start of a line, and from it
  the round trip of written metadata. The pattern lets white space after the colon run over line
  ends, so a key without a value takes the next line as its value.
\<close>

section \<open>The match at a line\<close>

lemma matches_Cat_simps [simp]:
  "matches (Cat []) st = [st]"
  "matches (Cat (r # rs)) st = concat (map (matches (Cat rs)) (matches r st))"
  by simp_all

abbreviation tail_re :: regex where
  "tail_re \<equiv> Cat [Star True (Cls is_space), LineEnd]"

lemma space_newline: "is_space 10"
  by (simp add: is_space_def py_spaces_def)

lemma tail_inside:
  assumes "10 \<notin> set r" "r \<noteq> []" "\<not> is_space (last r)"
  shows "matches tail_re (p, r @ 10 # rest, c) = []"
proof -
  have ns: "\<not> (\<forall>x \<in> set r. is_space x)" using assms(2,3) by auto
  then have lt: "length (takeWhile is_space r) < length r"
    using takeWhile_all_le[of r is_space] by linarith
  have tw: "takeWhile is_space (r @ 10 # rest) = takeWhile is_space r"
    using ns by (auto simp: takeWhile_append)
  have "drop k (r @ 10 # rest) \<noteq> [] \<and> hd (drop k (r @ 10 # rest)) \<noteq> 10"
    if "k < Suc (length (takeWhile is_space r))" for k
  proof -
    have "k < length r" using lt that by simp
    then show ?thesis using assms(1) by (auto simp: hd_drop_conv_nth nth_append in_set_conv_nth)
  qed
  then show ?thesis
    unfolding matches_Cat_simps matches_Star_Cls tw by (simp del: upt_Suc drop_append)
qed

lemma rev_upt_Suc: "rev [0..<Suc n] = n # rev [0..<n]"
  by simp

lemma tail_at_end:
  assumes "rest = [] \<or> \<not> is_space (hd rest)"
  shows "\<exists>tl. matches tail_re (p, 10 # rest, c) =
    (if rest = [] then (10 # p, [], c) else (p, 10 # rest, c)) # tl"
proof -
  have tw: "takeWhile is_space (10 # rest) = [10]"
    using assms space_newline by (cases rest) auto
  have "hd rest \<noteq> 10" if "rest \<noteq> []" using assms that space_newline by auto
  then show ?thesis
    unfolding matches_Cat_simps matches_Star_Cls tw by simp
qed

abbreviation value_re :: regex where
  "value_re \<equiv> Cat [Grp 2 (Plus False Dot), Star True (Cls is_space), LineEnd]"

lemma value_match:
  assumes "10 \<notin> set v" "v \<noteq> []" "\<not> is_space (last v)" "rest = [] \<or> \<not> is_space (hd rest)"
  shows "\<exists>tl. matches value_re (p, v @ 10 # rest, c) =
    (if rest = [] then (10 # rev v @ p, [], (2, v) # c) else (rev v @ p, 10 # rest, (2, v) # c)) # tl"
proof -
  obtain v0 vs where v: "v = v0 # vs" using assms(2) by (cases v) auto
  let ?st = "\<lambda>k. (rev (take (Suc k) v) @ p, drop (Suc k) v @ 10 # rest, (2, take (Suc k) v) # c)"
  have tw: "takeWhile (\<lambda>x. x \<noteq> 10) (vs @ 10 # rest) = vs"
    using assms(1) by (auto simp: v takeWhile_append)
  have g: "matches (Grp 2 (Plus False Dot)) (p, v @ 10 # rest, c) = map ?st [0..<Suc (length vs)]"
    using assms(1) by (simp add: v Plus_def Dot_def matches_Star_Cls tw comp_def del: upt_Suc matches.simps(6))
  have inside: "matches tail_re (?st k) = []" if "k < length vs" for k
  proof (rule tail_inside)
    show "10 \<notin> set (drop (Suc k) v)" using assms(1) in_set_dropD by metis
    show "drop (Suc k) v \<noteq> []" using that by (simp add: v)
    then show "\<not> is_space (last (drop (Suc k) v))" using assms(3) by (metis last_drop drop_eq_Nil not_le)
  qed
  have "matches value_re (p, v @ 10 # rest, c) =
      concat (map (matches tail_re) (map ?st [0..<length vs])) @ matches tail_re (?st (length vs))"
    unfolding matches_Cat_simps(2)[of "Grp 2 (Plus False Dot)"] g by simp
  also have "concat (map (matches tail_re) (map ?st [0..<length vs])) = []"
    using inside by simp
  finally show ?thesis
    using tail_at_end[OF assms(4), of "rev v @ p" "(2, v) # c"] by (simp add: v split: if_splits)
qed

definition key_ok :: "pystr \<Rightarrow> bool" where
  "key_ok k \<longleftrightarrow> k \<noteq> [] \<and> list_all is_key_char k"

definition value_ok :: "pystr \<Rightarrow> bool" where
  "value_ok v \<longleftrightarrow> v \<noteq> [] \<and> 10 \<notin> set v \<and> \<not> is_space (hd v) \<and> \<not> is_space (last v)"

text \<open>A greedy run of a class that can take all it finds is the first choice.\<close>

lemma star_first:
  assumes "matches r (rev (takeWhile P s) @ p, dropWhile P s, c) = y # ys"
  shows "\<exists>tl. matches (Seq (Star True (Cls P)) r) (p, s, c) = y # tl"
proof -
  have "drop (length (takeWhile P s)) s = dropWhile P s" "take (length (takeWhile P s)) s = takeWhile P s"
    by (simp_all add: dropWhile_eq_drop take_takeWhile_len)
  then show ?thesis using assms
    unfolding matches.simps(4) matches_Star_Cls if_True rev_upt_Suc list.map(2) by simp
qed

lemma group_first:
  assumes "takeWhile P s \<noteq> []"
    "matches r (rev (takeWhile P s) @ p, dropWhile P s, (g, takeWhile P s) # c) = y # ys"
  shows "\<exists>tl. matches (Seq (Grp g (Plus True (Cls P))) r) (p, s, c) = y # tl"
proof -
  obtain n where n: "length (takeWhile P s) = Suc n" using assms(1) by (cases "takeWhile P s") auto
  have "drop (Suc n) s = dropWhile P s" "take (Suc n) s = takeWhile P s"
    by (simp_all flip: n add: dropWhile_eq_drop take_takeWhile_len)
  then show ?thesis using assms(2)
    unfolding matches.simps(4) matches_Grp_Plus_Cls n rev_upt_Suc list.map(2) by simp
qed

lemma spaced_value_match:
  assumes "list_all is_space sp" "value_ok v" "rest = [] \<or> \<not> is_space (hd rest)"
  shows "\<exists>tl. matches (Cat [Star True (Cls is_space), Grp 2 (Plus False Dot), Star True (Cls is_space), LineEnd])
      (p, sp @ v @ 10 # rest, c) =
    (if rest = [] then (10 # rev v @ rev sp @ p, [], (2, v) # c)
     else (rev v @ rev sp @ p, 10 # rest, (2, v) # c)) # tl"
proof -
  have v: "10 \<notin> set v" "v \<noteq> []" "\<not> is_space (last v)" "\<not> is_space (hd v)" using assms(2) by (auto simp: value_ok_def)
  have tw: "takeWhile is_space (sp @ v @ 10 # rest) = sp" "dropWhile is_space (sp @ v @ 10 # rest) = v @ 10 # rest"
    using assms(1) v by (cases v; auto simp: list_all_iff takeWhile_append dropWhile_append)+
  obtain tl where "matches value_re (rev sp @ p, v @ 10 # rest, c) =
    (if rest = [] then (10 # rev v @ rev sp @ p, [], (2, v) # c) else (rev v @ rev sp @ p, 10 # rest, (2, v) # c)) # tl"
    using value_match[OF v(1-3) assms(3), of "rev sp @ p" c] by auto
  then show ?thesis
    unfolding Cat.simps(2)[of "Star True (Cls is_space)"] using tw by (intro star_first) simp
qed

lemma metadata_match:
  assumes "pre = [] \<or> hd pre = 10" "key_ok k" "list_all is_space sp" "value_ok v"
    "rest = [] \<or> \<not> is_space (hd rest)"
  shows "\<exists>tl. matches METADATA_RE (pre, k @ 58 # sp @ v @ 10 # rest, []) =
    (if rest = [] then (10 # rev v @ rev sp @ 58 # rev k @ pre, [], [(2, v), (1, k)])
     else (rev v @ rev sp @ 58 # rev k @ pre, 10 # rest, [(2, v), (1, k)])) # tl"
proof -
  have tw: "takeWhile is_key_char (k @ 58 # sp @ v @ 10 # rest) = k"
    "dropWhile is_key_char (k @ 58 # sp @ v @ 10 # rest) = 58 # sp @ v @ 10 # rest"
    using assms(2) by (auto simp: key_ok_def list_all_iff takeWhile_append dropWhile_append is_key_char_def)
  obtain tl where "matches (Cat [Star True (Cls is_space), Grp 2 (Plus False Dot), Star True (Cls is_space), LineEnd])
      (58 # rev k @ pre, sp @ v @ 10 # rest, [(1, k)]) =
    (if rest = [] then (10 # rev v @ rev sp @ 58 # rev k @ pre, [], [(2, v), (1, k)])
     else (rev v @ rev sp @ 58 # rev k @ pre, 10 # rest, [(2, v), (1, k)])) # tl"
    using spaced_value_match[OF assms(3,4,5), of "58 # rev k @ pre" "[(1, k)]"] by auto
  then have "matches (Cat [Lit (lit '':''), Star True (Cls is_space), Grp 2 (Plus False Dot), Star True (Cls is_space), LineEnd])
      (rev k @ pre, 58 # sp @ v @ 10 # rest, [(1, k)]) =
    (if rest = [] then (10 # rev v @ rev sp @ 58 # rev k @ pre, [], [(2, v), (1, k)])
     else (rev v @ rev sp @ 58 # rev k @ pre, 10 # rest, [(2, v), (1, k)])) # tl"
    unfolding Cat.simps(2)[of "Lit (lit '':'')"] by (simp add: lit_def del: matches_Cat_simps Cat.simps)
  then have "\<exists>tl. matches (Cat [Grp 1 (Plus True (Cls is_key_char)), Lit (lit '':''), Star True (Cls is_space),
        Grp 2 (Plus False Dot), Star True (Cls is_space), LineEnd]) (pre, k @ 58 # sp @ v @ 10 # rest, []) =
    (if rest = [] then (10 # rev v @ rev sp @ 58 # rev k @ pre, [], [(2, v), (1, k)])
     else (rev v @ rev sp @ 58 # rev k @ pre, 10 # rest, [(2, v), (1, k)])) # tl"
    unfolding Cat.simps(2)[of "Grp 1 (Plus True (Cls is_key_char))"] using tw assms(2)
    by (intro group_first) (simp_all add: key_ok_def)
  then show ?thesis
    unfolding METADATA_RE_def Cat.simps(2)[of LineStart] using assms(1)
    by (simp del: matches_Cat_simps Cat.simps)
qed

section \<open>Scanning over lines\<close>

lemma metadata_not_at_start:
  "pre \<noteq> [] \<Longrightarrow> hd pre \<noteq> 10 \<Longrightarrow> matches METADATA_RE (pre, s, []) = []"
  by (simp add: METADATA_RE_def)

lemma findall_skip:
  assumes "matches r (pre, c # cs, []) = []"
  shows "re_findall_from r pre (c # cs) = re_findall_from r (c # pre) cs"
  using assms by (subst re_findall_from.simps) simp

lemma findall_rest_of_line:
  "pre \<noteq> [] \<Longrightarrow> hd pre \<noteq> 10 \<Longrightarrow> 10 \<notin> set l \<Longrightarrow>
   re_findall_from METADATA_RE pre (l @ 10 # rest) = re_findall_from METADATA_RE (10 # rev l @ pre) rest"
proof (induction l arbitrary: pre)
  case Nil
  then show ?case by (simp add: findall_skip metadata_not_at_start)
next
  case (Cons c l)
  then show ?case by (simp add: findall_skip[OF metadata_not_at_start])
qed

lemma findall_end:
  assumes "matches r (pre, [], []) = []" shows "re_findall_from r pre [] = []"
  using assms by (subst re_findall_from.simps) simp

lemma metadata_no_key:
  assumes "takeWhile is_key_char s = []"
  shows "matches METADATA_RE (pre, s, []) = []"
  using assms unfolding METADATA_RE_def Cat.simps matches.simps(4) matches.simps(8)
  by (simp add: matches_Grp_Plus_Cls del: matches.simps(7))

lemma findall_metadata_line:
  assumes "pre = [] \<or> hd pre = 10" "key_ok k" "list_all is_space sp" "value_ok v"
    "rest = [] \<or> \<not> is_space (hd rest)"
  shows "re_findall_from METADATA_RE pre (k @ 58 # sp @ v @ 10 # rest) =
    [(2, v), (1, k)] # re_findall_from METADATA_RE (10 # rev v @ rev sp @ 58 # rev k @ pre) rest"
proof -
  obtain tl where m: "matches METADATA_RE (pre, k @ 58 # sp @ v @ 10 # rest, []) =
    (if rest = [] then (10 # rev v @ rev sp @ 58 # rev k @ pre, [], [(2, v), (1, k)])
     else (rev v @ rev sp @ 58 # rev k @ pre, 10 # rest, [(2, v), (1, k)])) # tl"
    using metadata_match[OF assms] by auto
  have v: "v \<noteq> []" "last v \<noteq> 10" using assms(4) space_newline by (auto simp: value_ok_def)
  have "re_findall_from METADATA_RE (rev v @ rev sp @ 58 # rev k @ pre) (10 # rest) =
      re_findall_from METADATA_RE (10 # rev v @ rev sp @ 58 # rev k @ pre) rest"
    using v by (intro findall_skip metadata_not_at_start) (auto simp: hd_append hd_rev)
  then show ?thesis using v
    by (subst re_findall_from.simps) (simp add: m)
qed

text \<open>A line whose leading key characters are not followed by a colon.\<close>

lemma metadata_no_colon:
  assumes "\<not> prefix [58] (dropWhile is_key_char s)"
  shows "matches METADATA_RE (pre, s, []) = []"
proof -
  have "\<not> prefix [58] (drop (Suc k) s)" if k: "k < length (takeWhile is_key_char s)" for k
  proof (cases "Suc k = length (takeWhile is_key_char s)")
    case True
    then show ?thesis using assms by (simp add: dropWhile_eq_drop)
  next
    case False
    then have "Suc k < length (takeWhile is_key_char s)" using k by simp
    then have "Suc k < length s \<and> is_key_char (s ! Suc k)"
      using length_takeWhile_le[of is_key_char s] set_takeWhileD[of "takeWhile is_key_char s ! Suc k" is_key_char s]
      by (metis nth_mem takeWhile_nth le_trans less_le_trans)
    moreover have "\<not> is_key_char 58" by (simp add: is_key_char_def)
    ultimately show ?thesis by (auto simp: prefix_def nth_append dest!: arg_cong[where f = hd] simp: hd_drop_conv_nth)
  qed
  then show ?thesis
    unfolding METADATA_RE_def Cat.simps matches.simps(4) matches.simps(8)
    by (auto simp: matches_Grp_Plus_Cls lit_def simp del: matches.simps(7) split: if_splits)
qed

lemma key_end_in_line:
  "prefix [58] (dropWhile is_key_char (l @ 10 # rest)) \<longleftrightarrow> prefix [58] (dropWhile is_key_char (l @ [10]))"
proof (induction l)
  case Nil
  have "\<not> is_key_char 10" by (simp add: is_key_char_def)
  then show ?case by simp
qed simp

lemma findall_plain_line:
  assumes "10 \<notin> set l" "\<not> prefix [58] (dropWhile is_key_char (l @ [10]))"
  shows "re_findall_from METADATA_RE pre (l @ 10 # rest) = re_findall_from METADATA_RE (10 # rev l @ pre) rest"
proof (cases l)
  case Nil
  then show ?thesis by (simp add: findall_skip metadata_no_key is_key_char_def)
next
  case (Cons c cs)
  have np: "\<not> prefix [58] (dropWhile is_key_char (c # cs @ 10 # rest))"
    using assms(2) key_end_in_line[of l rest] unfolding Cons append_Cons by blast
  have "re_findall_from METADATA_RE pre (c # cs @ 10 # rest) = re_findall_from METADATA_RE (c # pre) (cs @ 10 # rest)"
    by (rule findall_skip[OF metadata_no_colon[OF np]])
  moreover have "re_findall_from METADATA_RE (c # pre) (cs @ 10 # rest) = re_findall_from METADATA_RE (10 # rev cs @ c # pre) rest"
    using assms(1) Cons by (intro findall_rest_of_line) auto
  ultimately show ?thesis by (simp add: Cons)
qed

section \<open>The round trip\<close>

type_synonym metadata_line = "pystr \<times> pystr \<times> pystr"

definition line_ok :: "metadata_line \<Rightarrow> bool" where
  "line_ok = (\<lambda>(k, sp, v). key_ok k \<and> list_all is_space sp \<and> value_ok v)"

definition written :: "metadata_line \<Rightarrow> pystr" where
  "written = (\<lambda>(k, sp, v). k @ 58 # sp @ v @ [10])"

lemma key_not_space: "key_ok k \<Longrightarrow> k \<noteq> [] \<and> \<not> is_space (hd k)"
  by (cases k) (auto simp: key_ok_def is_key_char_def is_space_def py_spaces_def)

lemma findall_written:
  "pre = [] \<or> hd pre = 10 \<Longrightarrow> list_all line_ok es \<Longrightarrow> rest = [] \<or> \<not> is_space (hd rest) \<Longrightarrow>
   re_findall_from METADATA_RE pre (concat (map written es) @ rest) =
     map (\<lambda>(k, sp, v). [(2, v), (1, k)]) es
     @ re_findall_from METADATA_RE (rev (concat (map written es)) @ pre) rest"
proof (induction es arbitrary: pre)
  case (Cons e es)
  obtain k sp v where e: "e = (k, sp, v)" by (cases e)
  have ok: "key_ok k" "list_all is_space sp" "value_ok v" using Cons.prems(2) by (simp_all add: e line_ok_def)
  have after: "concat (map written es) @ rest = [] \<or> \<not> is_space (hd (concat (map written es) @ rest))"
    using Cons.prems(2,3) by (cases es) (auto simp: written_def line_ok_def dest!: key_not_space)
  show ?case
    using findall_metadata_line[OF Cons.prems(1) ok after] Cons.IH[of "10 # rev v @ rev sp @ 58 # rev k @ pre"]
      Cons.prems(2,3) by (simp add: e written_def)
qed simp

text \<open>
  C37: Metadata lines are read back as written, the last line of a key counting: a key of
  letters and dashes, a colon, any white space, and a value without line ends or white space
  around it. The white space may hold line ends, so a key whose own line is empty after the colon
  gets the text of the next line as its value.
\<close>

theorem metadata_read_back:
  assumes "list_all line_ok es"
  shows "map_of (metadata_of (concat (map written es))) k =
    map_of (rev (map (\<lambda>(k, sp, v). (k, v)) es)) k"
proof -
  have "map_of (foldl (\<lambda>md caps. AList.update (cap 1 caps) (cap 2 caps) md) md (map (\<lambda>(k, sp, v). [(2, v), (1, k)]) es)) k
      = map_of (rev (map (\<lambda>(k, sp, v). (k, v)) es) @ md) k" for md
    by (induction es arbitrary: md) (auto simp: cap_def update_conv' map_add_def split: option.splits)
  from this[of "[]"] show ?thesis
    using findall_written[of "[]" es "[]"] assms findall_end[OF metadata_no_key[of "[]"]]
    by (simp add: metadata_of_def re_findall_def)
qed

section \<open>Inline links\<close>

lemma run_stop:
  "c \<notin> set xs \<Longrightarrow> takeWhile (\<lambda>x. x \<noteq> c) (xs @ c # ys) = xs"
  "c \<notin> set xs \<Longrightarrow> dropWhile (\<lambda>x. x \<noteq> c) (xs @ c # ys) = c # ys"
  by (induction xs) auto

lemma link_match:
  assumes "a \<noteq> []" "93 \<notin> set a" "t \<noteq> []" "41 \<notin> set t"
  shows "\<exists>tl. matches MARKDOWN_LINK_RE (pre, 91 # a @ 93 # 40 # t @ 41 # rest, []) =
    (41 # rev t @ 40 # 93 # rev a @ 91 # pre, rest, [(1, t)]) # tl"
proof -
  have tt: "takeWhile (\<lambda>c. c \<noteq> 41) (t @ 41 # rest) = t" "dropWhile (\<lambda>c. c \<noteq> 41) (t @ 41 # rest) = 41 # rest"
    using run_stop[OF assms(4)] by simp_all
  have "\<exists>tl. matches (Cat [Grp 1 (Plus True (Cls (\<lambda>c. c \<noteq> 41))), Lit (lit '')'')])
      (40 # 93 # rev a @ 91 # pre, t @ 41 # rest, []) =
    (41 # rev t @ 40 # 93 # rev a @ 91 # pre, rest, [(1, t)]) # tl"
    unfolding Cat.simps(2)[of "Grp 1 (Plus True (Cls (\<lambda>c. c \<noteq> 41)))"] using tt assms(3)
    by (intro group_first) (simp_all add: lit_def)
  then obtain tl where "matches (Cat [Lit (lit ''](''), Grp 1 (Plus True (Cls (\<lambda>c. c \<noteq> 41))), Lit (lit '')'')])
      (rev a @ 91 # pre, 93 # 40 # t @ 41 # rest, []) =
    (41 # rev t @ 40 # 93 # rev a @ 91 # pre, rest, [(1, t)]) # tl"
    unfolding Cat.simps(2)[of "Lit (lit '']('')"] by (auto simp: lit_def simp del: matches_Cat_simps Cat.simps)
  moreover obtain b bs where a: "a = b # bs" using assms(1) by (cases a) auto
  moreover have "takeWhile (\<lambda>c. c \<noteq> 93) (bs @ 93 # 40 # t @ 41 # rest) = bs"
    "dropWhile (\<lambda>c. c \<noteq> 93) (bs @ 93 # 40 # t @ 41 # rest) = 93 # 40 # t @ 41 # rest"
    using run_stop[of 93 bs] assms(2) by (simp_all add: a)
  ultimately have "\<exists>tl. matches (Seq (Star True (Cls (\<lambda>c. c \<noteq> 93)))
        (Cat [Lit (lit ''](''), Grp 1 (Plus True (Cls (\<lambda>c. c \<noteq> 41))), Lit (lit '')'')]))
      (b # 91 # pre, bs @ 93 # 40 # t @ 41 # rest, []) =
    (41 # rev t @ 40 # 93 # rev a @ 91 # pre, rest, [(1, t)]) # tl"
    by (intro star_first) simp
  then show ?thesis using assms(2)
    unfolding MARKDOWN_LINK_RE_def Cat.simps(2)[of "Lit (lit ''['')"] Plus_def
      Cat.simps(2)[of "Seq (Cls (\<lambda>c. c \<noteq> 93)) (Star True (Cls (\<lambda>c. c \<noteq> 93)))"]
    by (simp add: lit_def a del: matches_Cat_simps Cat.simps)
qed

lemma findall_link:
  assumes "a \<noteq> []" "93 \<notin> set a" "t \<noteq> []" "41 \<notin> set t"
  shows "re_findall_from MARKDOWN_LINK_RE pre (91 # a @ 93 # 40 # t @ 41 # rest) =
    [(1, t)] # re_findall_from MARKDOWN_LINK_RE (41 # rev t @ 40 # 93 # rev a @ 91 # pre) rest"
proof -
  obtain tl where m: "matches MARKDOWN_LINK_RE (pre, 91 # a @ 93 # 40 # t @ 41 # rest, []) =
    (41 # rev t @ 40 # 93 # rev a @ 91 # pre, rest, [(1, t)]) # tl"
    using link_match[OF assms] by blast
  show ?thesis by (subst re_findall_from.simps) (simp add: m)
qed

lemma findall_no_link:
  "91 \<notin> set s \<Longrightarrow>
   re_findall_from MARKDOWN_LINK_RE pre (s @ rest) = re_findall_from MARKDOWN_LINK_RE (rev s @ pre) rest"
proof (induction s arbitrary: pre)
  case (Cons c s)
  have "matches MARKDOWN_LINK_RE (pre, c # s @ rest, []) = []"
    using Cons.prems by (simp add: MARKDOWN_LINK_RE_def lit_def)
  then show ?case using Cons by (simp add: findall_skip)
qed simp

lemma links_no_bracket: "91 \<notin> set s \<Longrightarrow> links s = []"
proof -
  assume "91 \<notin> set s"
  moreover have "re_findall_from MARKDOWN_LINK_RE pre [] = []" for pre
    by (rule findall_end) (simp add: MARKDOWN_LINK_RE_def)
  ultimately show ?thesis using findall_no_link[of s "[]" "[]"] by (simp add: links_def re_findall_def)
qed

text \<open>A page of links, one per line.\<close>

definition link_line :: "pystr \<Rightarrow> pystr" where
  "link_line t = lit ''[a]('' @ t @ [41, 10]"

lemma links_of_lines:
  assumes "\<forall>t \<in> set ts. t \<noteq> [] \<and> 41 \<notin> set t"
  shows "links (concat (map link_line ts)) = ts"
proof -
  have "map (cap 1) (re_findall_from MARKDOWN_LINK_RE pre (concat (map link_line ts))) = ts"
    if "\<forall>t \<in> set ts. t \<noteq> [] \<and> 41 \<notin> set t" for pre and ts
    using that
  proof (induction ts arbitrary: pre)
    case Nil
    have "re_findall_from MARKDOWN_LINK_RE pre [] = []"
      by (rule findall_end) (simp add: MARKDOWN_LINK_RE_def)
    then show ?case by simp
  next
    case (Cons t ts)
    have "concat (map link_line (t # ts)) = 91 # [97] @ 93 # 40 # t @ 41 # [10] @ concat (map link_line ts)"
      by (simp add: link_line_def lit_def)
    then show ?case
      using findall_link[of "[97]" t pre "[10] @ concat (map link_line ts)"]
        findall_no_link[of "[10]" _ "concat (map link_line ts)"] Cons
      by (simp add: cap_def)
  qed
  then show ?thesis using assms by (simp add: links_def re_findall_def)
qed

section \<open>Open markers\<close>

lemma todo_prefix:
  "matches TODO_RE (pre, post, []) \<noteq> [] \<Longrightarrow> prefix (lit ''TBD'') post \<or> prefix (lit ''TODO'') post"
  by (auto simp: TODO_RE_def split: if_splits)

lemma todo_contained:
  "re_search_from TODO_RE pre s \<noteq> None \<Longrightarrow> contains (lit ''TBD'') s \<or> contains (lit ''TODO'') s"
proof (induction s arbitrary: pre)
  case Nil
  then have "matches TODO_RE (pre, [], []) \<noteq> []" by (auto split: list.splits)
  then show ?case using todo_prefix[of pre "[]"] by auto
next
  case (Cons c cs)
  show ?case
  proof (cases "matches TODO_RE (pre, c # cs, []) = []")
    case True
    then show ?thesis using Cons by auto
  next
    case False
    then show ?thesis using todo_prefix[of pre "c # cs"] by auto
  qed
qed

lemma not_todo: "\<not> contains (lit ''TBD'') s \<Longrightarrow> \<not> contains (lit ''TODO'') s \<Longrightarrow> \<not> found TODO_RE s"
  using todo_contained[of "[]" s] by (auto simp: found_def re_search_def)

end
