(* ===== verification/Doc_Examples.thy ===== *)
theory Doc_Examples
  imports Doc_Properties Doc_Metadata
begin

text \<open>
  A small repository that the documentation gate accepts, and the witnesses of its properties.
\<close>

definition text_lines :: "string list \<Rightarrow> bytes" where
  "text_lines ls = concat (map (\<lambda>l. l @ [CHR 0x0A]) ls)"

definition backlog_page :: bytes where
  "backlog_page = text_lines
     [''| ID | Parent | Priority | Status | Refinement | Zadanie | Docelowy dow'' @ [CHR 0xC3, CHR 0xB3] @ ''d |'',
      ''|---|'', ''| EMP-001 | - | P0 | READY | EMP-001 | a | b |'']"

definition refinement_page :: bytes where
  "refinement_page = text_lines
     [''Task-ID: EMP-001'', ''Stan-Refinementu: ACCEPTED'', ''Data-Akceptacji: 2026-01-02'',
      ''Implementation-Allowed: YES'', ''### Blokuj'' @ [CHR 0xC4, CHR 0x85] @ ''ce'', [], ''Brak.'']"

definition status_page :: bytes where
  "status_page = text_lines [''**Active task:** '' @ [CHR 0x60] @ ''EMP-001'' @ [CHR 0x60], ''**Data:** 2026-01-02'']"

definition indexed :: "string list" where
  "indexed =
     [''README.md'',
      ''project/documentation-governance.md'',
      ''project/refinement-process.md'',
      ''project/definition-of-ready-and-done.md'',
      ''project/backlog.md'',
      ''project/current-status.md'',
      ''project/decision-log.md'',
      ''project/risk-register.md'',
      ''project/lessons-learned.md'',
      ''project/release-history.md'',
      ''project/refinements/README.md'',
      ''project/refinements/EMP-001.md'',
      ''project/refinements/EMP-001-summary.md'',
      ''project/refinements/EMP-001-review-checklist.md'',
      ''project/refinements/EMP-003.md'',
      ''project/refinements/EMP-003-summary.md'',
      ''project/refinements/EMP-003-review-checklist.md'',
      ''project/refinements/EMP-004.md'',
      ''project/refinements/EMP-004-summary.md'',
      ''project/refinements/EMP-004-review-checklist.md'',
      ''project/refinements/EMP-006.md'',
      ''project/refinements/EMP-006-summary.md'',
      ''project/refinements/EMP-006-review-checklist.md'',
      ''project/refinements/EMP-007.md'',
      ''project/refinements/EMP-007-summary.md'',
      ''project/refinements/EMP-007-review-checklist.md'',
      ''project/refinements/EMP-008.md'',
      ''project/refinements/EMP-008-summary.md'',
      ''project/refinements/EMP-008-review-checklist.md'',
      ''project/refinements/EMP-009.md'',
      ''project/refinements/EMP-009-summary.md'',
      ''project/refinements/EMP-009-review-checklist.md'',
      ''project/refinements/EMP-010.md'',
      ''project/refinements/EMP-010-summary.md'',
      ''project/refinements/EMP-010-review-checklist.md'',
      ''project/refinements/EMP-011.md'',
      ''project/refinements/EMP-011-summary.md'',
      ''project/refinements/EMP-011-review-checklist.md'',
      ''architecture/overview.md'',
      ''architecture/data-model.md'',
      ''api/api-contract.md'',
      ''testing/test-strategy.md'',
      ''product/requirements-traceability.md'',
      ''adr/README.md'',
      ''adr/ADR-0001-modular-monolith-and-technology-stack.md'',
      ''adr/ADR-0002-concurrency-and-redemption-consistency.md'',
      ''adr/ADR-0003-geolocation-client-ip-and-privacy.md'']"

definition index_page :: bytes where
  "index_page = concat (map (\<lambda>t. ''[a]('' @ t @ [CHR '')'', CHR 0x0A]) indexed)"

definition page :: "path \<Rightarrow> bytes" where
  "page p =
     (if p = docs ''project/backlog.md'' then backlog_page
      else if p = docs ''project/refinements/EMP-001.md'' then refinement_page
      else if p = docs ''project/current-status.md'' then status_page
      else if p = index_path then index_page
      else if p = docs ''project/decision-log.md'' then text_lines [''| D-001 |'']
      else if p = docs ''project/risk-register.md'' then text_lines [''| R-001 |'']
      else text_lines [''a''])"

definition governed :: fs where
  "governed = map (\<lambda>p. (p, Regular (page p) False)) REQUIRED_FILES
     @ map (\<lambda>p. (p, Directory)) [rel ''docs'', docs ''project'', docs ''project/refinements'']"

lemma map_of_pages:
  "map_of (map (\<lambda>p. (p, f p)) ps @ qs) p = (if p \<in> set ps then Some (f p) else map_of qs p)"
  by (induction ps) auto

lemma governed_lookup:
  "map_of governed p = (if p \<in> set REQUIRED_FILES then Some (Regular (page p) False)
     else if p \<in> set [rel ''docs'', docs ''project'', docs ''project/refinements''] then Some Directory else None)"
  unfolding governed_def map_of_pages using map_of_pages[of "\<lambda>p. Directory" _ "[]" p]
  by (simp only: append_Nil2 map_of.simps)

lemma governed_read: "p \<in> set REQUIRED_FILES \<Longrightarrow> read_bytes governed p = Inr (page p)"
  by (simp add: read_bytes_def governed_lookup)

lemma governed_files: "is_file governed p \<longleftrightarrow> p \<in> set REQUIRED_FILES"
  by (simp add: is_file_def governed_lookup)

lemma path_parts_docs: "path_parts (lit (''docs/'' @ s)) = lit ''docs'' # path_parts (lit s)"
proof -
  have "lit (''docs/'' @ s) = lit ''docs'' @ 47 # lit s" by (simp add: lit_def)
  moreover have "47 \<notin> set (lit ''docs'')" by (simp add: lit_def)
  ultimately have "split_on 47 (lit (''docs/'' @ s)) = lit ''docs'' # split_on 47 (lit s)"
    by (simp add: split_on_append)
  then show ?thesis by (simp add: path_parts_def) (simp add: lit_def)
qed

lemma docs_rel: "docs s = rel (''docs/'' @ s)"
proof -
  have "rel (''docs/'' @ s) = Path ([lit ''docs''] @ path_parts (lit s))"
    unfolding rel_def path_parts_docs by simp
  then show ?thesis unfolding docs_def join_rel_def rel_docs by (rule sym)
qed

lemma required_pages:
  "docs ''project/backlog.md'' \<in> set REQUIRED_FILES"
  "docs ''project/refinements/EMP-001.md'' \<in> set REQUIRED_FILES"
  "docs ''project/current-status.md'' \<in> set REQUIRED_FILES"
  "index_path \<in> set REQUIRED_FILES"
  "docs ''project/decision-log.md'' \<in> set REQUIRED_FILES"
  "docs ''project/risk-register.md'' \<in> set REQUIRED_FILES"
  by (simp_all add: REQUIRED_FILES_def docs_rel index_path_def)

lemma pages:
  "page (docs ''project/backlog.md'') = backlog_page"
  "page (docs ''project/refinements/EMP-001.md'') = refinement_page"
  "page (docs ''project/current-status.md'') = status_page"
  "page index_path = index_page"
  "page (docs ''project/decision-log.md'') = text_lines [''| D-001 |'']"
  "page (docs ''project/risk-register.md'') = text_lines [''| R-001 |'']"
  by (code_simp+)

section \<open>Reading the pages\<close>

lemma doc_read_page:
  assumes "p \<in> set REQUIRED_FILES" "decode_text (page p) = Some t"
  shows "doc_read governed p = Inr t"
  by (simp add: doc_read_def read_text_def governed_read[OF assms(1)] assms(2))

lemma decode_plain:
  assumes "list_all (\<lambda>c. of_char c < (128::nat) \<and> c \<noteq> CHR 0x0D) b"
  shows "decode_text b = Some (lit b)"
proof -
  have "utf8_decode b = Some (lit b)" using assms by (intro utf8_decode_ascii) (auto simp: list_all_iff)
  moreover have "of_char c \<noteq> (13::nat)" if "c \<in> set b" for c
  proof
    assume "of_char c = (13::nat)"
    then have "of_char c = (of_char (CHR 0x0D) :: nat)" by simp
    then have "c = CHR 0x0D" by (simp only: of_char_eq_iff)
    moreover have "c \<noteq> CHR 0x0D" using assms that by (simp add: list_all_iff)
    ultimately show False by simp
  qed
  then have "13 \<notin> set (lit b)" unfolding lit_def set_map by (metis imageE)
  ultimately show ?thesis by (simp add: decode_text_def universal_newlines_id)
qed

lemma indexed_ascii: "list_all (list_all (\<lambda>c. of_char c < (128::nat) \<and> c \<noteq> CHR 0x0D)) indexed"
  by code_simp

lemma decoded_index: "decode_text index_page = Some (concat (map link_line (map lit indexed)))"
proof -
  have "list_all (\<lambda>c. of_char c < (128::nat) \<and> c \<noteq> CHR 0x0D) index_page"
    using indexed_ascii by (auto simp: index_page_def list_all_iff)
  moreover have "lit index_page = concat (map link_line (map lit indexed))"
    by (simp add: index_page_def lit_def map_concat link_line_def comp_def)
  ultimately show ?thesis by (simp add: decode_plain)
qed

definition backlog_text :: pystr where
  "backlog_text =
     lit ''| ID | Parent | Priority | Status | Refinement | Zadanie | Docelowy dow'' @ [243] @ lit ''d |''
     @ [10] @ lit ''|---|'' @ [10] @ lit ''| EMP-001 | - | P0 | READY | EMP-001 | a | b |'' @ [10]"

definition refinement_lines :: "metadata_line list" where
  "refinement_lines = map (\<lambda>(k, v). (lit k, [32], lit v))
     [(''Task-ID'', ''EMP-001''), (''Stan-Refinementu'', ''ACCEPTED''), (''Data-Akceptacji'', ''2026-01-02''),
      (''Implementation-Allowed'', ''YES'')]"

definition refinement_text :: pystr where
  "refinement_text = concat (map written refinement_lines) @ lit ''### Blokuj'' @ [261] @ lit ''ce'' @ [10, 10]
     @ lit ''Brak.'' @ [10]"

definition status_text :: pystr where
  "status_text = lit ''**Active task:** '' @ [96] @ lit ''EMP-001'' @ [96, 10] @ lit ''**Data:** 2026-01-02'' @ [10]"

lemma decoded:
  "decode_text backlog_page = Some backlog_text"
  "decode_text refinement_page = Some refinement_text"
  "decode_text status_page = Some status_text"
  "decode_text (text_lines [''| D-001 |'']) = Some (lit ''| D-001 |'' @ [10])"
  "decode_text (text_lines [''| R-001 |'']) = Some (lit ''| R-001 |'' @ [10])"
  "decode_text (text_lines [''a'']) = Some [97, 10]"
  by code_simp+

lemmas page_texts =
  doc_read_page[OF required_pages(1), unfolded pages, OF decoded(1)]
  doc_read_page[OF required_pages(2), unfolded pages, OF decoded(2)]
  doc_read_page[OF required_pages(3), unfolded pages, OF decoded(3)]
  doc_read_page[OF required_pages(4), unfolded pages, OF decoded_index]
  doc_read_page[OF required_pages(5), unfolded pages, OF decoded(4)]
  doc_read_page[OF required_pages(6), unfolded pages, OF decoded(5)]

section \<open>The validators on the sample\<close>

definition sample_task :: task where
  "sample_task = \<lparr>task_id = lit ''EMP-001'', task_priority = lit ''P0'', task_status = lit ''READY'',
     task_refinement = lit ''EMP-001''\<rparr>"

lemma sample_table: "table_scan p (splitlines backlog_text) =
   Inr (backlog_columns, [map lit [''EMP-001'', ''-'', ''P0'', ''READY'', ''EMP-001'', ''a'', ''b'']])"
  by code_simp

lemma sample_loop:
  "backlog_loop [] [map lit [''EMP-001'', ''-'', ''P0'', ''READY'', ''EMP-001'', ''a'', ''b'']] =
   ([], [(lit ''EMP-001'', sample_task)])"
  by code_simp

lemma sample_rows: "backlog_rows governed = [map lit [''EMP-001'', ''-'', ''P0'', ''READY'', ''EMP-001'', ''a'', ''b'']]"
  by (simp add: backlog_rows_def parse_markdown_table_def page_texts sample_table)

lemma sample_backlog: "validate_backlog governed = Inr ([], [(lit ''EMP-001'', sample_task)])"
  by (simp add: validate_backlog_def parse_markdown_table_def page_texts sample_table sample_loop
      del: backlog_loop.simps list.map)

lemma sample_status_page: "status_errors [(lit ''EMP-001'', sample_task)] status_text = []"
  by code_simp

lemma sample_status: "validate_current_status governed [(lit ''EMP-001'', sample_task)] = Inr []"
  by (simp add: validate_current_status_def page_texts sample_status_page)


lemma required_md: "list_all (\<lambda>p. name_suffix (path_name p) = lit ''.md'') REQUIRED_FILES"
  by code_simp

lemma governed_directory:
  assumes "p \<in> set [rel ''docs'', docs ''project'', docs ''project/refinements'']" "name_suffix (path_name p) \<noteq> lit ''.md''"
  shows "map_of governed p = Some Directory"
  using assms required_md by (auto simp: governed_lookup list_all_iff)

lemma sample_directories:
  "map_of governed (Path [lit ''docs'']) = Some Directory"
  "map_of governed (Path [lit ''docs'', lit ''project'']) = Some Directory"
  "map_of governed (Path [lit ''docs'', lit ''project'', lit ''refinements'']) = Some Directory"
  by (rule governed_directory; code_simp)+

lemma sample_refinement_parts:
  "parts (docs ''project/refinements'') @ path_parts (lit ''EMP-001'' @ lit ''.md'') =
     [lit ''docs'', lit ''project'', lit ''refinements'', lit ''EMP-001.md'']"
  "parts (docs ''project/refinements/EMP-001.md'') =
     [lit ''docs'', lit ''project'', lit ''refinements'', lit ''EMP-001.md'']"
  "prefix (lit ''/'') (lit ''EMP-001'') = False"
  "list_all (\<lambda>p. p \<noteq> [46, 46]) [lit ''docs'', lit ''project'', lit ''refinements'', lit ''EMP-001.md'']"
  by code_simp+

lemma sample_refinement_path:
  "refinement_path governed (lit ''EMP-001'') = Some (docs ''project/refinements/EMP-001.md'')"
  using sample_refinement_parts(4)
  by (auto simp: refinement_path_def sample_refinement_parts sample_directories path.expand)

lemma sample_lines_ok: "list_all line_ok refinement_lines"
  "\<not> is_space (hd (lit ''### Blokuj'' @ [261] @ lit ''ce'' @ [10, 10] @ lit ''Brak.'' @ [10]))"
  "\<not> prefix [58] (dropWhile is_key_char ((lit ''### Blokuj'' @ [261] @ lit ''ce'') @ [10]))"
  "\<not> prefix [58] (dropWhile is_key_char ([] @ [10]))"
  "\<not> prefix [58] (dropWhile is_key_char (lit ''Brak.'' @ [10]))"
  "10 \<notin> set (lit ''### Blokuj'' @ [261] @ lit ''ce'')" "10 \<notin> set (lit ''Brak.'')"
  by code_simp+

lemma sample_findall:
  "re_findall METADATA_RE refinement_text = map (\<lambda>(k, sp, v). [(2, v), (1, k)]) refinement_lines"
proof -
  have "re_findall_from METADATA_RE pre ((lit ''### Blokuj'' @ [261] @ lit ''ce'') @ 10 # [] @ 10 # lit ''Brak.'' @ 10 # []) = []"
    for pre
    using findall_plain_line[OF sample_lines_ok(6,3)] findall_plain_line[OF _ sample_lines_ok(4)]
      findall_plain_line[OF sample_lines_ok(7,5)] findall_end[OF metadata_no_key[of "[]"]]
    by (simp del: append_Cons append_assoc)
  then show ?thesis
    using findall_written[OF _ sample_lines_ok(1), of "[]" "lit ''### Blokuj'' @ [261] @ lit ''ce'' @ [10, 10] @ lit ''Brak.'' @ [10]"]
      sample_lines_ok(2)
    by (simp add: refinement_text_def re_findall_def)
qed

lemma sample_metadata:
  "map_of (metadata_of refinement_text) (lit ''Task-ID'') = Some (lit ''EMP-001'')"
  "map_of (metadata_of refinement_text) (lit ''Stan-Refinementu'') = Some (lit ''ACCEPTED'')"
  "map_of (metadata_of refinement_text) (lit ''Data-Akceptacji'') = Some (lit ''2026-01-02'')"
  "map_of (metadata_of refinement_text) (lit ''Implementation-Allowed'') = Some (lit ''YES'')"
  by (simp_all add: metadata_of_def sample_findall refinement_lines_def cap_def)

lemma sample_text_checks:
  "\<not> contains (lit ''TBD'') refinement_text" "\<not> contains (lit ''TODO'') refinement_text"
  "contains no_blocking_questions refinement_text" "full ISO_DATE_RE (lit ''2026-01-02'')"
  by code_simp+

lemma sample_refinements: "validate_refinements governed [(lit ''EMP-001'', sample_task)] = Inr []"
proof -
  have stored: "refinement_file governed (lit ''EMP-001'') = Some (docs ''project/refinements/EMP-001.md'')"
    by (simp add: refinement_file_def sample_refinement_path governed_files required_pages)
  have "refinement_errors (lit ''EMP-001'') (metadata_of refinement_text) (Inr refinement_text) = Inr []"
    using not_todo[OF sample_text_checks(1,2)] sample_text_checks(3,4)
    by (simp add: refinement_errors_def sample_metadata)
  then show ?thesis
    by (simp add: validate_refinements_def sample_task_def stored parse_refinement_metadata_def page_texts
        gate_errors_def sample_metadata)
qed

lemma indexed_plain:
  "list_all (\<lambda>t. normalize_link_target (lit t) = lit t \<and> t \<noteq> [] \<and> CHR '')'' \<notin> set t
     \<and> \<not> external [''http://'', ''https://'', ''mailto:'', ''urn:''] (lit t)
     \<and> [46, 46] \<notin> set (path_parts (lit t)) \<and> 0 \<notin> set (lit t) \<and> \<not> prefix [47] (lit t)
     \<and> as_posix (Path (path_parts (lit t))) = lit t \<and> name_suffix (last (path_parts (lit t))) = lit ''.md'') indexed"
  by code_simp

lemma indexed_required: "list_all (\<lambda>t. docs t \<in> set REQUIRED_FILES) indexed"
  by (simp add: REQUIRED_FILES_def indexed_def docs_rel)

lemma actual_required:
  "map (\<lambda>p. as_posix (Path (tl (parts p)))) (filter (\<lambda>p. p \<noteq> index_path)
     (filter (below (rel ''docs'')) (filter (\<lambda>p. ends_with ''.md'' (path_name p))
       (REQUIRED_FILES @ [rel ''docs'', docs ''project'', docs ''project/refinements''])))) = map lit indexed"
  by code_simp

lemma actual_indexed: "actual_documents governed = map lit indexed"
proof -
  have "map fst governed = REQUIRED_FILES @ [rel ''docs'', docs ''project'', docs ''project/refinements'']"
    by (simp add: governed_def comp_def)
  then show ?thesis unfolding actual_documents_def docs_markdown_def rglob_def by (simp only: actual_required)
qed

lemma parent_index: "parts (parent index_path) = [lit ''docs'']"
  by code_simp

lemma sample_root: "[46, 46] \<notin> set [lit ''repo'']" "[46, 46] \<notin> set [lit ''docs'']"
  by code_simp+

lemma normal_parts_id: "[46, 46] \<notin> set ps \<Longrightarrow> normal_parts d ps = rev d @ ps"
  using normal_parts_plain[of ps d "[]"] by simp

lemma resolve_plain:
  assumes "\<not> prefix [47] t" "[46, 46] \<notin> set (path_parts t)" "[46, 46] \<notin> set rt" "[46, 46] \<notin> set (parts base)"
  shows "resolve_target rt base t = Some (rt @ parts base @ path_parts t)"
  using assms no_slash[of t] by (simp add: resolve_target_def normal_parts_id)

lemma sample_listed: "each_py (listed_document [lit ''repo'']) (map lit indexed) = Inr (map lit indexed)"
proof -
  have "listed_document [lit ''repo''] (lit t) = Inr [lit t]" if t: "t \<in> set indexed" for t
  proof -
    note f = bspec[OF indexed_plain[unfolded list_all_iff] t]
    have ne: "path_parts (lit t) \<noteq> []" using f by (cases t) (auto simp: as_posix_def lit_def)
    have "resolve_target [lit ''repo''] (parent index_path) (lit t) = Some ([lit ''repo''] @ [lit ''docs''] @ path_parts (lit t))"
      using resolve_plain[of "lit t" "[lit ''repo'']" "parent index_path"] f sample_root(1,2) parent_index by simp
    then show ?thesis using f ne
      by (auto simp: listed_document_def Let_def external_def resolve_link_def relative_parts_def path_name_def)
  qed
  then have "each_py (listed_document [lit ''repo'']) (map lit indexed) = Inr (concat (map (\<lambda>r. [r]) (map lit indexed)))"
    by (intro each_py_total) auto
  then show ?thesis by (simp only: concat_map_singleton list.map_ident)
qed

lemma lit_mem: "of_char x \<in> set (lit t) \<longleftrightarrow> x \<in> set t"
  unfolding lit_def set_map by (simp add: inj_image_mem_iff inj_def)

lemma index_links: "links (concat (map link_line (map lit indexed))) = map lit indexed"
proof (rule links_of_lines, rule ballI)
  fix s assume "s \<in> set (map lit indexed)"
  then obtain t where t: "t \<in> set indexed" "s = lit t" by auto
  note f = bspec[OF indexed_plain[unfolded list_all_iff] t(1)]
  have "41 \<notin> set (lit t)" using f lit_mem[of "CHR '')''" t] by simp
  then show "s \<noteq> [] \<and> 41 \<notin> set s" using f t(2) by simp
qed

lemma sample_index: "validate_documentation_index [lit ''repo''] governed = Inr []"
proof -
  have "links (concat (map link_line (map lit indexed))) = map lit indexed"
    by (rule index_links)
  then show ?thesis
    by (simp add: validate_documentation_index_def page_texts sample_listed actual_indexed difference_def)
qed

lemma other_pages: "list_all (\<lambda>t. 91 \<notin> set t)
   [backlog_text, refinement_text, status_text, lit ''| D-001 |'' @ [10], lit ''| R-001 |'' @ [10], [97, 10]]"
  by code_simp

lemma page_read_no_link:
  assumes "p \<in> set REQUIRED_FILES" "p \<noteq> index_path"
  shows "\<exists>t. doc_read governed p = Inr t \<and> links t = []"
proof -
  have "\<exists>t \<in> set [backlog_text, refinement_text, status_text, lit ''| D-001 |'' @ [10], lit ''| R-001 |'' @ [10], [97, 10]].
      decode_text (page p) = Some t"
    using assms(2) decoded by (auto simp: page_def)
  then show ?thesis using doc_read_page[OF assms(1)] other_pages links_no_bracket
    by (auto simp: list_all_iff)
qed

lemma sample_link:
  assumes t: "t \<in> set indexed" shows "link_errors [lit ''repo''] governed index_path (lit t) = Inr []"
proof -
  note f = bspec[OF indexed_plain[unfolded list_all_iff] t]
  have "resolve_target [lit ''repo''] (parent index_path) (lit t) = Some ([lit ''repo''] @ [lit ''docs''] @ path_parts (lit t))"
    using resolve_plain[of "lit t" "[lit ''repo'']" "parent index_path"] f sample_root(1,2) parent_index by simp
  moreover have "Path (lit ''docs'' # path_parts (lit t)) = docs t"
    by (simp add: docs_def join_rel_def rel_docs)
  moreover have "docs t \<in> set REQUIRED_FILES" using indexed_required t by (auto simp: list_all_iff)
  ultimately show ?thesis using f
    by (auto simp: link_errors_def Let_def resolve_link_def relative_parts_def path_exists_def governed_lookup)
qed

lemma dirs_not_md: "list_all (\<lambda>p. \<not> ends_with ''.md'' (path_name p)) [rel ''docs'', docs ''project'', docs ''project/refinements'']"
  by code_simp

lemma sample_links: "validate_links [lit ''repo''] governed = Inr []"
proof -
  have "file_links [lit ''repo''] governed p = Inr []" if p: "p \<in> set (markdown_files governed)" for p
  proof -
    have r: "p \<in> set REQUIRED_FILES"
      using p dirs_not_md by (auto simp: markdown_files_def rglob_def governed_def list_all_iff)
    show ?thesis
    proof (cases "p = index_path")
      case True
      have "each_py (link_errors [lit ''repo''] governed index_path) (map lit indexed) = Inr []"
        using sample_link by (simp add: py_ok)
      then show ?thesis by (simp add: True file_links_def page_texts index_links del: map_map)
    next
      case False
      then show ?thesis using page_read_no_link[OF r] by (auto simp: file_links_def)
    qed
  qed
  then show ?thesis by (simp add: validate_links_def py_ok)
qed

lemma indexed_ne: "indexed \<noteq> []"
  by (simp add: indexed_def)

lemma index_clean: "\<not> contains [CHR 0x0D, CHR 0x0A] index_page \<and> suffix [CHR 0x0A] index_page"
proof -
  have "CHR 0x0D \<notin> set index_page" using indexed_ascii by (auto simp: index_page_def list_all_iff)
  moreover have "suffix [CHR 0x0A] (concat (map (\<lambda>t. ''[a]('' @ t @ [CHR '')'', CHR 0x0A]) (ts @ [t])))" for ts t
    by (simp add: suffix_def)
  then have "suffix [CHR 0x0A] index_page"
    unfolding index_page_def by (metis indexed_ne append_butlast_last_id)
  ultimately show ?thesis unfolding contains_iff by (metis in_set_conv_decomp append_Cons append_Nil)
qed

lemma pages_clean:
  "list_all (\<lambda>b. \<not> contains [CHR 0x0D, CHR 0x0A] b \<and> suffix [CHR 0x0A] b)
     [backlog_page, refinement_page, status_page, text_lines [''| D-001 |''], text_lines [''| R-001 |''],
      text_lines [''a'']]"
  by code_simp

lemma sample_hygiene: "validate_text_hygiene governed = Inr []"
proof -
  have "file_hygiene governed p = Inr []" if p: "is_text_file governed p" for p
  proof -
    have r: "p \<in> set REQUIRED_FILES" using p by (simp add: is_text_file_def governed_files)
    have "page p \<in> set [backlog_page, refinement_page, status_page, index_page, text_lines [''| D-001 |''],
        text_lines [''| R-001 |''], text_lines [''a'']]" by (simp add: page_def)
    then have "\<not> contains [CHR 0x0D, CHR 0x0A] (page p)" "suffix [CHR 0x0A] (page p)"
      using pages_clean index_clean by (auto simp: list_all_iff)
    moreover have "name_suffix (path_name p) = lit ''.md''" using required_md r by (simp add: list_all_iff)
    ultimately show ?thesis by (simp add: file_hygiene_def governed_read[OF r] hygiene_errors_def)
  qed
  then show ?thesis by (simp add: validate_text_hygiene_def py_ok)
qed

lemma sample_registers: "validate_unique_register_ids governed = Inr []"
proof -
  have "register_ids ''D'' (lit ''| D-001 |'' @ [10]) = [lit ''D-001'']" "register_ids ''R'' (lit ''| R-001 |'' @ [10]) = [lit ''R-001'']"
    by code_simp+
  then show ?thesis
    by (simp add: validate_unique_register_ids_def register_errors_def page_texts duplicates_def)
qed


lemma sample_run: "doc_main [lit ''repo''] governed = Inr (Doc_Success 1 1 (length (docs_markdown governed)))"
proof -
  have "validate_required_files governed = Inr []"
    by (simp add: validate_required_files_def governed_files filter_empty_conv)
  then have "doc_errors_of [lit ''repo''] governed ([], [(lit ''EMP-001'', sample_task)]) = Inr []"
    by (simp add: doc_errors_of_def sample_refinements sample_status sample_links sample_index
        sample_hygiene sample_registers)
  then show ?thesis by (simp add: doc_main_def sample_backlog)
qed

section \<open>Witnesses\<close>

lemma accepted_backlog_witness:
  "\<exists>page header. doc_read governed (docs ''project/backlog.md'') = Inr page
    \<and> header \<in> set (splitlines page) \<and> prefix (lit ''| ID |'') header \<and> cells header = backlog_columns"
proof -
  obtain page front header under body where "doc_read governed (docs ''project/backlog.md'') = Inr page"
    "splitlines page = front @ header # under # body" "prefix (lit ''| ID |'') header" "cells header = backlog_columns"
    using accepted_backlog[OF sample_run] by blast
  then show ?thesis by (intro exI[of _ page] exI[of _ header]) simp
qed

lemma accepted_refinements_witness:
  "refinement_accepted governed (lit ''EMP-001'')"
proof -
  have "task_status (task_of_row (map lit [''EMP-001'', ''-'', ''P0'', ''READY'', ''EMP-001'', ''a'', ''b''])) \<in> set NEEDS_ACCEPTED"
    by code_simp
  from accepted_refinements[OF sample_run _ this] show ?thesis
    by (simp add: sample_rows task_of_row_def)
qed

lemma accepted_active_task_witness:
  "\<exists>page st. doc_read governed (docs ''project/current-status.md'') = Inr page
     \<and> re_search ACTIVE_RE page = Some st"
  using accepted_active_task[OF sample_run] by blast

lemma hygiene_accepted_iff_witness:
  "validate_text_hygiene [(rel ''a.py'', Regular ''x '' False)] \<noteq> Inr []
   \<and> read_bytes [(rel ''a.py'', Regular ''x '' False)] (rel ''a.py'') = Inr ''x ''"
proof -
  have "read_bytes [(rel ''a.py'', Regular ''x '' False)] (rel ''a.py'') = Inr ''x ''"
    "name_suffix (path_name (rel ''a.py'')) \<in> set text_suffixes"
    by code_simp+
  then show ?thesis using hygiene_accepted_iff[of "[(rel ''a.py'', Regular ''x '' False)]"] by fastforce
qed

definition self_indexed :: fs where
  "self_indexed = [(index_path, Regular ''[a](DOCUMENTATION_INDEX.md)'' False)]"

lemma index_reported_witness:
  "\<exists>es. validate_documentation_index [lit ''r''] self_indexed = Inr es
     \<and> Stale_Index (lit ''DOCUMENTATION_INDEX.md'') \<in> set es"
proof -
  have run: "validate_documentation_index [lit ''r''] self_indexed = Inr [Stale_Index (lit ''DOCUMENTATION_INDEX.md'')]"
    and ok: "fs_ok self_indexed"
    by code_simp+
  have "as_posix (rel ''DOCUMENTATION_INDEX.md'') = lit ''DOCUMENTATION_INDEX.md''" by code_simp
  then show ?thesis using index_reported[OF run ok] run by auto
qed

lemma stays_plain: "[46, 46] \<notin> set ps \<Longrightarrow> stays d ps"
  by (induction ps arbitrary: d) auto

lemma sample_stays:
  assumes "p \<in> set (markdown_files governed)" "doc_read governed p = Inr t"
  shows "list_all (stays_inside p) (links t)"
proof (cases "p = index_path")
  case True
  then have l: "links t = map lit indexed" using assms(2) index_links by (auto simp: page_texts simp del: map_map)
  have "stays_inside index_path (lit u)" if "u \<in> set indexed" for u
    using bspec[OF indexed_plain[unfolded list_all_iff] that] sample_root(2) stays_plain parent_index
    by (simp add: stays_inside_def)
  then show ?thesis by (simp add: l True list_all_iff)
next
  case False
  have "p \<in> set REQUIRED_FILES"
    using assms(1) dirs_not_md by (auto simp: markdown_files_def rglob_def governed_def list_all_iff)
  then show ?thesis using page_read_no_link[OF _ False] assms(2) by fastforce
qed

lemma links_relocatable_witness:
  "validate_links [lit ''a''] governed = validate_links [lit ''b'', lit ''c''] governed"
proof -
  have "list_all (\<lambda>p. case doc_read governed p of Inr t \<Rightarrow> list_all (stays_inside p) (links t) | Inl e \<Rightarrow> True)
      (markdown_files governed)"
    using sample_stays by (auto simp: list_all_iff split: sum.splits)
  moreover have "[46, 46] \<notin> set [lit ''a'']" "[46, 46] \<notin> set [lit ''b'', lit ''c'']" by code_simp+
  ultimately show ?thesis using links_relocatable by blast
qed

lemma missing_file_raises_witness:
  "\<exists>es e. validate_required_files [] = Inr es \<and> Missing_Required index_path \<in> set es
     \<and> doc_main [lit ''r''] [] = Inl e"
  using missing_file_raises[of index_path "[]" "[lit ''r'']"] by (simp add: is_file_def)

lemma metadata_read_back_witness:
  "map_of (metadata_of (lit ''Stan:'' @ [10] @ lit ''Data: 1'' @ [10])) (lit ''Stan'') = Some (lit ''Data: 1'')"
proof -
  have ok: "list_all line_ok [(lit ''Stan'', [10], lit ''Data: 1'')]" by code_simp
  have "concat (map written [(lit ''Stan'', [10], lit ''Data: 1'')]) = lit ''Stan:'' @ [10] @ lit ''Data: 1'' @ [10]"
    by code_simp
  then show ?thesis using metadata_read_back[OF ok, of "lit ''Stan''"] by simp
qed

end
