(* ===== verification/Sha256.thy ===== *)
theory Sha256
  imports Py_Text "HOL-Library.Word"
begin

text \<open>
  SHA-256 as \<open>hashlib.sha256\<close> computes it (FIPS 180-4), on 32 bit words, with the streaming
  interface the scripts use: a digest object accumulates the bytes it is fed, and
  \<open>hexdigest\<close> prints 64 lower-case hexadecimal digits.
\<close>

unbundle bit_operations_syntax

type_synonym u32 = "32 word"
type_synonym hstate = "u32 \<times> u32 \<times> u32 \<times> u32 \<times> u32 \<times> u32 \<times> u32 \<times> u32"

definition round_constants :: "u32 list" where
  "round_constants = [
    1116352408, 1899447441, 3049323471, 3921009573, 961987163, 1508970993,
    2453635748, 2870763221, 3624381080, 310598401, 607225278, 1426881987,
    1925078388, 2162078206, 2614888103, 3248222580, 3835390401, 4022224774,
    264347078, 604807628, 770255983, 1249150122, 1555081692, 1996064986,
    2554220882, 2821834349, 2952996808, 3210313671, 3336571891, 3584528711,
    113926993, 338241895, 666307205, 773529912, 1294757372, 1396182291,
    1695183700, 1986661051, 2177026350, 2456956037, 2730485921, 2820302411,
    3259730800, 3345764771, 3516065817, 3600352804, 4094571909, 275423344,
    430227734, 506948616, 659060556, 883997877, 958139571, 1322822218,
    1537002063, 1747873779, 1955562222, 2024104815, 2227730452, 2361852424,
    2428436474, 2756734187, 3204031479, 3329325298]"

definition initial_state :: hstate where
  "initial_state = (0x6a09e667, 0xbb67ae85, 0x3c6ef372, 0xa54ff53a,
     0x510e527f, 0x9b05688c, 0x1f83d9ab, 0x5be0cd19)"

definition rotr :: "nat \<Rightarrow> u32 \<Rightarrow> u32" where
  "rotr n x = (drop_bit n x) OR (push_bit (32 - n) x)"

definition word_of_bytes :: "nat list \<Rightarrow> u32" where
  "word_of_bytes bs = foldl (\<lambda>a b. push_bit 8 a OR of_nat b) 0 bs"

fun chunks :: "nat \<Rightarrow> 'a list \<Rightarrow> 'a list list" where
  "chunks n [] = []"
| "chunks n (x # xs) =
     (if n = 0 then [x # xs] else take n (x # xs) # chunks n (drop n (x # xs)))"

definition sha_pad :: "nat list \<Rightarrow> nat list" where
  "sha_pad m =
     (let len = length m; zeros = (119 - len mod 64) mod 64;
          bits = (of_nat (8 * len) :: 64 word)
      in m @ 128 # replicate zeros 0
           @ map (\<lambda>i. unat (drop_bit (56 - 8 * i) bits AND 255)) [0..<8])"

definition next_word :: "u32 list \<Rightarrow> u32" where
  "next_word w =
     (let t = length w; a = w ! (t - 15); b = w ! (t - 2);
          s0 = (rotr 7 a) XOR (rotr 18 a) XOR (drop_bit 3 a);
          s1 = (rotr 17 b) XOR (rotr 19 b) XOR (drop_bit 10 b)
      in w ! (t - 16) + s0 + w ! (t - 7) + s1)"

definition schedule :: "nat list \<Rightarrow> u32 list" where
  "schedule blk = ((\<lambda>w. w @ [next_word w]) ^^ 48) (map word_of_bytes (chunks 4 blk))"

fun sha_round :: "hstate \<Rightarrow> u32 \<times> u32 \<Rightarrow> hstate" where
  "sha_round (a, b, c, d, e, f, g, h) (k, w) =
     (let s1 = (rotr 6 e) XOR (rotr 11 e) XOR (rotr 25 e);
          ch = (e AND f) XOR ((NOT e) AND g);
          t1 = h + s1 + ch + k + w;
          s0 = (rotr 2 a) XOR (rotr 13 a) XOR (rotr 22 a);
          maj = (a AND b) XOR (a AND c) XOR (b AND c);
          t2 = s0 + maj
      in (t1 + t2, a, b, c, d + t1, e, f, g))"

fun add_states :: "hstate \<Rightarrow> hstate \<Rightarrow> hstate" where
  "add_states (a, b, c, d, e, f, g, h) (a', b', c', d', e', f', g', h') =
     (a + a', b + b', c + c', d + d', e + e', f + f', g + g', h + h')"

definition compress :: "hstate \<Rightarrow> nat list \<Rightarrow> hstate" where
  "compress st blk = add_states st (foldl sha_round st (zip round_constants (schedule blk)))"

definition sha_state :: "bytes \<Rightarrow> hstate" where
  "sha_state m = foldl compress initial_state (chunks 64 (sha_pad (map of_char m)))"

definition hex_digit :: "nat \<Rightarrow> nat" where
  "hex_digit n = (if n < 10 then 48 + n else 87 + n)"

definition hex_word :: "u32 \<Rightarrow> pystr" where
  "hex_word w = map (\<lambda>i. hex_digit (unat (drop_bit (28 - 4 * i) w AND 15))) [0..<8]"

fun hex_state :: "hstate \<Rightarrow> pystr" where
  "hex_state (a, b, c, d, e, f, g, h) = concat (map hex_word [a, b, c, d, e, f, g, h])"

section \<open>The digest object\<close>

type_synonym digest = bytes

definition sha256_new :: digest where
  "sha256_new = []"

definition digest_update :: "digest \<Rightarrow> bytes \<Rightarrow> digest" where
  "digest_update d b = d @ b"

definition hexdigest :: "digest \<Rightarrow> pystr" where
  "hexdigest d = hex_state (sha_state d)"

text \<open>\<open>hashlib.sha256(data).hexdigest()\<close>.\<close>

definition sha256_hex :: "bytes \<Rightarrow> pystr" where
  "sha256_hex b = hexdigest (digest_update sha256_new b)"

lemma length_hex_word [simp]: "length (hex_word w) = 8"
  by (simp add: hex_word_def)

lemma hex_digit_lower: "n < 16 \<Longrightarrow> is_hex_lower (hex_digit n)"
  by (auto simp: is_hex_lower_def hex_digit_def)

lemma hex_word_chars: "c \<in> set (hex_word w) \<Longrightarrow> is_hex_lower c"
proof -
  have "unat (x AND 15) < 16" for x :: u32
    using word_and_le1[of x 15] by (simp add: word_le_nat_alt)
  then show "c \<in> set (hex_word w) \<Longrightarrow> is_hex_lower c"
    by (auto simp: hex_word_def intro: hex_digit_lower)
qed

lemma hex_state_length: "length (hex_state st) = 64"
  by (cases st rule: hex_state.cases) simp

lemma hex_state_chars: "\<forall>c \<in> set (hex_state st). is_hex_lower c"
  by (cases st rule: hex_state.cases) (auto dest: hex_word_chars)

lemma length_sha256_hex [simp]: "length (sha256_hex b) = 64"
  by (simp add: sha256_hex_def hexdigest_def hex_state_length)

lemma sha256_hex_chars: "\<forall>c \<in> set (sha256_hex b). is_hex_lower c"
  unfolding sha256_hex_def hexdigest_def by (rule hex_state_chars)

lemma concat_chunks: "concat (chunks n xs) = xs"
  by (induction n xs rule: chunks.induct) simp_all

lemma chunks_ne: "b \<in> set (chunks n xs) \<Longrightarrow> b \<noteq> []"
  by (induction n xs rule: chunks.induct) (auto split: if_splits simp: take_Cons')

lemma digest_fold: "foldl digest_update d bs = d @ concat bs"
  by (induction bs arbitrary: d) (auto simp: digest_update_def)

end
