(* ===== verification/Checksum_Manifest.thy ===== *)
theory Checksum_Manifest
  imports Py_Path Sha256
begin

text \<open>
  \<open>scripts/generate_checksums.py\<close>: which files of the tree enter \<open>CHECKSUMS.sha256\<close>, the
  chunked hashing of one file, and the run that rewrites the manifest. The tree is the explicit
  state: \<open>generate_main\<close> maps it to the tree with the new manifest, or to the exception raised.
\<close>

section \<open>Selection of the files\<close>

definition OUTPUT :: path where
  "OUTPUT = rel ''CHECKSUMS.sha256''"

definition EXCLUDED_PARTS :: "pystr list" where
  "EXCLUDED_PARTS = map lit
     [''.git'', ''target'', ''build'', ''dist'', ''.idea'', ''.vscode'', ''__pycache__'']"

definition EXCLUDED_NAMES :: "pystr list" where
  "EXCLUDED_NAMES = [path_name OUTPUT, lit ''.DS_Store'']"

definition EXCLUDED_SUFFIXES :: "pystr list" where
  "EXCLUDED_SUFFIXES = map lit [''.zip'', ''.log'', ''.pem'', ''.key'']"

text \<open>The part of \<open>included\<close> that looks at the path only.\<close>

definition name_included :: "path \<Rightarrow> bool" where
  "name_included p \<longleftrightarrow>
     \<not> list_ex (\<lambda>part. part \<in> set EXCLUDED_PARTS) (parts p)
     \<and> path_name p \<notin> set EXCLUDED_NAMES
     \<and> name_suffix (path_name p) \<notin> set EXCLUDED_SUFFIXES
     \<and> \<not> (path_name p = lit ''.env''
          \<or> (prefix (lit ''.env.'') (path_name p) \<and> path_name p \<noteq> lit ''.env.example''))"

definition included :: "fs \<Rightarrow> path \<Rightarrow> bool" where
  "included fs p \<longleftrightarrow> is_file fs p \<and> name_included p"

section \<open>Hashing\<close>

text \<open>The loop over \<open>iter(lambda: handle.read(1024 * 1024), b"")\<close>.\<close>

definition CHUNK :: nat where
  "CHUNK = 1024 * 1024"

function hash_loop :: "digest \<Rightarrow> bytes \<Rightarrow> digest" where
  "hash_loop d data =
     (let chunk = take CHUNK data
      in if chunk = [] then d else hash_loop (digest_update d chunk) (drop CHUNK data))"
  by pat_completeness auto
termination
  by (relation "measure (\<lambda>(d, data). length data)") (auto simp: CHUNK_def)

declare hash_loop.simps [simp del]

definition sha256 :: "fs \<Rightarrow> path \<Rightarrow> pyexc + pystr" where
  "sha256 fs p = bind_py (read_bytes fs p) (\<lambda>b. Inr (hexdigest (hash_loop sha256_new b)))"

lemma hash_loop_eq: "hash_loop d data = d @ data"
proof (induction d data rule: hash_loop.induct)
  case (1 d data)
  show ?case
  proof (cases "take CHUNK data = []")
    case True
    then have "data = []" by (simp add: CHUNK_def)
    then show ?thesis by (simp add: hash_loop.simps[of d "[]"])
  next
    case False
    with 1 have "hash_loop (digest_update d (take CHUNK data)) (drop CHUNK data)
        = (d @ take CHUNK data) @ drop CHUNK data" by (simp add: digest_update_def)
    with False show ?thesis by (simp add: hash_loop.simps[of d data] Let_def)
  qed
qed

lemma sha256_eq: "sha256 fs p = bind_py (read_bytes fs p) (\<lambda>b. Inr (sha256_hex b))"
  by (simp add: sha256_def hash_loop_eq sha256_hex_def digest_update_def)

section \<open>The run\<close>

definition checksum_line :: "fs \<Rightarrow> path \<Rightarrow> pyexc + pystr" where
  "checksum_line fs p = bind_py (sha256 fs p) (\<lambda>d. Inr (d @ lit ''  '' @ as_posix p))"

definition manifest_paths :: "fs \<Rightarrow> path list" where
  "manifest_paths fs = sort (filter (included fs) (rglob any_name fs))"

definition generate_main :: "fs \<Rightarrow> pyexc + fs" where
  "generate_main fs =
     bind_py (map_py (checksum_line fs) (manifest_paths fs))
       (\<lambda>lines. write_text OUTPUT (join_with [10] lines @ [10]) fs)"

section \<open>What the manifest holds\<close>

definition file_content :: "fs \<Rightarrow> path \<Rightarrow> bytes" where
  "file_content fs p = (case read_bytes fs p of Inr b \<Rightarrow> b | Inl e \<Rightarrow> [])"

definition manifest_entries :: "fs \<Rightarrow> (pystr \<times> pystr) list" where
  "manifest_entries fs =
     map (\<lambda>p. (as_posix p, sha256_hex (file_content fs p))) (manifest_paths fs)"

fun manifest_line :: "pystr \<times> pystr \<Rightarrow> pystr" where
  "manifest_line (path, digest) = digest @ lit ''  '' @ path"

definition manifest_text :: "(pystr \<times> pystr) list \<Rightarrow> pystr" where
  "manifest_text es = join_with [10] (map manifest_line es) @ [10]"

lemma set_manifest_paths: "set (manifest_paths fs) = {p. included fs p}"
  by (auto simp: manifest_paths_def rglob_def any_name_def included_def dest: is_file_in_fs)

lemma distinct_manifest_paths: "fs_ok fs \<Longrightarrow> distinct (manifest_paths fs)"
  by (simp add: manifest_paths_def rglob_def any_name_def fs_ok_def)

lemma sorted_manifest_paths: "sorted (manifest_paths fs)"
  by (simp add: manifest_paths_def)

lemma checksum_lines:
  "map_py (checksum_line fs) (manifest_paths fs)
     = Inr (map manifest_line (manifest_entries fs))"
proof -
  have "checksum_line fs p = Inr (manifest_line (as_posix p, sha256_hex (file_content fs p)))"
    if p: "p \<in> set (manifest_paths fs)" for p
  proof -
    have "is_file fs p" using p by (simp add: set_manifest_paths included_def)
    then obtain b where "read_bytes fs p = Inr b" by (auto simp: is_file_iff)
    then show ?thesis by (simp add: checksum_line_def sha256_eq file_content_def)
  qed
  then show ?thesis by (simp add: map_py_total manifest_entries_def comp_def)
qed

lemma generate_main_eq:
  "generate_main fs = write_text OUTPUT (manifest_text (manifest_entries fs)) fs"
  by (simp add: generate_main_def checksum_lines manifest_text_def)

lemma OUTPUT_parts [simp]: "parts OUTPUT = [lit ''CHECKSUMS.sha256'']"
  by (simp add: OUTPUT_def rel_def path_parts_def lit_def)

lemma OUTPUT_not_included: "\<not> included fs OUTPUT"
  by (simp add: included_def name_included_def EXCLUDED_NAMES_def)

lemma path_ok_OUTPUT [simp]: "path_ok OUTPUT"
  by (simp add: path_ok_def component_ok_def lit_def)

text \<open>Writing the manifest changes neither the selection nor the contents selected.\<close>

lemma generate_frame:
  assumes "generate_main fs = Inr fs'"
  shows "q \<noteq> OUTPUT \<Longrightarrow> read_bytes fs' q = read_bytes fs q"
    and "included fs' q = included fs q"
proof -
  obtain b where b: "write_bytes OUTPUT b fs = Inr fs'"
    using assms by (auto simp: generate_main_eq write_text_def split: option.splits)
  show r: "read_bytes fs' q = read_bytes fs q" if "q \<noteq> OUTPUT" for q
    by (rule tree.get_put_other[OF b that])
  show "included fs' q = included fs q"
    using r[of q] OUTPUT_not_included[of fs] OUTPUT_not_included[of fs']
    by (cases "q = OUTPUT") (auto simp: included_def is_file_iff)
qed

lemma manifest_entries_eqI:
  assumes "fs_ok fs" "fs_ok fs'" "\<And>q. included fs' q = included fs q"
    "\<And>q. included fs q \<Longrightarrow> read_bytes fs' q = read_bytes fs q"
  shows "manifest_entries fs' = manifest_entries fs"
proof -
  have "manifest_paths fs' = manifest_paths fs"
    using sorted_distinct_set_unique[OF sorted_manifest_paths distinct_manifest_paths[OF assms(2)]
        sorted_manifest_paths distinct_manifest_paths[OF assms(1)]]
    by (simp add: set_manifest_paths assms(3))
  then show ?thesis
    using assms(4) by (simp add: manifest_entries_def file_content_def set_manifest_paths)
qed

end
