(* ===== verification/Checks.thy ===== *)
theory Checks
  imports Checksum_Manifest Py_Regex Xml_Tree
begin

text \<open>
  What the contract checkers share: the messages they append, the loops over required tokens, the
  lines of a refinement they read, and the interface under which the gates and the checksum
  generator meet. A checker is a function of the file tree that returns the messages it appends,
  or the exception that ends it.
\<close>

section \<open>Messages\<close>

datatype check_error =
    Missing_File path
  | Lacks pystr pystr
  | Forbidden pystr pystr
  | Broken pystr
  | Broken_File pystr path

type_synonym contract_result = "pyexc + check_error list"

definition missing_files :: "fs \<Rightarrow> path list \<Rightarrow> check_error list" where
  "missing_files fs paths = map Missing_File (filter (\<lambda>p. \<not> is_file fs p) paths)"

text \<open>\<open>for token in tokens: if token not in text: ...\<close>, and the opposite test.\<close>

definition lacks :: "pystr \<Rightarrow> pystr list \<Rightarrow> pystr \<Rightarrow> check_error list" where
  "lacks label tokens text = map (Lacks label) (filter (\<lambda>t. \<not> contains t text) tokens)"

definition forbids :: "pystr \<Rightarrow> pystr list \<Rightarrow> pystr \<Rightarrow> check_error list" where
  "forbids label tokens text = map (Forbidden label) (filter (\<lambda>t. contains t text) tokens)"

definition require_that :: "bool \<Rightarrow> pystr \<Rightarrow> check_error list" where
  "require_that b message = flag (\<not> b) (Broken message)"

definition any_in :: "pystr list \<Rightarrow> pystr \<Rightarrow> bool" where
  "any_in tokens text = list_ex (\<lambda>t. contains t text) tokens"

text \<open>The helper functions \<open>require_tokens\<close> and \<open>require\<close> that the checkers copy.\<close>

definition require_tokens :: "fs \<Rightarrow> path \<Rightarrow> pystr list \<Rightarrow> contract_result" where
  "require_tokens fs p tokens =
     bind_py (read_text fs p) (\<lambda>text. Inr (lacks (as_posix p) tokens text))"

definition require_file :: "fs \<Rightarrow> path \<Rightarrow> pystr list \<Rightarrow> contract_result" where
  "require_file fs p tokens =
     (if is_file fs p then require_tokens fs p tokens else Inr [Missing_File p])"

definition read_then :: "fs \<Rightarrow> string \<Rightarrow> (pystr \<Rightarrow> check_error list) \<Rightarrow> contract_result" where
  "read_then fs name errors = bind_py (read_text fs (rel name)) (\<lambda>text. Inr (errors text))"

definition if_file :: "fs \<Rightarrow> path \<Rightarrow> (pystr \<Rightarrow> check_error list) \<Rightarrow> contract_result" where
  "if_file fs p errors =
     (if is_file fs p then bind_py (read_text fs p) (\<lambda>text. Inr (errors text)) else Inr [])"

definition file_named :: "string \<Rightarrow> pystr \<Rightarrow> bool" where
  "file_named s n \<longleftrightarrow> n = lit s"

definition prompt_files :: "fs \<Rightarrow> path list" where
  "prompt_files fs = rglob (file_named ''CODEX_PROMPT.md'') fs"

definition files_below :: "string \<Rightarrow> string \<Rightarrow> fs \<Rightarrow> path list" where
  "files_below dir ending fs = filter (below (rel dir)) (rglob (ends_with ending) fs)"

text \<open>\<open>directory.glob("*.java")\<close>: the direct children.\<close>

definition files_in :: "string \<Rightarrow> string \<Rightarrow> fs \<Rightarrow> path list" where
  "files_in dir ending fs = filter (\<lambda>p. parent p = rel dir) (files_below dir ending fs)"

text \<open>\<open>os.access(path, os.X_OK)\<close>.\<close>

definition can_execute :: "fs \<Rightarrow> path \<Rightarrow> bool" where
  "can_execute fs p =
     (case map_of fs p of None \<Rightarrow> False | Some Directory \<Rightarrow> True | Some (Regular b x) \<Rightarrow> x)"

text \<open>The run of a checker: exit code one with the messages, or zero.\<close>

definition exit_code :: "contract_result \<Rightarrow> pyexc + int" where
  "exit_code r = bind_py r (\<lambda>es. Inr (if es = [] then 0 else 1))"

section \<open>Lines of a refinement\<close>

definition not_space :: "nat \<Rightarrow> bool" where
  "not_space c \<longleftrightarrow> \<not> is_space c"

text \<open>The word after a key at the start of a line, \<open>^Key:\s*(\S+)\<close>.\<close>

definition word_re :: "pystr \<Rightarrow> regex" where
  "word_re key = Cat [LineStart, Lit key, Lit (lit '':''), Star True (Cls is_space),
     Grp 1 (Plus True (Cls not_space))]"

definition word_after :: "string \<Rightarrow> pystr \<Rightarrow> pystr option" where
  "word_after key text = map_option (group 1) (re_search (word_re (lit key)) text)"

text \<open>A character class that ignores case, with the characters \<open>re\<close> folds to an ASCII letter.\<close>

definition case_variants :: "nat \<Rightarrow> nat list" where
  "case_variants c =
     (if 97 \<le> c \<and> c \<le> 122
      then [c, c - 32] @ (if c = 105 then [304, 305] else if c = 115 then [383] else if c = 107 then [8490] else [])
      else [c])"

definition any_case :: "string \<Rightarrow> regex" where
  "any_case s = Cat (map (\<lambda>c. Cls (\<lambda>x. x \<in> set (case_variants c))) (lit s))"

text \<open>The value of a metadata line, \<open>^Key:\s*(.+?)\s*$\<close>.\<close>

definition value_re :: "pystr \<Rightarrow> regex" where
  "value_re key = Cat [LineStart, Lit key, Lit (lit '':''), Star True (Cls is_space),
     Grp 1 (Plus False Dot), Star True (Cls is_space), LineEnd]"

definition metadata :: "pystr \<Rightarrow> pystr \<Rightarrow> pystr option" where
  "metadata text key = map_option (group 1) (re_search (value_re key) text)"

definition one_of :: "pystr option \<Rightarrow> string list \<Rightarrow> bool" where
  "one_of value values \<longleftrightarrow> value \<in> set (map (\<lambda>s. Some (lit s)) values)"

text \<open>A dictionary of expected metadata.\<close>

definition expect :: "pystr \<Rightarrow> pystr \<Rightarrow> (pystr \<times> pystr) list \<Rightarrow> check_error list" where
  "expect label text expected =
     map (\<lambda>(key, v). Lacks label (key @ [61] @ v))
       (filter (\<lambda>(key, v). metadata text key \<noteq> Some v) expected)"

definition acceptance_re :: regex where
  "acceptance_re = Cat [LineStart, Lit (lit ''Data-Akceptacji:''), Star True (Cls is_space),
     digits 4, Lit (lit ''-''), digits 2, Lit (lit ''-''), digits 2, LineEnd]"

text \<open>A numbered owner decision on one line, \<open>^\d+\. \*\*[^\n]+ending$\<close>.\<close>

definition decision_re :: "pystr \<Rightarrow> regex" where
  "decision_re ending = Cat [LineStart, Plus True (Cls is_digit), Lit (lit ''. **''), Plus True Dot,
     Lit ending, LineEnd]"

definition decisions :: "pystr \<Rightarrow> pystr \<Rightarrow> nat" where
  "decisions ending text = length (re_findall (decision_re ending) text)"

definition matches_in :: "regex \<Rightarrow> pystr \<Rightarrow> bool" where
  "matches_in r text \<longleftrightarrow> re_search r text \<noteq> None"

text \<open>\<open>"%02d" % n\<close> and \<open>"%03d" % n\<close>.\<close>

definition padded :: "nat \<Rightarrow> nat \<Rightarrow> pystr" where
  "padded width n = replicate (width - length (nat_str n)) 48 @ nat_str n"

text \<open>The package directories of the Java sources and tests.\<close>

definition java_main :: "string \<Rightarrow> path" where
  "java_main s = rel (''src/main/java/pl/radoslawpiatek/couponservice/'' @ s)"

definition java_test :: "string \<Rightarrow> path" where
  "java_test s = rel (''src/test/java/pl/radoslawpiatek/couponservice/'' @ s)"

section \<open>Successful checks\<close>

lemma lacks_Nil_iff [simp]: "lacks label tokens text = [] \<longleftrightarrow> (\<forall>t \<in> set tokens. contains t text)"
  by (simp add: lacks_def filter_empty_conv)

lemma forbids_Nil_iff [simp]: "forbids label tokens text = [] \<longleftrightarrow> (\<forall>t \<in> set tokens. \<not> contains t text)"
  by (simp add: forbids_def filter_empty_conv)

lemma expect_Nil_iff [simp]: "expect label text expected = [] \<longleftrightarrow> (\<forall>(key, v) \<in> set expected. metadata text key = Some v)"
  by (auto simp: expect_def filter_empty_conv)

lemma require_that_Nil_iff [simp]: "require_that b message = [] \<longleftrightarrow> b"
  by (simp add: require_that_def)

lemma missing_files_Nil_iff [simp]: "missing_files fs paths = [] \<longleftrightarrow> (\<forall>p \<in> set paths. is_file fs p)"
  by (simp add: missing_files_def filter_empty_conv)

lemma require_tokens_Nil_iff [py_ok]:
  "require_tokens fs p tokens = Inr [] \<longleftrightarrow>
     (\<exists>text. read_text fs p = Inr text \<and> (\<forall>t \<in> set tokens. contains t text))"
  by (auto simp: require_tokens_def py_ok)

lemma require_file_Nil_iff [py_ok]:
  "require_file fs p tokens = Inr [] \<longleftrightarrow>
     (\<exists>text. read_text fs p = Inr text \<and> (\<forall>t \<in> set tokens. contains t text))"
  by (auto simp: require_file_def py_ok dest: read_text_is_file)

lemma exit_code_zero_iff: "exit_code r = Inr 0 \<longleftrightarrow> r = Inr []"
  by (auto simp: exit_code_def py_ok)

section \<open>The interface of a static gate\<close>

text \<open>
  Two trees with the same entries, in the same order, that differ at most in the content of
  \<open>CHECKSUMS.sha256\<close>.
\<close>

definition same_source :: "fs \<Rightarrow> fs \<Rightarrow> bool" where
  "same_source fs fs' \<longleftrightarrow> map fst fs' = map fst fs \<and> is_file fs OUTPUT \<and> is_file fs' OUTPUT
     \<and> (\<forall>p. p \<noteq> OUTPUT \<longrightarrow> map_of fs' p = map_of fs p)"

named_theorems frame "reads that do not see the content of the manifest"

lemma same_is_file [frame]: "same_source fs fs' \<Longrightarrow> is_file fs' p = is_file fs p"
  by (cases "p = OUTPUT") (auto simp: same_source_def is_file_def)

lemma same_path_exists [frame]: "same_source fs fs' \<Longrightarrow> path_exists fs' p = path_exists fs p"
  by (cases "p = OUTPUT") (auto simp: same_source_def path_exists_def is_file_def split: option.splits)

lemma same_rglob [frame]: "same_source fs fs' \<Longrightarrow> rglob pat fs' = rglob pat fs"
  by (simp add: same_source_def rglob_def)

lemma same_read_bytes [frame]: "same_source fs fs' \<Longrightarrow> p \<noteq> OUTPUT \<Longrightarrow> read_bytes fs' p = read_bytes fs p"
  by (simp add: same_source_def read_bytes_def)

lemma same_read_text [frame]: "same_source fs fs' \<Longrightarrow> p \<noteq> OUTPUT \<Longrightarrow> read_text fs' p = read_text fs p"
  by (simp add: read_text_def frame)

lemma same_can_execute [frame]: "same_source fs fs' \<Longrightarrow> p \<noteq> OUTPUT \<Longrightarrow> can_execute fs' p = can_execute fs p"
  by (simp add: same_source_def can_execute_def)

lemma same_require_tokens [frame]:
  "same_source fs fs' \<Longrightarrow> p \<noteq> OUTPUT \<Longrightarrow> require_tokens fs' p tokens = require_tokens fs p tokens"
  by (simp add: require_tokens_def frame)

lemma same_require_file [frame]:
  "same_source fs fs' \<Longrightarrow> p \<noteq> OUTPUT \<Longrightarrow> require_file fs' p tokens = require_file fs p tokens"
  by (simp add: require_file_def frame)

lemma same_read_then [frame]:
  "same_source fs fs' \<Longrightarrow> rel name \<noteq> OUTPUT \<Longrightarrow> read_then fs' name errors = read_then fs name errors"
  by (simp add: read_then_def frame)

lemma if_file_frame [frame]: "same_source fs fs' \<Longrightarrow> p \<noteq> OUTPUT \<Longrightarrow> if_file fs' p f = if_file fs p f"
  by (simp add: if_file_def frame)

lemma same_missing_files [frame]: "same_source fs fs' \<Longrightarrow> missing_files fs' ps = missing_files fs ps"
  by (simp add: missing_files_def frame)

lemma same_prompt_files [frame]: "same_source fs fs' \<Longrightarrow> prompt_files fs' = prompt_files fs"
  by (simp add: prompt_files_def frame)

lemma same_files_below [frame]: "same_source fs fs' \<Longrightarrow> files_below d e fs' = files_below d e fs"
  by (simp add: files_below_def frame)

lemma same_files_in [frame]: "same_source fs fs' \<Longrightarrow> files_in d e fs' = files_in d e fs"
  by (simp add: files_in_def frame)

text \<open>A path of the source that is not the manifest.\<close>

lemma sublist_split_on: "p \<in> set (split_on c xs) \<Longrightarrow> sublist p xs"
proof (induction xs arbitrary: p)
  case (Cons x xs)
  show ?case
  proof (cases "x = c")
    case True
    then have "p = [] \<or> sublist p xs" using Cons by auto
    then show ?thesis by (auto simp: sublist_Cons_right)
  next
    case False
    obtain q qs where s: "split_on c xs = q # qs" by (cases "split_on c xs") auto
    have q: "prefix q xs"
    proof -
      have "join_with [c] (q # qs) = xs" using join_split_on[of c xs] by (simp add: s)
      then show ?thesis by (cases qs) auto
    qed
    show ?thesis using Cons.prems Cons.IH[of p] False q s
      by (auto simp: sublist_Cons_right)
  qed
qed simp

lemma unlit: "map char_of (lit s) = s"
  by (simp add: lit_def comp_def)

lemma sublist_lit: "sublist (lit s) (lit t) \<longleftrightarrow> sublist s t"
proof
  assume "sublist (lit s) (lit t)"
  then obtain a b where "lit t = a @ lit s @ b" unfolding sublist_def by blast
  then have "map char_of (lit t) = map char_of a @ map char_of (lit s) @ map char_of b" by simp
  then show "sublist s t" by (auto simp: sublist_def unlit)
next
  assume "sublist s t"
  then obtain a b where "t = a @ s @ b" by (auto simp: sublist_def)
  then have "lit t = lit a @ lit s @ lit b" by (simp add: lit_def)
  then show "sublist (lit s) (lit t)" unfolding sublist_def by blast
qed

lemma suffix_lit: "suffix (lit s) (lit t) \<longleftrightarrow> suffix s t"
proof
  assume "suffix (lit s) (lit t)"
  then obtain a where "lit t = a @ lit s" unfolding suffix_def by blast
  then have "map char_of (lit t) = map char_of a @ map char_of (lit s)" by simp
  then show "suffix s t" by (auto simp: suffix_def unlit)
next
  assume "suffix s t"
  then obtain a where "t = a @ s" by (auto simp: suffix_def)
  then have "lit t = lit a @ lit s" by (simp add: lit_def)
  then show "suffix (lit s) (lit t)" unfolding suffix_def by blast
qed

lemma path_parts_split: "set (path_parts s) \<subseteq> set (split_on 47 s)"
  by (auto simp: path_parts_def)

lemma rel_not_output [frame]: "\<not> contains ''CHECKSUMS'' s \<Longrightarrow> rel s \<noteq> OUTPUT"
proof
  assume n: "\<not> contains ''CHECKSUMS'' s" and "rel s = OUTPUT"
  then have "path_parts (lit s) = [lit ''CHECKSUMS.sha256'']"
    using OUTPUT_parts by (metis path.sel rel_def)
  then have "lit ''CHECKSUMS.sha256'' \<in> set (split_on 47 (lit s))"
    using path_parts_split[of "lit s"] by (simp del: lit_eq_iff)
  then have "sublist ''CHECKSUMS.sha256'' s" using sublist_split_on sublist_lit by metis
  moreover have "sublist ''CHECKSUMS'' ''CHECKSUMS.sha256''"
    unfolding contains_sublist[symmetric] by code_simp
  ultimately show False using n by (meson contains_sublist sublist_order.order_trans)
qed

lemma ending_not_output:
  assumes "p \<in> set (rglob (ends_with e) fs)" "\<not> suffix e ''CHECKSUMS.sha256''"
  shows "p \<noteq> OUTPUT"
proof
  assume "p = OUTPUT"
  then have "suffix (lit e) (lit ''CHECKSUMS.sha256'')"
    using assms(1) by (simp add: rglob_def ends_with_def path_name_def)
  then show False using assms(2) by (simp only: suffix_lit)
qed

lemma below_not_output:
  "p \<in> set (files_below d e fs) \<Longrightarrow> \<not> suffix e ''CHECKSUMS.sha256'' \<Longrightarrow> p \<noteq> OUTPUT"
  by (auto simp: files_below_def dest: ending_not_output)

lemma in_not_output:
  "p \<in> set (files_in d e fs) \<Longrightarrow> \<not> suffix e ''CHECKSUMS.sha256'' \<Longrightarrow> p \<noteq> OUTPUT"
  by (auto simp: files_in_def dest: below_not_output)

lemma update_same_keys: "map_of al k \<noteq> None \<Longrightarrow> map fst (AList.update k v al) = map fst al"
  by (induction al) (auto split: if_splits)

lemma generate_same_source:
  assumes "generate_main fs = Inr fs'" "is_file fs OUTPUT"
  shows "same_source fs fs'"
proof -
  obtain b where w: "write_bytes OUTPUT b fs = Inr fs'"
    using assms(1) by (auto simp: generate_main_eq write_text_def split: option.splits)
  obtain b' x where o: "map_of fs OUTPUT = Some (Regular b' x)"
    using assms(2) by (auto simp: is_file_def split: option.splits node.splits)
  have "fs' = AList.update OUTPUT (Regular b x) fs" using w o by (simp add: write_bytes_def)
  then have "map fst fs' = map fst fs" using update_same_keys[of fs OUTPUT] o by simp
  then show ?thesis by (simp add: same_source_def is_file_def write_bytes_lookup[OF w] o)
qed

text \<open>
  A gate whose verdict does not depend on the checksum manifest: rewriting the manifest, as the
  generator does, leaves the verdict alone.
\<close>

locale static_gate =
  fixes gate :: "fs \<Rightarrow> 'e + 'r"
  assumes stable: "same_source fs fs' \<Longrightarrow> gate fs' = gate fs"
begin

lemma after_checksums:
  assumes "generate_main fs = Inr fs'" "is_file fs OUTPUT"
  shows "gate fs' = gate fs"
  by (rule stable[OF generate_same_source[OF assms]])

lemma after_checksums_twice:
  assumes "generate_main fs = Inr fs'" "generate_main fs' = Inr fs''" "is_file fs OUTPUT"
  shows "gate fs'' = gate fs"
  using after_checksums[OF assms(1,3)] after_checksums[OF assms(2)]
    generate_same_source[OF assms(1,3)] by (simp add: same_source_def)

end

end
