(* ===== verification/Check_Delivery.thy ===== *)
theory Check_Delivery
  imports Checks
begin

text \<open>
  The static part of \<open>scripts/check_emp010.py\<close>, the contract of the workflow, the image, the
  observability code and the packager, one definition per file it reads; and
  \<open>scripts/check_emp010_refinement.py\<close>, the contract of its refinement.
\<close>

section \<open>Tests on a text\<close>

definition all_in :: "pystr list \<Rightarrow> pystr \<Rightarrow> bool" where
  "all_in tokens text = list_all (\<lambda>t. contains t text) tokens"

definition none_in :: "pystr list \<Rightarrow> pystr \<Rightarrow> bool" where
  "none_in tokens text = list_all (\<lambda>t. \<not> contains t text) tokens"

text \<open>A token looked up with text around it; the message shows the bare token.\<close>

definition lacks_around :: "pystr \<Rightarrow> pystr \<Rightarrow> pystr \<Rightarrow> pystr list \<Rightarrow> pystr \<Rightarrow> check_error list" where
  "lacks_around label before after tokens text =
     map (Lacks label) (filter (\<lambda>t. \<not> contains (before @ t @ after) text) tokens)"

definition CHECKOUT_SHA :: pystr where
  "CHECKOUT_SHA = (lit ''3d3c42e5aac5ba805825da76410c181273ba90b1'')"

definition SETUP_JAVA_SHA :: pystr where
  "SETUP_JAVA_SHA = (lit ''b6effb05e454b25005698d916606bdc6ffcbf961'')"

definition JDK_DIGEST :: pystr where
  "JDK_DIGEST = (lit ''55fb9bf738f5d9b4a6c01b39337e3070d3e27370dd3c478fd1d5d3cd2233c6d8'')"

definition JRE_DIGEST :: pystr where
  "JRE_DIGEST = (lit ''3097cbbebb7d490494a98aed2301f284b38f79eba158eef098c6fc8c8af11c23'')"

text \<open>A set in the source, which the loop visits in any order; here the order of the text.\<close>

definition CRITICAL_METERS :: "pystr list" where
  "CRITICAL_METERS = map lit [''coupon.create'', ''coupon.redemption'', ''client.ip.resolution'',
      ''geolocation.resolution'', ''geolocation.provider'', ''coupon.redemption.transaction'']"

definition FORBIDDEN_LABEL_TOKENS :: "pystr list" where
  "FORBIDDEN_LABEL_TOKENS = map lit [''userId'', ''couponCode'', ''requestId'', ''resolvedCountry'', ''countryCode'', ''rawIp'']"

section \<open>The workflow\<close>

text \<open>\<open>uses:\s*([^\s]+)\<close> and \<open>[^@\s]+@[0-9a-f]{40}\<close>.\<close>

definition action_re :: regex where
  "action_re = Cat [Lit (lit ''uses:''), Star True (Cls is_space), Grp 1 (Plus True (Cls not_space))]"

definition no_at_or_space :: "nat \<Rightarrow> bool" where
  "no_at_or_space c \<longleftrightarrow> c \<noteq> 64 \<and> \<not> is_space c"

definition pinned_re :: regex where
  "pinned_re = Seq (Plus True (Cls no_at_or_space)) (Seq (Lit [64]) (Times 40 (Cls is_hex_lower)))"

definition pinned :: "pystr \<Rightarrow> bool" where
  "pinned action \<longleftrightarrow> re_fullmatch pinned_re action \<noteq> None"

definition workflow_actions :: "pystr \<Rightarrow> pystr list" where
  "workflow_actions workflow = map (cap 1) (re_findall action_re workflow)"

definition mutable_actions :: "pystr \<Rightarrow> check_error list" where
  "mutable_actions workflow =
     map (Forbidden (lit ''mutable GitHub Action reference'')) (filter (\<lambda>a. \<not> pinned a) (workflow_actions workflow))"

definition workflow_errors :: "pystr \<Rightarrow> check_error list" where
  "workflow_errors workflow =
     require_that (all_in (map lit [''pull_request:'', ''workflow_dispatch:'', ''branches: [main]'']) workflow)
       (lit ''CI triggers are incomplete'')
     @ require_that (all_in (map lit [''runs-on: ubuntu-24.04'', ''timeout-minutes: 30'']) workflow)
       (lit ''CI runner/timeout contract missing'')
     @ require_that (contains (lit ''permissions:'' @ [10] @ lit ''  contents: read'') workflow) (lit ''CI permissions must be contents: read'')
     @ require_that (\<not> contains (lit ''pull_request_target'') workflow) (lit ''pull_request_target is forbidden'')
     @ require_that (all_in [(lit ''actions/checkout@'') @ CHECKOUT_SHA, (lit ''persist-credentials: false'')] workflow)
       (lit ''checkout must use the frozen full SHA with credentials disabled'')
     @ require_that (all_in [(lit ''actions/setup-java@'') @ SETUP_JAVA_SHA, (lit ''distribution: temurin''),
         (lit ''java-version: '' @ [39] @ lit ''21'' @ [39])] workflow)
       (lit ''setup-java must use the frozen full SHA for Temurin 21'')
     @ mutable_actions workflow
     @ require_that (all_in (map lit [''DOCKER=docker make verify'', ''make delivery-check'',
         ''git diff --exit-code'']) workflow)
       (lit ''CI must run canonical verify, tracked diff check and delivery gate'')
     @ require_that (\<not> contains (lit ''services:'') workflow) (lit ''CI must not define a PostgreSQL service container'')
     @ require_that (none_in (map lit [''secrets.'', ''write'']) workflow)
       (lit ''CI must not require secrets or write permissions'')
     @ require_that (contains (lit ''cancel-in-progress: true'') workflow) (lit ''CI concurrency cancellation missing'')"

section \<open>Image, build and configuration\<close>

definition dockerfile_errors_010 :: "pystr \<Rightarrow> check_error list" where
  "dockerfile_errors_010 dockerfile =
     require_that (contains ((lit ''eclipse-temurin:21-jdk-jammy@sha256:'') @ JDK_DIGEST) dockerfile)
       (lit ''JDK base image digest mismatch'')
     @ require_that (contains ((lit ''eclipse-temurin:21-jre-jammy@sha256:'') @ JRE_DIGEST) dockerfile)
       (lit ''JRE base image digest mismatch'')"

definition prometheus_re :: regex where
  "prometheus_re = Cat [Lit (lit ''<dependency>''), Star True (Cls is_space),
     Lit (lit ''<groupId>io.micrometer</groupId>''), Star True (Cls is_space),
     Lit (lit ''<artifactId>micrometer-registry-prometheus</artifactId>''),
     Grp 1 (Star False (Cls (\<lambda>_. True))), Lit (lit ''</dependency>'')]"

definition pom_errors_010 :: "pystr \<Rightarrow> check_error list" where
  "pom_errors_010 pom =
     require_that (contains (lit ''<artifactId>micrometer-registry-prometheus</artifactId>'') pom)
       (lit ''Prometheus registry dependency missing'')
     @ require_that (case re_search prometheus_re pom of
           None \<Rightarrow> False | Some block \<Rightarrow> \<not> contains (lit ''<version>'') (group 1 block))
       (lit ''Prometheus dependency must use Spring Boot BOM'')"

definition app_errors_010 :: "pystr \<Rightarrow> check_error list" where
  "app_errors_010 app =
     require_that (contains (lit ''include: health,info,prometheus'') app) (lit ''Prometheus actuator exposure missing'')
     @ require_that (contains (lit ''show-details: never'') app) (lit ''health detail privacy contract changed'')"

definition compose_errors_010 :: "pystr \<Rightarrow> check_error list" where
  "compose_errors_010 compose =
     require_that (contains (lit ''LOGGING_STRUCTURED_FORMAT_CONSOLE: logstash'') compose)
       (lit ''container Logstash JSON configuration missing'')"

section \<open>Observability in the sources\<close>

definition request_filter_errors :: "pystr \<Rightarrow> check_error list" where
  "request_filter_errors = lacks (lit ''request-ID contract missing token'')
     (map lit [''X-Request-Id'', ''^[A-Za-z0-9][A-Za-z0-9._-]{0,63}$'', ''MDC.put'', ''MDC.remove'',
      ''finally''])"

definition metrics_errors :: "pystr \<Rightarrow> check_error list" where
  "metrics_errors metrics =
     lacks_around (lit ''missing frozen meter'') [34] [34] CRITICAL_METERS metrics
     @ lacks_around (lit ''missing frozen low-cardinality tag value'') [34] [34]
       (map lit [''success'', ''conflict'', ''not_found'', ''country_not_allowed'', ''already_redeemed'',
      ''exhausted'', ''geolocation_unavailable'', ''internal_error'', ''direct'', ''forwarded'',
      ''x_forwarded_for'', ''failure'', ''ipwhois'', ''stub'', ''timeout'', ''rate_limited'',
      ''provider_error'', ''invalid_response'', ''non_public_ip'', ''database_error'']) metrics
     @ map (Forbidden (lit ''forbidden metric label key''))
         (filter (\<lambda>t. contains ((lit ''.tag(\"'') @ t @ [34]) metrics) FORBIDDEN_LABEL_TOKENS)"

definition redemption_outcomes :: "pystr list" where
  "redemption_outcomes = map lit [''SUCCESS'', ''NOT_FOUND'', ''COUNTRY_NOT_ALLOWED'', ''ALREADY_REDEEMED'', ''EXHAUSTED'',
      ''GEOLOCATION_UNAVAILABLE'', ''INTERNAL_ERROR'']"

text \<open>The five services and adapters, all read before the first of them is checked.\<close>

definition service_errors ::
    "pystr \<Rightarrow> pystr \<Rightarrow> pystr \<Rightarrow> pystr \<Rightarrow> pystr \<Rightarrow> check_error list" where
  "service_errors create_service redeem_service transaction_service client_resolver provider_resolver =
     require_that (all_in (map lit [''recordCreate'', ''CreateOutcome.CONFLICT'']) create_service)
       (lit ''create terminal outcome instrumentation missing'')
     @ lacks_around (lit ''redemption outcome mapping missing'') (lit ''RedemptionOutcome.'') [] redemption_outcomes
         redeem_service
     @ require_that (all_in (map lit [''startTransactionTimer'', ''stopTransactionTimer'']) transaction_service)
       (lit ''transaction timer instrumentation missing'')
     @ require_that (all_in (map lit [''clientIpResolver.resolve(request)'', ''transaction.redeem'']) redeem_service)
       (lit ''redemption orchestration boundary changed unexpectedly'')
     @ require_that (all_in (map lit [''recordClientIp'', ''ClientIpSource.FORWARDED'',
         ''ClientIpSource.X_FORWARDED_FOR'']) client_resolver)
       (lit ''client-IP outcome/source mapping missing'')
     @ require_that (contains (lit ''httpClient.send'') provider_resolver
         \<and> py_count (lit ''httpClient.send'') provider_resolver = 1)
       (lit ''GeoIP adapter must keep exactly one provider send site'')
     @ require_that (all_in (map lit [''startGeolocationTimer'', ''stopGeolocationTimer'']) provider_resolver)
       (lit ''GeoIP provider timer instrumentation missing'')"

definition services_check :: "fs \<Rightarrow> contract_result" where
  "services_check fs =
     bind_py (read_text fs (java_main ''coupon/application/CreateCouponService.java'')) (\<lambda>create_service.
     bind_py (read_text fs (java_main ''coupon/application/RedeemCouponService.java'')) (\<lambda>redeem_service.
     bind_py (read_text fs (java_main ''coupon/application/TransactionalCouponRedemptionService.java''))
       (\<lambda>transaction_service.
     bind_py (read_text fs (java_main ''geolocation/adapters/ServletClientIpResolver.java'')) (\<lambda>client_resolver.
     bind_py (read_text fs (java_main ''geolocation/adapters/IpWhoisGeoLocationResolver.java''))
       (\<lambda>provider_resolver.
     Inr (service_errors create_service redeem_service transaction_service client_resolver
       provider_resolver))))))"

definition domain_files :: "fs \<Rightarrow> path list" where
  "domain_files fs =
     files_in ''src/main/java/pl/radoslawpiatek/couponservice/coupon/domain'' ''.java'' fs
     @ files_in ''src/main/java/pl/radoslawpiatek/couponservice/geolocation/domain'' ''.java'' fs"

definition domain_sources_check :: "fs \<Rightarrow> contract_result" where
  "domain_sources_check fs =
     bind_py (map_py (read_text fs) (domain_files fs)) (\<lambda>texts.
     Inr (require_that (none_in (map lit [''io.micrometer'', ''CouponServiceMetrics'']) (join_with [10] texts))
       (lit ''domain layer must remain free of Micrometer/observability dependencies'')))"

section \<open>Evidence in the tests\<close>

definition request_test_errors :: "pystr \<Rightarrow> check_error list" where
  "request_test_errors = lacks (lit ''request-ID test evidence missing'')
     (map lit [''reusesOneValidIncomingValue'', ''missingInvalidAndMultipleValuesGenerateFreshUuids'',
      ''cleanupRunsEvenWhenDownstreamFails'', ''MDC.get''])"

definition client_test_errors :: "pystr \<Rightarrow> check_error list" where
  "client_test_errors client_test =
     require_that (all_in [(lit ''recordsExactBoundedSourceAndOutcomeMetrics''),
         (lit ''\"x_forwarded_for\", \"outcome\", \"success\"''), (lit ''\"forwarded\", \"outcome\", \"failure\"'')] client_test)
       (lit ''client-IP metric mapping test evidence missing'')"

definition provider_test_errors :: "pystr \<Rightarrow> check_error list" where
  "provider_test_errors provider_test =
     lacks_around (lit ''GeoIP metric mapping test evidence missing'') [34] [34]
       (map lit [''success'', ''rate_limited'', ''invalid_response'', ''provider_error'', ''timeout'',
      ''non_public_ip'']) provider_test
     @ require_that (all_in (map lit [''LOCAL_STUB_RESPONSE_TIMEOUT = Duration.ofSeconds(1)'',
           ''http://127.0.0.1:'']) provider_test
         \<and> \<not> contains (lit ''http://localhost:'') provider_test)
       (lit ''GeoIP WireMock tests must use deterministic IPv4 loopback and the frozen 1s provider timeout'')
     @ require_that (all_in (map lit [''LOCAL_TRANSPORT_WARMUP_TIMEOUT = Duration.ofSeconds(5)'',
           ''LOCAL_HTTP_CLIENT'', ''warmUpLocalTransport()'', ''/__test-transport-warmup'']) provider_test
         \<and> py_count (lit ''HttpClient.newBuilder()'') provider_test = 1)
       (lit ''GeoIP WireMock tests must warm one shared production-shaped JDK HttpClient before bounded provider assertions'')"

definition observability_it_errors :: "pystr \<Rightarrow> check_error list" where
  "observability_it_errors observability_it =
     require_that (all_in (map lit [''management.endpoints.web.exposure.include'',
         ''health,info,prometheus'']) observability_it)
       (lit ''ObservabilityApiIT must explicitly expose Prometheus because test application.yml shadows main application.yml'')
     @ require_that (all_in (map lit
         [''org.springframework.boot.test.autoconfigure.actuate.observability.AutoConfigureObservability'',
          ''@AutoConfigureObservability'']) observability_it)
       (lit ''ObservabilityApiIT must enable real metrics exporters under @SpringBootTest'')
     @ require_that (all_in (map lit [''java.net.http.HttpClient'', ''HttpClient.newHttpClient()'']) observability_it
         \<and> \<not> contains (lit ''TestRestTemplate'') observability_it)
       (lit ''ObservabilityApiIT must use an uninstrumented JDK HTTP client so test request URLs cannot pollute the Prometheus scrape'')"

definition geolocation_test_errors :: "pystr \<Rightarrow> check_error list" where
  "geolocation_test_errors text =
     require_that (all_in (map lit [''withBean(CouponServiceMetrics.class'', ''SimpleMeterRegistry'']) text)
       (lit ''GeolocationConfigurationTest must provide the observability dependency in its isolated context'')"

section \<open>Interface, packaging and the Makefile\<close>

definition openapi_errors_010 :: "pystr \<Rightarrow> check_error list" where
  "openapi_errors_010 openapi =
     require_that (all_in (map lit [''X-Request-Id:'', ''#/components/headers/RequestId'']) openapi)
       (lit ''canonical OpenAPI request-ID response header missing'')"

definition packager_errors :: "pystr \<Rightarrow> check_error list" where
  "packager_errors package_py =
     lacks (lit ''deterministic packaging token missing'')
       (map lit [''git\", \"ls-files'', ''FIXED_TIME'', ''CHECKSUMS.sha256'', ''strict_timestamps=True'',
      ''compresslevel=9'']) package_py
     @ require_that (none_in (map lit [''date -u'', ''time.time'']) package_py)
       (lit ''packaging must not use wall-clock time'')"

definition smoke_errors_010 :: "pystr \<Rightarrow> check_error list" where
  "smoke_errors_010 smoke =
     lacks (lit ''Docker smoke observability evidence missing'')
       (map lit [''/actuator/prometheus'', ''X-Request-Id: smoke-request-010'',
      ''container structured JSON logging detected'']) smoke
     @ require_that (all_in [(lit ''tr -d '' @ [39, 92] @ lit ''r'' @ [39] @ lit '' < \"$headers_file\"''), (lit ''smoke-request-010['' @ lit ''[:space:]]*$'')] smoke)
       (lit ''Docker smoke must normalize HTTP CRLF before request-ID header validation'')"

definition target_re :: "string \<Rightarrow> regex" where
  "target_re name = Cat [LineStart, Lit (lit name @ (lit '':'')), Star True (Cls is_space), LineEnd]"

definition makefile_errors_010 :: "pystr \<Rightarrow> check_error list" where
  "makefile_errors_010 makefile =
     require_that (matches_in (target_re ''emp010-check'') makefile) (lit ''make emp010-check missing'')
     @ require_that (matches_in (target_re ''delivery-check'') makefile) (lit ''make delivery-check missing'')
     @ require_that (contains (lit ''scripts/check_emp010.py'') makefile) (lit ''Makefile does not invoke EMP-010 checker'')"

definition static_check_010 :: "fs \<Rightarrow> contract_result" where
  "static_check_010 fs = seqs_py
     [read_then fs ''.github/workflows/ci.yml'' workflow_errors,
      read_then fs ''Dockerfile'' dockerfile_errors_010,
      read_then fs ''pom.xml'' pom_errors_010,
      read_then fs ''src/main/resources/application.yml'' app_errors_010,
      read_then fs ''docker-compose.yml'' compose_errors_010,
      read_then fs ''src/main/java/pl/radoslawpiatek/couponservice/observability/web/RequestIdFilter.java''
        request_filter_errors,
      read_then fs ''src/main/java/pl/radoslawpiatek/couponservice/observability/CouponServiceMetrics.java''
        metrics_errors,
      services_check fs,
      domain_sources_check fs,
      read_then fs ''src/test/java/pl/radoslawpiatek/couponservice/observability/web/RequestIdFilterTest.java''
        request_test_errors,
      read_then fs ''src/test/java/pl/radoslawpiatek/couponservice/geolocation/adapters/ServletClientIpResolverTest.java''
        client_test_errors,
      read_then fs ''src/test/java/pl/radoslawpiatek/couponservice/geolocation/adapters/IpWhoisGeoLocationResolverTest.java''
        provider_test_errors,
      read_then fs ''src/test/java/pl/radoslawpiatek/couponservice/observability/ObservabilityApiIT.java''
        observability_it_errors,
      read_then fs ''src/test/java/pl/radoslawpiatek/couponservice/geolocation/configuration/GeolocationConfigurationTest.java''
        geolocation_test_errors,
      read_then fs ''docs/api/openapi.yaml'' openapi_errors_010,
      read_then fs ''scripts/package_source.py'' packager_errors,
      read_then fs ''scripts/docker_smoke.sh'' smoke_errors_010,
      read_then fs ''Makefile'' makefile_errors_010,
      Inr (require_that (prompt_files fs = []) (lit ''CODEX_PROMPT.md is forbidden''))]"

section \<open>The refinement contract\<close>

definition REF_010 :: path where
  "REF_010 = rel ''docs/project/refinements/EMP-010.md''"

definition SUMMARY_010 :: path where
  "SUMMARY_010 = rel ''docs/project/refinements/EMP-010-summary.md''"

definition CHECKLIST_010 :: path where
  "CHECKLIST_010 = rel ''docs/project/refinements/EMP-010-review-checklist.md''"

definition evidence_errors_010 :: "pystr \<Rightarrow> check_error list" where
  "evidence_errors_010 text =
     map (Lacks (lit ''EMP-010 has unsupported value''))
       (filter (\<lambda>key. \<not> one_of (metadata text key)
            [''NOT_MEASURED'', ''MEASURED'', ''MEASURED_AND_VERIFIED'', ''COMPLETE''])
         (map lit [''CI-Evidence'', ''Delivery-Evidence'', ''Observability-Evidence'']))"

definition draft_expected_010 :: "(pystr \<times> pystr) list" where
  "draft_expected_010 =
     [((lit ''Status''), (lit ''REFINEMENT'')), ((lit ''Implementation''), (lit ''NOT_STARTED'')), ((lit ''Implementation-Allowed''), (lit ''NO'')),
      ((lit ''Scope-Frozen''), (lit ''NO'')), ((lit ''Zaakceptowa'' @ [322]), (lit ''N/A'')), ((lit ''Data-Akceptacji''), (lit ''N/A''))]"

definition accepted_errors_010 :: "pystr \<Rightarrow> check_error list" where
  "accepted_errors_010 text =
     require_that (metadata text (lit ''Implementation-Allowed'') = Some (lit ''YES''))
       (lit ''ACCEPTED EMP-010 requires Implementation-Allowed: YES'')
     @ require_that (metadata text (lit ''Scope-Frozen'') = Some (lit ''YES'')) (lit ''ACCEPTED EMP-010 requires Scope-Frozen: YES'')
     @ require_that (metadata text (lit ''Zaakceptowa'' @ [322]) = Some (lit ''Rados'' @ [322] @ lit ''aw Pi'' @ [261] @ lit ''tek''))
       (lit ''ACCEPTED EMP-010 must record owner acceptance'')
     @ require_that (metadata text (lit ''Data-Akceptacji'') = Some (lit ''2026-08-07''))
       (lit ''ACCEPTED EMP-010 must record acceptance date 2026-08-07'')
     @ flag (metadata text (lit ''Status'') = Some (lit ''READY'') \<and> metadata text (lit ''Implementation'') \<noteq> Some (lit ''NOT_STARTED''))
       (Broken (lit ''READY EMP-010 must retain Implementation: NOT_STARTED''))
     @ require_that (one_of (metadata text (lit ''Review-Result'')) [''ACCEPTED'', ''VERIFIED''])
       (lit ''ACCEPTED EMP-010 requires Review-Result ACCEPTED/VERIFIED'')"

definition validate_metadata_010 :: "pystr \<Rightarrow> check_error list" where
  "validate_metadata_010 text =
     (let state = metadata text (lit ''Stan-Refinementu'') in
      require_that (one_of state [''DRAFT'', ''ACCEPTED'']) (lit ''EMP-010 refinement must be DRAFT or ACCEPTED'')
      @ require_that (one_of (metadata text (lit ''Status''))
          [''REFINEMENT'', ''READY'', ''IN_PROGRESS'', ''DONE_AND_VERIFIED'']) (lit ''EMP-010 uses unsupported Status'')
      @ require_that (one_of (metadata text (lit ''Implementation'')) [''NOT_STARTED'', ''IN_PROGRESS'', ''DONE_AND_VERIFIED''])
          (lit ''EMP-010 uses unsupported Implementation state'')
      @ require_that (one_of (metadata text (lit ''Implementation-Allowed'')) [''NO'', ''YES''])
          (lit ''EMP-010 must declare Implementation-Allowed YES/NO'')
      @ evidence_errors_010 text
      @ (if state = Some (lit ''DRAFT'')
         then expect (lit ''DRAFT EMP-010 requires'') text draft_expected_010
         else if state = Some (lit ''ACCEPTED'') then accepted_errors_010 text else []))"

definition validate_content_010 :: "pystr \<Rightarrow> check_error list" where
  "validate_content_010 text =
     lacks (lit ''EMP-010 refinement'')
       ([lit ''ubuntu-24.04'', lit ''DOCKER=docker make verify'',
      lit ''permissions: contents: read'', lit ''persist-credentials: false'',
      lit ''pull_request_target'', lit ''pe'' @ [322] @ lit ''nego 40-znakowego commit SHA'',
      lit ''timeout-minutes: 30'', lit ''Testcontainers'', lit ''git diff --exit-code'',
      lit ''@sha256:<64 hex>'', lit ''byte-for-byte reproducibility'',
      lit ''clean working tree'', lit ''tracked files'', lit ''Python 3.9'',
      lit ''make delivery-check'', lit ''X-Request-Id'',
      lit ''^[A-Za-z0-9][A-Za-z0-9._-]{0,63}$'', lit ''requestId'', lit ''logstash'',
      lit ''micrometer-registry-prometheus'', lit ''/actuator/prometheus'',
      lit ''coupon.create'', lit ''coupon.redemption'', lit ''client.ip.resolution'',
      lit ''geolocation.resolution'', lit ''geolocation.provider'',
      lit ''coupon.redemption.transaction'', lit ''raw IP'', lit ''userId'',
      lit ''coupon code'', lit ''request ID'', lit ''OpenTelemetry tracing'',
      lit ''Grafana/Prometheus server/dashboard'', lit ''CODEX_PROMPT.md'']) text
     @ lacks (lit ''EMP-010 refinement'') (map (\<lambda>number. (lit ''**AC-'') @ padded 2 number @ (lit '':**'')) [1..<32]) text
     @ flag (decisions ([8212] @ lit '' **ACCEPT**.'') text \<noteq> 8)
         (Broken (lit ''EMP-010 must contain exactly 8 accepted owner decisions ending ACCEPT''))
     @ (if metadata text (lit ''Stan-Refinementu'') = Some (lit ''ACCEPTED'')
        then lacks (lit ''accepted EMP-010 refinement'')
          ([lit ''Zaakceptowa'' @ [322] @ lit '': Rados'' @ [322] @ lit ''aw Pi'' @ [261] @ lit ''tek'',
      lit ''Data-Akceptacji: 2026-08-07'', lit ''Scope-Frozen: YES'',
      lit ''ACCEPTED_READY_FOR_IMPLEMENTATION'',
      lit ''Brak. Osiem decyzji w'' @ [322] @ lit ''a'' @ [347] @ lit ''ciciela'']) text
        else [])"

definition governance_errors_010 :: "pystr \<Rightarrow> pystr \<Rightarrow> pystr \<Rightarrow> check_error list" where
  "governance_errors_010 text backlog status_doc =
     (if metadata text (lit ''Stan-Refinementu'') = Some (lit ''DRAFT'')
      then require_that (contains (lit ''| EMP-010 | EMP-001 | P1 | REFINEMENT | EMP-010 |'') backlog)
          (lit ''DRAFT backlog must set EMP-010 to REFINEMENT'')
        @ lacks (lit ''current-status'') [(lit ''Implementation-Allowed: NO'')] status_doc
      else flag (metadata text (lit ''Status'') = Some (lit ''READY'')
            \<and> \<not> contains (lit ''| EMP-010 | EMP-001 | P1 | READY | EMP-010 |'') backlog)
          (Broken (lit ''READY backlog must set EMP-010 to READY''))
        @ lacks (lit ''current-status'') [(lit ''refinement `ACCEPTED`''), (lit ''Implementation-Allowed: YES'')] status_doc)"

definition validate_governance_010 :: "fs \<Rightarrow> pystr \<Rightarrow> contract_result" where
  "validate_governance_010 fs text =
     bind_py (read_text fs (rel ''docs/project/backlog.md'')) (\<lambda>backlog.
     bind_py (read_text fs (rel ''docs/project/current-status.md'')) (\<lambda>status_doc.
     Inr (governance_errors_010 text backlog status_doc)))"

definition summary_errors_010 :: "pystr \<Rightarrow> pystr \<Rightarrow> check_error list" where
  "summary_errors_010 text summary =
     lacks (lit ''EMP-010 summary'') (map lit [''ubuntu-24.04'', ''byte-reproducible'', ''X-Request-Id'', ''/actuator/prometheus'']) summary
     @ (if metadata text (lit ''Stan-Refinementu'') = Some (lit ''ACCEPTED'')
        then lacks (lit ''accepted EMP-010 summary'')
          ([lit ''zaakceptowa'' @ [322], lit ''READY'', lit ''Implementation-Allowed: YES'',
      lit ''NOT_MEASURED'']) summary
        else [])"

definition checklist_errors_010 :: "pystr \<Rightarrow> pystr \<Rightarrow> check_error list" where
  "checklist_errors_010 text checklist =
     lacks (lit ''EMP-010 checklist'') (map lit [''CODEX_PROMPT'', ''ACCEPT'']) checklist
     @ (if metadata text (lit ''Stan-Refinementu'') = Some (lit ''ACCEPTED'')
        then lacks (lit ''accepted EMP-010 checklist'')
          (map lit [''owner decisions | PASS'', ''`ACCEPTED`, `READY`'', ''Implementation-Allowed: YES'']) checklist
        else [])"

definition validate_summary_checklist :: "fs \<Rightarrow> pystr \<Rightarrow> contract_result" where
  "validate_summary_checklist fs text = seqs_py
     [Inr (missing_files fs [SUMMARY_010, CHECKLIST_010]),
      if_file fs SUMMARY_010 (summary_errors_010 text),
      if_file fs CHECKLIST_010 (checklist_errors_010 text)]"

text \<open>\<open>^FROM\s+[^\n]+@sha256:[0-9a-f]{64}\<close>.\<close>

definition pinned_image_re :: regex where
  "pinned_image_re = Cat [LineStart, Lit (lit ''FROM''), Plus True (Cls is_space), Plus True Dot, Lit (lit ''@sha256:''),
     Times 64 (Cls is_hex_lower)]"

definition prohibited_errors :: "fs \<Rightarrow> check_error list" where
  "prohibited_errors fs =
     map (Broken_File (lit ''Pre-implementation EMP-010 must not contain''))
       (filter (path_exists fs) [rel ''.github/workflows/ci.yml'', rel ''scripts/check_emp010.py''])"

definition validate_boundary_010 :: "fs \<Rightarrow> pystr \<Rightarrow> contract_result" where
  "validate_boundary_010 fs text =
     (if metadata text (lit ''Implementation'') \<noteq> Some (lit ''NOT_STARTED'')
         \<or> \<not> one_of (metadata text (lit ''Status'')) [''REFINEMENT'', ''READY'']
      then Inr []
      else seqs_py
        [Inr (prohibited_errors fs),
         read_then fs ''pom.xml'' (\<lambda>pom. flag (contains (lit ''micrometer-registry-prometheus'') pom)
           (Broken (lit ''Pre-implementation EMP-010 must not add Prometheus dependency''))),
         read_then fs ''Dockerfile'' (\<lambda>dockerfile. flag (matches_in pinned_image_re dockerfile)
           (Broken (lit ''Pre-implementation EMP-010 must not pin Docker digests yet''))),
         read_then fs ''scripts/package_source.sh'' (\<lambda>package_script.
           flag (any_in (map lit [''zipfile'', ''delivery-check'']) package_script)
           (Broken (lit ''Pre-implementation EMP-010 must not implement deterministic delivery yet'')))])"

definition validate_hygiene_010 :: "fs \<Rightarrow> check_error list" where
  "validate_hygiene_010 fs =
     flag (prompt_files fs \<noteq> [])
       (Lacks (lit ''CODEX_PROMPT.md is forbidden'') (join_with (lit '', '') (map as_posix (prompt_files fs))))"

definition emp010_refinement_main :: "fs \<Rightarrow> contract_result" where
  "emp010_refinement_main fs = seq_py
     (if \<not> is_file fs REF_010 then Inr [Missing_File REF_010]
      else bind_py (read_text fs REF_010) (\<lambda>text. seqs_py
        [Inr (validate_metadata_010 text), Inr (validate_content_010 text), validate_governance_010 fs text,
         validate_summary_checklist fs text, validate_boundary_010 fs text]))
     (Inr (validate_hygiene_010 fs))"

section \<open>The frame\<close>

lemma services_frame [frame]: "same_source fs fs' \<Longrightarrow> services_check fs' = services_check fs"
  by (simp add: services_check_def java_main_def frame)

lemma domain_files_frame [frame]: "same_source fs fs' \<Longrightarrow> domain_files fs' = domain_files fs"
  by (simp add: domain_files_def frame)

lemma domain_file_not_output: "p \<in> set (domain_files fs) \<Longrightarrow> p \<noteq> OUTPUT"
  using in_not_output[of p _ "''.java''" fs] by (auto simp: domain_files_def suffix_def)

lemma domain_sources_010_frame [frame]:
  assumes same: "same_source fs fs'"
  shows "domain_sources_check fs' = domain_sources_check fs"
proof -
  have "map_py (read_text fs') (domain_files fs) = map_py (read_text fs) (domain_files fs)"
    by (rule map_py_cong[OF refl same_read_text[OF same domain_file_not_output]])
  then show ?thesis using same by (simp add: domain_sources_check_def frame)
qed

lemma governance_010_frame [frame]: "same_source fs fs' \<Longrightarrow> validate_governance_010 fs' t = validate_governance_010 fs t"
  by (simp add: validate_governance_010_def frame)

lemma summary_checklist_frame [frame]:
  "same_source fs fs' \<Longrightarrow> validate_summary_checklist fs' t = validate_summary_checklist fs t"
  by (simp add: validate_summary_checklist_def SUMMARY_010_def CHECKLIST_010_def frame)

lemma boundary_010_frame [frame]: "same_source fs fs' \<Longrightarrow> validate_boundary_010 fs' t = validate_boundary_010 fs t"
  by (simp add: validate_boundary_010_def prohibited_errors_def frame)

lemma hygiene_010_frame [frame]: "same_source fs fs' \<Longrightarrow> validate_hygiene_010 fs' = validate_hygiene_010 fs"
  by (simp add: validate_hygiene_010_def frame)

interpretation emp010: static_gate static_check_010
  by unfold_locales (simp add: static_check_010_def frame)

interpretation emp010_refinement: static_gate emp010_refinement_main
  by unfold_locales (simp add: emp010_refinement_main_def REF_010_def frame cong: if_cong)

end
