(* ===== verification/Source_Package.thy ===== *)
theory Source_Package
  imports Checksum_Manifest Py_Regex
begin

text \<open>
  \<open>scripts/package_source.py\<close>: the tracked files read from the Git index, the check of the
  checksum manifest against the tracked blobs, and the archive built from them. Git is outside
  the repository: its commands are the parameter \<open>git\<close>, which maps an argument list to the
  bytes printed, or \<open>None\<close> when the command fails. Every \<open>SystemExit\<close> and every other
  exception is a value of \<open>pkg_error\<close>.
\<close>

unbundle bit_operations_syntax

datatype pkg_error =
    Git_Failed
  | Bad_Unpack
  | Not_Decodable
  | No_Path_Parts
  | Missing_Key
  | Unmerged pystr
  | Unsupported_Mode pystr pystr
  | Malformed_Object_Id pystr
  | Checksums_Not_Utf8
  | Malformed_Line pystr
  | Duplicate_Entry pystr
  | Dirty_Tree
  | Checksums_Untracked
  | Forbidden_Files "pystr list"
  | Manifest_Mismatch "pystr list" "pystr list"
  | Stale_Checksum pystr
  | Not_A_Work_Tree
  | No_Commit

section \<open>Constants and helpers\<close>

definition CHECKSUM_NAME :: pystr where
  "CHECKSUM_NAME = lit ''CHECKSUMS.sha256''"

definition FIXED_TIME :: "nat list" where
  "FIXED_TIME = [1980, 1, 1, 0, 0, 0]"

definition FORBIDDEN_PARTS :: "pystr list" where
  "FORBIDDEN_PARTS = map lit
     [''.git'', ''target'', ''build'', ''dist'', ''.idea'', ''.vscode'', ''.settings'',
      ''.gradle'', ''coverage'', ''__pycache__'']"

definition FORBIDDEN_SUFFIXES :: "pystr list" where
  "FORBIDDEN_SUFFIXES = map lit
     [''.zip'', ''.log'', ''.pem'', ''.key'', ''.p12'', ''.pfx'', ''.crt'', ''.cer'']"

definition run :: "git \<Rightarrow> pystr list \<Rightarrow> pkg_error + bytes" where
  "run git args = (case git args of None \<Rightarrow> Inl Git_Failed | Some b \<Rightarrow> Inr b)"

text \<open>\<open>PurePosixPath(path).parts\<close>: an absolute path has its root as the first part.\<close>

definition pure_parts :: "pystr \<Rightarrow> pystr list" where
  "pure_parts s =
     (if s \<noteq> [] \<and> hd s = 47
      then (if length (takeWhile (\<lambda>c. c = 47) s) = 2 then [47, 47] else [47]) # path_parts s
      else path_parts s)"

definition forbidden :: "pystr \<Rightarrow> pkg_error + bool" where
  "forbidden path =
     (let prts = pure_parts path
      in if prts = [] then Inl No_Path_Parts
         else let name = last prts
              in Inr (list_ex (\<lambda>part. part \<in> set FORBIDDEN_PARTS) prts
                   \<or> name = lit ''.DS_Store''
                   \<or> lower_ascii (name_suffix name) \<in> set FORBIDDEN_SUFFIXES
                   \<or> name = lit ''CODEX_PROMPT.md''
                   \<or> name = lit ''.env''
                   \<or> (prefix (lit ''.env.'') name \<and> name \<noteq> lit ''.env.example'')
                   \<or> name \<in> set [lit ''id_rsa'', lit ''id_ed25519'']))"

section \<open>The index\<close>

definition decode_ascii :: "bytes \<Rightarrow> pkg_error + pystr" where
  "decode_ascii b =
     (if list_all (\<lambda>c. of_char c < (128::nat)) b then Inr (lit b) else Inl Not_Decodable)"

definition decode_utf8 :: "bytes \<Rightarrow> pkg_error + pystr" where
  "decode_utf8 b = (case utf8_decode b of None \<Rightarrow> Inl Not_Decodable | Some s \<Rightarrow> Inr s)"

definition unpack_once :: "char \<Rightarrow> bytes \<Rightarrow> pkg_error + bytes \<times> bytes" where
  "unpack_once c b = (case split_once c b of None \<Rightarrow> Inl Bad_Unpack | Some p \<Rightarrow> Inr p)"

definition object_id_re :: regex where
  "object_id_re = Seq (Times 40 (Cls is_hex_lower)) (UpTo 24 (Cls is_hex_lower))"

type_synonym tracked = "(pystr \<times> (nat \<times> pystr)) list"

text \<open>One record of the index; the permissions 0o755 and 0o644 are 493 and 420.\<close>

definition parse_record :: "bytes \<Rightarrow> pkg_error + pystr \<times> (nat \<times> pystr)" where
  "parse_record record =
     bind_py (unpack_once (CHR 0x09) record) (\<lambda>(metadata, path_bytes).
     bind_py (unpack_once (CHR '' '') metadata) (\<lambda>(mode_bytes, more).
     bind_py (unpack_once (CHR '' '') more) (\<lambda>(object_id_bytes, stage_bytes).
     bind_py (decode_ascii mode_bytes) (\<lambda>mode.
     bind_py (decode_ascii stage_bytes) (\<lambda>stage.
     bind_py (decode_utf8 path_bytes) (\<lambda>path.
     bind_py (guard_py (stage = lit ''0'') (Unmerged path)) (\<lambda>_.
     bind_py (guard_py (mode \<in> set [lit ''100644'', lit ''100755'']) (Unsupported_Mode mode path))
       (\<lambda>_.
     bind_py (decode_ascii object_id_bytes) (\<lambda>object_id.
     bind_py (guard_py (re_fullmatch object_id_re object_id \<noteq> None) (Malformed_Object_Id path))
       (\<lambda>_.
     Inr (path, (if mode = lit ''100755'' then 493 else 420, object_id))))))))))))"

fun tracked_loop :: "tracked \<Rightarrow> bytes list \<Rightarrow> pkg_error + tracked" where
  "tracked_loop result [] = Inr result"
| "tracked_loop result (record # records) =
     (if record = [] then tracked_loop result records
      else bind_py (parse_record record) (\<lambda>(path, entry).
             tracked_loop (AList.update path entry result) records))"

definition tracked_entries :: "git \<Rightarrow> pkg_error + tracked" where
  "tracked_entries git =
     bind_py (run git (map lit [''git'', ''ls-files'', ''--stage'', ''-z'']))
       (\<lambda>raw. tracked_loop [] (split_on (CHR 0x00) raw))"

definition blob_bytes :: "git \<Rightarrow> pystr \<Rightarrow> pkg_error + bytes" where
  "blob_bytes git object_id =
     run git [lit ''git'', lit ''cat-file'', lit ''blob'', object_id]"

section \<open>The manifest\<close>

definition checksum_re :: regex where
  "checksum_re = Seq (Grp 1 (Times 64 (Cls is_hex_lower))) (Seq (Lit (lit ''  ''))
     (Grp 2 (Plus True Dot)))"

definition parse_line :: "(pystr \<times> pystr) list \<Rightarrow> pystr \<Rightarrow> pkg_error + (pystr \<times> pystr) list" where
  "parse_line entries line =
     (case re_fullmatch checksum_re line of
        None \<Rightarrow> Inl (Malformed_Line line)
      | Some m \<Rightarrow>
          let digest = group 1 m; path = group 2 m
          in if path \<in> set (map fst entries) then Inl (Duplicate_Entry path)
             else Inr (entries @ [(path, digest)]))"

fun parse_loop :: "(pystr \<times> pystr) list \<Rightarrow> pystr list \<Rightarrow> pkg_error + (pystr \<times> pystr) list" where
  "parse_loop entries [] = Inr entries"
| "parse_loop entries (line # ls) = bind_py (parse_line entries line) (\<lambda>es. parse_loop es ls)"

definition parse_checksums :: "bytes \<Rightarrow> pkg_error + (pystr \<times> pystr) list" where
  "parse_checksums data =
     (case utf8_decode data of
        None \<Rightarrow> Inl Checksums_Not_Utf8
      | Some text \<Rightarrow> parse_loop [] (splitlines text))"

section \<open>Verification of the tracked source\<close>

definition lookup :: "('k \<times> 'v) list \<Rightarrow> 'k \<Rightarrow> pkg_error + 'v" where
  "lookup d k = (case map_of d k of None \<Rightarrow> Inl Missing_Key | Some v \<Rightarrow> Inr v)"

definition check_file :: "(pystr \<times> bytes) list \<Rightarrow> (pystr \<times> pystr) list \<Rightarrow> pystr \<Rightarrow> pkg_error + unit" where
  "check_file blobs manifest path =
     bind_py (lookup blobs path) (\<lambda>blob.
     bind_py (lookup manifest path) (\<lambda>digest.
     guard_py (sha256_hex blob = digest) (Stale_Checksum path)))"

definition read_blobs :: "git \<Rightarrow> tracked \<Rightarrow> pkg_error + (pystr \<times> bytes) list" where
  "read_blobs git tracked =
     map_py (\<lambda>(path, entry). bind_py (blob_bytes git (snd entry)) (\<lambda>b. Inr (path, b))) tracked"

definition forbidden_paths :: "pystr list \<Rightarrow> pkg_error + pystr list" where
  "forbidden_paths paths =
     bind_py (map_py (\<lambda>p. bind_py (forbidden p) (\<lambda>f. Inr (p, f))) paths)
       (\<lambda>ps. Inr (sort (map fst (filter snd ps))))"

definition verify_source ::
    "git \<Rightarrow> tracked \<Rightarrow> pkg_error + pystr list \<times> (pystr \<times> bytes) list" where
  "verify_source git tracked =
     bind_py (run git (map lit [''git'', ''status'', ''--porcelain=v1'', ''-z''])) (\<lambda>status.
     bind_py (guard_py (status = []) Dirty_Tree) (\<lambda>_.
     bind_py (guard_py (CHECKSUM_NAME \<in> set (map fst tracked)) Checksums_Untracked) (\<lambda>_.
     bind_py (forbidden_paths (map fst tracked)) (\<lambda>bad.
     bind_py (guard_py (bad = []) (Forbidden_Files bad)) (\<lambda>_.
     bind_py (read_blobs git tracked) (\<lambda>blobs.
     let included_without_manifest = sort (filter (\<lambda>p. p \<noteq> CHECKSUM_NAME) (map fst tracked)) in
     bind_py (bind_py (lookup blobs CHECKSUM_NAME) parse_checksums) (\<lambda>manifest.
     bind_py (guard_py (set (map fst manifest) = set included_without_manifest)
       (Manifest_Mismatch
         (filter (\<lambda>p. p \<notin> set (map fst manifest)) included_without_manifest)
         (sort (filter (\<lambda>p. p \<notin> set included_without_manifest) (map fst manifest))))) (\<lambda>_.
     bind_py (map_py (check_file blobs manifest) included_without_manifest) (\<lambda>_.
     Inr (sort (map fst tracked), blobs))))))))))"

section \<open>The archive\<close>

record zip_entry =
  zip_name :: pystr
  date_time :: "nat list"
  create_system :: nat
  deflate_level :: nat
  external_attr :: nat
  zip_data :: bytes

record package =
  archive_name :: pystr
  archive_entries :: "zip_entry list"
  archive_digest :: pystr

definition attr_of_permission :: "nat \<Rightarrow> nat" where
  "attr_of_permission permission = push_bit 16 (permission AND 0xFFFF)"

definition make_entry :: "pystr \<Rightarrow> tracked \<Rightarrow> (pystr \<times> bytes) list \<Rightarrow> pystr \<Rightarrow> pkg_error + zip_entry" where
  "make_entry package tracked blobs path =
     bind_py (lookup tracked path) (\<lambda>(permission, object_id).
     bind_py (lookup blobs path) (\<lambda>data.
     Inr \<lparr>zip_name = package @ [47] @ path, date_time = FIXED_TIME, create_system = 3,
          deflate_level = 9, external_attr = attr_of_permission permission, zip_data = data\<rparr>))"

definition byte_space :: "char \<Rightarrow> bool" where
  "byte_space c \<longleftrightarrow> c \<in> set [CHR 0x20, CHR 0x09, CHR 0x0A, CHR 0x0D, CHR 0x0B, CHR 0x0C]"

definition commit_re :: regex where
  "commit_re = Times 40 (Cls is_hex_lower)"

text \<open>
  The run: \<open>zip_bytes\<close> stands for the byte encoding of \<open>zipfile\<close> and zlib, \<open>out\<close> for the
  output directory, whose old archive of the same name is replaced.
\<close>

definition package_main ::
    "git \<Rightarrow> (zip_entry list \<Rightarrow> bytes) \<Rightarrow> (pystr \<rightharpoonup> bytes)
       \<Rightarrow> pkg_error + package \<times> (pystr \<rightharpoonup> bytes)" where
  "package_main git zip_bytes out =
     bind_py (run git (map lit [''git'', ''rev-parse'', ''--is-inside-work-tree''])) (\<lambda>inside.
     bind_py (guard_py (strip_by byte_space inside = ''true'') Not_A_Work_Tree) (\<lambda>_.
     bind_py (run git (map lit [''git'', ''rev-parse'', ''HEAD''])) (\<lambda>head_bytes.
     bind_py (decode_ascii head_bytes) (\<lambda>head.
     let commit = py_strip head in
     bind_py (guard_py (re_fullmatch commit_re commit \<noteq> None) No_Commit) (\<lambda>_.
     bind_py (tracked_entries git) (\<lambda>tracked.
     bind_py (verify_source git tracked) (\<lambda>(paths, blobs).
     let package = lit ''coupon-service-source-'' @ take 12 commit;
         archive = package @ lit ''.zip'' in
     bind_py (map_py (make_entry package tracked blobs) paths) (\<lambda>entries.
     Inr (\<lparr>archive_name = archive, archive_entries = entries,
           archive_digest = sha256_hex (zip_bytes entries)\<rparr>,
          out(archive \<mapsto> zip_bytes entries))))))))))"

section \<open>Facts about the manifest format\<close>

text \<open>What the regular expression of a manifest line accepts, and what its groups hold.\<close>

definition line_shape :: "pystr \<Rightarrow> bool" where
  "line_shape line \<longleftrightarrow> (\<forall>c \<in> set (take 64 line). is_hex_lower c)
     \<and> take 2 (drop 64 line) = lit ''  '' \<and> drop 66 line \<noteq> [] \<and> 10 \<notin> set (drop 66 line)"

lemma fullmatch_checksum:
  "re_fullmatch checksum_re line =
     (if line_shape line
      then Some (rev line, [], [(2, drop 66 line), (1, take 64 line)]) else None)"
proof -
  let ?r = "drop 66 line"
  let ?n = "length (takeWhile (\<lambda>c. c \<noteq> 10) ?r)"
  have hex: "64 \<le> length (takeWhile is_hex_lower line) \<longleftrightarrow>
      64 \<le> length line \<and> (\<forall>c \<in> set (take 64 line). is_hex_lower c)"
    by (rule le_takeWhile_iff)
  have sp: "prefix (lit ''  '') (drop 64 line) \<longleftrightarrow> take 2 (drop 64 line) = lit ''  ''"
    by (metis append_take_drop_id length_Cons length_lit list.size(3) numeral_2_eq_2 prefix_def
        append_eq_conv_conj)
  have dot: "?n = length ?r \<longleftrightarrow> 10 \<notin> set ?r"
    by (subst takeWhile_all_len) auto
  have len: "take 2 (drop 64 line) = lit ''  '' \<Longrightarrow> 66 \<le> length line"
    by (drule arg_cong[of _ _ length]) auto
  show ?thesis
  proof (cases "64 \<le> length line \<and> (\<forall>c \<in> set (take 64 line). is_hex_lower c)
      \<and> take 2 (drop 64 line) = lit ''  ''")
    case True
    then have l: "66 \<le> length line" using len by simp
    have pre: "rev (take (Suc k) ?r) @ rev (lit ''  '') @ rev (take 64 line)
        = rev (take (67 + k) line)" for k
    proof -
      have "take (64 + (2 + Suc k)) line
          = take 64 line @ take 2 (drop 64 line) @ take (Suc k) (drop 2 (drop 64 line))"
        by (simp only: take_add)
      moreover have "64 + (2 + Suc k) = 67 + k" by simp
      ultimately have "take (67 + k) line = take 64 line @ lit ''  '' @ take (Suc k) ?r"
        using True by simp
      then show ?thesis using True by simp
    qed
    have "matches (Seq (Lit (lit ''  '')) (Grp 2 (Plus True Dot)))
          (rev (take 64 line), drop 64 line, [(1, take 64 line)]) =
        map (\<lambda>k. (rev (take (Suc k) ?r) @ rev (lit ''  '') @ rev (take 64 line), drop (Suc k) ?r,
            [(2, take (Suc k) ?r), (1, take 64 line)])) (rev [0..<?n])"
      using sp True by (simp add: Dot_def matches_Grp_Plus_Cls del: matches.simps(7))
    moreover have "matches (Grp 1 (Times 64 (Cls is_hex_lower))) ([], line, [])
        = [(rev (take 64 line), drop 64 line, [(1, take 64 line)])]"
      using True hex by (simp add: matches_Times_Cls)
    ultimately have m: "matches checksum_re ([], line, []) =
        map (\<lambda>k. (rev (take (67 + k) line), drop (Suc k) ?r,
            [(2, take (Suc k) ?r), (1, take 64 line)])) (rev [0..<?n])"
      by (simp add: checksum_re_def pre del: matches.simps(7))
    show ?thesis unfolding re_fullmatch_def m find_drop_rev[OF length_takeWhile_le]
      using True l dot by (auto simp: line_shape_def)
  next
    case False
    then have "matches checksum_re ([], line, []) = []"
      using hex sp by (auto simp: checksum_re_def matches_Times_Cls)
    then show ?thesis using False len by (auto simp: re_fullmatch_def line_shape_def)
  qed
qed

text \<open>An entry that the manifest format can carry.\<close>

fun entry_ok :: "pystr \<times> pystr \<Rightarrow> bool" where
  "entry_ok (path, digest) \<longleftrightarrow> length digest = 64 \<and> (\<forall>c \<in> set digest. is_hex_lower c)
     \<and> path \<noteq> [] \<and> (\<forall>c \<in> set path. \<not> is_linebreak c)"

definition entries_ok :: "(pystr \<times> pystr) list \<Rightarrow> bool" where
  "entries_ok es \<longleftrightarrow> es \<noteq> [] \<and> distinct (map fst es) \<and> (\<forall>e \<in> set es. entry_ok e)"

lemma hex_not_break: "is_hex_lower c \<Longrightarrow> \<not> is_linebreak c"
  by (auto simp: is_hex_lower_def is_linebreak_def)

lemma line_shape_entry: "entry_ok (path, digest) \<Longrightarrow> line_shape (manifest_line (path, digest))"
  by (auto simp: line_shape_def is_linebreak_def lit_def)

lemma parse_line_entry:
  "entry_ok (path, digest) \<Longrightarrow> path \<notin> set (map fst acc) \<Longrightarrow>
   parse_line acc (manifest_line (path, digest)) = Inr (acc @ [(path, digest)])"
  using line_shape_entry[of path digest]
  by (auto simp: parse_line_def fullmatch_checksum group_def cap_def)

lemma parse_loop_entries:
  "(\<forall>e \<in> set es. entry_ok e) \<Longrightarrow> distinct (map fst (acc @ es)) \<Longrightarrow>
   parse_loop acc (map manifest_line es) = Inr (acc @ es)"
proof (induction es arbitrary: acc)
  case (Cons e es)
  obtain path digest where e: "e = (path, digest)" by (cases e)
  have "parse_line acc (manifest_line e) = Inr (acc @ [e])"
    using Cons.prems by (simp add: e parse_line_entry del: manifest_line.simps)
  then show ?case using Cons.IH[of "acc @ [e]"] Cons.prems by simp
qed simp

lemma entry_no_break: "entry_ok e \<Longrightarrow> \<forall>c \<in> set (manifest_line e). \<not> is_linebreak c"
proof -
  have "\<not> is_linebreak 32" by (simp add: is_linebreak_def)
  then show "entry_ok e \<Longrightarrow> \<forall>c \<in> set (manifest_line e). \<not> is_linebreak c"
    by (cases e) (auto simp: lit_def dest: hex_not_break)
qed

lemma manifest_lines_no_break:
  "(\<forall>e \<in> set es. entry_ok e) \<Longrightarrow> \<forall>l \<in> set (map manifest_line es). \<forall>c \<in> set l. \<not> is_linebreak c"
  by (auto dest!: bspec entry_no_break)

section \<open>The interface between the generator and the packager\<close>

text \<open>
  A printer and a parser of one format: what the printer writes for a valid value, the parser
  reads back. The client's facts: printing loses nothing, and the parser of a printed value
  never raises.
\<close>

locale text_format =
  fixes print :: "'a \<Rightarrow> 'b option"
    and parse :: "'b \<Rightarrow> 'e + 'a"
    and valid :: "'a \<Rightarrow> bool"
  assumes parse_print: "valid a \<Longrightarrow> print a = Some b \<Longrightarrow> parse b = Inr a"
begin

lemma print_inj: "valid a \<Longrightarrow> valid a' \<Longrightarrow> print a = Some b \<Longrightarrow> print a' = Some b \<Longrightarrow> a = a'"
  using parse_print[of a b] parse_print[of a' b] by simp

lemma parse_total: "valid a \<Longrightarrow> print a = Some b \<Longrightarrow> \<exists>x. parse b = Inr x \<and> valid x"
  using parse_print by blast

end

definition print_manifest :: "(pystr \<times> pystr) list \<Rightarrow> bytes option" where
  "print_manifest es = utf8_encode (manifest_text es)"

interpretation checksums: text_format print_manifest parse_checksums entries_ok
proof unfold_locales
  fix es b assume ok: "entries_ok es" and p: "print_manifest es = Some b"
  have "utf8_decode b = Some (manifest_text es)"
    using p by (simp add: print_manifest_def utf8_decode_encode)
  moreover have "splitlines (manifest_text es) = map manifest_line es"
    using ok manifest_lines_no_break[of es]
    by (simp add: manifest_text_def entries_ok_def splitlines_join del: set_map)
  ultimately show "parse_checksums b = Inr es"
    using ok by (simp add: parse_checksums_def parse_loop_entries entries_ok_def)
qed

end
