(* ===== verification/Source_Delivery.thy ===== *)
theory Source_Delivery
  imports Source_Package
begin

text \<open>
  The properties of the delivery scripts: the index of Git is read exactly, a package is built
  only from a clean tree whose manifest matches every tracked blob, the archive is a function of
  the tracked source alone, and a manifest written by the generator satisfies the packager.
\<close>

section \<open>Reading the index\<close>

text \<open>
  The documented output of \<open>git ls-files --stage -z\<close>: mode, object id and stage separated by
  spaces, a tab, the path, and a zero byte after each record.
\<close>

record index_entry =
  ie_mode :: bytes
  ie_oid :: bytes
  ie_stage :: bytes
  ie_path :: pystr

definition index_record :: "index_entry \<Rightarrow> bytes" where
  "index_record e = ie_mode e @ CHR '' '' # ie_oid e @ CHR '' '' # ie_stage e @ CHR 0x09
     # the (utf8_encode (ie_path e))"

definition index_output :: "index_entry list \<Rightarrow> bytes" where
  "index_output es = concat (map (\<lambda>e. index_record e @ [CHR 0x00]) es)"

definition index_ok :: "index_entry \<Rightarrow> bool" where
  "index_ok e \<longleftrightarrow> ie_mode e \<in> set [''100644'', ''100755'']
     \<and> list_all (\<lambda>c. is_hex_lower (of_char c)) (ie_oid e)
     \<and> 40 \<le> length (ie_oid e) \<and> length (ie_oid e) \<le> 64
     \<and> list_all is_scalar (ie_path e) \<and> 0 \<notin> set (ie_path e)"

definition index_value :: "index_entry \<Rightarrow> pystr \<times> (nat \<times> pystr)" where
  "index_value e = (ie_path e, (if ie_mode e = ''100755'' then 493 else 420, lit (ie_oid e)))"

lemma object_id_re_iff:
  "re_fullmatch object_id_re s \<noteq> None \<longleftrightarrow>
     40 \<le> length s \<and> length s \<le> 64 \<and> (\<forall>c \<in> set s. is_hex_lower c)"
  unfolding object_id_re_def fullmatch_Times_UpTo_Cls by simp

lemma commit_re_iff:
  "re_fullmatch commit_re s \<noteq> None \<longleftrightarrow> length s = 40 \<and> (\<forall>c \<in> set s. is_hex_lower c)"
  unfolding commit_re_def fullmatch_Times_Cls ..

lemma hex_char_plain:
  "is_hex_lower (of_char c) \<Longrightarrow> c \<noteq> CHR '' '' \<and> c \<noteq> CHR 0x09 \<and> c \<noteq> CHR 0x00
     \<and> (of_char c :: nat) < 128"
  by (auto simp: is_hex_lower_def)

lemma decode_ascii_eq:
  "list_all (\<lambda>c. of_char c < (128::nat)) b \<Longrightarrow> decode_ascii b = Inr (lit b)"
  by (simp add: decode_ascii_def)

lemma decode_ascii_Inr: "decode_ascii b = Inr s \<Longrightarrow> s = lit b"
  by (auto simp: decode_ascii_def split: if_splits)

lemma parse_record_index:
  assumes "index_ok e" and stage: "ie_stage e = ''0''"
  shows "parse_record (index_record e) = Inr (index_value e)"
proof -
  note ok = assms(1)[unfolded index_ok_def]
  obtain pb where pb: "utf8_encode (ie_path e) = Some pb"
    using ok utf8_encode_scalars[of "ie_path e"] by (auto simp: list_all_iff)
  have oid: "CHR '' '' \<notin> set (ie_oid e)" "CHR 0x09 \<notin> set (ie_oid e)"
    using ok by (auto simp: list_all_iff dest!: bspec hex_char_plain)
  have mode: "CHR '' '' \<notin> set (ie_mode e)" using ok by auto
  have tab: "unpack_once (CHR 0x09) (index_record e)
      = Inr (ie_mode e @ CHR '' '' # ie_oid e @ CHR '' '' # ''0'', pb)"
    using ok oid split_once_append[of "CHR 0x09" "ie_mode e @ CHR '' '' # ie_oid e @ CHR '' '' # ''0''" pb]
    by (auto simp: unpack_once_def index_record_def stage pb)
  have sp1: "unpack_once (CHR '' '') (ie_mode e @ CHR '' '' # ie_oid e @ CHR '' '' # ''0'')
      = Inr (ie_mode e, ie_oid e @ CHR '' '' # ''0'')"
    using mode by (simp add: unpack_once_def split_once_append)
  have sp2: "unpack_once (CHR '' '') (ie_oid e @ CHR '' '' # ''0'') = Inr (ie_oid e, ''0'')"
    using oid by (simp add: unpack_once_def split_once_append)
  have "list_all (\<lambda>c. of_char c < (128::nat)) (ie_oid e)"
    using ok hex_char_plain by (auto simp: list_all_iff)
  then have asc: "decode_ascii (ie_mode e) = Inr (lit (ie_mode e))"
    "decode_ascii ''0'' = Inr (lit ''0'')" "decode_ascii (ie_oid e) = Inr (lit (ie_oid e))"
    using ok by (auto simp: decode_ascii_eq)
  have "re_fullmatch object_id_re (lit (ie_oid e)) \<noteq> None"
    unfolding object_id_re_iff using ok by (auto simp: list_all_iff lit_def)
  then show ?thesis
    using ok by (auto simp: parse_record_def tab sp1 sp2 asc decode_utf8_def
        utf8_decode_encode[OF pb] index_value_def)
qed

lemma update_fresh: "k \<notin> fst ` set al \<Longrightarrow> AList.update k v al = al @ [(k, v)]"
  by (induction al) auto

lemma tracked_loop_index:
  "(\<forall>e \<in> set es. index_ok e \<and> ie_stage e = ''0'') \<Longrightarrow> distinct (map fst acc @ map ie_path es) \<Longrightarrow>
   tracked_loop acc (map index_record es @ [[]]) = Inr (acc @ map index_value es)"
proof (induction es arbitrary: acc)
  case (Cons e es)
  have ne: "index_record e \<noteq> []" by (simp add: index_record_def)
  have "tracked_loop (acc @ [index_value e]) (map index_record es @ [[]])
      = Inr ((acc @ [index_value e]) @ map index_value es)"
    using Cons.prems by (intro Cons.IH) (auto simp: index_value_def)
  moreover have "ie_path e \<notin> fst ` set acc" using Cons.prems(2) by auto
  ultimately show ?case using Cons.prems(1) ne
    by (simp add: parse_record_index update_fresh index_value_def)
qed simp

lemma octet_zero: "octet n = CHR 0x00 \<longleftrightarrow> n mod 256 = 0"
proof -
  have "octet n = CHR 0x00 \<longleftrightarrow> (of_char (octet n) :: nat) = of_char (CHR 0x00)"
    by (simp only: of_char_eq_iff)
  then show ?thesis by (simp add: octet_def)
qed

lemma utf8_char_zero: "utf8_char c = Some b \<Longrightarrow> CHR 0x00 \<in> set b \<Longrightarrow> c = 0"
  by (auto simp: utf8_char_def octet_zero[symmetric] eq_commute[of "CHR 0x00"] octet_zero
      split: if_splits; presburger)

lemma utf8_encode_zero: "utf8_encode s = Some b \<Longrightarrow> 0 \<notin> set s \<Longrightarrow> CHR 0x00 \<notin> set b"
proof (induction s arbitrary: b)
  case (Cons c s)
  then show ?case using utf8_char_zero[of c] by (auto split: option.splits)
qed simp

lemma index_record_no_zero:
  assumes "index_ok e" "ie_stage e = ''0''"
  shows "CHR 0x00 \<notin> set (index_record e)"
proof -
  note ok = assms(1)[unfolded index_ok_def]
  obtain pb where pb: "utf8_encode (ie_path e) = Some pb"
    using ok utf8_encode_scalars[of "ie_path e"] by (auto simp: list_all_iff)
  then show ?thesis using ok utf8_encode_zero[OF pb] assms(2)
    by (auto simp: index_record_def list_all_iff dest!: bspec hex_char_plain)
qed

lemma split_on_terminated:
  "(\<forall>r \<in> set rs. c \<notin> set r) \<Longrightarrow> split_on c (concat (map (\<lambda>r. r @ [c]) rs)) = rs @ [[]]"
  by (induction rs) (auto simp: split_on_append)

text \<open>Whatever Git prints, the entries that come back are ordinary files with one stage.\<close>

definition tracked_ok :: "tracked \<Rightarrow> bool" where
  "tracked_ok t \<longleftrightarrow> distinct (map fst t)
     \<and> (\<forall>(path, perm, oid) \<in> set t. perm \<in> {420, 493} \<and> 40 \<le> length oid \<and> length oid \<le> 64
          \<and> (\<forall>c \<in> set oid. is_hex_lower c))"

lemma parse_record_ok:
  assumes "parse_record r = Inr (path, perm, oid)"
  shows "perm \<in> {420, 493} \<and> 40 \<le> length oid \<and> length oid \<le> 64 \<and> (\<forall>c \<in> set oid. is_hex_lower c)"
  using assms object_id_re_iff[of oid]
  by (auto simp: parse_record_def py_ok split: prod.splits if_splits)

lemma update_set: "set (AList.update k v al) \<subseteq> insert (k, v) (set al)"
  by (induction al) auto

lemma tracked_loop_ok: "tracked_loop acc rs = Inr t \<Longrightarrow> tracked_ok acc \<Longrightarrow> tracked_ok t"
proof (induction acc rs rule: tracked_loop.induct)
  case (2 acc r rs)
  show ?case
  proof (cases "r = []")
    case True
    then show ?thesis using 2 by simp
  next
    case False
    then obtain path perm oid where r: "parse_record r = Inr (path, perm, oid)"
      and t: "tracked_loop (AList.update path (perm, oid) acc) rs = Inr t"
      using "2.prems"(1) by (auto simp: py_ok)
    have "tracked_ok (AList.update path (perm, oid) acc)"
      using parse_record_ok[OF r] "2.prems"(2) update_set[of path "(perm, oid)" acc]
      by (fastforce simp: tracked_ok_def distinct_update)
    then show ?thesis using "2.IH"(2)[OF False r, of path "(perm, oid)"] t by simp
  qed
qed simp

lemma tracked_entries_ok: "tracked_entries git = Inr t \<Longrightarrow> tracked_ok t"
  by (auto simp: tracked_entries_def py_ok tracked_ok_def[of "[]"] intro: tracked_loop_ok)

section \<open>Verification of the source\<close>

text \<open>
  What \<open>verify_source\<close> promises, without its loops: the status is clean, the manifest is
  tracked and parses, no tracked path is forbidden, every blob is readable, the manifest names
  exactly the other tracked paths, and each of their blobs has the digest it records.
\<close>

definition blob_of :: "git \<Rightarrow> tracked \<Rightarrow> pystr \<Rightarrow> bytes option" where
  "blob_of git tracked path =
     (case map_of tracked path of
        None \<Rightarrow> None
      | Some (perm, oid) \<Rightarrow> git [lit ''git'', lit ''cat-file'', lit ''blob'', oid])"

definition source_verified :: "git \<Rightarrow> tracked \<Rightarrow> bool" where
  "source_verified git tracked \<longleftrightarrow>
     git (map lit [''git'', ''status'', ''--porcelain=v1'', ''-z'']) = Some []
     \<and> CHECKSUM_NAME \<in> fst ` set tracked
     \<and> (\<forall>p \<in> fst ` set tracked. forbidden p = Inr False \<and> blob_of git tracked p \<noteq> None)
     \<and> (\<exists>manifest. parse_checksums (the (blob_of git tracked CHECKSUM_NAME)) = Inr manifest
          \<and> fst ` set manifest = fst ` set tracked - {CHECKSUM_NAME}
          \<and> (\<forall>p \<in> fst ` set tracked - {CHECKSUM_NAME}.
               map_of manifest p = Some (sha256_hex (the (blob_of git tracked p)))))"

definition tracked_blobs :: "git \<Rightarrow> tracked \<Rightarrow> (pystr \<times> bytes) list" where
  "tracked_blobs git tracked = map (\<lambda>p. (p, the (blob_of git tracked p))) (map fst tracked)"

lemma read_blobs_Inr_iff:
  assumes "distinct (map fst tracked)"
  shows "read_blobs git tracked = Inr blobs \<longleftrightarrow>
    (\<forall>p \<in> fst ` set tracked. blob_of git tracked p \<noteq> None) \<and> blobs = tracked_blobs git tracked"
proof -
  have one: "(case e of (path, entry) \<Rightarrow> bind_py (blob_bytes git (snd entry)) (\<lambda>b. Inr (path, b)))
      = (case blob_of git tracked (fst e) of None \<Rightarrow> Inl Git_Failed | Some b \<Rightarrow> Inr (fst e, b))"
    if "e \<in> set tracked" for e
  proof -
    obtain path perm oid where e: "e = (path, perm, oid)" by (cases e) auto
    then have "map_of tracked path = Some (perm, oid)" using that assms by simp
    then show ?thesis by (simp add: e blob_of_def blob_bytes_def run_def split: option.splits)
  qed
  have "read_blobs git tracked = map_py (\<lambda>e. case blob_of git tracked (fst e) of
      None \<Rightarrow> Inl Git_Failed | Some b \<Rightarrow> Inr (fst e, b)) tracked"
    unfolding read_blobs_def by (rule map_py_cong[OF refl one])
  moreover have "map_py (\<lambda>e. case f (fst e) of None \<Rightarrow> Inl Git_Failed | Some b \<Rightarrow> Inr (fst e, b)) es
      = Inr bs \<longleftrightarrow> (\<forall>p \<in> fst ` set es. f p \<noteq> None) \<and> bs = map (\<lambda>p. (p, the (f p))) (map fst es)"
    for f :: "pystr \<Rightarrow> bytes option" and es :: tracked and bs
    by (induction es arbitrary: bs) (auto simp: py_ok split: option.splits)
  ultimately show ?thesis by (simp add: tracked_blobs_def)
qed

lemma forbidden_paths_Nil_iff:
  "forbidden_paths ps = Inr [] \<longleftrightarrow> (\<forall>p \<in> set ps. forbidden p = Inr False)"
proof -
  let ?m = "map_py (\<lambda>p. bind_py (forbidden p) (\<lambda>f. Inr (p, f))) ps"
  have "?m = Inr rs \<Longrightarrow> filter snd rs = [] \<longleftrightarrow> (\<forall>p \<in> set ps. forbidden p = Inr False)" for rs
    by (induction ps arbitrary: rs) (auto simp: py_ok split: if_splits)
  moreover have "(\<forall>p \<in> set ps. forbidden p = Inr False) \<Longrightarrow> \<exists>rs. ?m = Inr rs"
    by (induction ps) auto
  ultimately show ?thesis unfolding forbidden_paths_def py_ok by auto
qed

lemma map_of_tracked_blobs:
  "map_of (tracked_blobs git tracked) p =
     (if p \<in> fst ` set tracked then Some (the (blob_of git tracked p)) else None)"
  by (simp add: tracked_blobs_def map_of_map_restrict restrict_map_def del: map_map)

lemma check_file_tracked:
  assumes "p \<in> fst ` set tracked" "fst ` set manifest = fst ` set tracked - {CHECKSUM_NAME}"
    "p \<noteq> CHECKSUM_NAME"
  shows "check_file (tracked_blobs git tracked) manifest p =
    guard_py (map_of manifest p = Some (sha256_hex (the (blob_of git tracked p)))) (Stale_Checksum p)"
proof -
  have "p \<in> fst ` set manifest" using assms by simp
  then obtain d where "map_of manifest p = Some d" by (metis map_of_eq_None_iff not_None_eq)
  then show ?thesis
    by (auto simp: check_file_def lookup_def map_of_tracked_blobs assms(1) guard_py_def)
qed

text \<open>The outcome of \<open>verify_source\<close> once its guards on the tree and the manifest hold.\<close>

definition manifest_matches :: "git \<Rightarrow> tracked \<Rightarrow> (pystr \<times> pystr) list \<Rightarrow> bool" where
  "manifest_matches git tracked manifest \<longleftrightarrow>
     git (map lit [''git'', ''status'', ''--porcelain=v1'', ''-z'']) = Some []
     \<and> CHECKSUM_NAME \<in> fst ` set tracked
     \<and> (\<forall>p \<in> fst ` set tracked. forbidden p = Inr False \<and> blob_of git tracked p \<noteq> None)
     \<and> parse_checksums (the (blob_of git tracked CHECKSUM_NAME)) = Inr manifest
     \<and> fst ` set manifest = fst ` set tracked - {CHECKSUM_NAME}"

definition stale_paths :: "git \<Rightarrow> tracked \<Rightarrow> (pystr \<times> pystr) list \<Rightarrow> pystr list" where
  "stale_paths git tracked manifest =
     filter (\<lambda>p. map_of manifest p \<noteq> Some (sha256_hex (the (blob_of git tracked p))))
       (sort (filter (\<lambda>p. p \<noteq> CHECKSUM_NAME) (map fst tracked)))"

lemma verify_source_matched:
  assumes "distinct (map fst tracked)" "manifest_matches git tracked manifest"
  shows "verify_source git tracked =
    (case stale_paths git tracked manifest of
       [] \<Rightarrow> Inr (sort (map fst tracked), tracked_blobs git tracked)
     | p # _ \<Rightarrow> Inl (Stale_Checksum p))"
proof -
  note m = assms(2)[unfolded manifest_matches_def]
  have status: "run git (map lit [''git'', ''status'', ''--porcelain=v1'', ''-z'']) = Inr []"
    using m by (simp add: run_def)
  have bad: "forbidden_paths (map fst tracked) = Inr []" using m by (simp add: forbidden_paths_Nil_iff)
  have blobs: "read_blobs git tracked = Inr (tracked_blobs git tracked)"
    using m by (simp add: read_blobs_Inr_iff[OF assms(1)])
  have man: "bind_py (lookup (tracked_blobs git tracked) CHECKSUM_NAME) parse_checksums = Inr manifest"
    using m by (simp add: lookup_def map_of_tracked_blobs)
  have keys: "set (map fst manifest)
      = set (sort (filter (\<lambda>p. p \<noteq> CHECKSUM_NAME) (map fst tracked)))"
    using m by auto
  have loop: "map_py (check_file (tracked_blobs git tracked) manifest)
        (sort (filter (\<lambda>p. p \<noteq> CHECKSUM_NAME) (map fst tracked)))
      = (case stale_paths git tracked manifest of
           [] \<Rightarrow> Inr (map (\<lambda>_. ()) (sort (filter (\<lambda>p. p \<noteq> CHECKSUM_NAME) (map fst tracked))))
         | p # _ \<Rightarrow> Inl (Stale_Checksum p))"
    unfolding stale_paths_def
    by (rule map_py_guards, rule check_file_tracked) (use m in auto)
  have ck: "CHECKSUM_NAME \<in> set (map fst tracked)" using m by simp
  show ?thesis
    unfolding verify_source_def status bad blobs man loop Let_def bind_py.simps
    using ck keys by (simp split: list.splits)
qed

lemma verify_source_Inr_matches:
  assumes "distinct (map fst tracked)" "verify_source git tracked = Inr r"
  shows "\<exists>manifest. manifest_matches git tracked manifest"
proof -
  obtain bad blobs manifest where
    "run git (map lit [''git'', ''status'', ''--porcelain=v1'', ''-z'']) = Inr []"
    "CHECKSUM_NAME \<in> set (map fst tracked)" "forbidden_paths (map fst tracked) = Inr []"
    "read_blobs git tracked = Inr blobs"
    "bind_py (lookup blobs CHECKSUM_NAME) parse_checksums = Inr manifest"
    "set (map fst manifest) = set (sort (filter (\<lambda>p. p \<noteq> CHECKSUM_NAME) (map fst tracked)))"
    using assms(2) by (auto simp: verify_source_def py_ok Let_def)
  then have "manifest_matches git tracked manifest"
    using read_blobs_Inr_iff[OF assms(1), of git blobs]
    by (auto simp: manifest_matches_def forbidden_paths_Nil_iff run_def py_ok lookup_def
        map_of_tracked_blobs split: option.splits)
  then show ?thesis ..
qed

lemma stale_paths_Nil_iff:
  "stale_paths git tracked manifest = [] \<longleftrightarrow>
     (\<forall>p \<in> fst ` set tracked - {CHECKSUM_NAME}.
        map_of manifest p = Some (sha256_hex (the (blob_of git tracked p))))"
  by (auto simp: stale_paths_def filter_empty_conv)

lemma verify_source_characterised:
  assumes "distinct (map fst tracked)"
  shows "verify_source git tracked = Inr (paths, blobs) \<longleftrightarrow>
    source_verified git tracked \<and> paths = sort (map fst tracked) \<and> blobs = tracked_blobs git tracked"
proof
  assume v: "verify_source git tracked = Inr (paths, blobs)"
  then obtain man where man: "manifest_matches git tracked man"
    using verify_source_Inr_matches[OF assms] by blast
  then have st: "stale_paths git tracked man = []"
    using v by (cases "stale_paths git tracked man") (simp_all add: verify_source_matched[OF assms man])
  have "source_verified git tracked"
    using man st by (auto simp: source_verified_def manifest_matches_def stale_paths_Nil_iff)
  then show "source_verified git tracked \<and> paths = sort (map fst tracked)
      \<and> blobs = tracked_blobs git tracked"
    using v st by (simp add: verify_source_matched[OF assms man])
next
  assume s: "source_verified git tracked \<and> paths = sort (map fst tracked)
      \<and> blobs = tracked_blobs git tracked"
  then obtain man where man: "manifest_matches git tracked man" "stale_paths git tracked man = []"
    by (auto simp: source_verified_def manifest_matches_def stale_paths_Nil_iff)
  then show "verify_source git tracked = Inr (paths, blobs)"
    using s by (simp add: verify_source_matched[OF assms man(1)])
qed

section \<open>The generator and the packager together\<close>

lemma pure_parts_as_posix:
  assumes "path_ok p"
  shows "pure_parts (as_posix p) = parts p"
proof -
  obtain c cs where p: "parts p = c # cs" using assms by (cases "parts p") (auto simp: path_ok_def)
  then have "c \<noteq> []" "47 \<notin> set c" using assms by (auto simp: path_ok_def component_ok_def)
  then have "as_posix p \<noteq> []" "hd (as_posix p) \<noteq> 47"
    using p by (cases cs; cases c; auto simp: as_posix_def)+
  then show ?thesis by (simp add: pure_parts_def path_parts_as_posix[OF assms])
qed

lemma as_posix_OUTPUT: "as_posix OUTPUT = CHECKSUM_NAME"
  by (simp add: as_posix_def CHECKSUM_NAME_def)

lemma lower_excluded: "s \<in> set EXCLUDED_SUFFIXES \<Longrightarrow> lower_ascii s \<in> set FORBIDDEN_SUFFIXES"
  by (auto simp: EXCLUDED_SUFFIXES_def FORBIDDEN_SUFFIXES_def lower_ascii_def lit_def)

lemma excluded_part_forbidden: "set EXCLUDED_PARTS \<subseteq> set FORBIDDEN_PARTS"
  by (simp add: EXCLUDED_PARTS_def FORBIDDEN_PARTS_def)

lemma not_forbidden_included:
  assumes "path_ok p" "forbidden (as_posix p) = Inr False" "path_name p \<noteq> CHECKSUM_NAME"
  shows "name_included p"
proof -
  have ne: "parts p \<noteq> []" using assms(1) by (simp add: path_ok_def)
  have "path_name OUTPUT = CHECKSUM_NAME" by (simp add: path_name_def CHECKSUM_NAME_def)
  then show ?thesis
    using assms(2,3) ne excluded_part_forbidden lower_excluded[of "name_suffix (path_name p)"]
    by (auto simp: forbidden_def pure_parts_as_posix[OF assms(1)] Let_def name_included_def
        list_ex_iff EXCLUDED_NAMES_def path_name_def)
qed

text \<open>The index holds the files of the tree, with their contents.\<close>

definition tracks :: "git \<Rightarrow> tracked \<Rightarrow> fs \<Rightarrow> bool" where
  "tracks git tracked fs \<longleftrightarrow> distinct (map fst tracked)
     \<and> git (map lit [''git'', ''status'', ''--porcelain=v1'', ''-z'']) = Some []
     \<and> (\<forall>k \<in> fst ` set tracked. \<exists>p. path_ok p \<and> k = as_posix p \<and> is_file fs p
          \<and> blob_of git tracked k = Some (file_content fs p))"

lemma manifest_entries_keys: "fst ` set (manifest_entries fs) = as_posix ` {p. included fs p}"
  by (simp add: manifest_entries_def image_image set_manifest_paths)

lemma included_path_ok: "fs_ok fs \<Longrightarrow> included fs p \<Longrightarrow> path_ok p"
  by (auto simp: included_def fs_ok_def dest: is_file_in_fs)

lemma inj_as_posix: "fs_ok fs \<Longrightarrow> inj_on as_posix {p. included fs p}"
  by (auto simp: inj_on_def intro: as_posix_inj included_path_ok)

lemma manifest_entries_distinct: "fs_ok fs \<Longrightarrow> distinct (map fst (manifest_entries fs))"
  using inj_as_posix[of fs] distinct_manifest_paths[of fs]
  by (simp add: manifest_entries_def distinct_map set_manifest_paths comp_def)

lemma manifest_entries_ok:
  assumes "fs_ok fs" "\<exists>p. included fs p"
    "\<forall>p. included fs p \<longrightarrow> (\<forall>c \<in> set (as_posix p). \<not> is_linebreak c)"
  shows "entries_ok (manifest_entries fs)"
proof -
  have "as_posix p \<noteq> []" if "included fs p" for p
    using path_parts_as_posix[OF included_path_ok[OF assms(1) that]]
      included_path_ok[OF assms(1) that] by (auto simp: path_parts_def path_ok_def)
  then have "\<forall>e \<in> set (manifest_entries fs). entry_ok e"
    using assms(3) by (auto simp: manifest_entries_def set_manifest_paths sha256_hex_chars[rule_format])
  moreover have "manifest_entries fs \<noteq> []"
    using assms(2) by (auto simp: manifest_entries_def set_manifest_paths simp flip: set_empty)
  ultimately show ?thesis
    using manifest_entries_distinct[OF assms(1)] by (simp add: entries_ok_def)
qed

lemma map_of_manifest:
  assumes "fs_ok fs" "included fs p"
  shows "map_of (manifest_entries fs) (as_posix p) = Some (sha256_hex (file_content fs p))"
  using assms manifest_entries_distinct[OF assms(1)]
  by (intro map_of_is_SomeI) (auto simp: manifest_entries_def set_manifest_paths)

lemma generate_prints:
  assumes "generate_main fs = Inr fs'"
  shows "print_manifest (manifest_entries fs) = Some (file_content fs' OUTPUT)"
  using assms tree.get_put_same[of OUTPUT _ fs fs']
  by (auto simp: generate_main_eq write_text_def print_manifest_def file_content_def
      split: option.splits)

text \<open>
  The index \<open>tracked\<close> holds the tree \<open>fs'\<close> that the generator made of \<open>fs\<close>, and the packager's
  conditions on names hold.
\<close>

definition generated_commit :: "fs \<Rightarrow> fs \<Rightarrow> git \<Rightarrow> tracked \<Rightarrow> bool" where
  "generated_commit fs fs' git tracked \<longleftrightarrow> fs_ok fs \<and> generate_main fs = Inr fs' \<and> tracks git tracked fs'
     \<and> CHECKSUM_NAME \<in> fst ` set tracked
     \<and> (\<forall>k \<in> fst ` set tracked. forbidden k = Inr False)
     \<and> (\<forall>p. included fs p \<longrightarrow> as_posix p \<in> fst ` set tracked)
     \<and> (\<forall>p. path_ok p \<longrightarrow> as_posix p \<in> fst ` set tracked \<longrightarrow> path_name p = CHECKSUM_NAME
           \<longrightarrow> p = OUTPUT)
     \<and> (\<exists>p. included fs p)
     \<and> (\<forall>p. included fs p \<longrightarrow> (\<forall>c \<in> set (as_posix p). \<not> is_linebreak c))"

lemma generated_commit_verifies:
  assumes gc: "generated_commit fs fs' git tracked"
  shows "verify_source git tracked
    = Inr (sort (map fst tracked), tracked_blobs git tracked)"
proof -
  note assms = gc[unfolded generated_commit_def, THEN conjunct1]
    gc[unfolded generated_commit_def, THEN conjunct2, THEN conjunct1]
    gc[unfolded generated_commit_def, THEN conjunct2, THEN conjunct2, THEN conjunct1]
    gc[unfolded generated_commit_def, THEN conjunct2, THEN conjunct2, THEN conjunct2, THEN conjunct1]
    gc[unfolded generated_commit_def, THEN conjunct2, THEN conjunct2, THEN conjunct2, THEN conjunct2, THEN conjunct1]
    gc[unfolded generated_commit_def, THEN conjunct2, THEN conjunct2, THEN conjunct2, THEN conjunct2, THEN conjunct2, THEN conjunct1]
    gc[unfolded generated_commit_def, THEN conjunct2, THEN conjunct2, THEN conjunct2, THEN conjunct2, THEN conjunct2, THEN conjunct2, THEN conjunct1]
    gc[unfolded generated_commit_def, THEN conjunct2, THEN conjunct2, THEN conjunct2, THEN conjunct2, THEN conjunct2, THEN conjunct2, THEN conjunct2, THEN conjunct1]
    gc[unfolded generated_commit_def, THEN conjunct2, THEN conjunct2, THEN conjunct2, THEN conjunct2, THEN conjunct2, THEN conjunct2, THEN conjunct2, THEN conjunct2]
  let ?es = "manifest_entries fs"
  have tr: "distinct (map fst tracked)" using assms(3) by (simp add: tracks_def)
  have blob: "blob_of git tracked (as_posix p) = Some (file_content fs' p) \<and> is_file fs' p"
    if ok: "path_ok p" and k: "as_posix p \<in> fst ` set tracked" for p
  proof -
    obtain q where "path_ok q" "as_posix p = as_posix q" "is_file fs' q"
      "blob_of git tracked (as_posix p) = Some (file_content fs' q)"
      using assms(3)[unfolded tracks_def, THEN conjunct2, THEN conjunct2, rule_format, OF k]
      by blast
    then show ?thesis using as_posix_inj[OF ok] by metis
  qed
  have parse: "parse_checksums (file_content fs' OUTPUT) = Inr ?es"
    by (rule checksums.parse_print[OF manifest_entries_ok[OF assms(1,8,9)] generate_prints[OF assms(2)]])
  have keys: "fst ` set ?es = fst ` set tracked - {CHECKSUM_NAME}"
  proof
    have "as_posix p \<noteq> CHECKSUM_NAME" if "included fs p" for p
      using as_posix_inj[OF included_path_ok[OF assms(1) that] path_ok_OUTPUT] that
        OUTPUT_not_included[of fs] by (auto simp: as_posix_OUTPUT)
    then show "fst ` set ?es \<subseteq> fst ` set tracked - {CHECKSUM_NAME}"
      using assms(6) by (auto simp: manifest_entries_keys)
  next
    show "fst ` set tracked - {CHECKSUM_NAME} \<subseteq> fst ` set ?es"
    proof
      fix k assume k: "k \<in> fst ` set tracked - {CHECKSUM_NAME}"
      then obtain p where p: "path_ok p" "k = as_posix p" "is_file fs' p"
        using assms(3) by (auto simp: tracks_def)
      then have "p \<noteq> OUTPUT" using k by (auto simp: as_posix_OUTPUT)
      then have "path_name p \<noteq> CHECKSUM_NAME" "forbidden (as_posix p) = Inr False"
        using p(1,2) k assms(5,7) by blast+
      then have "included fs' p"
        using p(3) not_forbidden_included[OF p(1)] by (simp add: included_def)
      then show "k \<in> fst ` set ?es"
        using p generate_frame(2)[OF assms(2)] by (auto simp: manifest_entries_keys)
    qed
  qed
  have match: "manifest_matches git tracked ?es"
    using assms(3-5) keys parse blob[OF path_ok_OUTPUT]
    by (auto simp: manifest_matches_def as_posix_OUTPUT tracks_def)
  have fresh: "map_of ?es k = Some (sha256_hex (the (blob_of git tracked k)))"
    if k: "k \<in> fst ` set tracked - {CHECKSUM_NAME}" for k
  proof -
    have "k \<in> fst ` set ?es" using k keys by simp
    then obtain p where p: "included fs p" "k = as_posix p" by (auto simp: manifest_entries_keys)
    then have "p \<noteq> OUTPUT" using k by (auto simp: as_posix_OUTPUT)
    then have "file_content fs' p = file_content fs p"
      using generate_frame(1)[OF assms(2)] by (simp add: file_content_def)
    then show ?thesis
      using p k blob[OF included_path_ok[OF assms(1) p(1)]] map_of_manifest[OF assms(1) p(1)] by simp
  qed
  then have "stale_paths git tracked ?es = []" by (simp add: stale_paths_Nil_iff)
  then show ?thesis by (simp add: verify_source_matched[OF tr match])
qed

text \<open>
  C1: a manifest written by \<open>generate_checksums\<close> and committed together with the files it was
  computed from passes \<open>verify_source\<close>, under the conditions on the tree that the packager has and
  the generator has not: the index holds the generated tree with the manifest and every file the
  generator selects, of which there is at least one; no tracked path is forbidden; no other tracked
  file carries the manifest's name; and no selected path holds a character at which \<open>splitlines\<close>
  breaks a line. (C35 and C36 show that the last two are needed.)
\<close>

theorem generate_then_verify:
  assumes "fs_ok fs" "generate_main fs = Inr fs'" "tracks git tracked fs'"
    and "CHECKSUM_NAME \<in> fst ` set tracked"
    and "\<forall>k \<in> fst ` set tracked. forbidden k = Inr False"
    and "\<forall>p. included fs p \<longrightarrow> as_posix p \<in> fst ` set tracked"
    and "\<forall>p. path_ok p \<longrightarrow> as_posix p \<in> fst ` set tracked \<longrightarrow> path_name p = CHECKSUM_NAME
           \<longrightarrow> p = OUTPUT"
    and "\<exists>p. included fs p"
    and "\<forall>p. included fs p \<longrightarrow> (\<forall>c \<in> set (as_posix p). \<not> is_linebreak c)"
  shows "verify_source git tracked
    = Inr (sort (map fst tracked), tracked_blobs git tracked)"
  by (rule generated_commit_verifies[of fs fs']) (unfold generated_commit_def, intro conjI assms)

text \<open>
  C2: \<open>verify_source\<close> succeeds exactly when the source is verified: clean status, a tracked and
  well formed manifest that names every other tracked path, no forbidden path, and every blob
  hashing to its recorded digest. The result lists the tracked paths in order, with their blobs.
\<close>

theorem verify_source_iff:
  assumes "distinct (map fst tracked)"
  shows "verify_source git tracked = Inr (paths, blobs) \<longleftrightarrow>
    source_verified git tracked \<and> paths = sort (map fst tracked) \<and> blobs = tracked_blobs git tracked"
  by (rule verify_source_characterised[OF assms])

text \<open>
  When the guards before the digest loop pass and some tracked blob does not hash to its
  recorded digest, \<open>verify_source\<close> stops with the first such path in sorted order.
\<close>

theorem stale_checksum_reported:
  assumes "distinct (map fst tracked)" "manifest_matches git tracked manifest"
    "stale_paths git tracked manifest = p # ps"
  shows "verify_source git tracked = Inl (Stale_Checksum p)"
  using verify_source_matched[OF assms(1,2)] by (simp add: assms(3))

lemma index_read:
  assumes "git (map lit [''git'', ''ls-files'', ''--stage'', ''-z'']) = Some (index_output es)"
    "\<forall>e \<in> set es. index_ok e \<and> ie_stage e = ''0''" "distinct (map ie_path es)"
  shows "tracked_entries git = Inr (map index_value es)"
proof -
  have "split_on (CHR 0x00) (index_output es) = map index_record es @ [[]]"
    using split_on_terminated[of "map index_record es" "CHR 0x00"] assms(2)
    by (simp add: index_output_def comp_def index_record_no_zero)
  moreover have "tracked_loop [] (map index_record es @ [[]]) = Inr (map index_value es)"
    using tracked_loop_index[of es "[]"] assms(2,3) by simp
  ultimately show ?thesis using assms(1) by (simp add: tracked_entries_def run_def del: list.map)
qed

text \<open>
  C33: reading the index is exact: the output that Git prints for a list of ordinary, merged
  entries with distinct paths comes back as those entries, in order, with their permissions.
\<close>

theorem tracked_entries_index:
  assumes "git (map lit [''git'', ''ls-files'', ''--stage'', ''-z'']) = Some (index_output es)"
    "\<forall>e \<in> set es. index_ok e \<and> ie_stage e = ''0''" "distinct (map ie_path es)"
  shows "tracked_entries git = Inr (map index_value es)"
  by (rule index_read) (rule assms)+

text \<open>
  Whatever Git prints, the entries that \<open>tracked_entries\<close> returns have distinct paths, one
  of the two ordinary permissions, and an object id of 40 to 64 lower-case hexadecimal digits.
\<close>

theorem tracked_entries_ordinary:
  assumes "tracked_entries git = Inr t"
  shows "distinct (map fst t) \<and> list_all (\<lambda>(path, perm, oid). perm \<in> {420, 493}
    \<and> 40 \<le> length oid \<and> length oid \<le> 64 \<and> list_all is_hex_lower oid) t"
  using tracked_entries_ok[OF assms] by (fastforce simp: tracked_ok_def list_all_iff)

section \<open>The package\<close>

definition package_entry :: "pystr \<Rightarrow> git \<Rightarrow> tracked \<Rightarrow> pystr \<Rightarrow> zip_entry" where
  "package_entry package git tracked path =
     \<lparr>zip_name = package @ [47] @ path, date_time = FIXED_TIME, create_system = 3,
      deflate_level = 9,
      external_attr = attr_of_permission (fst (the (map_of tracked path))),
      zip_data = the (blob_of git tracked path)\<rparr>"

lemma make_entry_eq:
  "p \<in> fst ` set tracked \<Longrightarrow>
   make_entry package tracked (tracked_blobs git tracked) p = Inr (package_entry package git tracked p)"
  by (auto simp: make_entry_def lookup_def map_of_tracked_blobs package_entry_def
      map_of_eq_None_iff split: option.splits)

lemma package_main_Inr:
  assumes "package_main git zip_bytes out = Inr (pkg, out')"
  obtains head tracked where
    "git (map lit [''git'', ''rev-parse'', ''HEAD'']) = Some head"
    "tracked_entries git = Inr tracked" "distinct (map fst tracked)" "source_verified git tracked"
    "length (py_strip (lit head)) = 40"
    "archive_name pkg = lit ''coupon-service-source-'' @ take 12 (py_strip (lit head)) @ lit ''.zip''"
    "archive_entries pkg = map (package_entry (lit ''coupon-service-source-''
        @ take 12 (py_strip (lit head))) git tracked) (sort (map fst tracked))"
    "archive_digest pkg = sha256_hex (zip_bytes (archive_entries pkg))"
    "out' = out(archive_name pkg \<mapsto> zip_bytes (archive_entries pkg))"
    "\<forall>c \<in> set (py_strip (lit head)). is_hex_lower c"
proof -
  obtain head0 head tracked paths blobs entries where
    h: "git (map lit [''git'', ''rev-parse'', ''HEAD'']) = Some head0" "decode_ascii head0 = Inr head"
    "re_fullmatch commit_re (py_strip head) \<noteq> None"
    and t: "tracked_entries git = Inr tracked" and v: "verify_source git tracked = Inr (paths, blobs)"
    and e: "map_py (make_entry (lit ''coupon-service-source-'' @ take 12 (py_strip head)) tracked blobs)
        paths = Inr entries"
    and p: "pkg = \<lparr>archive_name = (lit ''coupon-service-source-'' @ take 12 (py_strip head))
            @ lit ''.zip'', archive_entries = entries, archive_digest = sha256_hex (zip_bytes entries)\<rparr>"
      "out' = out((lit ''coupon-service-source-'' @ take 12 (py_strip head)) @ lit ''.zip''
            \<mapsto> zip_bytes entries)"
    using assms by (auto simp: package_main_def py_ok run_def Let_def split: option.splits)
  have d: "distinct (map fst tracked)" using tracked_entries_ok[OF t] by (simp add: tracked_ok_def)
  have s: "source_verified git tracked" "paths = sort (map fst tracked)"
    "blobs = tracked_blobs git tracked"
    using v by (simp_all add: verify_source_characterised[OF d])
  have "map_py (make_entry (lit ''coupon-service-source-'' @ take 12 (py_strip head)) tracked blobs)
      paths = Inr (map (package_entry (lit ''coupon-service-source-'' @ take 12 (py_strip head))
      git tracked) paths)"
    unfolding s(3) by (rule map_py_total, rule make_entry_eq) (simp add: s(2))
  with e have "entries = map (package_entry (lit ''coupon-service-source-''
      @ take 12 (py_strip head)) git tracked) paths" by simp
  moreover have "length (py_strip head) = 40 \<and> (\<forall>c \<in> set (py_strip head). is_hex_lower c)"
    using h(3) by (simp add: commit_re_iff del: not_None_eq)
  ultimately show thesis
    using that[OF h(1) t d s(1)] decode_ascii_Inr[OF h(2)] p s(2) by simp
qed

lemma below_prefix: "x < y \<Longrightarrow> pre @ c # x < pre @ c # (y :: pystr)"
  by (simp add: list_less_def lexord_append_leftI)

text \<open>
  C28: a successful run of the packager means that the source was verified, and its archive holds
  exactly the tracked paths below the package directory, in strictly increasing order, each with
  its blob and its permission in the upper half of the external attributes.
\<close>

theorem package_contents:
  assumes "package_main git zip_bytes out = Inr (pkg, out')"
  shows "\<exists>package tracked. tracked_entries git = Inr tracked \<and> source_verified git tracked
    \<and> archive_entries pkg = map (package_entry package git tracked) (sort (map fst tracked))
    \<and> sorted_wrt (<) (map zip_name (archive_entries pkg))
    \<and> out' (archive_name pkg) = Some (zip_bytes (archive_entries pkg))"
proof -
  obtain head tracked where t: "tracked_entries git = Inr tracked" "distinct (map fst tracked)"
    "source_verified git tracked"
    and e: "archive_entries pkg = map (package_entry (lit ''coupon-service-source-''
        @ take 12 (py_strip (lit head))) git tracked) (sort (map fst tracked))"
    and o: "out' = out(archive_name pkg \<mapsto> zip_bytes (archive_entries pkg))"
    by (rule package_main_Inr[OF assms])
  let ?p = "lit ''coupon-service-source-'' @ take 12 (py_strip (lit head))"
  have "sorted_wrt (<) (sort (map fst tracked))"
    using t(2) by (simp add: strict_sorted_iff)
  then have "sorted_wrt (\<lambda>x y. ?p @ 47 # x < ?p @ 47 # y) (sort (map fst tracked))"
    by (rule sorted_wrt_mono_rel[rotated]) (rule below_prefix)
  then have "sorted_wrt (<) (map zip_name (archive_entries pkg))"
    by (simp only: e sorted_wrt_map package_entry_def zip_entry.simps append_Cons append_Nil)
  then show ?thesis using t e o by fastforce
qed

text \<open>
  The archive is a function of the tracked source: two runs at the same commit that track
  the same files and read the same blobs produce the same package, whatever the order of the
  index, the state of the output directory or the rest of what Git would print.
\<close>

theorem package_deterministic:
  assumes "package_main git zip_bytes out = Inr (pkg, out')"
    "package_main git2 zip_bytes out2 = Inr (pkg2, out2')"
    "git (map lit [''git'', ''rev-parse'', ''HEAD'']) = git2 (map lit [''git'', ''rev-parse'', ''HEAD''])"
    "tracked_entries git = Inr t" "tracked_entries git2 = Inr t2" "set t = set t2"
    "\<forall>path perm oid. (path, perm, oid) \<in> set t \<longrightarrow> blob_bytes git oid = blob_bytes git2 oid"
  shows "pkg = pkg2"
proof -
  have d: "distinct (map fst t)" "distinct (map fst t2)"
    using tracked_entries_ok[OF assms(4)] tracked_entries_ok[OF assms(5)]
    by (simp_all add: tracked_ok_def)
  have m: "map_of t = map_of t2"
    using d assms(6) by (simp add: map_of_inject_set)
  have "set (map fst t) = set (map fst t2)" using assms(6) by simp
  then have "sort (map fst t) = sort (map fst t2)" using d by (rule sorted_set_unique)
  moreover have "blob_of git t p = blob_of git2 t2 p" if pt: "p \<in> set (map fst t)" for p
  proof -
    obtain perm oid where e: "(p, perm, oid) \<in> set t" using pt by force
    then have "map_of t p = Some (perm, oid)" using d(1) by simp
    then show ?thesis using assms(7) m e
      by (fastforce simp: blob_of_def blob_bytes_def run_def split: option.splits)
  qed
  ultimately have "map (package_entry q git t) (sort (map fst t))
      = map (package_entry q git2 t2) (sort (map fst t2))" for q
    by (intro map_cong) (simp_all add: package_entry_def m assms(6))
  moreover obtain head where "git (map lit [''git'', ''rev-parse'', ''HEAD'']) = Some head"
    "archive_name pkg = lit ''coupon-service-source-'' @ take 12 (py_strip (lit head)) @ lit ''.zip''"
    "archive_entries pkg = map (package_entry (lit ''coupon-service-source-''
        @ take 12 (py_strip (lit head))) git t) (sort (map fst t))"
    "archive_digest pkg = sha256_hex (zip_bytes (archive_entries pkg))"
    by (rule package_main_Inr[OF assms(1)]) (use assms(4) in auto)
  moreover obtain head2 where "git2 (map lit [''git'', ''rev-parse'', ''HEAD'']) = Some head2"
    "archive_name pkg2 = lit ''coupon-service-source-'' @ take 12 (py_strip (lit head2)) @ lit ''.zip''"
    "archive_entries pkg2 = map (package_entry (lit ''coupon-service-source-''
        @ take 12 (py_strip (lit head2))) git2 t2) (sort (map fst t2))"
    "archive_digest pkg2 = sha256_hex (zip_bytes (archive_entries pkg2))"
    by (rule package_main_Inr[OF assms(2)]) (use assms(5) in auto)
  ultimately show ?thesis using assms(3) by (intro package.equality) simp_all
qed

text \<open>The permission survives in the archive, and the attribute word fits 32 bits.\<close>

theorem attr_of_permission_exact:
  assumes "permission < 2 ^ 16"
  shows "drop_bit 16 (attr_of_permission permission) = permission
    \<and> attr_of_permission permission < 2 ^ 32"
proof -
  have "permission AND 0xFFFF = take_bit 16 permission"
    by (simp add: take_bit_eq_mask mask_eq_exp_minus_1)
  also have "\<dots> = permission" using assms by (simp add: take_bit_nat_eq_self)
  finally show ?thesis using assms
    by (simp add: attr_of_permission_def push_bit_eq_mult drop_bit_eq_div)
qed

end
