(* ===== verification/Manifest_Cycle.thy ===== *)
theory Manifest_Cycle
  imports Source_Delivery
begin

text \<open>
  The manifest as a contract between \<open>generate_checksums.py\<close> and \<open>package_source.py\<close>: what a
  second run of the generator does, what the parser accepts, which file names the format cannot
  carry, and a small repository on which every property of the delivery scripts is applied.
\<close>

section \<open>The generator\<close>

lemma generate_update:
  assumes "generate_main fs = Inr fs'"
  shows "\<exists>b x. print_manifest (manifest_entries fs) = Some b
    \<and> fs' = AList.update OUTPUT (Regular b x) fs"
  using assms write_bytes_update[of OUTPUT _ fs fs']
  by (auto simp: generate_main_eq write_text_def print_manifest_def split: option.splits)

lemma generate_ok: "generate_main fs = Inr fs' \<Longrightarrow> fs_ok fs \<Longrightarrow> fs_ok fs'"
  using write_bytes_ok[of OUTPUT _ fs fs']
  by (auto simp: generate_main_eq write_text_def split: option.splits)

lemma generate_entries:
  assumes "fs_ok fs" "generate_main fs = Inr fs'"
  shows "manifest_entries fs' = manifest_entries fs"
proof (rule manifest_entries_eqI[OF assms(1) generate_ok[OF assms(2,1)] generate_frame(2)[OF assms(2)]])
  fix q assume "included fs q"
  then have "q \<noteq> OUTPUT" using OUTPUT_not_included by auto
  then show "read_bytes fs' q = read_bytes fs q" by (rule generate_frame(1)[OF assms(2)])
qed

text \<open>
  The generator is idempotent: run on the tree it has just written, it succeeds and leaves
  that tree as it is.
\<close>

theorem generate_idempotent:
  assumes "fs_ok fs" "generate_main fs = Inr fs'"
  shows "generate_main fs' = Inr fs'"
proof -
  obtain b x where b: "utf8_encode (manifest_text (manifest_entries fs)) = Some b"
    "fs' = AList.update OUTPUT (Regular b x) fs"
    using generate_update[OF assms(2)] by (auto simp: print_manifest_def)
  then have "map_of fs' OUTPUT = Some (Regular b x)" by (simp add: update_conv')
  then have "write_bytes OUTPUT b fs' = Inr fs'" by (simp add: write_bytes_def b(2))
  then show ?thesis
    by (simp add: generate_main_eq generate_entries[OF assms] write_text_def b(1))
qed

text \<open>
  The manifest does not depend on the order in which the system lists the tree, nor on
  what the excluded files hold.
\<close>

theorem generate_order_independent:
  assumes "fs_ok fs" "fs_ok gs" "generate_main fs = Inr fs'" "generate_main gs = Inr gs'"
    and "\<forall>p. included gs p \<longleftrightarrow> included fs p"
    and "\<forall>p. included fs p \<longrightarrow> read_bytes gs p = read_bytes fs p"
  shows "read_bytes gs' OUTPUT = read_bytes fs' OUTPUT"
proof -
  have "manifest_entries gs = manifest_entries fs"
    by (rule manifest_entries_eqI) (use assms in auto)
  moreover obtain b x c y where "print_manifest (manifest_entries fs) = Some b"
    "fs' = AList.update OUTPUT (Regular b x) fs" "print_manifest (manifest_entries gs) = Some c"
    "gs' = AList.update OUTPUT (Regular c y) gs"
    using generate_update[OF assms(3)] generate_update[OF assms(4)] by blast
  ultimately show ?thesis by (simp add: read_bytes_def update_conv')
qed

text \<open>
  Reading a file in chunks of a mebibyte computes the digest of its whole content, and the
  digest has 64 lower-case hexadecimal digits.
\<close>

theorem sha256_whole_file:
  "sha256 fs p = (case read_bytes fs p of Inl e \<Rightarrow> Inl e | Inr b \<Rightarrow> Inr (sha256_hex b))
   \<and> length (sha256_hex b') = 64 \<and> list_all is_hex_lower (sha256_hex b')"
  by (auto simp: sha256_eq length_sha256_hex sha256_hex_chars list_all_iff split: sum.splits)

section \<open>The parser of the manifest\<close>

lemma parse_line_Inr:
  assumes "parse_line es line = Inr es'"
  shows "\<exists>path. es' = es @ [(path, take 64 line)] \<and> path = drop 66 line \<and> line_shape line
    \<and> path \<notin> set (map fst es)"
  using assms by (auto simp: parse_line_def fullmatch_checksum group_def cap_def Let_def
      split: if_splits)

lemma parse_loop_Inr:
  assumes "parse_loop es ls = Inr es'" "\<forall>l \<in> set ls. \<forall>c \<in> set l. \<not> is_linebreak c"
    and "distinct (map fst es) \<and> (\<forall>e \<in> set es. entry_ok e)"
  shows "distinct (map fst es') \<and> (\<forall>e \<in> set es'. entry_ok e) \<and> map manifest_line es' = map manifest_line es @ ls"
  using assms
proof (induction es ls rule: parse_loop.induct)
  case (2 es line ls)
  obtain es1 where l: "parse_line es line = Inr es1" and r: "parse_loop es1 ls = Inr es'"
    using "2.prems"(1) by (auto simp: py_ok)
  note l1 = parse_line_Inr[OF l]
  have len: "66 \<le> length line" "length (take 64 line) = 64"
    and line: "take 64 line @ lit ''  '' @ drop 66 line = line"
  proof -
    have t: "take 2 (drop 64 line) = lit ''  ''" using l1 by (simp add: line_shape_def)
    then have "length (take 2 (drop 64 line)) = 2" by simp
    then show "66 \<le> length line" "length (take 64 line) = 64" by auto
    have "take 64 line @ take 2 (drop 64 line) @ drop 2 (drop 64 line) = line"
      by (simp only: append_take_drop_id)
    then show "take 64 line @ lit ''  '' @ drop 66 line = line" using t by simp
  qed
  have "entry_ok (drop 66 line, take 64 line)"
    using l1 len "2.prems"(2) by (auto simp: line_shape_def dest: in_set_dropD)
  then have "distinct (map fst es1) \<and> (\<forall>e \<in> set es1. entry_ok e)"
    using l1 "2.prems"(3) by auto
  then have "distinct (map fst es') \<and> (\<forall>e \<in> set es'. entry_ok e)
      \<and> map manifest_line es' = map manifest_line es1 @ ls"
    using "2.IH"[OF l r] "2.prems"(2) by simp
  then show ?case using l1 line by auto
qed simp

lemma parse_checksums_Inr:
  assumes "parse_checksums data = Inr es"
  shows "\<exists>text. utf8_decode data = Some text \<and> splitlines text = map manifest_line es
    \<and> distinct (map fst es) \<and> (\<forall>e \<in> set es. entry_ok e)"
  using assms parse_loop_Inr[of "[]" _ es] splitlines_no_break
  by (fastforce simp: parse_checksums_def split: option.splits)

text \<open>
  C34: \<open>parse_checksums\<close> inverts the printer: the manifest printed for distinct entries with a
  64 digit digest and a nonempty path without line boundaries parses to those entries.
\<close>

theorem manifest_round_trip:
  assumes "entries_ok es" "print_manifest es = Some b"
  shows "parse_checksums b = Inr es"
  by (rule checksums.parse_print[OF assms])

text \<open>
  Whatever bytes \<open>parse_checksums\<close> accepts, its entries have distinct nonempty paths, no
  path holds a line boundary of \<open>splitlines\<close>, every digest is 64 lower-case hexadecimal digits,
  and printing the entries gives back the lines of the text: nothing on a line is ignored.
\<close>

theorem parse_checksums_exact:
  assumes "parse_checksums data = Inr es"
  shows "distinct (map fst es)
    \<and> list_all (\<lambda>(path, digest). path \<noteq> [] \<and> list_all (\<lambda>c. \<not> is_linebreak c) path
         \<and> length digest = 64 \<and> list_all is_hex_lower digest) es
    \<and> (\<exists>t. utf8_decode data = Some t \<and> splitlines t = map manifest_line es)"
  using parse_checksums_Inr[OF assms] by (auto simp: list_all_iff)

text \<open>
  C35: a tracked path that holds a line boundary of \<open>splitlines\<close>, which Git and the generator
  both allow, makes every export fail: no manifest can name it.
\<close>

theorem linebreak_path_never_verifies:
  assumes "distinct (map fst tracked)" "k \<in> fst ` set tracked" "k \<noteq> CHECKSUM_NAME"
    and "c \<in> set k" "is_linebreak c"
  shows "verify_source git tracked \<noteq> Inr (paths, blobs)"
proof
  assume "verify_source git tracked = Inr (paths, blobs)"
  then have "source_verified git tracked" by (simp add: verify_source_characterised[OF assms(1)])
  then obtain es where es: "parse_checksums (the (blob_of git tracked CHECKSUM_NAME)) = Inr es"
    "fst ` set es = fst ` set tracked - {CHECKSUM_NAME}" by (auto simp: source_verified_def)
  then have "k \<in> fst ` set es" using assms(2,3) by simp
  then have "\<not> is_linebreak c" using parse_checksums_Inr[OF es(1)] assms(4) by auto
  then show False using assms(5) by simp
qed

text \<open>
  C36: the generator leaves out every file named \<open>CHECKSUMS.sha256\<close>, the packager only the one at
  the root: a tracked file of that name in a subdirectory makes the export of a freshly
  generated source fail.
\<close>

theorem nested_manifest_rejected:
  assumes "fs_ok fs" "generate_main fs = Inr fs'" "distinct (map fst tracked)"
    and "blob_of git tracked CHECKSUM_NAME = Some (file_content fs' OUTPUT)"
    and "\<exists>p. included fs p"
    and "\<forall>p. included fs p \<longrightarrow> (\<forall>c \<in> set (as_posix p). \<not> is_linebreak c)"
    and "path_ok q" "path_name q = CHECKSUM_NAME" "q \<noteq> OUTPUT" "as_posix q \<in> fst ` set tracked"
  shows "verify_source git tracked \<noteq> Inr (paths, blobs)"
proof
  assume "verify_source git tracked = Inr (paths, blobs)"
  then have v: "source_verified git tracked" by (simp add: verify_source_characterised[OF assms(3)])
  have "parse_checksums (file_content fs' OUTPUT) = Inr (manifest_entries fs)"
    by (rule checksums.parse_print[OF manifest_entries_ok[OF assms(1,5,6)] generate_prints[OF assms(2)]])
  then have "fst ` set (manifest_entries fs) = fst ` set tracked - {CHECKSUM_NAME}"
    using v assms(4) by (auto simp: source_verified_def)
  moreover have "as_posix q \<noteq> CHECKSUM_NAME"
    using as_posix_inj[OF assms(7) path_ok_OUTPUT] assms(9) by (auto simp: as_posix_OUTPUT)
  ultimately have "as_posix q \<in> as_posix ` {p. included fs p}"
    using assms(10) by (simp add: manifest_entries_keys)
  then obtain p where "included fs p" "as_posix p = as_posix q" by (auto simp: image_iff)
  then have "included fs q"
    using as_posix_inj[OF included_path_ok[OF assms(1)] assms(7), of p] by simp
  then show False
    using assms(8) by (simp add: included_def name_included_def EXCLUDED_NAMES_def path_name_def
        CHECKSUM_NAME_def)
qed

section \<open>A small repository\<close>

text \<open>
  Two source files, one of them executable, and the manifest that the generator writes. Digests
  stay symbolic: they are computed by the definitions of SHA-256, not looked up.
\<close>

definition demo_fs :: fs where
  "demo_fs = [(rel ''README.md'', Regular ''hello'' False), (rel ''mvnw'', Regular ''run'' True)]"

definition demo_text :: pystr where
  "demo_text = sha256_hex ''hello'' @ lit ''  README.md'' @ [10] @ sha256_hex ''run'' @ lit ''  mvnw'' @ [10]"

definition demo_manifest :: bytes where
  "demo_manifest = the (utf8_encode demo_text)"

definition demo_fs' :: fs where
  "demo_fs' = demo_fs @ [(OUTPUT, Regular demo_manifest False)]"

definition demo_index :: "index_entry list" where
  "demo_index =
    [\<lparr>ie_mode = ''100644'', ie_oid = replicate 40 CHR ''a'', ie_stage = ''0'', ie_path = CHECKSUM_NAME\<rparr>,
     \<lparr>ie_mode = ''100644'', ie_oid = replicate 40 CHR ''b'', ie_stage = ''0'', ie_path = lit ''README.md''\<rparr>,
     \<lparr>ie_mode = ''100755'', ie_oid = replicate 40 CHR ''c'', ie_stage = ''0'', ie_path = lit ''mvnw''\<rparr>]"

definition demo_tracked :: tracked where
  "demo_tracked = map index_value demo_index"

definition git_with :: "index_entry list \<Rightarrow> bytes \<Rightarrow> git" where
  "git_with index manifest args =
     (if args = map lit [''git'', ''rev-parse'', ''--is-inside-work-tree''] then Some ''true''
      else if args = map lit [''git'', ''rev-parse'', ''HEAD''] then Some (replicate 40 CHR ''d'')
      else if args = map lit [''git'', ''ls-files'', ''--stage'', ''-z''] then Some (index_output index)
      else if args = map lit [''git'', ''status'', ''--porcelain=v1'', ''-z''] then Some []
      else if args = [lit ''git'', lit ''cat-file'', lit ''blob'', lit (replicate 40 CHR ''a'')]
        then Some manifest
      else if args = [lit ''git'', lit ''cat-file'', lit ''blob'', lit (replicate 40 CHR ''b'')]
        then Some ''hello''
      else if args = [lit ''git'', lit ''cat-file'', lit ''blob'', lit (replicate 40 CHR ''c'')]
        then Some ''run''
      else None)"

definition demo_git :: git where
  "demo_git = git_with demo_index demo_manifest"

lemma rel_demo: "rel ''README.md'' = Path [lit ''README.md'']" "rel ''mvnw'' = Path [lit ''mvnw'']"
  "OUTPUT = Path [CHECKSUM_NAME]"
  by (simp_all add: rel_def path_parts_def lit_def OUTPUT_def CHECKSUM_NAME_def)

lemma demo_included:
  "included demo_fs p \<longleftrightarrow> p = rel ''README.md'' \<or> p = rel ''mvnw''"
  by (auto simp: included_def is_file_def demo_fs_def rel_demo name_included_def EXCLUDED_PARTS_def
      EXCLUDED_NAMES_def EXCLUDED_SUFFIXES_def path_name_def CHECKSUM_NAME_def lit_def name_suffix_def
      Let_def)

lemma demo_paths: "manifest_paths demo_fs = [rel ''README.md'', rel ''mvnw'']"
proof -
  have "manifest_paths demo_fs = sort [rel ''README.md'', rel ''mvnw'']"
    by (simp add: manifest_paths_def rglob_def any_name_def demo_fs_def[unfolded fun_eq_iff]
        demo_included[unfolded demo_fs_def])
  then show ?thesis by (simp add: rel_demo less_eq_path_def lit_def)
qed

lemma demo_contents:
  "file_content demo_fs (rel ''README.md'') = ''hello''" "file_content demo_fs (rel ''mvnw'') = ''run''"
  by (simp_all add: file_content_def read_bytes_def demo_fs_def rel_demo lit_def)

lemma demo_entries:
  "manifest_entries demo_fs
     = [(lit ''README.md'', sha256_hex ''hello''), (lit ''mvnw'', sha256_hex ''run'')]"
  by (simp add: manifest_entries_def demo_paths demo_contents)
    (simp add: as_posix_def rel_demo lit_def)

lemma demo_encodes: "utf8_encode demo_text = Some demo_manifest"
proof -
  have hex: "c \<in> set (sha256_hex m) \<Longrightarrow> is_scalar c" for c m
    using sha256_hex_chars[of m] by (auto simp: is_hex_lower_def is_scalar_def)
  have "\<forall>c \<in> set demo_text. is_scalar c"
    using hex by (auto simp: demo_text_def lit_def) (simp_all add: is_scalar_def)
  then show ?thesis using utf8_encode_scalars[of demo_text] by (auto simp: demo_manifest_def list_all_iff)
qed

lemma demo_generated: "generate_main demo_fs = Inr demo_fs'"
proof -
  have "manifest_text (manifest_entries demo_fs) = demo_text"
    by (simp add: demo_entries manifest_text_def demo_text_def  lit_def)
  moreover have "map_of demo_fs OUTPUT = None" "OUTPUT \<notin> fst ` set demo_fs"
    by (auto simp: demo_fs_def rel_demo lit_def CHECKSUM_NAME_def)
  ultimately show ?thesis
    by (simp add: generate_main_eq write_text_def demo_encodes write_bytes_def demo_fs'_def update_fresh)
qed

lemma demo_ok: "fs_ok demo_fs"
  by (simp add: fs_ok_def demo_fs_def rel_demo path_ok_def component_ok_def lit_def)

lemma demo_tracked_eq:
  "demo_tracked = [(CHECKSUM_NAME, (420, lit (replicate 40 CHR ''a''))),
     (lit ''README.md'', (420, lit (replicate 40 CHR ''b''))),
     (lit ''mvnw'', (493, lit (replicate 40 CHR ''c'')))]"
  by (simp add: demo_tracked_def demo_index_def index_value_def)

lemma demo_names: "CHECKSUM_NAME \<noteq> lit ''README.md''" "CHECKSUM_NAME \<noteq> lit ''mvnw''"
  "lit ''README.md'' \<noteq> lit ''mvnw''"
  by (simp_all add: CHECKSUM_NAME_def)

lemma demo_keys: "fst ` set demo_tracked = {CHECKSUM_NAME, lit ''README.md'', lit ''mvnw''}"
  by (simp add: demo_tracked_eq)

lemma demo_distinct: "distinct (map fst demo_tracked)"
  using demo_names by (simp add: demo_tracked_eq)

lemma git_with_runs:
  "git_with es m (map lit [''git'', ''status'', ''--porcelain=v1'', ''-z'']) = Some []"
  "git_with es m (map lit [''git'', ''ls-files'', ''--stage'', ''-z'']) = Some (index_output es)"
  "git_with es m (map lit [''git'', ''rev-parse'', ''HEAD'']) = Some (replicate 40 CHR ''d'')"
  "git_with es m (map lit [''git'', ''rev-parse'', ''--is-inside-work-tree'']) = Some ''true''"
  by (simp_all add: git_with_def)

lemma git_with_blobs:
  "git_with es m [lit ''git'', lit ''cat-file'', lit ''blob'', lit (replicate 40 CHR ''a'')] = Some m"
  "git_with es m [lit ''git'', lit ''cat-file'', lit ''blob'', lit (replicate 40 CHR ''b'')] = Some ''hello''"
  "git_with es m [lit ''git'', lit ''cat-file'', lit ''blob'', lit (replicate 40 CHR ''c'')] = Some ''run''"
  by (simp_all add: git_with_def)

lemma blob_of_git_with:
  "map_of t = map_of demo_tracked \<Longrightarrow> blob_of (git_with es m) t CHECKSUM_NAME = Some m"
  "map_of t = map_of demo_tracked \<Longrightarrow> blob_of (git_with es m) t (lit ''README.md'') = Some ''hello''"
  "map_of t = map_of demo_tracked \<Longrightarrow> blob_of (git_with es m) t (lit ''mvnw'') = Some ''run''"
  using demo_names by (simp_all add: blob_of_def demo_tracked_eq git_with_blobs)

lemmas demo_runs = git_with_runs[of demo_index demo_manifest, folded demo_git_def]
lemmas demo_blob_of = blob_of_git_with[OF refl, of demo_index demo_manifest, folded demo_git_def]

lemma demo_not_forbidden: "\<forall>k \<in> fst ` set demo_tracked. forbidden k = Inr False"
  unfolding demo_keys
  by (simp add: forbidden_def Let_def pure_parts_def path_parts_def lit_def CHECKSUM_NAME_def
      FORBIDDEN_PARTS_def FORBIDDEN_SUFFIXES_def name_suffix_def lower_ascii_def)

lemma demo_index_ok: "\<forall>e \<in> set demo_index. index_ok e \<and> ie_stage e = ''0''"
  by (auto simp: demo_index_def index_ok_def list_all_iff is_hex_lower_def is_scalar_def
      CHECKSUM_NAME_def lit_def)

lemma demo_posix: "as_posix OUTPUT = CHECKSUM_NAME" "as_posix (rel ''README.md'') = lit ''README.md''"
  "as_posix (rel ''mvnw'') = lit ''mvnw''"
  by (simp_all add: as_posix_OUTPUT as_posix_def rel_demo)

lemma demo_read:
  "read_bytes demo_fs' OUTPUT = Inr demo_manifest"
  "read_bytes demo_fs' (rel ''README.md'') = Inr ''hello''"
  "read_bytes demo_fs' (rel ''mvnw'') = Inr ''run''"
  by (simp_all add: read_bytes_def demo_fs'_def demo_fs_def rel_demo lit_def CHECKSUM_NAME_def)

lemma demo_path_ok: "path_ok (rel ''README.md'')" "path_ok (rel ''mvnw'')"
  by (simp_all add: rel_demo path_ok_def component_ok_def lit_def)

lemma demo_tracks: "tracks demo_git demo_tracked demo_fs'"
proof -
  have one: "path_ok p \<and> k = as_posix p \<and> is_file demo_fs' p
      \<and> blob_of demo_git demo_tracked k = Some (file_content demo_fs' p)"
    if "(k, p) \<in> {(CHECKSUM_NAME, OUTPUT), (lit ''README.md'', rel ''README.md''),
      (lit ''mvnw'', rel ''mvnw'')}" for k p
    using that by (auto simp: demo_posix is_file_iff file_content_def demo_read demo_blob_of demo_path_ok)
  have "\<exists>p. path_ok p \<and> k = as_posix p \<and> is_file demo_fs' p
      \<and> blob_of demo_git demo_tracked k = Some (file_content demo_fs' p)"
    if k: "k \<in> fst ` set demo_tracked" for k
    using k one unfolding demo_keys by blast
  then show ?thesis using demo_runs(1) by (simp add: tracks_def demo_distinct)
qed

lemma demo_no_break:
  "\<forall>p. included demo_fs p \<longrightarrow> (\<forall>c \<in> set (as_posix p). \<not> is_linebreak c)"
  by (auto simp: demo_included demo_posix) (auto simp: lit_def is_linebreak_def)

section \<open>When a package is built\<close>

lemma package_main_ok:
  assumes "git (map lit [''git'', ''rev-parse'', ''--is-inside-work-tree'']) = Some inside"
    "strip_by byte_space inside = ''true''"
    "git (map lit [''git'', ''rev-parse'', ''HEAD'']) = Some head"
    "decode_ascii head = Inr cmt" "re_fullmatch commit_re (py_strip cmt) \<noteq> None"
    "tracked_entries git = Inr t" "source_verified git t"
  shows "\<exists>pkg out'. package_main git zip_bytes out = Inr (pkg, out')"
proof -
  let ?p = "lit ''coupon-service-source-'' @ take 12 (py_strip cmt)"
  have d: "distinct (map fst t)" using tracked_entries_ok[OF assms(6)] by (simp add: tracked_ok_def)
  have v: "verify_source git t = Inr (sort (map fst t), tracked_blobs git t)"
    using assms(7) by (simp add: verify_source_characterised[OF d])
  have "map_py (make_entry ?p t (tracked_blobs git t)) (sort (map fst t))
      = Inr (map (package_entry ?p git t) (sort (map fst t)))"
    by (rule map_py_total, rule make_entry_eq) simp
  then show ?thesis
    using assms(1-6) by (simp add: package_main_def run_def guard_py_def v Let_def)
qed

text \<open>
  C26: \<open>package_source\<close> builds an archive exactly when it runs inside a work tree whose commit is
  40 hexadecimal digits and whose tracked entries parse and are verified; in every other case it
  stops before it writes anything.
\<close>

theorem package_succeeds_iff:
  "(\<exists>pkg out'. package_main git zip_bytes out = Inr (pkg, out')) \<longleftrightarrow>
    (\<exists>inside head cmt t.
       git (map lit [''git'', ''rev-parse'', ''--is-inside-work-tree'']) = Some inside
       \<and> strip_by byte_space inside = ''true''
       \<and> git (map lit [''git'', ''rev-parse'', ''HEAD'']) = Some head
       \<and> decode_ascii head = Inr cmt
       \<and> length (py_strip cmt) = 40 \<and> list_all is_hex_lower (py_strip cmt)
       \<and> tracked_entries git = Inr t \<and> source_verified git t)"
  (is "?l \<longleftrightarrow> ?r")
proof
  assume ?l
  then obtain pkg out' where p: "package_main git zip_bytes out = Inr (pkg, out')" by blast
  then obtain inside head cmt where "git (map lit [''git'', ''rev-parse'', ''--is-inside-work-tree'']) = Some inside"
    "strip_by byte_space inside = ''true''" "git (map lit [''git'', ''rev-parse'', ''HEAD'']) = Some head"
    "decode_ascii head = Inr cmt" "re_fullmatch commit_re (py_strip cmt) \<noteq> None"
    by (auto simp: package_main_def py_ok run_def Let_def split: option.splits)
  moreover obtain t where "tracked_entries git = Inr t" "source_verified git t"
    by (rule package_main_Inr[OF p])
  ultimately show ?r by (auto simp: commit_re_iff list_all_iff simp del: not_None_eq)
next
  assume ?r
  then obtain inside head cmt t where r: "git (map lit [''git'', ''rev-parse'', ''--is-inside-work-tree'']) = Some inside"
    "strip_by byte_space inside = ''true''" "git (map lit [''git'', ''rev-parse'', ''HEAD'']) = Some head"
    "decode_ascii head = Inr cmt" "length (py_strip cmt) = 40 \<and> list_all is_hex_lower (py_strip cmt)"
    and t: "tracked_entries git = Inr t" "source_verified git t" by blast
  have "re_fullmatch commit_re (py_strip cmt) \<noteq> None" using r(5) by (simp add: commit_re_iff list_all_iff del: not_None_eq)
  then show ?l by (rule package_main_ok[OF r(1-4) _ t])
qed

section \<open>The properties on the small repository\<close>

lemma demo_print: "print_manifest (manifest_entries demo_fs) = Some demo_manifest"
  by (simp add: print_manifest_def demo_entries manifest_text_def flip: demo_encodes)
    (simp add: demo_text_def lit_def)

lemma demo_entries_ok: "entries_ok (manifest_entries demo_fs)"
  by (rule manifest_entries_ok[OF demo_ok _ demo_no_break]) (auto simp: demo_included)

lemma demo_parse: "parse_checksums demo_manifest = Inr (manifest_entries demo_fs)"
  by (rule checksums.parse_print[OF demo_entries_ok demo_print])

lemma demo_verified: "source_verified demo_git demo_tracked"
  unfolding source_verified_def
proof (intro conjI exI ballI)
  show "demo_git (map lit [''git'', ''status'', ''--porcelain=v1'', ''-z'']) = Some []" by (rule demo_runs)
  show "CHECKSUM_NAME \<in> fst ` set demo_tracked" by (simp add: demo_keys)
  show "parse_checksums (the (blob_of demo_git demo_tracked CHECKSUM_NAME))
      = Inr (manifest_entries demo_fs)" by (simp add: demo_blob_of demo_parse)
  show "fst ` set (manifest_entries demo_fs) = fst ` set demo_tracked - {CHECKSUM_NAME}"
    using demo_names by (auto simp: demo_keys demo_entries)
  show "forbidden p = Inr False" "blob_of demo_git demo_tracked p \<noteq> None"
    if "p \<in> fst ` set demo_tracked" for p
    using that demo_not_forbidden by (auto simp: demo_keys demo_blob_of)
  show "map_of (manifest_entries demo_fs) p = Some (sha256_hex (the (blob_of demo_git demo_tracked p)))"
    if "p \<in> fst ` set demo_tracked - {CHECKSUM_NAME}" for p
    using that demo_names by (auto simp: demo_keys demo_blob_of demo_entries)
qed

lemma demo_read_index: "tracked_entries demo_git = Inr demo_tracked"
  using index_read[where es = demo_index and git = demo_git, OF demo_runs(2) demo_index_ok] demo_names
  by (simp add: demo_tracked_def) (simp add: demo_index_def)

lemma demo_only_manifest:
  "\<forall>p. path_ok p \<longrightarrow> as_posix p \<in> fst ` set demo_tracked \<longrightarrow> path_name p = CHECKSUM_NAME \<longrightarrow> p = OUTPUT"
proof (intro allI impI)
  fix p assume p: "path_ok p" "as_posix p \<in> fst ` set demo_tracked" "path_name p = CHECKSUM_NAME"
  then have "as_posix p \<in> {as_posix OUTPUT, as_posix (rel ''README.md''), as_posix (rel ''mvnw'')}"
    by (simp add: demo_keys demo_posix)
  then have "p \<in> {OUTPUT, rel ''README.md'', rel ''mvnw''}"
    using p(1) as_posix_inj demo_path_ok path_ok_OUTPUT by blast
  then show "p = OUTPUT" using p(3) by (auto simp: rel_demo path_name_def CHECKSUM_NAME_def lit_def)
qed

lemma generate_then_verify_witness:
  "verify_source demo_git demo_tracked
     = Inr (sort (map fst demo_tracked), tracked_blobs demo_git demo_tracked)"
  by (rule generate_then_verify[OF demo_ok demo_generated demo_tracks _ demo_not_forbidden _
        demo_only_manifest _ demo_no_break]) (auto simp: demo_keys demo_included demo_posix)

lemma verify_source_iff_witness:
  "verify_source demo_git demo_tracked = Inr (sort (map fst demo_tracked), tracked_blobs demo_git demo_tracked)
     \<longleftrightarrow> source_verified demo_git demo_tracked"
  using verify_source_iff[OF demo_distinct, of demo_git "sort (map fst demo_tracked)"
    "tracked_blobs demo_git demo_tracked"] by simp

definition wrong_digest :: pystr where
  "wrong_digest = (if sha256_hex ''run'' = replicate 64 48 then replicate 64 49 else replicate 64 48)"

definition stale_entries :: "(pystr \<times> pystr) list" where
  "stale_entries = [(lit ''README.md'', sha256_hex ''hello''), (lit ''mvnw'', wrong_digest)]"

lemma wrong_digest: "wrong_digest \<noteq> sha256_hex ''run''" "length wrong_digest = 64"
  "c \<in> set wrong_digest \<Longrightarrow> is_hex_lower c"
  by (auto simp: wrong_digest_def is_hex_lower_def split: if_splits)

lemma stale_entries_ok: "entries_ok stale_entries"
proof -
  have "entry_ok (lit ''README.md'', sha256_hex ''hello'')"
    using demo_entries_ok by (simp add: entries_ok_def demo_entries)
  moreover have "entry_ok (lit ''mvnw'', wrong_digest)"
    using wrong_digest(2,3) by (auto simp: lit_def is_linebreak_def)
  ultimately show ?thesis using demo_names
    by (simp add: entries_ok_def stale_entries_def del: entry_ok.simps)
qed

lemma printable:
  "(\<forall>(p, d) \<in> set es. list_all is_scalar p \<and> list_all is_scalar d) \<Longrightarrow> print_manifest es \<noteq> None"
proof -
  assume a: "\<forall>(p, d) \<in> set es. list_all is_scalar p \<and> list_all is_scalar d"
  have j: "(\<forall>l \<in> set ls. list_all is_scalar l) \<Longrightarrow> list_all is_scalar (join_with [10] ls)" for ls
    by (induction "[10::nat]" ls rule: join_with.induct) (auto simp: is_scalar_def)
  have "\<forall>e \<in> set es. list_all is_scalar (manifest_line e)"
    using a by (fastforce simp: lit_def is_scalar_def[of 32])
  then have "list_all is_scalar (manifest_text es)"
    by (simp add: manifest_text_def is_scalar_def[of 10] j)
  then show ?thesis using utf8_encode_scalars[of "manifest_text es"] by (simp add: print_manifest_def list_all_iff)
qed


definition stale_git :: git where
  "stale_git = git_with demo_index (the (print_manifest stale_entries))"

lemma hex_scalar: "\<forall>c \<in> set s. is_hex_lower c \<Longrightarrow> list_all is_scalar s"
  by (fastforce simp: list_all_iff is_hex_lower_def is_scalar_def)

lemma stale_parse: "parse_checksums (the (print_manifest stale_entries)) = Inr stale_entries"
proof -
  have "list_all is_scalar (sha256_hex m)" "list_all is_scalar wrong_digest" for m
    using sha256_hex_chars wrong_digest(3) by (auto intro!: hex_scalar)
  then have "print_manifest stale_entries \<noteq> None"
    by (intro printable) (simp add: stale_entries_def lit_def is_scalar_def)
  then obtain b where "print_manifest stale_entries = Some b" by blast
  then show ?thesis using checksums.parse_print[OF stale_entries_ok] by simp
qed

lemma stale_blobs:
  "blob_of stale_git demo_tracked CHECKSUM_NAME = Some (the (print_manifest stale_entries))"
  "blob_of stale_git demo_tracked (lit ''README.md'') = Some ''hello''"
  "blob_of stale_git demo_tracked (lit ''mvnw'') = Some ''run''"
  by (simp_all add: stale_git_def blob_of_git_with)

lemma stale_matches: "manifest_matches stale_git demo_tracked stale_entries"
  unfolding manifest_matches_def
proof (intro conjI ballI)
  show "stale_git (map lit [''git'', ''status'', ''--porcelain=v1'', ''-z'']) = Some []"
    unfolding stale_git_def by (rule git_with_runs)
  show "CHECKSUM_NAME \<in> fst ` set demo_tracked" by (simp add: demo_keys)
  show "parse_checksums (the (blob_of stale_git demo_tracked CHECKSUM_NAME)) = Inr stale_entries"
    by (simp add: stale_blobs stale_parse)
  show "fst ` set stale_entries = fst ` set demo_tracked - {CHECKSUM_NAME}"
    using demo_names by (auto simp: demo_keys stale_entries_def)
  show "forbidden p = Inr False" "blob_of stale_git demo_tracked p \<noteq> None"
    if "p \<in> fst ` set demo_tracked" for p
    using that demo_not_forbidden by (auto simp: demo_keys stale_blobs)
qed

lemma demo_sorted: "sort (filter (\<lambda>p. p \<noteq> CHECKSUM_NAME) (map fst demo_tracked))
    = [lit ''README.md'', lit ''mvnw'']"
  by (simp add: demo_tracked_eq lit_def CHECKSUM_NAME_def)

lemma stale_checksum_reported_witness:
  "verify_source stale_git demo_tracked = Inl (Stale_Checksum (lit ''mvnw''))"
  by (rule stale_checksum_reported[OF demo_distinct stale_matches, of _ "[]"])
    (use demo_names wrong_digest(1) in
      \<open>simp add: stale_paths_def demo_sorted stale_entries_def stale_blobs\<close>)

lemma tracked_entries_index_witness: "tracked_entries demo_git = Inr (map index_value demo_index)"
  by (rule tracked_entries_index[where es = demo_index and git = demo_git, OF demo_runs(2) demo_index_ok])
    (use demo_names in \<open>simp add: demo_index_def\<close>)

lemma tracked_entries_ordinary_witness:
  "distinct (map fst demo_tracked) \<and> list_all (\<lambda>(path, perm, oid). perm \<in> {420, 493}
    \<and> 40 \<le> length oid \<and> length oid \<le> 64 \<and> list_all is_hex_lower oid) demo_tracked"
  by (rule tracked_entries_ordinary[OF demo_read_index])

lemma attr_of_permission_exact_witness:
  "drop_bit 16 (attr_of_permission 493) = 493 \<and> attr_of_permission 493 < 2 ^ 32"
  by (rule attr_of_permission_exact) simp

lemma generate_idempotent_witness: "generate_main demo_fs' = Inr demo_fs'"
  by (rule generate_idempotent[OF demo_ok demo_generated])

lemma manifest_round_trip_witness: "parse_checksums demo_manifest = Inr (manifest_entries demo_fs)"
  by (rule manifest_round_trip[OF demo_entries_ok demo_print])

lemma parse_checksums_exact_witness:
  "distinct (map fst (manifest_entries demo_fs))
    \<and> list_all (\<lambda>(path, digest). path \<noteq> [] \<and> list_all (\<lambda>c. \<not> is_linebreak c) path
         \<and> length digest = 64 \<and> list_all is_hex_lower digest) (manifest_entries demo_fs)
    \<and> (\<exists>t. utf8_decode demo_manifest = Some t
         \<and> splitlines t = map manifest_line (manifest_entries demo_fs))"
  by (rule parse_checksums_exact[OF demo_parse])

text \<open>The same tree listed in another order, and an index listed in another order.\<close>

definition demo_fs_rev :: fs where
  "demo_fs_rev = rev demo_fs"

lemma demo_rev_lookup: "map_of demo_fs_rev p = map_of demo_fs p"
  by (simp add: demo_fs_rev_def demo_fs_def rel_demo lit_def)

lemma demo_rev_same: "included demo_fs_rev p = included demo_fs p"
  "read_bytes demo_fs_rev p = read_bytes demo_fs p"
  by (simp_all add: included_def is_file_def read_bytes_def demo_rev_lookup)

lemma demo_rev_ok: "fs_ok demo_fs_rev"
  using demo_ok by (simp add: fs_ok_def demo_fs_rev_def rev_map[symmetric])

lemma demo_rev_generated: "\<exists>gs. generate_main demo_fs_rev = Inr gs"
proof -
  have "manifest_entries demo_fs_rev = manifest_entries demo_fs"
    by (rule manifest_entries_eqI[OF demo_ok demo_rev_ok]) (simp_all add: demo_rev_same)
  moreover have "map_of demo_fs OUTPUT = None"
    by (simp add: demo_fs_def rel_demo lit_def CHECKSUM_NAME_def)
  ultimately show ?thesis using demo_print
    by (simp add: generate_main_eq write_text_def print_manifest_def write_bytes_def demo_rev_lookup)
qed

lemma generate_order_independent_witness:
  "\<exists>gs. generate_main demo_fs_rev = Inr gs \<and> read_bytes gs OUTPUT = read_bytes demo_fs' OUTPUT"
proof -
  obtain gs where g: "generate_main demo_fs_rev = Inr gs" using demo_rev_generated by blast
  have "read_bytes gs OUTPUT = read_bytes demo_fs' OUTPUT"
    by (rule generate_order_independent[OF demo_ok demo_rev_ok demo_generated g])
      (simp_all add: demo_rev_same)
  then show ?thesis using g by blast
qed

definition demo_zip :: "zip_entry list \<Rightarrow> bytes" where
  "demo_zip es = concat (map zip_data es)"

lemma strip_by_none: "\<forall>c \<in> set s. \<not> P c \<Longrightarrow> strip_by P s = s"
proof -
  assume "\<forall>c \<in> set s. \<not> P c"
  then have "dropWhile P s = s" "dropWhile P (rev s) = rev s"
    by (metis dropWhile_eq_self_iff hd_in_set set_rev)+
  then show ?thesis by (simp add: strip_by_def)
qed

lemma head_text: "decode_ascii (replicate 40 CHR ''d'') = Inr (lit (replicate 40 CHR ''d''))"
  "py_strip (lit (replicate 40 CHR ''d'')) = lit (replicate 40 CHR ''d'')"
  "re_fullmatch commit_re (py_strip (lit (replicate 40 CHR ''d''))) \<noteq> None"
proof -
  show "decode_ascii (replicate 40 CHR ''d'') = Inr (lit (replicate 40 CHR ''d''))"
    by (rule decode_ascii_eq) (simp add: list_all_iff)
  show s: "py_strip (lit (replicate 40 CHR ''d'')) = lit (replicate 40 CHR ''d'')"
    by (rule strip_by_none) (simp add: lit_def is_space_def py_spaces_def)
  show "re_fullmatch commit_re (py_strip (lit (replicate 40 CHR ''d''))) \<noteq> None"
    unfolding commit_re_iff s by (simp add: lit_def is_hex_lower_def)
qed

lemma strip_true: "strip_by byte_space ''true'' = ''true''"
  by code_simp

lemma packages:
  assumes "git = git_with es m" "tracked_entries git = Inr t" "source_verified git t"
  shows "\<exists>pkg out'. package_main git zip_bytes out = Inr (pkg, out')"
  by (rule package_main_ok[OF git_with_runs(4)[of es m, folded assms(1)] strip_true
        git_with_runs(3)[of es m, folded assms(1)] head_text(1,3) assms(2,3)])

lemma package_contents_witness:
  "\<exists>pkg out'. package_main demo_git demo_zip Map.empty = Inr (pkg, out')
    \<and> (\<exists>package tracked. tracked_entries demo_git = Inr tracked \<and> source_verified demo_git tracked
    \<and> archive_entries pkg = map (package_entry package demo_git tracked) (sort (map fst tracked))
    \<and> sorted_wrt (<) (map zip_name (archive_entries pkg))
    \<and> out' (archive_name pkg) = Some (demo_zip (archive_entries pkg)))"
proof -
  obtain pkg out' where p: "package_main demo_git demo_zip Map.empty = Inr (pkg, out')"
    using packages[OF demo_git_def demo_read_index demo_verified] by blast
  then show ?thesis using package_contents[OF p] by blast
qed

definition git_rev :: git where
  "git_rev = git_with (rev demo_index) demo_manifest"

definition tracked_rev :: tracked where
  "tracked_rev = map index_value (rev demo_index)"

lemma rev_tracked: "map_of tracked_rev = map_of demo_tracked" "set tracked_rev = set demo_tracked"
proof -
  show s: "set tracked_rev = set demo_tracked" by (simp add: tracked_rev_def demo_tracked_def)
  have "distinct (map fst tracked_rev)"
    using demo_distinct by (simp add: tracked_rev_def demo_tracked_def flip: rev_map)
  then show "map_of tracked_rev = map_of demo_tracked"
    using demo_distinct s by (simp add: map_of_inject_set)
qed

lemma git_with_cat:
  "git_with es m [lit ''git'', lit ''cat-file'', lit ''blob'', oid]
     = git_with [] m [lit ''git'', lit ''cat-file'', lit ''blob'', oid]"
  by (simp add: git_with_def)

lemma rev_blob: "blob_of git_rev tracked_rev p = blob_of demo_git demo_tracked p"
  "blob_bytes git_rev oid = blob_bytes demo_git oid"
  by (simp_all add: blob_of_def rev_tracked git_rev_def demo_git_def blob_bytes_def run_def
      git_with_cat[of "rev demo_index"] git_with_cat[of demo_index] split: option.split)

lemma rev_verified: "source_verified git_rev tracked_rev"
proof -
  have "git_rev (map lit [''git'', ''status'', ''--porcelain=v1'', ''-z'']) = Some []"
    unfolding git_rev_def by (rule git_with_runs)
  then show ?thesis
    using demo_verified unfolding source_verified_def rev_blob rev_tracked by blast
qed

lemma rev_read_index: "tracked_entries git_rev = Inr tracked_rev"
  unfolding tracked_rev_def
proof (rule index_read[where es = "rev demo_index" and git = git_rev])
  show "git_rev (map lit [''git'', ''ls-files'', ''--stage'', ''-z'']) = Some (index_output (rev demo_index))"
    unfolding git_rev_def by (rule git_with_runs)
  show "distinct (map ie_path (rev demo_index))" using demo_names by (auto simp: demo_index_def)
qed (use demo_index_ok in simp)

lemma package_deterministic_witness:
  "\<exists>pkg o1 o2. package_main demo_git demo_zip Map.empty = Inr (pkg, o1)
     \<and> package_main git_rev demo_zip [lit ''old.zip'' \<mapsto> []] = Inr (pkg, o2)"
proof -
  obtain p1 o1 where p1: "package_main demo_git demo_zip Map.empty = Inr (p1, o1)"
    using packages[OF demo_git_def demo_read_index demo_verified] by blast
  obtain p2 o2 where p2: "package_main git_rev demo_zip [lit ''old.zip'' \<mapsto> []] = Inr (p2, o2)"
    using packages[OF git_rev_def rev_read_index rev_verified] by blast
  have "p1 = p2"
    by (rule package_deterministic[OF p1 p2 _ demo_read_index rev_read_index])
      (simp_all only: demo_runs git_with_runs git_rev_def[symmetric] rev_tracked rev_blob
        git_with_runs(3)[of "rev demo_index" demo_manifest, folded git_rev_def] simp_thms)
  then show ?thesis using p1 p2 by blast
qed

definition odd_name :: pystr where
  "odd_name = lit ''a'' @ [8232] @ lit ''b''"

lemma linebreak_path_never_verifies_witness:
  "\<forall>git paths blobs. verify_source git [(CHECKSUM_NAME, (420, [])), (odd_name, (420, []))]
     \<noteq> Inr (paths, blobs)"
proof (intro allI)
  fix git paths blobs
  show "verify_source git [(CHECKSUM_NAME, (420, [])), (odd_name, (420, []))] \<noteq> Inr (paths, blobs)"
    by (rule linebreak_path_never_verifies[where k = odd_name and c = 8232])
      (simp_all add: odd_name_def CHECKSUM_NAME_def lit_def is_linebreak_def)
qed

definition nested_tracked :: tracked where
  "nested_tracked = demo_tracked @ [(lit ''docs/CHECKSUMS.sha256'', (420, lit (replicate 40 CHR ''b'')))]"

lemma nested_manifest_rejected_witness:
  "\<forall>paths blobs. verify_source demo_git nested_tracked \<noteq> Inr (paths, blobs)"
proof (intro allI)
  fix paths blobs
  let ?q = "rel ''docs/CHECKSUMS.sha256''"
  have q: "?q = Path [lit ''docs'', CHECKSUM_NAME]"
    by (simp add: rel_def path_parts_def lit_def CHECKSUM_NAME_def)
  have p: "as_posix ?q = lit ''docs/CHECKSUMS.sha256''"
    by (simp add: q as_posix_def CHECKSUM_NAME_def lit_def)
  have b: "blob_of demo_git nested_tracked CHECKSUM_NAME = Some (file_content demo_fs' OUTPUT)"
    using demo_blob_of(1) by (simp add: nested_tracked_def blob_of_def map_add_def demo_tracked_eq
      file_content_def demo_read CHECKSUM_NAME_def)
  have d: "distinct (map fst nested_tracked)"
    using demo_distinct demo_keys by (simp add: nested_tracked_def CHECKSUM_NAME_def)
  show "verify_source demo_git nested_tracked \<noteq> Inr (paths, blobs)"
    by (rule nested_manifest_rejected[OF demo_ok demo_generated d b _ demo_no_break, of ?q])
      (auto simp: demo_included p nested_tracked_def, simp_all add: q path_ok_def component_ok_def
        path_name_def CHECKSUM_NAME_def lit_def rel_demo)
qed

end
