(* ===== verification/Delivery_Check.thy ===== *)
theory Delivery_Check
  imports Check_Delivery Manifest_Cycle
begin

text \<open>
  The run of \<open>scripts/check_emp010.py\<close>: two exports compared, the hygiene of the archive, the
  export of a clone with a stale manifest that has to fail, the self-test on a copy of an
  uncommitted tree, and the exit code. The exports are the model of \<open>package_source.py\<close>, the
  copy's manifest is written by the model of \<open>generate_checksums.py\<close>.
\<close>

section \<open>The tools outside the repository\<close>

text \<open>
  The byte encoding of an archive by \<open>zipfile\<close> and the names read back from it, the text the
  interpreter prints for an exception that is not a \<open>SystemExit\<close>, the Git repository after cloning,
  appending bytes to one file and committing it, and the Git repository made from a tree.
\<close>

record tools =
  encode_zip :: "zip_entry list \<Rightarrow> bytes"
  name_list :: "bytes \<Rightarrow> pystr list"
  traceback :: "pkg_error \<Rightarrow> pystr"
  commit_append :: "git \<Rightarrow> pystr \<Rightarrow> bytes \<Rightarrow> git option"
  commit_tree :: "fs \<Rightarrow> git option"

datatype delivery_error =
    Export_Failed pkg_error
  | Zip_Count nat
  | Forbidden_Entries "pystr list"
  | Unclean_Tree
  | Exports_Differ pystr pystr
  | Not_Fail_Closed
  | Command_Failed

section \<open>One export\<close>

definition file_sha :: "bytes \<Rightarrow> pystr" where
  "file_sha data = hexdigest (hash_loop sha256_new data)"

text \<open>The export goes to a new directory, so the archive is the only entry \<open>glob\<close> can find.\<close>

definition run_export :: "tools \<Rightarrow> git \<Rightarrow> delivery_error + bytes \<times> pystr" where
  "run_export tools repo =
     (case package_main repo (encode_zip tools) Map.empty of
        Inl e \<Rightarrow> Inl (Export_Failed e)
      | Inr (pkg, output) \<Rightarrow>
          let zips = filter (\<lambda>n. ends_with ''.zip'' n \<and> output n \<noteq> None) [archive_name pkg]
          in if length zips \<noteq> 1 then Inl (Zip_Count (length zips))
             else Inr (the (output (hd zips)), file_sha (the (output (hd zips)))))"

definition ARCHIVE_PARTS :: "pystr list" where
  "ARCHIVE_PARTS = map lit [''.git'', ''target'', ''build'', ''dist'', ''coverage'', ''__pycache__'']"

definition forbidden_entry :: "pystr \<Rightarrow> bool" where
  "forbidden_entry name \<longleftrightarrow> list_ex (\<lambda>part. part \<in> set (split_on 47 name)) ARCHIVE_PARTS
     \<or> ends_with ''CODEX_PROMPT.md'' name \<or> ends_with ''.zip'' name"

definition assert_archive_hygiene :: "tools \<Rightarrow> bytes \<Rightarrow> delivery_error + unit" where
  "assert_archive_hygiene tools archive =
     (let bad = filter forbidden_entry (name_list tools archive)
      in guard_py (bad = []) (Forbidden_Entries bad))"

section \<open>The controlled mutation\<close>

definition README :: pystr where
  "README = lit ''README.md''"

definition MUTATION :: bytes where
  "MUTATION = [CHR 0x0A] @ ''EMP-010 controlled checksum mutation.'' @ [CHR 0x0A]"

text \<open>
  \<open>"stale checksum" in mutated.stdout\<close>: the message of the checksum loop, or a value printed in
  another message. Printing a value quoted escapes neither letters nor the blank.
\<close>

definition mentions_stale :: "tools \<Rightarrow> pkg_error \<Rightarrow> bool" where
  "mentions_stale tools e =
     (let stale = contains (lit ''stale checksum'') in
      case e of
        Stale_Checksum path \<Rightarrow> True
      | Unmerged path \<Rightarrow> stale path
      | Unsupported_Mode mode path \<Rightarrow> stale mode \<or> stale path
      | Malformed_Object_Id path \<Rightarrow> stale path
      | Malformed_Line line \<Rightarrow> stale line
      | Duplicate_Entry path \<Rightarrow> stale path
      | Forbidden_Files bad \<Rightarrow> list_ex stale bad
      | Manifest_Mismatch missing extra \<Rightarrow> list_ex stale (missing @ extra)
      | Checksums_Not_Utf8 \<Rightarrow> False
      | Dirty_Tree \<Rightarrow> False
      | Checksums_Untracked \<Rightarrow> False
      | Not_A_Work_Tree \<Rightarrow> False
      | No_Commit \<Rightarrow> False
      | _ \<Rightarrow> stale (traceback tools e))"

definition fails_closed :: "tools \<Rightarrow> git \<Rightarrow> bool" where
  "fails_closed tools clone =
     (case package_main clone (encode_zip tools) Map.empty of
        Inr _ \<Rightarrow> False | Inl e \<Rightarrow> mentions_stale tools e)"

definition command :: "'a option \<Rightarrow> delivery_error + 'a" where
  "command r = (case r of None \<Rightarrow> Inl Command_Failed | Some x \<Rightarrow> Inr x)"

definition delivery_check :: "tools \<Rightarrow> git \<Rightarrow> delivery_error + pystr" where
  "delivery_check tools repo =
     bind_py (command (repo (map lit [''git'', ''status'', ''--porcelain=v1'', ''-z'']))) (\<lambda>status.
     bind_py (guard_py (status = []) Unclean_Tree) (\<lambda>_.
     bind_py (run_export tools repo) (\<lambda>(first, first_sha).
     bind_py (run_export tools repo) (\<lambda>(second, second_sha).
     bind_py (guard_py (first_sha = second_sha) (Exports_Differ first_sha second_sha)) (\<lambda>_.
     bind_py (assert_archive_hygiene tools first) (\<lambda>_.
     bind_py (assert_archive_hygiene tools second) (\<lambda>_.
     bind_py (command (commit_append tools repo README MUTATION)) (\<lambda>clone.
     bind_py (guard_py (fails_closed tools clone) Not_Fail_Closed) (\<lambda>_.
     Inr first_sha)))))))))"

section \<open>The self-test on a candidate\<close>

text \<open>\<open>shutil.ignore_patterns\<close>: the names left out of the copy, with all that lies below them.\<close>

definition ignored_name :: "pystr \<Rightarrow> bool" where
  "ignored_name name \<longleftrightarrow>
     name \<in> set (map lit [''.git'', ''target'', ''build'', ''dist'', ''__pycache__'']) \<or> ends_with ''.zip'' name"

definition candidate_tree :: "fs \<Rightarrow> fs" where
  "candidate_tree fs = filter (\<lambda>(p, n). \<not> list_ex ignored_name (parts p)) fs"

definition candidate_delivery_check :: "tools \<Rightarrow> fs \<Rightarrow> delivery_error + pystr" where
  "candidate_delivery_check tools fs =
     (case generate_main (candidate_tree fs) of
        Inl e \<Rightarrow> Inl Command_Failed
      | Inr clone \<Rightarrow> bind_py (command (commit_tree tools clone)) (delivery_check tools))"

section \<open>The run\<close>

text \<open>
  The exit code; \<open>repo\<close> is the Git repository the checker stands in, \<open>delivery\<close> and \<open>candidate\<close>
  are the two options of the command line.
\<close>

definition succeeds :: "'e + 'a \<Rightarrow> bool" where
  "succeeds r = (case r of Inl e \<Rightarrow> False | Inr x \<Rightarrow> True)"

definition emp010_main :: "tools \<Rightarrow> bool \<Rightarrow> bool \<Rightarrow> git \<Rightarrow> fs \<Rightarrow> pyexc + int" where
  "emp010_main tools delivery candidate repo fs =
     bind_py (static_check_010 fs) (\<lambda>errors. Inr
       (if errors \<noteq> [] then 1
        else if delivery \<and> \<not> succeeds (delivery_check tools repo) then 1
        else if candidate \<and> \<not> succeeds (candidate_delivery_check tools fs) then 1
        else 0))"

section \<open>Facts about the export\<close>

lemma file_sha_eq: "file_sha data = sha256_hex data"
  by (simp add: file_sha_def hash_loop_eq sha256_hex_def digest_update_def)

lemma succeeds_iff: "succeeds r \<longleftrightarrow> (\<exists>x. r = Inr x)"
  by (cases r) (auto simp: succeeds_def)

lemma command_Inr_iff [py_ok]: "command r = Inr x \<longleftrightarrow> r = Some x"
  by (cases r) (simp_all add: command_def)

lemma suffix_append_lit: "suffix (lit s) (xs @ lit s)"
  by (simp add: suffix_def)

lemma run_export_eq:
  "run_export tools repo =
     (case package_main repo (encode_zip tools) Map.empty of
        Inl e \<Rightarrow> Inl (Export_Failed e)
      | Inr (pkg, out) \<Rightarrow> Inr (encode_zip tools (archive_entries pkg), archive_digest pkg))"
proof (cases "package_main repo (encode_zip tools) Map.empty")
  case (Inr r)
  obtain pkg out where r: "r = (pkg, out)" by (cases r)
  obtain head where a: "archive_name pkg = lit ''coupon-service-source-'' @ take 12 (py_strip (lit head)) @ lit ''.zip''"
    "archive_digest pkg = sha256_hex (encode_zip tools (archive_entries pkg))"
    "out = Map.empty(archive_name pkg \<mapsto> encode_zip tools (archive_entries pkg))"
    by (rule package_main_Inr[OF Inr[unfolded r]])
  have "ends_with ''.zip'' (archive_name pkg)"
    unfolding ends_with_def a(1) append_assoc[symmetric] by (rule suffix_append_lit)
  then show ?thesis using a(2,3) by (simp add: run_export_def Inr r file_sha_eq)
qed (simp add: run_export_def)

lemma run_export_Inr_iff:
  "run_export tools repo = Inr (archive, sha) \<longleftrightarrow>
     (\<exists>pkg out. package_main repo (encode_zip tools) Map.empty = Inr (pkg, out)
        \<and> archive = encode_zip tools (archive_entries pkg) \<and> sha = archive_digest pkg)"
  by (auto simp: run_export_eq split: sum.splits)

lemma hygiene_Inr_iff [py_ok]:
  "assert_archive_hygiene tools archive = Inr u \<longleftrightarrow>
     list_all (\<lambda>n. \<not> forbidden_entry n) (name_list tools archive)"
  by (simp add: assert_archive_hygiene_def Let_def filter_empty_conv list_all_iff)

end
