(* ===== verification/Delivery_Gate.thy ===== *)
theory Delivery_Gate
  imports Delivery_Check
begin

text \<open>
  The properties of the delivery check: what its success means, which exports pass its hygiene
  test, that it accepts a verified source and is right about the controlled mutation, and that the
  self-test on a candidate accepts a tree whose manifest it generates.
\<close>

section \<open>Names in the archive\<close>

lemma suffix_after_slash:
  assumes "47 \<notin> set (s :: pystr)"
  shows "suffix s (a @ 47 # b) \<longleftrightarrow> suffix s b"
  using assms by (auto simp: suffix_append suffix_Cons)

lemma package_no_slash:
  assumes "\<forall>c \<in> set (py_strip (lit head)). is_hex_lower c"
  shows "47 \<notin> set (lit ''coupon-service-source-'' @ take 12 (py_strip (lit head)))"
proof
  assume "47 \<in> set (lit ''coupon-service-source-'' @ take 12 (py_strip (lit head)))"
  then have "47 \<in> set (take 12 (py_strip (lit head)))" by (simp add: lit_def)
  then have "is_hex_lower 47" using assms by (meson in_set_takeD)
  then show False by (simp add: is_hex_lower_def)
qed

lemma archive_parts_plain: "part \<in> set ARCHIVE_PARTS \<Longrightarrow>
    part \<in> set FORBIDDEN_PARTS \<and> part \<noteq> [] \<and> part \<noteq> [46] \<and> \<not> prefix (lit ''coupon'') part"
  by (auto simp: ARCHIVE_PARTS_def FORBIDDEN_PARTS_def lit_def)

lemma pure_parts_path_parts: "set (path_parts s) \<subseteq> set (pure_parts s)"
  by (auto simp: pure_parts_def)

lemma not_forbidden_parts:
  assumes "forbidden path = Inr False" "part \<in> set (split_on 47 path)"
  shows "part \<notin> set ARCHIVE_PARTS"
proof
  assume p: "part \<in> set ARCHIVE_PARTS"
  then have "part \<in> set (pure_parts path)"
    using assms(2) archive_parts_plain[OF p] pure_parts_path_parts[of path] by (auto simp: path_parts_def)
  then show False
    using assms(1) archive_parts_plain[OF p] by (auto simp: forbidden_def Let_def list_ex_iff split: if_splits)
qed

lemma forbidden_entry_packaged:
  assumes "forbidden path = Inr False" "47 \<notin> set package" "prefix (lit ''coupon'') package"
  shows "forbidden_entry (package @ [47] @ path) \<longleftrightarrow>
    ends_with ''CODEX_PROMPT.md'' path \<or> ends_with ''.zip'' path"
proof -
  have "split_on 47 (package @ 47 # path) = package # split_on 47 path"
    using assms(2) by (rule split_on_append)
  then have "\<not> list_ex (\<lambda>part. part \<in> set (split_on 47 (package @ 47 # path))) ARCHIVE_PARTS"
    using not_forbidden_parts[OF assms(1)] archive_parts_plain assms(3) by (auto simp: list_ex_iff)
  moreover have "47 \<notin> set (lit ''CODEX_PROMPT.md'')" "47 \<notin> set (lit ''.zip'')" by (simp_all add: lit_def)
  ultimately show ?thesis by (simp add: forbidden_entry_def ends_with_def suffix_after_slash)
qed

lemma archive_clean_iff:
  assumes "package_main git zip_bytes out = Inr (pkg, out')" "tracked_entries git = Inr t"
  shows "list_all (\<lambda>n. \<not> forbidden_entry n) (map zip_name (archive_entries pkg)) \<longleftrightarrow>
    (\<forall>path \<in> fst ` set t. \<not> ends_with ''CODEX_PROMPT.md'' path \<and> \<not> ends_with ''.zip'' path)"
proof -
  obtain head where t: "source_verified git t"
    and e: "archive_entries pkg = map (package_entry (lit ''coupon-service-source-''
        @ take 12 (py_strip (lit head))) git t) (sort (map fst t))"
    and h: "\<forall>c \<in> set (py_strip (lit head)). is_hex_lower c"
    by (rule package_main_Inr[OF assms(1)]) (use assms(2) in auto)
  let ?p = "lit ''coupon-service-source-'' @ take 12 (py_strip (lit head))"
  have pre: "prefix (lit ''coupon'') ?p" by (simp add: lit_def)
  have "forbidden_entry (?p @ [47] @ path) \<longleftrightarrow>
      ends_with ''CODEX_PROMPT.md'' path \<or> ends_with ''.zip'' path" if "path \<in> fst ` set t" for path
    using forbidden_entry_packaged[OF _ package_no_slash[OF h] pre] t that
    by (auto simp: source_verified_def)
  then show ?thesis by (auto simp: e package_entry_def list_all_iff)
qed

text \<open>
  C38: of the archives the packager writes, the hygiene test of the delivery check accepts exactly
  those without a tracked path that ends in \<open>CODEX_PROMPT.md\<close> or \<open>.zip\<close>; its tests on directories
  never fire. So a file named \<open>.zip\<close>, or any file whose name only ends in \<open>CODEX_PROMPT.md\<close>, is
  packaged and then refused.
\<close>

theorem export_hygiene:
  assumes "package_main git (encode_zip tools) out = Inr (pkg, out')" "tracked_entries git = Inr t"
    and "name_list tools (encode_zip tools (archive_entries pkg)) = map zip_name (archive_entries pkg)"
  shows "assert_archive_hygiene tools (encode_zip tools (archive_entries pkg)) = Inr () \<longleftrightarrow>
    (\<forall>path \<in> fst ` set t. \<not> ends_with ''CODEX_PROMPT.md'' path \<and> \<not> ends_with ''.zip'' path)"
  using archive_clean_iff[OF assms(1,2)] by (simp only: hygiene_Inr_iff assms(3))

section \<open>The controlled mutation\<close>

text \<open>
  What Git promises of a clone in which bytes were appended to one tracked file and committed: the
  same paths are tracked, and only that file's blob has changed.
\<close>

definition appended :: "git \<Rightarrow> tracked \<Rightarrow> pystr \<Rightarrow> bytes \<Rightarrow> git \<Rightarrow> bool" where
  "appended git t path extra clone \<longleftrightarrow>
     (\<exists>inside head cmt t'.
        clone (map lit [''git'', ''rev-parse'', ''--is-inside-work-tree'']) = Some inside
      \<and> strip_by byte_space inside = ''true''
      \<and> clone (map lit [''git'', ''rev-parse'', ''HEAD'']) = Some head
      \<and> decode_ascii head = Inr cmt \<and> re_fullmatch commit_re (py_strip cmt) \<noteq> None
      \<and> clone (map lit [''git'', ''status'', ''--porcelain=v1'', ''-z'']) = Some []
      \<and> tracked_entries clone = Inr t' \<and> fst ` set t' = fst ` set t
      \<and> (\<forall>p \<in> fst ` set t. blob_of clone t' p =
            (if p = path then map_option (\<lambda>b. b @ extra) (blob_of git t p) else blob_of git t p)))"

lemma filter_single:
  "distinct xs \<Longrightarrow> filter (\<lambda>x. x = y) xs = (if y \<in> set xs then [y] else [])"
  by (induction xs) auto

lemma appended_matches:
  assumes "manifest_matches git t manifest" "path \<noteq> CHECKSUM_NAME"
    and "fst ` set t' = fst ` set t"
    and "clone (map lit [''git'', ''status'', ''--porcelain=v1'', ''-z'']) = Some []"
    and "\<forall>p \<in> fst ` set t. blob_of clone t' p =
            (if p = path then map_option (\<lambda>b. b @ extra) (blob_of git t p) else blob_of git t p)"
  shows "manifest_matches clone t' manifest"
  using assms by (auto simp: manifest_matches_def)

lemma appended_stale:
  assumes d: "distinct (map fst t')" and "stale_paths git t manifest = []" "path \<noteq> CHECKSUM_NAME"
    and keys: "fst ` set t' = fst ` set t" and "path \<in> fst ` set t" "blob_of git t path = Some b"
    and blobs: "\<forall>p \<in> fst ` set t. blob_of clone t' p =
            (if p = path then map_option (\<lambda>b. b @ extra) (blob_of git t p) else blob_of git t p)"
  shows "stale_paths clone t' manifest = (if sha256_hex (b @ extra) = sha256_hex b then [] else [path])"
proof -
  let ?xs = "sort (filter (\<lambda>p. p \<noteq> CHECKSUM_NAME) (map fst t'))"
  have xs: "set ?xs = fst ` set t - {CHECKSUM_NAME}" using keys by auto
  have fresh: "map_of manifest p = Some (sha256_hex (the (blob_of git t p)))"
    if "p \<in> fst ` set t - {CHECKSUM_NAME}" for p
    using assms(2) that by (simp add: stale_paths_Nil_iff)
  have "stale_paths clone t' manifest
      = filter (\<lambda>p. p = path \<and> sha256_hex (b @ extra) \<noteq> sha256_hex b) ?xs"
    unfolding stale_paths_def
  proof (rule filter_cong[OF refl])
    fix p assume "p \<in> set ?xs"
    then have p: "p \<in> fst ` set t - {CHECKSUM_NAME}" using xs by blast
    then have "blob_of clone t' p =
            (if p = path then map_option (\<lambda>b. b @ extra) (blob_of git t p) else blob_of git t p)"
      using blobs by blast
    then show "(map_of manifest p \<noteq> Some (sha256_hex (the (blob_of clone t' p))))
        = (p = path \<and> sha256_hex (b @ extra) \<noteq> sha256_hex b)"
      using fresh[OF p] assms(6) by auto
  qed
  also have "\<dots> = (if sha256_hex (b @ extra) = sha256_hex b then [] else [path])"
    using filter_single[of ?xs path] d xs assms(3,5) by (auto simp: filter_empty_conv)
  finally show ?thesis .
qed

lemma mutated_export:
  assumes v: "source_verified git t" and "distinct (map fst t)" and a: "appended git t path extra clone"
    and p: "path \<noteq> CHECKSUM_NAME" "path \<in> fst ` set t" "blob_of git t path = Some b"
  shows "fails_closed tools clone \<longleftrightarrow> sha256_hex (b @ extra) \<noteq> sha256_hex b"
proof -
  obtain manifest where m: "manifest_matches git t manifest" "stale_paths git t manifest = []"
    using v by (auto simp: source_verified_def manifest_matches_def stale_paths_Nil_iff)
  obtain inside head cmt t' where c:
    "clone (map lit [''git'', ''rev-parse'', ''--is-inside-work-tree'']) = Some inside"
    "strip_by byte_space inside = ''true''"
    "clone (map lit [''git'', ''rev-parse'', ''HEAD'']) = Some head"
    "decode_ascii head = Inr cmt" "re_fullmatch commit_re (py_strip cmt) \<noteq> None"
    and st: "clone (map lit [''git'', ''status'', ''--porcelain=v1'', ''-z'']) = Some []"
    and t': "tracked_entries clone = Inr t'" and k: "fst ` set t' = fst ` set t"
    and blobs: "\<forall>p \<in> fst ` set t. blob_of clone t' p =
            (if p = path then map_option (\<lambda>b. b @ extra) (blob_of git t p) else blob_of git t p)"
    using a by (auto simp: appended_def)
  have d: "distinct (map fst t')" using tracked_entries_ok[OF t'] by (simp add: tracked_ok_def)
  note stale = appended_stale[OF d m(2) p(1) k p(2,3) blobs]
  note vs = verify_source_matched[OF d appended_matches[OF m(1) p(1) k st blobs]]
  show ?thesis
  proof (cases "sha256_hex (b @ extra) = sha256_hex b")
    case True
    then have "verify_source clone t' = Inr (sort (map fst t'), tracked_blobs clone t')"
      by (simp add: vs stale)
    then have "source_verified clone t'" by (simp add: verify_source_characterised[OF d])
    then obtain r where "package_main clone (encode_zip tools) Map.empty = Inr r"
      using package_main_ok[OF c t'] by blast
    then show ?thesis using True by (simp add: fails_closed_def)
  next
    case False
    then have "verify_source clone t' = Inl (Stale_Checksum path)" by (simp add: vs stale)
    then have "package_main clone (encode_zip tools) Map.empty = Inl (Stale_Checksum path)"
      using c t' by (simp add: package_main_def run_def guard_py_def)
    then show ?thesis using False by (simp add: fails_closed_def mentions_stale_def)
  qed
qed

section \<open>The verdict\<close>

lemma delivery_verdict_eq:
  assumes p: "package_main git (encode_zip tools) Map.empty = Inr (pkg, out)"
    and t: "tracked_entries git = Inr t"
    and n: "name_list tools (encode_zip tools (archive_entries pkg)) = map zip_name (archive_entries pkg)"
    and h: "\<forall>path \<in> fst ` set t. \<not> ends_with ''CODEX_PROMPT.md'' path \<and> \<not> ends_with ''.zip'' path"
    and r: "README \<in> fst ` set t" "blob_of git t README = Some b"
    and c: "commit_append tools git README MUTATION = Some clone" "appended git t README MUTATION clone"
  shows "delivery_check tools git =
    (if sha256_hex (b @ MUTATION) = sha256_hex b then Inl Not_Fail_Closed else Inr (archive_digest pkg))"
proof -
  have v: "source_verified git t" by (rule package_main_Inr[OF p]) (use t in auto)
  have d: "distinct (map fst t)" using tracked_entries_ok[OF t] by (simp add: tracked_ok_def)
  have st: "git (map lit [''git'', ''status'', ''--porcelain=v1'', ''-z'']) = Some []"
    using v by (simp add: source_verified_def)
  have e: "run_export tools git = Inr (encode_zip tools (archive_entries pkg), archive_digest pkg)"
    by (simp add: run_export_eq p)
  have hy: "assert_archive_hygiene tools (encode_zip tools (archive_entries pkg)) = Inr ()"
    using archive_clean_iff[OF p t] h by (simp add: hygiene_Inr_iff n)
  have "README \<noteq> CHECKSUM_NAME" by (simp add: README_def CHECKSUM_NAME_def)
  then show ?thesis
    using mutated_export[OF v d c(2) _ r, of tools]
    by (simp only: delivery_check_def st command_def option.case e hy c(1) bind_py.simps guard_py_True
        prod.case) (simp add: guard_py_def)
qed

text \<open>
  C27: the verdict of the delivery check on a source that the packager accepts, if \<open>README.md\<close> is
  tracked and no tracked path ends in \<open>CODEX_PROMPT.md\<close> or \<open>.zip\<close> (such a path is packaged and then
  refused, C38): when Git commits the appended bytes, the check fails only if \<open>README.md\<close> with and
  without the bytes has the same digest, and otherwise returns the digest of the archive.
\<close>

theorem delivery_verdict:
  assumes "package_main git (encode_zip tools) Map.empty = Inr (pkg, out)"
    and "tracked_entries git = Inr t"
    and "name_list tools (encode_zip tools (archive_entries pkg)) = map zip_name (archive_entries pkg)"
    and "\<forall>path \<in> fst ` set t. \<not> ends_with ''CODEX_PROMPT.md'' path \<and> \<not> ends_with ''.zip'' path"
    and "README \<in> fst ` set t" "blob_of git t README = Some b"
    and "commit_append tools git README MUTATION = Some clone" "appended git t README MUTATION clone"
  shows "delivery_check tools git =
    (if sha256_hex (b @ MUTATION) = sha256_hex b then Inl Not_Fail_Closed else Inr (archive_digest pkg))"
  by (rule delivery_verdict_eq) (rule assms)+

text \<open>
  C29: when the delivery check succeeds, the working tree was clean, every tracked blob hashed to
  its entry in the tracked manifest, the returned digest is that of the archive, no entry of the
  archive is forbidden, and the export of the mutated clone was refused with a stale checksum.
\<close>

theorem delivery_accepted:
  assumes "delivery_check tools git = Inr sha"
  shows "\<exists>pkg out t clone e.
     package_main git (encode_zip tools) Map.empty = Inr (pkg, out) \<and> sha = archive_digest pkg
   \<and> tracked_entries git = Inr t \<and> source_verified git t
   \<and> list_all (\<lambda>n. \<not> forbidden_entry n) (name_list tools (encode_zip tools (archive_entries pkg)))
   \<and> commit_append tools git README MUTATION = Some clone
   \<and> package_main clone (encode_zip tools) Map.empty = Inl e \<and> mentions_stale tools e"
proof -
  obtain archive clone where r: "run_export tools git = Inr (archive, sha)"
    and h: "assert_archive_hygiene tools archive = Inr ()"
    and c: "commit_append tools git README MUTATION = Some clone" "fails_closed tools clone"
    using assms by (auto simp: delivery_check_def py_ok)
  obtain pkg out where p: "package_main git (encode_zip tools) Map.empty = Inr (pkg, out)"
    "archive = encode_zip tools (archive_entries pkg)" "sha = archive_digest pkg"
    using r unfolding run_export_Inr_iff by blast
  obtain t where "tracked_entries git = Inr t" "source_verified git t" by (rule package_main_Inr[OF p(1)])
  moreover obtain e where "package_main clone (encode_zip tools) Map.empty = Inl e" "mentions_stale tools e"
    using c(2) by (auto simp: fails_closed_def split: sum.splits)
  ultimately show ?thesis using p h c(1) by (auto simp: hygiene_Inr_iff)
qed

text \<open>
  C19: the self-test on a candidate packages and accepts a tree that has \<open>README.md\<close> and no path
  that ends in \<open>CODEX_PROMPT.md\<close> or \<open>.zip\<close>: when Git commits the copy with the manifest that
  \<open>generate_checksums\<close> wrote into it, and the conditions of C1 on the names hold, the packager
  succeeds, and the check can fail only at the controlled mutation, by a collision of two digests.
\<close>

theorem candidate_accepted:
  assumes "generated_commit (candidate_tree fs) fs' git t" "commit_tree tools fs' = Some git"
    and "tracked_entries git = Inr t"
    and "git (map lit [''git'', ''rev-parse'', ''--is-inside-work-tree'']) = Some inside"
    and "strip_by byte_space inside = ''true''"
    and "git (map lit [''git'', ''rev-parse'', ''HEAD'']) = Some head" "decode_ascii head = Inr cmt"
    and "length (py_strip cmt) = 40" "list_all is_hex_lower (py_strip cmt)"
    and "\<forall>pkg out. package_main git (encode_zip tools) Map.empty = Inr (pkg, out) \<longrightarrow>
      name_list tools (encode_zip tools (archive_entries pkg)) = map zip_name (archive_entries pkg)"
    and "\<forall>path \<in> fst ` set t. \<not> ends_with ''CODEX_PROMPT.md'' path \<and> \<not> ends_with ''.zip'' path"
    and "README \<in> fst ` set t" "blob_of git t README = Some b"
    and "commit_append tools git README MUTATION = Some clone" "appended git t README MUTATION clone"
  shows "\<exists>pkg out. package_main git (encode_zip tools) Map.empty = Inr (pkg, out)
    \<and> candidate_delivery_check tools fs =
      (if sha256_hex (b @ MUTATION) = sha256_hex b then Inl Not_Fail_Closed else Inr (archive_digest pkg))"
proof -
  have d: "distinct (map fst t)" using tracked_entries_ok[OF assms(3)] by (simp add: tracked_ok_def)
  have "source_verified git t"
    using generated_commit_verifies[OF assms(1)] by (simp add: verify_source_characterised[OF d])
  moreover have "re_fullmatch commit_re (py_strip cmt) \<noteq> None"
    using assms(8,9) by (simp add: commit_re_iff list_all_iff del: not_None_eq)
  ultimately obtain pkg out where p: "package_main git (encode_zip tools) Map.empty = Inr (pkg, out)"
    using package_main_ok[OF assms(4-7) _ assms(3)] by blast
  have "generate_main (candidate_tree fs) = Inr fs'" using assms(1) by (simp add: generated_commit_def)
  then have "candidate_delivery_check tools fs = delivery_check tools git"
    by (simp add: candidate_delivery_check_def command_def assms(2))
  then have "candidate_delivery_check tools fs =
      (if sha256_hex (b @ MUTATION) = sha256_hex b then Inl Not_Fail_Closed else Inr (archive_digest pkg))"
    using delivery_verdict_eq[OF p assms(3) assms(10)[rule_format, OF p] assms(11-15)] by simp
  with p show ?thesis by blast
qed

section \<open>The small repository\<close>

text \<open>An archive format that keeps the names only, and the clone with the bytes appended.\<close>

definition names_zip :: "zip_entry list \<Rightarrow> bytes" where
  "names_zip es = concat (map (\<lambda>n. n @ [CHR 0x00]) (map (\<lambda>e. map char_of (zip_name e)) es))"

definition zip_names :: "bytes \<Rightarrow> pystr list" where
  "zip_names b = map lit (butlast (split_on (CHR 0x00) b))"

definition demo_clone :: git where
  "demo_clone args =
     (if args = [lit ''git'', lit ''cat-file'', lit ''blob'', lit (replicate 40 CHR ''b'')]
      then Some (''hello'' @ MUTATION) else demo_git args)"

definition demo_tools :: "git \<Rightarrow> tools" where
  "demo_tools clone = \<lparr>encode_zip = names_zip, name_list = zip_names, traceback = (\<lambda>_. []),
     commit_append = (\<lambda>_ _ _. Some clone), commit_tree = (\<lambda>_. Some demo_git)\<rparr>"

lemma names_kept:
  assumes "\<forall>e \<in> set es. \<forall>c \<in> set (zip_name e). 0 < c \<and> c < 256"
  shows "zip_names (names_zip es) = map zip_name es"
proof -
  let ?ns = "map (\<lambda>e. map char_of (zip_name e)) es"
  have z: "char_of c \<noteq> CHR 0x00" if "0 < c" "c < 256" for c :: nat
  proof
    assume "char_of c = CHR 0x00"
    then have "of_char (char_of c) = (of_char CHR 0x00 :: nat)" by simp
    then show False using that by simp
  qed
  have "CHR 0x00 \<notin> set (map char_of (zip_name e))" if "e \<in> set es" for e
    using assms[rule_format, OF that] z by (metis imageE list.set_map)
  then have "\<forall>r \<in> set ?ns. CHR 0x00 \<notin> set r" by auto
  then have "split_on (CHR 0x00) (names_zip es) = ?ns @ [[]]"
    unfolding names_zip_def by (rule split_on_terminated)
  moreover have "lit (map char_of n) = n" if "\<forall>c \<in> set n. c < 256" for n :: pystr
    using that by (simp add: lit_def map_idI)
  ultimately show ?thesis using assms by (simp add: zip_names_def)
qed

lemma demo_names_kept:
  assumes "package_main demo_git (encode_zip (demo_tools clone)) Map.empty = Inr (pkg, out)"
  shows "name_list (demo_tools clone) (encode_zip (demo_tools clone) (archive_entries pkg))
     = map zip_name (archive_entries pkg)"
proof -
  obtain head where hd: "demo_git (map lit [''git'', ''rev-parse'', ''HEAD'']) = Some head"
    and e: "archive_entries pkg = map (package_entry (lit ''coupon-service-source-''
        @ take 12 (py_strip (lit head))) demo_git demo_tracked) (sort (map fst demo_tracked))"
    by (rule package_main_Inr[OF assms]) (use demo_read_index in auto)
  have h: "py_strip (lit head) = lit (replicate 40 CHR ''d'')" using hd head_text(2) demo_runs(3) by simp
  have "\<forall>k \<in> set (map fst demo_tracked). \<forall>c \<in> set k. 0 < c \<and> c < 256"
    by (simp add: demo_tracked_eq CHECKSUM_NAME_def lit_def)
  moreover have "\<forall>c \<in> set (lit ''coupon-service-source-'' @ take 12 (lit (replicate 40 CHR ''d''))). 0 < c \<and> c < 256"
    by (auto simp: lit_def dest!: in_set_takeD)
  ultimately show ?thesis
    unfolding demo_tools_def tools.select_convs e h
    by (intro names_kept) (auto simp: package_entry_def)
qed

lemma demo_hygienic:
  "\<forall>path \<in> fst ` set demo_tracked. \<not> ends_with ''CODEX_PROMPT.md'' path \<and> \<not> ends_with ''.zip'' path"
  unfolding demo_keys CHECKSUM_NAME_def ends_with_def ball_simps suffix_to_prefix by (simp add: lit_def)

lemma demo_packaged: "\<exists>pkg out. package_main demo_git (encode_zip (demo_tools clone)) Map.empty = Inr (pkg, out)"
  by (rule packages[OF demo_git_def demo_read_index demo_verified])

lemma demo_readme: "README \<in> fst ` set demo_tracked" "blob_of demo_git demo_tracked README = Some ''hello''"
  by (simp_all add: README_def demo_keys demo_blob_of)

lemma demo_appended: "appended demo_git demo_tracked README MUTATION demo_clone"
proof -
  have c: "demo_clone args = demo_git args"
    if "args \<noteq> [lit ''git'', lit ''cat-file'', lit ''blob'', lit (replicate 40 CHR ''b'')]" for args
    using that by (simp add: demo_clone_def)
  have "tracked_entries demo_clone = Inr demo_tracked"
    using demo_read_index by (simp add: tracked_entries_def run_def c)
  moreover have "blob_of demo_clone demo_tracked p =
      (if p = README then map_option (\<lambda>b. b @ MUTATION) (blob_of demo_git demo_tracked p)
       else blob_of demo_git demo_tracked p)" if "p \<in> fst ` set demo_tracked" for p
    using that demo_names unfolding demo_keys README_def
    by (auto simp: blob_of_def demo_tracked_eq demo_clone_def demo_git_def git_with_blobs)
  ultimately show ?thesis
    unfolding appended_def using demo_runs strip_true head_text(1,3)
    by (intro exI[of _ "''true''"] exI[of _ "replicate 40 CHR ''d''"]
        exI[of _ "lit (replicate 40 CHR ''d'')"] exI[of _ demo_tracked]) (simp add: c)
qed

lemma export_hygiene_witness:
  "\<exists>pkg out. package_main demo_git names_zip Map.empty = Inr (pkg, out)
     \<and> assert_archive_hygiene (demo_tools demo_clone) (names_zip (archive_entries pkg)) = Inr ()"
proof -
  obtain pkg out where p: "package_main demo_git (encode_zip (demo_tools demo_clone)) Map.empty = Inr (pkg, out)"
    using demo_packaged by blast
  then show ?thesis
    using export_hygiene[OF p demo_read_index demo_names_kept[OF p]] demo_hygienic
    by (auto simp: demo_tools_def)
qed

lemma delivery_verdict_witness:
  "\<exists>pkg out. package_main demo_git names_zip Map.empty = Inr (pkg, out)
     \<and> delivery_check (demo_tools demo_clone) demo_git =
       (if sha256_hex (''hello'' @ MUTATION) = sha256_hex ''hello'' then Inl Not_Fail_Closed
        else Inr (archive_digest pkg))"
proof -
  obtain pkg out where p: "package_main demo_git (encode_zip (demo_tools demo_clone)) Map.empty = Inr (pkg, out)"
    using demo_packaged by blast
  have "delivery_check (demo_tools demo_clone) demo_git =
       (if sha256_hex (''hello'' @ MUTATION) = sha256_hex ''hello'' then Inl Not_Fail_Closed
        else Inr (archive_digest pkg))"
    by (rule delivery_verdict[OF p demo_read_index demo_names_kept[OF p] demo_hygienic demo_readme
        _ demo_appended]) (simp add: demo_tools_def)
  then show ?thesis using p by (auto simp: demo_tools_def)
qed

text \<open>A clone whose manifest is stale, so that its export is refused.\<close>

lemma stale_fails_closed: "fails_closed tools stale_git"
proof -
  have "tracked_entries stale_git = tracked_entries demo_git"
    unfolding tracked_entries_def run_def stale_git_def demo_git_def git_with_runs(2) ..
  moreover have "verify_source stale_git demo_tracked = Inl (Stale_Checksum (lit ''mvnw''))"
    using demo_names wrong_digest(1)
    by (simp add: verify_source_matched[OF demo_distinct stale_matches] stale_paths_def demo_sorted
        stale_entries_def stale_blobs)
  ultimately have "package_main stale_git (encode_zip tools) Map.empty = Inl (Stale_Checksum (lit ''mvnw''))"
    using git_with_runs[of demo_index "the (print_manifest stale_entries)", folded stale_git_def]
      strip_true head_text(1,3) demo_read_index
    by (simp add: package_main_def run_def guard_py_def)
  then show ?thesis by (simp add: fails_closed_def mentions_stale_def)
qed

lemma demo_delivered: "\<exists>sha. delivery_check (demo_tools stale_git) demo_git = Inr sha"
proof -
  obtain pkg out where p: "package_main demo_git (encode_zip (demo_tools stale_git)) Map.empty = Inr (pkg, out)"
    using demo_packaged by blast
  have "assert_archive_hygiene (demo_tools stale_git)
      (encode_zip (demo_tools stale_git) (archive_entries pkg)) = Inr ()"
    using archive_clean_iff[OF p demo_read_index] demo_hygienic
    by (simp add: hygiene_Inr_iff demo_names_kept[OF p])
  moreover have "run_export (demo_tools stale_git) demo_git
      = Inr (encode_zip (demo_tools stale_git) (archive_entries pkg), archive_digest pkg)"
    by (simp add: run_export_eq p)
  moreover have "commit_append (demo_tools stale_git) demo_git README MUTATION = Some stale_git"
    by (simp add: demo_tools_def)
  ultimately show ?thesis using stale_fails_closed[of "demo_tools stale_git"] demo_runs(1)
    by (simp add: delivery_check_def command_def)
qed

lemma delivery_accepted_witness:
  "\<exists>sha pkg out t e. delivery_check (demo_tools stale_git) demo_git = Inr sha \<and> sha = archive_digest pkg
     \<and> package_main demo_git names_zip Map.empty = Inr (pkg, out)
     \<and> tracked_entries demo_git = Inr t \<and> source_verified demo_git t
     \<and> package_main stale_git names_zip Map.empty = Inl e \<and> mentions_stale (demo_tools stale_git) e"
proof -
  obtain sha where s: "delivery_check (demo_tools stale_git) demo_git = Inr sha" using demo_delivered by blast
  show ?thesis using delivery_accepted[OF s] s by (auto simp: demo_tools_def)
qed

lemma demo_commit: "generated_commit demo_fs demo_fs' demo_git demo_tracked"
  unfolding generated_commit_def
proof (intro conjI demo_ok demo_generated demo_tracks demo_not_forbidden demo_no_break)
  show "\<forall>p. path_ok p \<longrightarrow> as_posix p \<in> fst ` set demo_tracked \<longrightarrow> path_name p = CHECKSUM_NAME \<longrightarrow> p = OUTPUT"
    by (rule demo_only_manifest)
qed (auto simp: demo_keys demo_included demo_posix)

lemma candidate_accepted_witness:
  "\<exists>pkg out. package_main demo_git (encode_zip (demo_tools demo_clone)) Map.empty = Inr (pkg, out)
    \<and> candidate_delivery_check (demo_tools demo_clone) demo_fs =
      (if sha256_hex (''hello'' @ MUTATION) = sha256_hex ''hello'' then Inl Not_Fail_Closed
       else Inr (archive_digest pkg))"
proof -
  have tree: "candidate_tree demo_fs = demo_fs"
    by (simp add: candidate_tree_def demo_fs_def rel_demo ignored_name_def ends_with_def
        suffix_to_prefix lit_def)
  have c: "length (py_strip (lit (replicate 40 CHR ''d''))) = 40"
    "list_all is_hex_lower (py_strip (lit (replicate 40 CHR ''d'')))"
    unfolding head_text(2) by (simp_all add: list_all_iff lit_def is_hex_lower_def)
  have gc: "generated_commit (candidate_tree demo_fs) demo_fs' demo_git demo_tracked"
    unfolding tree by (rule demo_commit)
  have tools: "commit_tree (demo_tools demo_clone) demo_fs' = Some demo_git"
    "commit_append (demo_tools demo_clone) demo_git README MUTATION = Some demo_clone"
    by (simp_all add: demo_tools_def)
  have names: "\<forall>pkg out. package_main demo_git (encode_zip (demo_tools demo_clone)) Map.empty = Inr (pkg, out) \<longrightarrow>
      name_list (demo_tools demo_clone) (encode_zip (demo_tools demo_clone) (archive_entries pkg))
        = map zip_name (archive_entries pkg)"
    using demo_names_kept by blast
  show ?thesis
    by (rule candidate_accepted[OF gc tools(1) demo_read_index demo_runs(4) strip_true demo_runs(3)
        head_text(1) c names demo_hygienic demo_readme tools(2) demo_appended])
qed

end
