(* ===== verification/Check_Redemption.thy ===== *)
theory Check_Redemption
  imports Checks
begin

text \<open>
  \<open>scripts/check_emp004.py\<close> and \<open>scripts/check_emp004_refinement.py\<close>: the contract of the
  transactional redemption in source and tests, and the contract of its refinement, whose
  obligations depend on whether it is a draft or accepted.
\<close>

section \<open>The implementation contract\<close>

definition EMP004_REQUIRED :: "(string \<times> pystr list) list" where
  "EMP004_REQUIRED =
    [(''src/main/resources/db/migration/V2__enforce_redemption_user_id.sql'',
      map lit [''ck_coupon_redemptions_user_id_visible_ascii'', ''^[!-~]{1,128}$'']),
     (''src/main/java/pl/radoslawpiatek/couponservice/coupon/application/RedeemCouponService.java'',
      map lit [''findSnapshot'', ''clientIpResolver.resolve'', ''geoLocationResolver.resolve'',
      ''transaction.redeem'']),
     (''src/main/java/pl/radoslawpiatek/couponservice/coupon/application/TransactionalCouponRedemptionService.java'',
      map lit [''@Transactional'', ''Isolation.READ_COMMITTED'', ''findForUpdate'',
      ''incrementIfCapacity'']),
     (''src/main/java/pl/radoslawpiatek/couponservice/coupon/adapters/persistence/JdbcCouponRedemptionRepository.java'',
      map lit [''FOR UPDATE'', ''uq_coupon_redemptions_coupon_user'', ''current_uses < max_uses'',
      ''RETURNING current_uses'']),
     (''src/main/java/pl/radoslawpiatek/couponservice/coupon/adapters/web/RedeemCouponRequest.java'',
      map lit [''^[!-~]{1,128}$'']),
     (''src/test/java/pl/radoslawpiatek/couponservice/coupon/domain/UserIdTest.java'',
      map lit [''auth0|123'', ''tenant/user+external'', ''customer@example.com'', ''urn:customer:123'',
      ''customer-A'', ''customer-a'']),
     (''src/test/java/pl/radoslawpiatek/couponservice/coupon/application/RedeemCouponServiceTest.java'',
      map lit [''InOrder'', ''notFoundStopsBeforeClientIpGeoIpAndTransaction'',
      ''geoIpFailureStopsBeforeTransaction'', ''wrongCountryStopsBeforeTransaction'']),
     (''src/test/java/pl/radoslawpiatek/couponservice/coupon/adapters/web/CouponRedemptionApiIT.java'',
      map lit [''COUPON_ALREADY_REDEEMED'', ''COUPON_EXHAUSTED'',
      ''sameUserConcurrentRetriesProduceExactlyOneSuccessAndNineteenConflicts'',
      ''twoDifferentUsersCompeteForTheLastSlotWithExactOutcomes'',
      ''rowLockOnOneCouponDoesNotGloballySerializeAnotherCoupon'', ''CountDownLatch'',
      ''FOR UPDATE'', ''shutdownNow'']),
     (''src/test/java/pl/radoslawpiatek/couponservice/coupon/adapters/web/CouponRedemptionErrorApiIT.java'',
      map lit [''COUNTRY_NOT_ALLOWED'', ''GEOLOCATION_UNAVAILABLE'', ''MockBean'', ''assertInvariant'']),
     (''src/test/java/pl/radoslawpiatek/couponservice/coupon/adapters/web/CouponRedemptionRollbackIT.java'',
      map lit [''fail_redemption_insert_test'', ''fail_coupon_update_test'',
      ''uq_test_redemption_country'', ''INTERNAL_ERROR'', ''dropTestObjects'']),
     (''docs/api/openapi.yaml'',
      map lit [''operationId: redeemCoupon'', ''COUPON_ALREADY_REDEEMED'', ''^[!-~]{1,128}$''])]"

definition sleep_errors :: "fs \<Rightarrow> path \<Rightarrow> contract_result" where
  "sleep_errors fs p = bind_py (read_text fs p) (\<lambda>text.
     Inr (flag (contains (lit ''Thread.sleep'') text) (Broken_File (lit ''forbidden Thread.sleep in'') p)))"

definition emp004_main :: "fs \<Rightarrow> contract_result" where
  "emp004_main fs = seqs_py
     [each_py (\<lambda>(name, tokens). require_file fs (rel name) tokens) EMP004_REQUIRED,
      Inr (flag (prompt_files fs \<noteq> []) (Broken (lit ''forbidden CODEX_PROMPT.md''))),
      each_py (sleep_errors fs) (files_below ''src/test/java'' ''.java'' fs)]"

section \<open>The refinement contract\<close>

definition REFINEMENT_004 :: path where
  "REFINEMENT_004 = rel ''docs/project/refinements/EMP-004.md''"

definition FILES_004 :: "path list" where
  "FILES_004 = [REFINEMENT_004, rel ''docs/project/refinements/EMP-004-summary.md'',
     rel ''docs/project/refinements/EMP-004-review-checklist.md'']"

definition draft_errors_004 :: "pystr \<Rightarrow> pystr \<Rightarrow> check_error list" where
  "draft_errors_004 allowed text =
     flag (allowed \<noteq> (lit ''NO'')) (Broken (lit ''DRAFT EMP-004 must not allow implementation''))
     @ lacks (lit ''DRAFT EMP-004'')
     ([lit ''Zaakceptowa'' @ [322] @ lit '': brak'', lit ''Data-Akceptacji: brak'',
      lit ''Scope-Frozen: NO'', lit ''Review-Result: READY_FOR_OWNER_REVIEW'',
      lit ''V1 sprawdza dla `user_id` wy'' @ [322, 261] @ lit ''cznie niepusto'' @ [347, 263],
      lit ''Do czasu rozstrzygni'' @ [281] @ lit ''cia wszystkich pi'' @ [281] @ lit ''ciu punkt'' @ [243] @ lit ''w'']) text"

definition accepted_errors_004 :: "pystr \<Rightarrow> pystr \<Rightarrow> check_error list" where
  "accepted_errors_004 allowed text =
     flag (allowed \<noteq> (lit ''YES'')) (Broken (lit ''ACCEPTED EMP-004 must allow implementation''))
     @ lacks (lit ''ACCEPTED EMP-004'')
     ([lit ''Scope-Frozen: YES'', lit ''Review-Result: PASS'',
      lit ''Zaakceptowa'' @ [322] @ lit '': Rados'' @ [322] @ lit ''aw Pi'' @ [261] @ lit ''tek'',
      lit ''### Blokuj'' @ [261] @ lit ''ce'' @ [10, 10] @ lit ''Brak.'',
      lit ''scalenie EMP-005 z EMP-004'',
      lit ''opaque, case-sensitive `userId` `^[!-~]{1,128}$`'',
      lit ''Bean Validation/OpenAPI enforcement'', lit ''PostgreSQL `CHECK` constraintem'',
      lit ''ponowienie z tym samym `coupon + userId` zwraca `409 COUPON_ALREADY_REDEEMED`'',
      lit ''not found '' @ [8594] @ lit '' GeoIP unavailable '' @ [8594] @ lit '' wrong country '' @ [8594] @ lit '' already redeemed '' @ [8594] @ lit '' exhausted'',
      lit ''`READ COMMITTED + SELECT FOR UPDATE`'',
      lit ''dok'' @ [322] @ lit ''adnie 10 odpowiedzi `201`'',
      lit ''rollback insertu i incrementu'']) text
     @ flag (\<not> matches_in acceptance_re text) (Broken (lit ''ACCEPTED EMP-004 lacks ISO acceptance date''))"

definition lifecycle_errors_004 :: "pystr \<Rightarrow> check_error list" where
  "lifecycle_errors_004 text =
     (case word_after ''Stan-Refinementu'' text of
        None \<Rightarrow> [Broken (lit ''EMP-004 refinement must be DRAFT or ACCEPTED'')]
      | Some state \<Rightarrow>
          if state \<notin> set (map lit [''DRAFT'', ''ACCEPTED''])
          then [Broken (lit ''EMP-004 refinement must be DRAFT or ACCEPTED'')]
          else (case word_after ''Implementation-Allowed'' text of
                  None \<Rightarrow> [Broken (lit ''EMP-004 refinement lacks Implementation-Allowed'')]
                | Some allowed \<Rightarrow>
                    if state = (lit ''DRAFT'') then draft_errors_004 allowed text
                    else accepted_errors_004 allowed text))"

definition validate_refinement_004 :: "fs \<Rightarrow> contract_result" where
  "validate_refinement_004 fs =
     seq_py
       (require_file fs REFINEMENT_004
         ([lit ''Task-ID: EMP-004'', lit ''Stan-Refinementu:'', lit ''Implementation-Allowed:'',
      lit ''POST /api/v1/coupons/{code}/redemptions'', lit ''^[!-~]{1,128}$'',
      lit ''nie jest trimowany ani normalizowany'', lit ''COUPON_NOT_FOUND'',
      lit ''COUNTRY_NOT_ALLOWED'', lit ''COUPON_ALREADY_REDEEMED'', lit ''COUPON_EXHAUSTED'',
      lit ''GEOLOCATION_UNAVAILABLE'', lit ''snapshot lookup'', lit ''Client IP i GeoIP'',
      lit ''osobny Spring bean'', lit ''READ COMMITTED'', lit ''SELECT ... FOR UPDATE'',
      lit ''country '' @ [8594] @ lit '' already redeemed '' @ [8594] @ lit '' exhausted'',
      lit ''uq_coupon_redemptions_coupon_user'', lit ''current_uses < max_uses'',
      lit ''current_uses == count(coupon_redemptions'',
      lit ''100 r'' @ [243] @ lit ''wnoleg'' @ [322] @ lit ''ych request'' @ [243] @ lit ''w'',
      lit ''dok'' @ [322] @ lit ''adnie 10 odpowiedzi `201`'',
      lit ''dok'' @ [322] @ lit ''adnie 19 odpowiedzi `409 COUPON_ALREADY_REDEEMED`'',
      lit ''Thread.sleep'', lit ''EMP004-AC-20'', lit ''Historia review i formalna akceptacja'',
      lit ''CODEX_PROMPT.md'']))
       (if is_file fs REFINEMENT_004
        then bind_py (read_text fs REFINEMENT_004) (\<lambda>text. Inr (lifecycle_errors_004 text))
        else Inr [])"

definition row_004 :: "string \<Rightarrow> pystr" where
  "row_004 status = lit (''| EMP-004 | EMP-001 | P0 | '' @ status @ '' | EMP-004 |'')"

definition later_004 :: "string list" where
  "later_004 = [''READY'', ''IN_PROGRESS'', ''DONE'', ''DONE_AND_VERIFIED'']"

definition state_errors_004 :: "pystr \<Rightarrow> pystr \<Rightarrow> pystr \<Rightarrow> check_error list" where
  "state_errors_004 backlog current refinement =
     flag (\<not> contains (row_004 ''REFINEMENT'') backlog \<and> \<not> any_in (map row_004 later_004) backlog)
       (Broken (lit ''EMP-004 backlog row must reference its own refinement''))
     @ (if contains (lit ''Stan-Refinementu: DRAFT'') refinement
        then lacks (lit ''current status missing draft EMP-004 token'')
          ([lit ''Active task:** `EMP-004 '' @ [8212] @ lit '' refinement`'',
      lit ''Implementation allowed:** `NO` dla `EMP-004`'', lit ''DRAFT_READY_FOR_OWNER_REVIEW'']) current
        else
          flag (\<not> any_in (map row_004 later_004) backlog) (Broken (lit ''accepted EMP-004 must be READY or later''))
          @ lacks (lit ''current status missing accepted EMP-004 token'')
          (map lit [''EMP-004 refinement:** `ACCEPTED`'', ''Implementation allowed:** `YES` dla `EMP-004`'',
      ''EMP-005:** `MERGED_INTO_EMP-004`'']) current
          @ flag (\<not> any_in (map (\<lambda>s. (lit ''Implementation EMP-004:** `'') @ lit s @ (lit ''`''))
                   [''NOT_STARTED'', ''IMPLEMENTED'', ''IN_PROGRESS'', ''DONE_AND_VERIFIED'']) current)
              (Broken (lit ''accepted EMP-004 must expose a supported implementation state''))
          @ flag (\<not> contains (lit ''| EMP-005 | EMP-004 | P1 | DONE | EMP-004 |'') backlog
                  \<or> \<not> contains (lit ''MERGED_INTO_EMP-004'') backlog)
              (Broken (lit ''EMP-005 must be documented as merged into EMP-004'')))"

definition validate_project_state_004 :: "fs \<Rightarrow> contract_result" where
  "validate_project_state_004 fs =
     bind_py (read_text fs (rel ''docs/project/backlog.md'')) (\<lambda>backlog.
     bind_py (read_text fs (rel ''docs/project/current-status.md'')) (\<lambda>current.
     bind_py (read_text fs REFINEMENT_004) (\<lambda>refinement.
       Inr (state_errors_004 backlog current refinement))))"

definition validate_no_premature_implementation :: "fs \<Rightarrow> contract_result" where
  "validate_no_premature_implementation fs =
     bind_py (read_text fs (rel ''docs/api/openapi.yaml'')) (\<lambda>openapi.
     bind_py (read_text fs (rel ''docs/project/current-status.md'')) (\<lambda>current.
     let implementation_not_started = contains (lit ''Implementation EMP-004:** `NOT_STARTED`'') current in
     bind_py (read_text fs (java_main ''coupon/adapters/web/CouponController.java'')) (\<lambda>controller.
     Inr (flag (implementation_not_started
                \<and> contains (lit ''/api/v1/coupons/{code}/redemptions'') openapi)
            (Broken (lit ''EMP-004 must not add redemption to canonical OpenAPI before implementation starts''))
          @ flag (implementation_not_started \<and> contains (lit ''redempt'') (lower_ascii controller))
            (Broken (lit ''EMP-004 must not implement redemption in CouponController before implementation starts''))))))"

definition emp004_refinement_main :: "fs \<Rightarrow> contract_result" where
  "emp004_refinement_main fs =
     (if missing_files fs FILES_004 \<noteq> [] then Inr (missing_files fs FILES_004)
      else seqs_py
        [validate_refinement_004 fs, validate_project_state_004 fs,
         validate_no_premature_implementation fs,
         Inr (flag (prompt_files fs \<noteq> []) (Broken (lit ''repository contains forbidden CODEX_PROMPT.md'')))])"

section \<open>The frame\<close>

lemma sleep_errors_frame [frame]:
  "same_source fs fs' \<Longrightarrow> p \<noteq> OUTPUT \<Longrightarrow> sleep_errors fs' p = sleep_errors fs p"
  by (simp add: sleep_errors_def frame)

interpretation emp004: static_gate emp004_main
proof
  fix fs fs' assume same: "same_source fs fs'"
  have "each_py (sleep_errors fs') (files_below ''src/test/java'' ''.java'' fs)
      = each_py (sleep_errors fs) (files_below ''src/test/java'' ''.java'' fs)"
    using below_not_output[of _ "''src/test/java''" "''.java''" fs]
    by (intro each_py_cong refl sleep_errors_frame[OF same]) (simp add: suffix_def)
  then show "emp004_main fs' = emp004_main fs"
    using same by (simp add: emp004_main_def EMP004_REQUIRED_def frame)
qed

interpretation emp004_refinement: static_gate emp004_refinement_main
  by unfold_locales
    (simp add: emp004_refinement_main_def validate_refinement_004_def validate_project_state_004_def
      validate_no_premature_implementation_def REFINEMENT_004_def java_main_def frame)

end
