(* ===== verification/Check_Bootstrap.thy ===== *)
theory Check_Bootstrap
  imports Checks
begin

text \<open>
  \<open>scripts/check_bootstrap.py\<close>: the bootstrap contract of the project, from the Maven model over
  the wrapper, the first migration and the container files to the recorded project state. The XML
  parser is a parameter; \<open>None\<close> is its \<open>ParseError\<close>. The loops over sets are in the sorted
  order in which the script reports them.
\<close>

definition BOOTSTRAP_FILES :: "path list" where
  "BOOTSTRAP_FILES = map rel
     [''pom.xml'', ''mvnw'', ''mvnw.cmd'', ''.mvn/wrapper/maven-wrapper.properties'',
      ''src/main/java/pl/radoslawpiatek/couponservice/CouponServiceApplication.java'',
      ''src/main/resources/application.yml'',
      ''src/main/resources/db/migration/V1__create_coupon_tables.sql'',
      ''src/test/java/pl/radoslawpiatek/couponservice/DatabaseMigrationIT.java'',
      ''Dockerfile'', ''.dockerignore'', ''docker-compose.yml'', ''scripts/docker_smoke.sh'']"

section \<open>The Maven model\<close>

type_synonym coordinate = "pystr \<times> pystr"

definition REQUIRED_DEPENDENCIES :: "coordinate list" where
  "REQUIRED_DEPENDENCIES = map (\<lambda>(g, a). (lit g, lit a))
     [(''org.flywaydb'', ''flyway-core''), (''org.flywaydb'', ''flyway-database-postgresql''),
      (''org.postgresql'', ''postgresql''),
      (''org.springframework.boot'', ''spring-boot-starter-actuator''),
      (''org.springframework.boot'', ''spring-boot-starter-jdbc''),
      (''org.springframework.boot'', ''spring-boot-starter-test''),
      (''org.springframework.boot'', ''spring-boot-starter-validation''),
      (''org.springframework.boot'', ''spring-boot-starter-web''),
      (''org.testcontainers'', ''testcontainers-junit-jupiter''),
      (''org.testcontainers'', ''testcontainers-postgresql'')]"

definition REQUIRED_PLUGINS :: "coordinate list" where
  "REQUIRED_PLUGINS = map (\<lambda>(g, a). (lit g, lit a))
     [(''org.apache.maven.plugins'', ''maven-enforcer-plugin''),
      (''org.apache.maven.plugins'', ''maven-failsafe-plugin''),
      (''org.springframework.boot'', ''spring-boot-maven-plugin'')]"

definition child_text :: "elem \<Rightarrow> string \<Rightarrow> pystr" where
  "child_text node name =
     (case find_path [mvn name] node of
        None \<Rightarrow> []
      | Some child \<Rightarrow> (case etext child of None \<Rightarrow> [] | Some t \<Rightarrow> py_strip t))"

definition coordinates :: "elem list \<Rightarrow> coordinate list" where
  "coordinates nodes = map (\<lambda>n. (child_text n ''groupId'', child_text n ''artifactId'')) nodes"

definition parent_errors :: "elem \<Rightarrow> check_error list" where
  "parent_errors pom =
     (case find_path [mvn ''parent''] pom of
        None \<Rightarrow> [Broken (lit ''pom.xml does not use spring-boot-starter-parent'')]
      | Some used \<Rightarrow>
          if child_text used ''artifactId'' \<noteq> (lit ''spring-boot-starter-parent'')
          then [Broken (lit ''pom.xml does not use spring-boot-starter-parent'')]
          else flag (child_text used ''version'' \<noteq> (lit ''3.5.16'')) (Broken (lit ''Spring Boot must be pinned to 3.5.16'')))"

definition property_is :: "elem \<Rightarrow> string \<Rightarrow> string \<Rightarrow> bool" where
  "property_is properties name value \<longleftrightarrow>
     (case find_path [mvn name] properties of None \<Rightarrow> False | Some e \<Rightarrow> etext e = Some (lit value))"

definition property_errors :: "elem \<Rightarrow> check_error list" where
  "property_errors pom =
     (case find_path [mvn ''properties''] pom of
        None \<Rightarrow> [Broken (lit ''pom.xml has no properties'')]
      | Some properties \<Rightarrow>
          require_that (property_is properties ''java.version'' ''21'') (lit ''java.version must be 21'')
          @ require_that (property_is properties ''maven.compiler.release'' ''21'')
              (lit ''maven.compiler.release must be 21'')
          @ require_that (property_is properties ''testcontainers.version'' ''2.0.5'')
              (lit ''Testcontainers must be pinned to 2.0.5''))"

definition missing_coordinates :: "pystr \<Rightarrow> coordinate list \<Rightarrow> coordinate list \<Rightarrow> check_error list" where
  "missing_coordinates label required present =
     map (\<lambda>(g, a). Lacks label (g @ [58] @ a)) (filter (\<lambda>d. d \<notin> set present) required)"

definition pom_model_errors :: "elem \<Rightarrow> check_error list" where
  "pom_model_errors pom =
     parent_errors pom @ property_errors pom
     @ missing_coordinates (lit ''missing Maven dependency'') REQUIRED_DEPENDENCIES
         (coordinates (findall_path (map mvn [''dependencies'', ''dependency'']) pom))
     @ missing_coordinates (lit ''missing Maven plugin'') REQUIRED_PLUGINS
         (coordinates (findall_path (map mvn [''build'', ''plugins'', ''plugin'']) pom))"

definition validate_pom :: "(bytes \<Rightarrow> elem option) \<Rightarrow> fs \<Rightarrow> contract_result" where
  "validate_pom parse_xml fs =
     bind_py (read_bytes fs (rel ''pom.xml'')) (\<lambda>data.
       case parse_xml data of
         None \<Rightarrow> Inr [Broken (lit ''pom.xml is not valid XML'')]
       | Some pom \<Rightarrow>
           seq_py (Inr (pom_model_errors pom))
             (bind_py (read_text fs (rel ''pom.xml'')) (\<lambda>pom_text.
                Inr (lacks (lit ''pom.xml is missing required build token'')
                  (map lit [''[21,22)'', ''[3.9.16,4.0.0)'', ''integration-test'', ''verify'']) pom_text))))"

section \<open>The wrapper\<close>

definition WRAPPER_TOKENS :: "pystr list" where
  "WRAPPER_TOKENS = map lit [''apache-maven/3.9.16/apache-maven-3.9.16-bin.zip'',
      ''distributionSha512Sum=ed41650d42485cfc243fad22158caf9cbb5dc408ce7a09ddb94dd42a019de929ca43065bfa450612cf12bf78b5cafa3884b96c090de326ff590448c933454af3'',
      ''wrapperVersion=3.3.4'']"

definition validate_wrapper :: "fs \<Rightarrow> contract_result" where
  "validate_wrapper fs =
     bind_py (read_text fs (rel ''.mvn/wrapper/maven-wrapper.properties'')) (\<lambda>properties.
     bind_py (read_text fs (rel ''mvnw'')) (\<lambda>script.
       Inr (lacks (lit ''Maven Wrapper properties'') WRAPPER_TOKENS properties
         @ flag (\<not> can_execute fs (rel ''mvnw'')) (Broken (lit ''mvnw is not executable''))
         @ require_that (contains (lit ''verify_sha512'') script \<and> contains (lit ''exec \"$MAVEN_BIN\" \"$@\"'') script)
             (lit ''mvnw does not enforce the pinned Maven distribution''))))"

section \<open>Migration and Java contract\<close>

definition V1_MIGRATION :: path where
  "V1_MIGRATION = rel ''src/main/resources/db/migration/V1__create_coupon_tables.sql''"

definition validate_migration :: "fs \<Rightarrow> contract_result" where
  "validate_migration fs = bind_py (read_text fs V1_MIGRATION) (\<lambda>sql.
     Inr (lacks (lit ''V1 migration missing invariant'')
       (map lit [''CREATE TABLE coupons'', ''CREATE TABLE coupon_redemptions'',
      ''UNIQUE (normalized_code)'', ''UNIQUE (coupon_id, user_id)'',
      ''normalized_code = upper(code)'', ''current_uses >= 0 AND current_uses <= max_uses'',
      ''FOREIGN KEY (coupon_id)'', ''resolved_country_code'']) sql
     @ forbids (lit ''V1 migration persists a forbidden raw IP field/type'')
       (map lit [''ip_address'', ''client_ip'', '' INET'', '' inet'']) sql))"

definition validate_java_contract :: "fs \<Rightarrow> contract_result" where
  "validate_java_contract fs =
     bind_py (read_text fs (java_main ''CouponServiceApplication.java'')) (\<lambda>app.
     bind_py (read_text fs (java_test ''DatabaseMigrationIT.java'')) (\<lambda>test.
       Inr (require_that (contains (lit ''@SpringBootApplication'') app \<and> contains (lit ''SpringApplication.run'') app)
              (lit ''CouponServiceApplication is not a valid Spring Boot entry point'')
         @ lacks (lit ''DatabaseMigrationIT'')
         (map lit [''@Testcontainers'', ''PostgreSQLContainer'', ''postgres:18.4-alpine'',
      ''org.testcontainers.postgresql.PostgreSQLContainer'', ''@DynamicPropertySource'',
      ''flywayCreatesTheCouponSchemaOnPostgreSql'',
      ''databaseEnforcesCaseInsensitiveCanonicalCodeUniqueness'',
      ''databaseRejectsAnInconsistentCanonicalCode'',
      ''databaseRejectsUsageCountAboveTheCouponLimit'']) test
         @ flag (contains (lit ''org.testcontainers.containers.PostgreSQLContainer'') test)
             (Broken (lit ''DatabaseMigrationIT uses the removed Testcontainers 1.x PostgreSQL package'')))))"

section \<open>Containers\<close>

definition base_image_re :: "string \<Rightarrow> string \<Rightarrow> regex" where
  "base_image_re kind stage = Cat [LineStart, Lit (lit (''FROM eclipse-temurin:21-'' @ kind @ ''-jammy'')),
     Opt (Cat [Lit (lit ''@sha256:''), Times 64 (Cls is_hex_lower)]), Lit (lit ('' AS '' @ stage)), LineEnd]"

definition dockerfile_errors :: "pystr \<Rightarrow> check_error list" where
  "dockerfile_errors dockerfile =
     flag (\<not> matches_in (base_image_re ''jdk'' ''build'') dockerfile)
       (Lacks (lit ''Dockerfile missing compatible base-image contract'') (lit ''build''))
     @ flag (\<not> matches_in (base_image_re ''jre'' ''runtime'') dockerfile)
       (Lacks (lit ''Dockerfile missing compatible base-image contract'') (lit ''runtime''))
     @ lacks (lit ''Dockerfile'')
       (map lit [''--mount=type=cache,target=/root/.m2,sharing=locked'',
      ''./mvnw -B -ntp -DskipTests package'', ''USER 10001:10001'', ''HEALTHCHECK'',
      ''/actuator/health'', ''ENTRYPOINT'']) dockerfile
     @ flag (contains (lit ''dependency:go-offline'') dockerfile)
       (Broken (lit ''Dockerfile must not use dependency:go-offline in the image build''))"

definition smoke_errors :: "pystr \<Rightarrow> check_error list" where
  "smoke_errors smoke =
     lacks (lit ''docker_smoke.sh'')
       (map lit [''APP_PORT=\"${APP_PORT:-0}\"'',
      ''COMPOSE_PROJECT_NAME=\"${COMPOSE_PROJECT_NAME:-coupon-service-verify-$$}\"'',
      ''--wait-timeout 180'',
      ''compose -p \"$COMPOSE_PROJECT_NAME\" -f docker-compose.yml port app 8080'',
      ''base_url=\"http://127.0.0.1:${smoke_port}\"'', ''/actuator/health'',
      ''down --volumes --remove-orphans'', ''trap cleanup EXIT'']) smoke
     @ flag (contains (lit ''18080'') smoke) (Broken (lit ''docker_smoke.sh must not reserve a fixed host port''))
     @ flag (contains (lit ''docker stop'') smoke \<or> contains (lit ''docker rm'') smoke)
       (Broken (lit ''docker_smoke.sh must clean up only through its own Compose project''))"

definition validate_container_contract :: "fs \<Rightarrow> contract_result" where
  "validate_container_contract fs = seqs_py
     [read_then fs ''Dockerfile'' dockerfile_errors,
      read_then fs ''.dockerignore'' (lacks (lit ''.dockerignore'')
        (map lit [''**'', ''!pom.xml'', ''!mvnw'', ''!src/**''])),
      read_then fs ''docker-compose.yml'' (lacks (lit ''docker-compose.yml'')
        (map lit [''postgres:18.4-alpine'', ''condition: service_healthy'',
      ''DATABASE_URL: jdbc:postgresql://postgres:5432/coupon_service'',
      ''127.0.0.1:${APP_PORT:-8080}:8080'', ''coupon-postgres-data''])),
      read_then fs ''Makefile'' (lacks (lit ''Makefile'')
        (map lit [''DOCKER ?= /Applications/Docker.app/Contents/Resources/bin/docker'',
      ''\"$(DOCKER)\" compose'', ''compose-config:'', ''docker-build:'', ''docker-up:'',
      ''docker-down:'', ''docker-smoke:''])),
      read_then fs ''scripts/docker_smoke.sh'' smoke_errors,
      read_then fs ''verify.sh'' (\<lambda>verify.
        lacks (lit ''verify.sh'') (map lit [''APP_PORT=0'', ''COMPOSE_PROJECT_NAME=\"coupon-service-verify-$$\"'']) verify
        @ flag (contains (lit ''APP_PORT=18080'') verify) (Broken (lit ''verify.sh must not reserve host port 18080'')))]"

section \<open>Runtime configuration, project state, the run\<close>

definition validate_runtime_configuration :: "fs \<Rightarrow> contract_result" where
  "validate_runtime_configuration fs =
     read_then fs ''src/main/resources/application.yml'' (lacks (lit ''application.yml'')
       (map lit [''${DATABASE_URL:'', ''${DATABASE_USERNAME:'', ''${DATABASE_PASSWORD:'',
      ''validate-migration-naming: true'', ''shutdown: graceful'', ''include: health,info'']))"

definition validate_bootstrap_state :: "fs \<Rightarrow> contract_result" where
  "validate_bootstrap_state fs = seq_py
     (read_then fs ''docs/project/backlog.md'' (\<lambda>backlog.
        flag (\<not> contains (lit ''| EMP-002 | EMP-001 | P0 | DONE_AND_VERIFIED |'') backlog)
          (Broken (lit ''EMP-002 must be DONE_AND_VERIFIED after local runtime verification passes''))))
     (read_then fs ''docs/project/current-status.md'' (lacks (lit ''current status'')
        (map lit [''BOOTSTRAP_DONE_AND_VERIFIED'', ''LOCAL_DOCKER_GATE_PASS'', ''EMP-002''])))"

definition bootstrap_main :: "(bytes \<Rightarrow> elem option) \<Rightarrow> fs \<Rightarrow> contract_result" where
  "bootstrap_main parse_xml fs =
     (if missing_files fs BOOTSTRAP_FILES \<noteq> [] then Inr (missing_files fs BOOTSTRAP_FILES)
      else seqs_py
        [validate_pom parse_xml fs, validate_wrapper fs, validate_migration fs,
         validate_java_contract fs, validate_container_contract fs,
         validate_runtime_configuration fs, validate_bootstrap_state fs])"

section \<open>The frame\<close>

lemma validate_pom_frame [frame]:
  "same_source fs fs' \<Longrightarrow> validate_pom parse_xml fs' = validate_pom parse_xml fs"
  by (simp add: validate_pom_def frame cong: option.case_cong)

lemma validate_wrapper_frame [frame]: "same_source fs fs' \<Longrightarrow> validate_wrapper fs' = validate_wrapper fs"
  by (simp add: validate_wrapper_def frame)

lemma validate_container_frame [frame]:
  "same_source fs fs' \<Longrightarrow> validate_container_contract fs' = validate_container_contract fs"
  by (simp add: validate_container_contract_def frame)

interpretation bootstrap: static_gate "bootstrap_main parse_xml"
  by unfold_locales
    (simp add: bootstrap_main_def validate_migration_def validate_java_contract_def V1_MIGRATION_def
      validate_runtime_configuration_def validate_bootstrap_state_def java_main_def java_test_def frame)

end
