(* ===== verification/Check_Create.thy ===== *)
theory Check_Create
  imports Checks
begin

text \<open>
  \<open>scripts/check_emp003.py\<close>: the contract of the coupon creation, in the Java sources, the tests,
  the API document and the recorded project state.
\<close>

definition EMP003_FILES :: "path list" where
  "EMP003_FILES =
     map rel [''docs/project/refinements/EMP-003.md'', ''docs/project/refinements/EMP-003-summary.md'',
       ''docs/project/refinements/EMP-003-review-checklist.md'', ''docs/api/openapi.yaml'']
     @ map java_main
       [''coupon/domain/CouponCode.java'', ''coupon/domain/CountryCode.java'', ''coupon/domain/Coupon.java'',
        ''coupon/domain/InvalidCouponValueException.java'', ''coupon/domain/CouponCodeConflictException.java'',
        ''coupon/application/CreateCouponCommand.java'', ''coupon/application/CreateCouponUseCase.java'',
        ''coupon/application/CreateCouponService.java'', ''coupon/ports/CouponRepository.java'',
        ''coupon/ports/UuidGenerator.java'', ''coupon/adapters/persistence/JdbcCouponRepository.java'',
        ''coupon/adapters/web/CreateCouponRequest.java'', ''coupon/adapters/web/CouponResponse.java'',
        ''coupon/adapters/web/CouponController.java'', ''coupon/adapters/web/ApiExceptionHandler.java'',
        ''configuration/CoreConfiguration.java'']
     @ map java_test
       [''coupon/domain/CouponCodeTest.java'', ''coupon/domain/CountryCodeTest.java'',
        ''coupon/application/CreateCouponServiceTest.java'', ''coupon/adapters/web/CreateCouponApiIT.java'']"

definition validate_refinement_003 :: "fs \<Rightarrow> contract_result" where
  "validate_refinement_003 fs =
     require_tokens fs (rel ''docs/project/refinements/EMP-003.md'')
       ([lit ''Task-ID: EMP-003'', lit ''Stan-Refinementu: ACCEPTED'',
      lit ''Implementation-Allowed: YES'', lit ''Scope-Frozen: YES'',
      lit ''### Blokuj'' @ [261] @ lit ''ce'' @ [10, 10] @ lit ''Brak.'', lit ''EMP003-AC-06'',
      lit ''make verify''])"

definition spring_import_re :: regex where
  "spring_import_re = Cat [LineStart, Lit (lit ''import org.springframework.'')]"

definition domain_import_errors :: "fs \<Rightarrow> path \<Rightarrow> contract_result" where
  "domain_import_errors fs p = bind_py (read_text fs p) (\<lambda>text.
     Inr (flag (matches_in spring_import_re text) (Broken_File (lit ''domain imports Spring'') p)))"

definition domain_sources :: "fs \<Rightarrow> path list" where
  "domain_sources fs =
     sort (files_in ''src/main/java/pl/radoslawpiatek/couponservice/coupon/domain'' ''.java'' fs)"

definition validate_domain_boundaries :: "fs \<Rightarrow> contract_result" where
  "validate_domain_boundaries fs = seqs_py
     [each_py (domain_import_errors fs) (domain_sources fs),
      require_tokens fs (java_main ''coupon/domain/CouponCode.java'')
        (map lit [''trim()'', ''toUpperCase(Locale.ROOT)'', ''[A-Za-z0-9_-]{3,64}'']),
      require_tokens fs (java_main ''coupon/domain/CountryCode.java'')
        (map lit [''Locale.getISOCountries()'', ''toUpperCase(Locale.ROOT)'']),
      require_tokens fs (java_main ''coupon/domain/Coupon.java'')
        (map lit [''currentUses'', ''1_000_000'',
      ''return new Coupon(id, code, createdAt, maxUses, 0, countryCode)''])]"

definition validate_application_and_persistence :: "fs \<Rightarrow> contract_result" where
  "validate_application_and_persistence fs = seq_py
     (require_tokens fs (java_main ''coupon/application/CreateCouponService.java'')
        (map lit [''@Transactional'', ''UuidGenerator'', ''Clock'', ''couponRepository.insert(coupon)'']))
     (bind_py (read_text fs (java_main ''coupon/adapters/persistence/JdbcCouponRepository.java'')) (\<lambda>text.
        Inr (lacks (lit ''JdbcCouponRepository'')
          (map lit [''INSERT INTO coupons'', '':normalizedCode'', ''POSTGRES_UNIQUE_VIOLATION = \"23505\"'',
      ''CouponCodeConflictException'', ''.param(\"code\"'']) text
        @ forbids (lit ''JdbcCouponRepository contains forbidden preflight/dynamic SQL token'')
          (map lit [''existsByCode'', ''SELECT COUNT'', ''SELECT 1'', ''String.format('']) text)))"

definition validate_api :: "fs \<Rightarrow> contract_result" where
  "validate_api fs = seq_py
     (require_tokens fs (java_main ''coupon/adapters/web/CouponController.java'')
        (map lit [''@RequestMapping(\"/api/v1/coupons\")'', ''@PostMapping'',
      ''@ResponseStatus(HttpStatus.CREATED)'', ''@Valid @RequestBody'']))
     (require_tokens fs (java_main ''coupon/adapters/web/ApiExceptionHandler.java'')
        (map lit [''MediaType.APPLICATION_PROBLEM_JSON'', ''\"INVALID_REQUEST\"'',
      ''\"COUPON_CODE_CONFLICT\"'', ''\"INTERNAL_ERROR\"'',
      ''\"urn:problem:coupon-code-conflict\"'']))"

definition CREATE_API_TEST :: path where
  "CREATE_API_TEST = java_test ''coupon/adapters/web/CreateCouponApiIT.java''"

definition validate_tests_003 :: "fs \<Rightarrow> contract_result" where
  "validate_tests_003 fs = seq_py
     (require_tokens fs CREATE_API_TEST
        (map lit [''@Testcontainers'', ''org.testcontainers.postgresql.PostgreSQLContainer'',
      ''postgres:18.4-alpine'', ''concurrentCaseVariantsProduceExactlyOneCreatedCoupon'',
      ''CountDownLatch'', ''Executors.newFixedThreadPool'', ''CONCURRENT_ATTEMPTS - 1'',
      ''assertThat(result.created()).isEqualTo(1)'', ''assertThat(persisted).isEqualTo(1L)'',
      ''executor.shutdownNow()'']))
     (bind_py (read_text fs CREATE_API_TEST) (\<lambda>text.
        Inr (flag (contains (lit ''Thread.sleep'') text)
          (Broken (lit ''CreateCouponApiIT must not synchronize with Thread.sleep'')))))"

definition validate_openapi_003 :: "fs \<Rightarrow> contract_result" where
  "validate_openapi_003 fs =
     require_tokens fs (rel ''docs/api/openapi.yaml'')
       (map lit [''openapi: 3.1.0'', ''/api/v1/coupons:'', ''operationId: createCoupon'',
      ''CreateCouponRequest'', ''CouponResponse'', ''application/problem+json'',
      ''COUPON_CODE_CONFLICT''])"

section \<open>The project state\<close>

definition candidate_row_003 :: pystr where
  "candidate_row_003 = (lit ''| EMP-003 | EMP-001 | P0 | IN_PROGRESS | EMP-003 |'')"

definition verified_row_003 :: pystr where
  "verified_row_003 = (lit ''| EMP-003 | EMP-001 | P0 | DONE_AND_VERIFIED | EMP-003 |'')"

definition verified_readme_groups :: "(pystr \<times> pystr list) list" where
  "verified_readme_groups =
     [((lit ''EMP-003 verified status''),
       [lit ''EMP-003:** `DONE_AND_VERIFIED`'',
      lit ''EMP-000'' @ [8211] @ lit ''EMP-003:** `DONE_AND_VERIFIED`'']),
      ((lit ''create endpoint''), map lit [''POST /api/v1/coupons'']),
      ((lit ''verified scope heading''), map lit [''Zweryfikowany zakres EMP-003''])]"

definition verified_errors_003 :: "pystr \<Rightarrow> pystr \<Rightarrow> check_error list" where
  "verified_errors_003 readme audit =
     map (\<lambda>(label, alternatives).
        Lacks ((lit ''README missing EMP-003 verified public-status evidence '') @ label)
          (join_with (lit '' or '') alternatives))
       (filter (\<lambda>(label, alternatives). \<not> any_in alternatives readme) verified_readme_groups)
     @ flag (\<not> contains
         ((lit ''EMP-003 zosta'' @ [322] @ lit '' zamkni'' @ [281] @ lit ''ty jako `DONE_AND_VERIFIED` dopiero po pe'' @ [322] @ lit ''nym lokalnym `make verify`, '')
          @ (lit ''runtime HTTP i exact-count concurrency test.'')) audit)
       (Broken (lit ''AUDIT missing EMP-003 verified evidence''))"

definition validate_project_state_003 :: "fs \<Rightarrow> contract_result" where
  "validate_project_state_003 fs =
     bind_py (read_text fs (rel ''docs/project/backlog.md'')) (\<lambda>backlog.
     bind_py (read_text fs (rel ''docs/project/current-status.md'')) (\<lambda>status.
       if contains candidate_row_003 backlog
       then Inr (lacks (lit ''current status missing EMP-003 candidate token'')
         (map lit [''CREATE_COUPON_CANDIDATE'', ''CREATE_COUPON_IMPLEMENTED_PENDING_LOCAL_GATE'',
      ''PENDING_LOCAL_DOCKER_GATE'']) status)
       else if contains verified_row_003 backlog
       then bind_py (read_text fs (rel ''README.md'')) (\<lambda>readme.
            bind_py (read_text fs (rel ''AUDIT.md'')) (\<lambda>audit.
              Inr (lacks (lit ''current status missing EMP-003 verified token'')
                (map lit [''CREATE_COUPON_DONE_AND_VERIFIED'', ''LOCAL_EMP003_GATE_PASS'']) status
                @ verified_errors_003 readme audit)))
       else Inr [Broken (lit ''EMP-003 must be IN_PROGRESS or DONE_AND_VERIFIED with its own refinement'')]))"

definition emp003_main :: "fs \<Rightarrow> contract_result" where
  "emp003_main fs =
     (if missing_files fs EMP003_FILES \<noteq> [] then Inr (missing_files fs EMP003_FILES)
      else seqs_py
        [validate_refinement_003 fs, validate_domain_boundaries fs,
         validate_application_and_persistence fs, validate_api fs, validate_tests_003 fs,
         validate_openapi_003 fs, validate_project_state_003 fs])"

section \<open>The frame\<close>

lemma domain_sources_frame [frame]: "same_source fs fs' \<Longrightarrow> domain_sources fs' = domain_sources fs"
  by (simp add: domain_sources_def frame)

lemma domain_boundaries_frame [frame]:
  assumes same: "same_source fs fs'"
  shows "validate_domain_boundaries fs' = validate_domain_boundaries fs"
proof -
  have "domain_import_errors fs' p = domain_import_errors fs p" if "p \<in> set (domain_sources fs)" for p
  proof -
    have "p \<noteq> OUTPUT" using that in_not_output[of p _ "''.java''" fs] by (auto simp: domain_sources_def suffix_def)
    then show ?thesis using same by (simp add: domain_import_errors_def frame)
  qed
  then have "each_py (domain_import_errors fs') (domain_sources fs) = each_py (domain_import_errors fs) (domain_sources fs)"
    by (intro each_py_cong) simp_all
  then show ?thesis using same by (simp add: validate_domain_boundaries_def java_main_def frame)
qed

lemma project_state_003_frame [frame]:
  "same_source fs fs' \<Longrightarrow> validate_project_state_003 fs' = validate_project_state_003 fs"
  by (simp add: validate_project_state_003_def frame cong: if_cong)

interpretation emp003: static_gate emp003_main
  by unfold_locales
    (simp add: emp003_main_def validate_refinement_003_def validate_application_and_persistence_def
      validate_api_def validate_tests_003_def validate_openapi_003_def CREATE_API_TEST_def java_main_def
      java_test_def frame)

end
