(* ===== verification/Check_Geolocation.thy ===== *)
theory Check_Geolocation
  imports Checks
begin

text \<open>
  \<open>scripts/check_emp006.py\<close> and \<open>scripts/check_emp006_refinement.py\<close>: the contract of the client
  address and geolocation code, and the contract of its refinement.
\<close>

section \<open>The implementation contract\<close>

definition geo_main :: "string \<Rightarrow> path" where
  "geo_main s = java_main (''geolocation/'' @ s)"

definition geo_test :: "string \<Rightarrow> path" where
  "geo_test s = java_test (''geolocation/'' @ s)"

definition EMP006_REQUIRED :: "(path \<times> pystr list) list" where
  "EMP006_REQUIRED =
    [(geo_main ''domain/ClientIpAddress.java'',
      map lit [''parseLiteral'', ''InetAddress.getByName'', ''never resolves host names'']),
     (geo_main ''ports/ClientIpResolver.java'', map lit [''HttpServletRequest'', ''ClientIpResolutionException'']),
     (geo_main ''ports/GeoLocationResolver.java'',
      map lit [''GeolocationUnavailableException'', ''CountryCode'']),
     (geo_main ''adapters/ServletClientIpResolver.java'',
      map lit [''request.getHeaders(\"Forwarded\")'', ''request.getHeaders(\"X-Forwarded-For\")'',
      ''forwarded.size() > 1 || xForwardedFor.size() > 1'', ''properties.maxHeaderLength()'',
      ''properties.maxForwardedHops()'', ''properties.mode() == ClientIpProperties.Mode.DIRECT'']),
     (geo_main ''adapters/ForwardedHeaderParser.java'',
      map lit [''value.startsWith(\"[\")'', ''validPort'', ''maximumHops'']),
     (geo_main ''adapters/CidrBlock.java'', map lit [''prefixLength'', ''candidate.length != network.length'']),
     (geo_main ''adapters/PublicIpAddressPolicy.java'',
      map lit [''100.64.0.0/10'', ''2001:db8::/32'', ''fc00::/7'']),
     (geo_main ''adapters/IpWhoisGeoLocationResolver.java'',
      map lit [''HttpClient'', ''HttpResponse.BodyHandlers.ofInputStream()'', ''Accept-Encoding'',
      ''maximumResponseBodyBytes + 1'', ''Content-Length'', ''GeolocationUnavailableException'',
      ''fields=success,country_code,message'']),
     (geo_main ''configuration/GeolocationConfiguration.java'',
      map lit [''HttpClient.Redirect.NEVER'', ''profile.equals(\"local\") || profile.equals(\"test\")'',
      ''StubGeoLocationResolver'']),
     (rel ''src/main/resources/application.yml'',
      map lit [''client-ip:'', ''mode: direct'', ''maximum-response-body-bytes: 16384'']),
     (rel ''src/main/resources/application-local.yml'', map lit [''provider: stub'', ''stub-country: PL'']),
     (geo_test ''adapters/ServletClientIpResolverTest.java'',
      map lit [''failsClosedForMultiplePhysicalHeaderLinesBeforePrecedence'',
      ''directModeIgnoresSpoofedForwardingHeaders'',
      ''supportsBracketedIpv6WithValidatedPortInForwarded'',
      ''forwardedWinsOverConflictingXffAndNeverFallsBackAfterError'']),
     (geo_test ''adapters/IpWhoisGeoLocationResolverTest.java'',
      map lit [''WireMockServer'', ''redirectDoesNotFollowLocationAndMakesExactlyOneRequest'',
      ''rejectsOversizedDeclaredAndStreamingBodiesWithoutLeakage'',
      ''acceptsExactlySixteenKiBBeforeJsonParsing'',
      ''responseTimeoutDoesNotRetryOrRevealAddress'']),
     (geo_test ''configuration/GeolocationConfigurationTest.java'',
      map lit [''stubRequiresLocalOrTestProfile'', ''ipwhoisStartsWithoutPerformingAProviderRequest'']),
     (rel ''scripts/docker_smoke.sh'',
      map lit [''APP_PORT=\"${APP_PORT:-0}\"'',
      ''COMPOSE_PROJECT_NAME=\"${COMPOSE_PROJECT_NAME:-coupon-service-verify-$$}\"'',
      ''compose -p \"$COMPOSE_PROJECT_NAME\" -f docker-compose.yml port app 8080'',
      ''base_url=\"http://127.0.0.1:${smoke_port}\"'', ''trap cleanup EXIT'',
      ''down --volumes --remove-orphans''])]"

definition started_004 :: "pystr list" where
  "started_004 = map (\<lambda>s. (lit ''Implementation EMP-004:** `'') @ lit s @ (lit ''`''))
     [''IMPLEMENTED'', ''IN_PROGRESS'', ''DONE_AND_VERIFIED'']"

definition smoke_text_errors :: "pystr \<Rightarrow> check_error list" where
  "smoke_text_errors smoke =
     flag (contains (lit ''18080'') smoke) (Broken (lit ''Docker smoke must not reserve a fixed port''))
     @ flag (contains (lit ''docker stop'') smoke \<or> contains (lit ''docker rm'') smoke)
       (Broken (lit ''Docker smoke must clean up only its own Compose project''))"

definition smoke_text :: "fs \<Rightarrow> pyexc + pystr" where
  "smoke_text fs = (if is_file fs (rel ''scripts/docker_smoke.sh'')
     then read_text fs (rel ''scripts/docker_smoke.sh'') else Inr [])"

text \<open>Python reads \<open>a or b or c and not d\<close> as \<open>a or b or (c and not d)\<close>.\<close>

definition private_text :: "pystr \<Rightarrow> bool" where
  "private_text text \<longleftrightarrow> \<not> (contains (lit ''Logger'') text \<or> contains (lit ''MDC'') text
     \<or> contains (lit ''raw IP'') text \<and> \<not> contains (lit ''Javadoc'') text)"

definition privacy_errors :: "fs \<Rightarrow> path \<Rightarrow> contract_result" where
  "privacy_errors fs p = bind_py (read_text fs p) (\<lambda>text.
     Inr (flag (\<not> private_text text) (Broken_File (lit ''privacy review required for geolocation source'') p)))"

definition geolocation_sources :: "fs \<Rightarrow> path list" where
  "geolocation_sources fs =
     files_below ''src/main/java/pl/radoslawpiatek/couponservice/geolocation'' ''.java'' fs"

definition openapi_errors_006 :: "fs \<Rightarrow> pystr \<Rightarrow> contract_result" where
  "openapi_errors_006 fs message =
     bind_py (read_text fs (rel ''docs/api/openapi.yaml'')) (\<lambda>openapi.
     bind_py (read_text fs (rel ''docs/project/current-status.md'')) (\<lambda>current_status.
       Inr (flag (contains (lit ''/api/v1/coupons/{code}/redemptions'') openapi
                  \<and> \<not> any_in started_004 current_status) (Broken message))))"

definition emp006_main :: "fs \<Rightarrow> contract_result" where
  "emp006_main fs = seqs_py
     [each_py (\<lambda>(p, tokens). require_file fs p tokens) EMP006_REQUIRED,
      bind_py (smoke_text fs) (\<lambda>smoke. Inr (smoke_text_errors smoke)),
      bind_py (read_text fs (rel ''docker-compose.yml'')) (\<lambda>compose.
        Inr (flag (\<not> contains (lit ''127.0.0.1:${APP_PORT:-8080}:8080'') compose)
          (Broken (lit ''docker-compose.yml must bind the application port to loopback'')))),
      bind_py (read_text fs (rel ''pom.xml'')) (\<lambda>pom.
        Inr (lacks (lit ''pom.xml missing EMP-006 dependency token'')
          (map lit [''<wiremock.version>3.13.2</wiremock.version>'',
      ''<artifactId>wiremock-standalone</artifactId>'']) pom)),
      openapi_errors_006 fs (lit ''EMP-006 must not add redemption before EMP-004 implementation starts''),
      Inr (flag (prompt_files fs \<noteq> []) (Broken (lit ''repository contains forbidden CODEX_PROMPT.md''))),
      each_py (privacy_errors fs) (geolocation_sources fs)]"

section \<open>The refinement contract\<close>

definition REFINEMENT_006 :: path where
  "REFINEMENT_006 = rel ''docs/project/refinements/EMP-006.md''"

definition FILES_006 :: "path list" where
  "FILES_006 = [REFINEMENT_006, rel ''docs/project/refinements/EMP-006-summary.md'',
     rel ''docs/project/refinements/EMP-006-review-checklist.md'']"

definition draft_errors_006 :: "pystr \<Rightarrow> pystr \<Rightarrow> check_error list" where
  "draft_errors_006 allowed text =
     flag (allowed \<noteq> (lit ''NO'')) (Broken (lit ''DRAFT EMP-006 must not allow implementation''))
     @ lacks (lit ''DRAFT EMP-006'')
     ([lit ''Zaakceptowa'' @ [322] @ lit '': brak'', lit ''Data-Akceptacji: brak'',
      lit ''Review-Result: READY_FOR_OWNER_REVIEW'',
      lit ''### Blokuj'' @ [261] @ lit ''ce do akceptacji'']) text"

definition accepted_errors_006 :: "pystr \<Rightarrow> pystr \<Rightarrow> check_error list" where
  "accepted_errors_006 allowed text =
     flag (allowed \<noteq> (lit ''YES'')) (Broken (lit ''ACCEPTED EMP-006 must allow implementation''))
     @ lacks (lit ''ACCEPTED EMP-006'')
     ([lit ''Scope-Frozen: YES'', lit ''Review-Result: PASS'',
      lit ''### Blokuj'' @ [261] @ lit ''ce'' @ [10, 10] @ lit ''Brak.'',
      lit ''Zaakceptowa'' @ [322] @ lit '': Rados'' @ [322] @ lit ''aw Pi'' @ [261] @ lit ''tek'',
      lit ''ipwho.is jest wymiennym adapterem demonstracyjnym'',
      lit ''Wsp'' @ [243] @ lit ''lny publiczny b'' @ [322, 261] @ lit ''d 503'',
      lit ''nie dodaje cache, retry ani fallbacku providera'',
      lit ''B'' @ [322, 281] @ lit ''dny `Forwarded` failuje bez fallbacku do XFF'',
      lit ''Stub kraju `PL` dzia'' @ [322] @ lit ''a wy'' @ [322, 261] @ lit ''cznie w profilach `local` i `test`'',
      lit ''Pierwszy review otrzyma'' @ [322] @ lit '' `REJECT`'', lit ''security amendment'']) text
     @ flag (\<not> matches_in acceptance_re text) (Broken (lit ''ACCEPTED EMP-006 lacks an ISO acceptance date''))"

definition lifecycle_errors_006 :: "pystr \<Rightarrow> check_error list" where
  "lifecycle_errors_006 text =
     (case word_after ''Stan-Refinementu'' text of
        None \<Rightarrow> [Broken (lit ''EMP-006 refinement must be DRAFT or ACCEPTED'')]
      | Some state \<Rightarrow>
          if state \<notin> set (map lit [''DRAFT'', ''ACCEPTED''])
          then [Broken (lit ''EMP-006 refinement must be DRAFT or ACCEPTED'')]
          else (case word_after ''Implementation-Allowed'' text of
                  None \<Rightarrow> [Broken (lit ''EMP-006 refinement lacks Implementation-Allowed'')]
                | Some allowed \<Rightarrow>
                    if state = (lit ''DRAFT'') then draft_errors_006 allowed text
                    else accepted_errors_006 allowed text))"

definition validate_refinement_006 :: "fs \<Rightarrow> contract_result" where
  "validate_refinement_006 fs =
     bind_py (read_text fs REFINEMENT_006) (\<lambda>text.
       seq_py
         (require_tokens fs REFINEMENT_006
           ([lit ''Task-ID: EMP-006'', lit ''Stan-Refinementu:'', lit ''Implementation-Allowed:'',
      lit ''Scope-Frozen:'', lit ''ClientIpResolver'', lit ''GeoLocationResolver'',
      lit ''request.getRemoteAddr()'', lit ''request.getHeaders'',
      lit ''wi'' @ [281] @ lit ''cej ni'' @ [380] @ lit '' jedna fizyczna warto'' @ [347, 263],
      lit ''Forwarded'', lit ''X-Forwarded-For'', lit ''Pierwszy adres spoza zaufanych CIDR'',
      lit ''max-forwarded-hops: 20'', lit ''max-header-length: 4096'', lit ''16 384'',
      lit ''Content-Length'', lit ''16 385'',
      lit ''automatyczne redirecty s'' @ [261] @ lit '' wy'' @ [322, 261] @ lit ''czone'',
      lit ''300'' @ [8211] @ lit ''399'', lit ''bracketed IPv6'', lit ''IPv4 z portem'',
      lit ''boundary proxy'', lit ''https://ipwho.is'', lit ''connect-timeout: 500ms'',
      lit ''response-timeout: 1s'', lit ''GEOLOCATION_UNAVAILABLE'',
      lit ''raw IP nie jest utrwalany'', lit ''EMP006-AC-16'', lit ''EMP006-AC-21'',
      lit ''CODEX_PROMPT.md'']))
         (Inr (lifecycle_errors_006 text)))"

definition row_006 :: "string \<Rightarrow> pystr" where
  "row_006 status = lit (''| EMP-006 | EMP-001 | P0 | '' @ status @ '' | EMP-006 |'')"

definition state_errors_006 :: "pystr \<Rightarrow> pystr \<Rightarrow> pystr \<Rightarrow> check_error list" where
  "state_errors_006 backlog current refinement =
     flag (\<not> contains (lit ''| EMP-006 | EMP-001 | P0 |'') backlog \<or> \<not> contains (lit ''| EMP-006 |'') backlog)
       (Broken (lit ''backlog does not contain EMP-006''))
     @ flag (\<not> any_in (map row_006 [''REFINEMENT'', ''READY'', ''IN_PROGRESS'', ''DONE'', ''DONE_AND_VERIFIED'']) backlog)
       (Broken (lit ''EMP-006 backlog row must reference its own refinement''))
     @ (if contains (lit ''Stan-Refinementu: DRAFT'') refinement
        then
          flag (\<not> contains (lit ''| EMP-004 | EMP-001 | P0 | BLOCKED |'') backlog)
            (Broken (lit ''EMP-004 must remain blocked during EMP-006 refinement''))
          @ lacks (lit ''current status missing draft EMP-006 token'')
            (map lit [''Active task:** `EMP-006`'', ''Implementation allowed:** `NO`'',
      ''DRAFT_READY_FOR_OWNER_REVIEW'']) current
        else
          flag (\<not> any_in (map row_006 [''READY'', ''IN_PROGRESS'', ''DONE'', ''DONE_AND_VERIFIED'']) backlog)
            (Broken (lit ''accepted EMP-006 must be READY or in a later allowed state''))
          @ lacks (lit ''current status missing accepted EMP-006 token'')
            (map lit [''EMP-006 refinement:** `ACCEPTED`'', ''Implementation allowed EMP-006:** `YES`'']) current
          @ flag (\<not> any_in (map (\<lambda>s. (lit ''Implementation EMP-006:** `'') @ lit s @ (lit ''`''))
                   [''NOT_STARTED'', ''IN_PROGRESS'', ''DONE_AND_VERIFIED'']) current)
              (Broken (lit ''current status lacks an allowed EMP-006 implementation state'')))"

definition validate_project_state_006 :: "fs \<Rightarrow> contract_result" where
  "validate_project_state_006 fs =
     bind_py (read_text fs (rel ''docs/project/backlog.md'')) (\<lambda>backlog.
     bind_py (read_text fs (rel ''docs/project/current-status.md'')) (\<lambda>current.
     bind_py (read_text fs REFINEMENT_006) (\<lambda>refinement.
       Inr (state_errors_006 backlog current refinement))))"

definition ip_column_re :: regex where
  "ip_column_re = Cat [WordEdge, any_case ''ip_address'', WordEdge]"

definition validate_security_contract :: "fs \<Rightarrow> contract_result" where
  "validate_security_contract fs = seqs_py
     [bind_py (read_text fs REFINEMENT_006) (\<lambda>text.
        Inr (forbids (lit ''EMP-006 refinement contains forbidden claim'')
          ([lit ''publiczny nag'' @ [322, 243] @ lit ''wek pozwalaj'' @ [261] @ lit ''cy wymusi'' @ [263] @ lit '' kraj jest w zakresie'',
      lit ''raw IP jest przechowywany'',
      lit ''adapter automatycznie fallbackuje do drugiego publicznego dostawcy'',
      lit ''adapter automatycznie ponawia request w '' @ [347] @ lit ''cie'' @ [380] @ lit ''ce requestu'']) text)),
      openapi_errors_006 fs (lit ''OpenAPI may describe redemption only after EMP-004 implementation starts''),
      bind_py (read_text fs (rel ''src/main/resources/db/migration/V1__create_coupon_tables.sql'')) (\<lambda>migration.
        Inr (flag (matches_in ip_column_re migration) (Broken (lit ''database schema must not persist raw IP''))))]"

definition prompt_errors :: "fs \<Rightarrow> check_error list" where
  "prompt_errors fs =
     map (Broken_File (lit ''forbidden Codex prompt file in repository'')) (sort (prompt_files fs))"

definition emp006_refinement_main :: "fs \<Rightarrow> contract_result" where
  "emp006_refinement_main fs =
     (if missing_files fs FILES_006 \<noteq> [] then Inr (missing_files fs FILES_006)
      else seqs_py
        [validate_refinement_006 fs, validate_project_state_006 fs, validate_security_contract fs,
         Inr (prompt_errors fs)])"

section \<open>The frame\<close>

lemma privacy_frame [frame]:
  "same_source fs fs' \<Longrightarrow> each_py (privacy_errors fs') (geolocation_sources fs') = each_py (privacy_errors fs) (geolocation_sources fs)"
proof (rule each_py_cong)
  assume same: "same_source fs fs'"
  then show "geolocation_sources fs' = geolocation_sources fs" by (simp add: geolocation_sources_def frame)
  fix p assume "p \<in> set (geolocation_sources fs)"
  then have "p \<noteq> OUTPUT" using below_not_output[of p _ "''.java''" fs] by (auto simp: geolocation_sources_def suffix_def)
  then show "privacy_errors fs' p = privacy_errors fs p" using same by (simp add: privacy_errors_def frame)
qed

lemma openapi_006_frame [frame]: "same_source fs fs' \<Longrightarrow> openapi_errors_006 fs' m = openapi_errors_006 fs m"
  by (simp add: openapi_errors_006_def frame)

lemma smoke_text_frame [frame]: "same_source fs fs' \<Longrightarrow> smoke_text fs' = smoke_text fs"
  by (simp add: smoke_text_def frame)

lemma required_006_frame [frame]:
  "same_source fs fs' \<Longrightarrow> each_py (\<lambda>(p, tokens). require_file fs' p tokens) EMP006_REQUIRED
     = each_py (\<lambda>(p, tokens). require_file fs p tokens) EMP006_REQUIRED"
  by (simp add: EMP006_REQUIRED_def geo_main_def geo_test_def java_main_def java_test_def frame)

interpretation emp006: static_gate emp006_main
  by unfold_locales (simp add: emp006_main_def frame)

interpretation emp006_refinement: static_gate emp006_refinement_main
  by unfold_locales
    (simp add: emp006_refinement_main_def validate_refinement_006_def validate_project_state_006_def
      validate_security_contract_def prompt_errors_def REFINEMENT_006_def frame)

end
