(* ===== verification/Check_Openapi.thy ===== *)
theory Check_Openapi
  imports Checks
begin

text \<open>
  \<open>scripts/check_emp007.py\<close>: the contract of the API document, the Swagger wiring and the Javadoc.
\<close>

definition EMP007_FILES :: "path list" where
  "EMP007_FILES = map rel
     [''docs/project/refinements/EMP-007.md'', ''docs/project/refinements/EMP-007-summary.md'',
      ''docs/project/refinements/EMP-007-review-checklist.md'', ''docs/api/openapi.yaml'',
      ''src/test/java/pl/radoslawpiatek/couponservice/OpenApiDocumentationIT.java'']"

definition validate_refinement_007 :: "fs \<Rightarrow> contract_result" where
  "validate_refinement_007 fs =
     require_tokens fs (rel ''docs/project/refinements/EMP-007.md'')
       ([lit ''Task-ID: EMP-007'', lit ''Stan-Refinementu: ACCEPTED'',
      lit ''Implementation-Allowed: YES'', lit ''Scope-Frozen: YES'',
      lit ''### Blokuj'' @ [261] @ lit ''ce'' @ [10, 10] @ lit ''Brak.'', lit ''EMP007-AC-14'',
      lit ''make verify''])"

definition implementation_started :: "pystr \<Rightarrow> bool" where
  "implementation_started status_text = any_in (map (\<lambda>s. (lit ''Implementation EMP-004:** `'') @ lit s @ (lit ''`''))
     [''IMPLEMENTED'', ''IN_PROGRESS'', ''DONE_AND_VERIFIED'']) status_text"

definition validate_openapi_007 :: "fs \<Rightarrow> contract_result" where
  "validate_openapi_007 fs = seq_py
     (require_tokens fs (rel ''docs/api/openapi.yaml'')
       (map lit [''openapi: 3.1.0'', ''/api/v1/coupons:'', ''operationId: createCoupon'',
      ''polishSpringCampaign:'', ''application/problem+json'', ''COUPON_CODE_CONFLICT'']))
     (bind_py (read_text fs (rel ''docs/api/openapi.yaml'')) (\<lambda>openapi.
      bind_py (read_text fs (rel ''docs/project/current-status.md'')) (\<lambda>status_text.
        Inr (flag (contains (lit ''/api/v1/coupons/{code}/redemptions'') openapi
                   \<and> \<not> implementation_started status_text)
          (Broken (lit ''OpenAPI must not describe redemption before EMP-004 implementation starts''))))))"

definition validate_runtime_wiring :: "fs \<Rightarrow> contract_result" where
  "validate_runtime_wiring fs = seqs_py
     [bind_py (read_text fs (rel ''pom.xml'')) (\<lambda>pom. Inr (lacks (lit ''pom.xml missing EMP-007 token'')
        (map lit [''<springdoc-openapi.version>2.9.0</springdoc-openapi.version>'',
      ''<artifactId>springdoc-openapi-starter-webmvc-ui</artifactId>'',
      ''<maven-javadoc-plugin.version>3.12.0</maven-javadoc-plugin.version>'',
      ''<artifactId>maven-javadoc-plugin</artifactId>'', ''<doclint>all</doclint>'',
      ''<directory>docs/api</directory>'', ''<targetPath>static</targetPath>'']) pom)),
      require_tokens fs (rel ''src/main/resources/application.yml'')
        (map lit [''springdoc:'', ''path: /swagger-ui'', ''url: /openapi.yaml'',
      ''disable-swagger-default-url: true'', ''try-it-out-enabled: true'']),
      require_tokens fs (rel ''.dockerignore'') (map lit [''!docs/api/openapi.yaml'']),
      require_tokens fs (rel ''Dockerfile'') (map lit [''COPY docs/api/openapi.yaml docs/api/openapi.yaml''])]"

definition public_contracts :: "path list" where
  "public_contracts = map java_main
     [''coupon/domain/CouponCode.java'', ''coupon/domain/CountryCode.java'', ''coupon/domain/Coupon.java'',
      ''coupon/application/CreateCouponCommand.java'', ''coupon/application/CreateCouponUseCase.java'',
      ''coupon/ports/CouponRepository.java'', ''coupon/ports/UuidGenerator.java'',
      ''coupon/adapters/web/CreateCouponRequest.java'', ''coupon/adapters/web/CouponResponse.java'',
      ''coupon/adapters/web/CouponController.java'']"

definition javadoc_errors :: "fs \<Rightarrow> path \<Rightarrow> contract_result" where
  "javadoc_errors fs p = bind_py (read_text fs p) (\<lambda>text.
     Inr (flag (\<not> contains (lit ''/**'') text) (Broken_File (lit ''public contract lacks Javadoc'') p)))"

definition validate_javadocs :: "fs \<Rightarrow> contract_result" where
  "validate_javadocs fs = seqs_py
     [each_py (javadoc_errors fs) public_contracts,
      require_tokens fs (java_main ''coupon/application/CreateCouponUseCase.java'')
        (map lit [''@param command'', ''@return'', ''@throws'']),
      require_tokens fs (java_main ''coupon/domain/CouponCode.java'')
        (map lit [''canonical'', ''@param rawValue'', ''@return''])]"

definition validate_tests_007 :: "fs \<Rightarrow> contract_result" where
  "validate_tests_007 fs =
     require_tokens fs (java_test ''OpenApiDocumentationIT.java'')
       (map lit [''@Testcontainers'', ''postgres:18.4-alpine'', ''getForEntity(\"/openapi.yaml\"'',
      ''getForEntity(\"/swagger-ui/index.html\"'', ''\"/v3/api-docs/swagger-config\"'',
      ''containsEntry(\"url\", \"/openapi.yaml\")'', ''contains(\"operationId: redeemCoupon\")''])"

section \<open>The project state\<close>

definition verified_007 :: "pystr \<Rightarrow> bool" where
  "verified_007 backlog = contains (lit ''| EMP-007 | EMP-001 | P0 | DONE_AND_VERIFIED | EMP-007 |'') backlog"

definition candidate_007 :: "pystr \<Rightarrow> bool" where
  "candidate_007 backlog = contains (lit ''| EMP-007 | EMP-001 | P0 | IN_PROGRESS | EMP-007 |'') backlog"

definition governed_rows_004 :: "pystr list" where
  "governed_rows_004 = map lit [''| EMP-004 | EMP-001 | P0 | BLOCKED | EMP-001 |'',
      ''| EMP-004 | EMP-001 | P0 | REFINEMENT | EMP-004 |'',
      ''| EMP-004 | EMP-001 | P0 | READY | EMP-004 |'',
      ''| EMP-004 | EMP-001 | P0 | IN_PROGRESS | EMP-004 |'',
      ''| EMP-004 | EMP-001 | P0 | DONE_AND_VERIFIED | EMP-004 |'']"

definition valid_emp006_states :: "pystr list" where
  "valid_emp006_states = map lit [''| EMP-006 | EMP-001 | P0 | REFINEMENT | EMP-006 |'',
      ''| EMP-006 | EMP-001 | P0 | READY | EMP-006 |'',
      ''| EMP-006 | EMP-001 | P0 | IN_PROGRESS | EMP-006 |'',
      ''| EMP-006 | EMP-001 | P0 | DONE_AND_VERIFIED | EMP-006 |'']"

definition required_status_007 :: "bool \<Rightarrow> pystr list" where
  "required_status_007 candidate =
     (if candidate then map lit [''OPENAPI_DOCUMENTATION_CANDIDATE'', ''PENDING_LOCAL_EMP007_GATE'']
      else map lit [''OPENAPI_DOCUMENTATION_DONE_AND_VERIFIED'', ''LOCAL_EMP007_GATE_PASS'',
      ''Javadoc/DocLint policy:** `ACTIVE_AND_VERIFIED`''])"

definition required_readme_007 :: "bool \<Rightarrow> pystr list" where
  "required_readme_007 candidate =
     (if candidate then map lit [''0.0.8-emp-007-candidate'']
      else map lit [''EMP-007:** `DONE_AND_VERIFIED`'', ''OpenAPI/Swagger UI:** `DONE_AND_VERIFIED`''])"

definition release_errors_007 :: "fs \<Rightarrow> bool \<Rightarrow> contract_result" where
  "release_errors_007 fs candidate =
     (if candidate then Inr []
      else bind_py (read_text fs (rel ''docs/project/release-history.md'')) (\<lambda>release_history.
        Inr (lacks (lit ''release history missing verified EMP-007 evidence'')
          (map lit [''0.0.9-emp-007-verified'', ''OpenApiDocumentationIT'', ''DocLint'', ''/openapi.yaml'']) release_history)))"

definition validate_project_state_007 :: "fs \<Rightarrow> contract_result" where
  "validate_project_state_007 fs =
     bind_py (read_text fs (rel ''docs/project/backlog.md'')) (\<lambda>backlog.
     bind_py (read_text fs (rel ''docs/project/current-status.md'')) (\<lambda>status.
     bind_py (read_text fs (rel ''README.md'')) (\<lambda>readme.
       let candidate = candidate_007 backlog; verified = verified_007 backlog
       in seqs_py
         [Inr (flag (\<not> any_in governed_rows_004 backlog)
                (Broken (lit ''backlog must keep EMP-004 in a governance-recognized state''))
             @ flag (\<not> (candidate \<or> verified))
                (Broken (lit ''backlog must expose EMP-007 candidate or verified state''))),
          release_errors_007 fs candidate,
          Inr (lacks (lit ''current status missing EMP-007 state token'') (required_status_007 candidate) status
             @ lacks (lit ''README missing EMP-007 state token'') (required_readme_007 candidate) readme
             @ flag (verified \<and> \<not> any_in valid_emp006_states backlog)
                (Broken (lit ''verified EMP-007 requires EMP-006 to reference its own refinement'')))])))"

definition prompt_errors_007 :: "fs \<Rightarrow> check_error list" where
  "prompt_errors_007 fs =
     map (Broken_File (lit ''forbidden Codex prompt file in repository'')) (sort (prompt_files fs))"

definition emp007_main :: "fs \<Rightarrow> contract_result" where
  "emp007_main fs =
     (if missing_files fs EMP007_FILES \<noteq> [] then Inr (missing_files fs EMP007_FILES)
      else seqs_py
        [validate_refinement_007 fs, validate_openapi_007 fs, validate_runtime_wiring fs,
         validate_javadocs fs, validate_tests_007 fs, validate_project_state_007 fs,
         Inr (prompt_errors_007 fs)])"

section \<open>The frame\<close>

lemma public_contracts_frame [frame]:
  "same_source fs fs' \<Longrightarrow> each_py (javadoc_errors fs') public_contracts = each_py (javadoc_errors fs) public_contracts"
  by (simp add: public_contracts_def javadoc_errors_def java_main_def frame)

lemma release_errors_007_frame [frame]: "same_source fs fs' \<Longrightarrow> release_errors_007 fs' c = release_errors_007 fs c"
  by (simp add: release_errors_007_def frame)

lemma project_state_007_frame [frame]:
  "same_source fs fs' \<Longrightarrow> validate_project_state_007 fs' = validate_project_state_007 fs"
  by (simp add: validate_project_state_007_def frame)

interpretation emp007: static_gate emp007_main
  by unfold_locales
    (simp add: emp007_main_def validate_refinement_007_def validate_openapi_007_def validate_runtime_wiring_def
      validate_javadocs_def validate_tests_007_def prompt_errors_007_def java_main_def java_test_def frame)

end
