(* ===== verification/Check_Quality.thy ===== *)
theory Check_Quality
  imports Checks
begin

text \<open>
  \<open>scripts/check_emp008_refinement.py\<close>, \<open>scripts/check_emp009.py\<close> and
  \<open>scripts/check_emp009_refinement.py\<close>: the refinement of the coverage work, the evidence of the
  concurrency tests, and its refinement. The second script cuts single test methods out of the
  Java source and looks for its evidence inside them.
\<close>

section \<open>The coverage refinement\<close>

definition EMP008_FILES :: "(string \<times> pystr list) list" where
  "EMP008_FILES =
    [(''docs/project/refinements/EMP-008.md'',
      [lit ''Task-ID: EMP-008'', lit ''Stan-Refinementu:'', lit ''Implementation-Allowed:'',
      lit ''Coverage-Evidence:'', lit ''Javadoc-Warning-Baseline: 42'',
      lit ''JaCoCo-Version: 0.8.15'', lit ''LINE >= 80%'', lit ''BRANCH >= 70%'',
      lit ''LINE >=75%'', lit ''BRANCH >=65%'', lit ''Surefire'', lit ''Failsafe'',
      lit ''argLine'', lit ''target/site/jacoco/index.html'',
      lit ''target/site/jacoco/jacoco.xml'', lit ''coupon domain'', lit ''coupon application'',
      lit ''coupon persistence'', lit ''Client IP / GeoIP security-sensitive logic'',
      lit ''Testcontainers'', lit ''WireMock'',
      lit ''Na pocz'' @ [261] @ lit ''tku nie ma '' @ [380] @ lit ''adnych exclusions'',
      lit ''make verify'', lit ''manual'', lit ''missed branches'', lit ''new warnings = 0'',
      lit ''<=5'', lit ''OUT_OF_SCOPE'', lit ''EMP008-AC-01'', lit ''EMP008-AC-23'',
      lit ''CODEX_PROMPT.md'']),
     (''docs/project/refinements/EMP-008-summary.md'', map lit [''ACCEPTED'', ''42'']),
     (''docs/project/refinements/EMP-008-review-checklist.md'',
      map lit [''ACCEPTED'', ''Implementation-Allowed: YES'', ''OUT_OF_SCOPE''])]"

definition text_or_empty :: "fs \<Rightarrow> path \<Rightarrow> pyexc + pystr" where
  "text_or_empty fs p = (if is_file fs p then read_text fs p else Inr [])"

definition state_errors_008 :: "pystr \<Rightarrow> check_error list" where
  "state_errors_008 refinement =
     (let state = word_after ''Stan-Refinementu'' refinement;
          allowed = word_after ''Implementation-Allowed'' refinement
      in if state \<notin> set (map (\<lambda>s. Some (lit s)) [''DRAFT'', ''ACCEPTED''])
         then [Broken (lit ''EMP-008 refinement must be DRAFT or ACCEPTED'')]
         else if state = Some (lit ''DRAFT'') \<and> allowed \<noteq> Some (lit ''NO'')
         then [Broken (lit ''DRAFT EMP-008 must retain Implementation-Allowed: NO'')]
         else flag (state = Some (lit ''ACCEPTED'') \<and> allowed \<noteq> Some (lit ''YES''))
           (Broken (lit ''ACCEPTED EMP-008 must require Implementation-Allowed: YES'')))"

definition status_errors_008 :: "pystr \<Rightarrow> check_error list" where
  "status_errors_008 refinement =
     flag (case word_after ''Status'' refinement of
             None \<Rightarrow> False
           | Some s \<Rightarrow> s \<notin> set (map lit [''REFINEMENT'', ''READY'', ''IN_PROGRESS'', ''DONE_AND_VERIFIED'']))
       (Broken (lit ''EMP-008 uses an unsupported status''))
     @ flag (case word_after ''Coverage-Evidence'' refinement of
             None \<Rightarrow> True
           | Some s \<Rightarrow> s \<notin> set (map lit [''NOT_MEASURED'', ''MEASURED'', ''MEASURED_AND_VERIFIED'']))
       (Broken (lit ''EMP-008 must declare Coverage-Evidence as NOT_MEASURED, MEASURED or MEASURED_AND_VERIFIED''))"

definition acceptance_tokens_008 :: "pystr list" where
  "acceptance_tokens_008 =
     [lit ''Zaakceptowa'' @ [322] @ lit '': Rados'' @ [322] @ lit ''aw Pi'' @ [261] @ lit ''tek'',
      lit ''Data-Akceptacji: 2026-08-07'', lit ''org.jacoco:jacoco-maven-plugin:0.8.15'',
      lit ''LINE >= 80%'', lit ''BRANCH >= 70%'', lit ''LINE >=75%'', lit ''BRANCH >=65%'',
      lit ''Na pocz'' @ [261] @ lit ''tku nie ma '' @ [380] @ lit ''adnych exclusions'',
      lit ''finalny justified budget <=5'', lit ''new warnings = 0'',
      lit ''DocLint errors zawsze = 0'', lit ''OUT_OF_SCOPE'']"

definition accepted_errors_008 :: "pystr \<Rightarrow> check_error list" where
  "accepted_errors_008 refinement =
     (if word_after ''Stan-Refinementu'' refinement = Some (lit ''ACCEPTED'')
      then lacks (lit ''ACCEPTED EMP-008 missing owner decision'') acceptance_tokens_008 refinement
        @ lacks (lit ''ACCEPTED EMP-008'') (map (\<lambda>ac. (lit ''EMP008-AC-'') @ padded 2 ac) [1..<24]) refinement
      else [])"

definition emp008_refinement_main :: "fs \<Rightarrow> contract_result" where
  "emp008_refinement_main fs = seqs_py
     [each_py (\<lambda>(name, tokens). require_file fs (rel name) tokens) EMP008_FILES,
      bind_py (text_or_empty fs (rel ''docs/project/refinements/EMP-008.md'')) (\<lambda>refinement.
        Inr (state_errors_008 refinement @ status_errors_008 refinement @ accepted_errors_008 refinement)),
      Inr (flag (prompt_files fs \<noteq> []) (Broken (lit ''forbidden CODEX_PROMPT.md'')))]"

section \<open>The concurrency evidence\<close>

text \<open>\<open>@Test\s+void\s+name\(\)\<close> and \<open>\n\s*@Test\s+\<close>, with the whole match as a group.\<close>

definition method_re :: "pystr \<Rightarrow> regex" where
  "method_re name = Grp 1 (Cat [Lit (lit ''@Test''), Plus True (Cls is_space), Lit (lit ''void''), Plus True (Cls is_space),
     Lit name, Lit (lit ''()'')])"

definition next_test_re :: regex where
  "next_test_re = Grp 1 (Cat [Lit [10], Star True (Cls is_space), Lit (lit ''@Test''), Plus True (Cls is_space)])"

text \<open>\<open>match.start()\<close>: the end of the match less its length.\<close>

definition match_start :: "mstate \<Rightarrow> nat" where
  "match_start st = length (fst st) - length (group 1 st)"

text \<open>The source from the start of a test method to the next one; \<open>None\<close> is the \<open>ValueError\<close>.\<close>

definition method_section :: "pystr \<Rightarrow> pystr \<Rightarrow> pystr option" where
  "method_section source name =
     (case re_search (method_re name) source of
        None \<Rightarrow> None
      | Some m \<Rightarrow>
          let match_end = length (fst m)
          in Some (drop (match_start m)
               (case re_search next_test_re (drop match_end source) of
                  None \<Rightarrow> source
                | Some next \<Rightarrow> take (match_end + match_start next) source)))"

definition method_errors :: "pystr \<Rightarrow> string \<Rightarrow> (pystr \<Rightarrow> check_error list) \<Rightarrow> check_error list" where
  "method_errors source name errors =
     (case method_section source (lit name) of
        None \<Rightarrow> [Broken ((lit ''missing test method '') @ lit name)]
      | Some s \<Rightarrow> errors s)"

definition redemption_evidence :: "pystr \<Rightarrow> check_error list" where
  "redemption_evidence redemption =
     lacks (lit ''redemption test fixture'') (map lit [''@Testcontainers'', ''PostgreSQLContainer'', ''@ActiveProfiles(\"test\")'']) redemption
     @ method_errors redemption ''concurrentUsersRespectExactCapacityInThreeRounds''
         (lacks (lit ''100/10'')
           ([lit ''round < 3'', lit ''newFixedThreadPool(100)'', lit ''new CountDownLatch(100)'',
      lit ''Future<ResponseEntity<Map>>'', lit ''COUPON_EXHAUSTED'', lit ''couponExhausted'',
      lit ''isEqualTo(90)'', lit ''otherExpectedBusinessErrors'', lit ''unknownOutcomes'',
      lit ''isZero()'', lit ''current_uses'', lit ''isEqualTo(10)'',
      lit ''SELECT COUNT('' @ lit ''*'' @ lit '') FROM coupon_redemptions'',
      lit ''isEqualTo(10L)'', lit ''COUNT(DISTINCT r.user_id)'']))
     @ method_errors redemption ''sameUserConcurrentRetriesProduceExactlyOneSuccessAndNineteenConflicts''
         (\<lambda>same_user. lacks (lit ''same-user'')
           (map lit [''for (int index = 0; index < 20; index++)'', ''isEqualTo(1)'', ''isEqualTo(19)'',
      ''COUPON_ALREADY_REDEEMED'', ''isEqualTo(1L)'']) same_user
          @ flag (contains (lit ''COUPON_EXHAUSTED'') same_user)
              (Broken (lit ''same-user evidence must not classify exhausted outcomes as accepted'')))
     @ method_errors redemption ''twoDifferentUsersCompeteForTheLastSlotWithExactOutcomes''
         (\<lambda>last_slot. lacks (lit ''last-slot'')
           ([lit ''List.of(\"user-A\", \"user-B\")'', lit ''HttpStatus.CREATED'',
      lit ''HttpStatus.CONFLICT'', lit ''COUPON_EXHAUSTED'',
      lit ''COUNT('' @ lit ''*'' @ lit '') FROM coupon_redemptions r JOIN coupons c'',
      lit ''r.user_id IN ('' @ [39] @ lit ''user-A'' @ [39] @ lit '', '' @ [39] @ lit ''user-B'' @ [39] @ lit '')'',
      lit ''isEqualTo(1L)'']) last_slot
          @ flag (contains (lit ''COUPON_ALREADY_REDEEMED'') last_slot)
              (Broken (lit ''last-slot evidence must not accept already-redeemed outcomes'')))
     @ method_errors redemption ''rowLockOnOneCouponDoesNotGloballySerializeAnotherCoupon''
         (lacks (lit ''no-global-lock'')
           ([lit ''LOCKA'' @ [39] @ lit '' FOR UPDATE'', lit ''CountDownLatch'', lit ''locked.await'',
      lit ''release.await'', lit ''independentRedemption.get'', lit ''HttpStatus.CREATED'',
      lit ''release.countDown(); holder.get'']))
     @ lacks (lit ''executor cleanup'') (map lit [''shutdownNow()'', ''awaitTermination(15, TimeUnit.SECONDS)'',
      ''future.get(60, TimeUnit.SECONDS)'']) redemption"

definition create_evidence :: "pystr \<Rightarrow> check_error list" where
  "create_evidence create =
     method_errors create ''concurrentCaseVariantsProduceExactlyOneCreatedCoupon''
       (lacks (lit ''concurrent create'')
         ([lit ''CONCURRENT_ATTEMPTS'', lit ''isEqualTo(1)'', lit ''CONCURRENT_ATTEMPTS - 1'',
      lit ''unexpectedStatuses'', lit ''SELECT COUNT('' @ lit ''*'' @ lit '') FROM coupons'']))"

definition REDEMPTION :: path where
  "REDEMPTION = java_test ''coupon/adapters/web/CouponRedemptionApiIT.java''"

definition CREATE :: path where
  "CREATE = java_test ''coupon/adapters/web/CreateCouponApiIT.java''"

definition emp009_main :: "fs \<Rightarrow> contract_result" where
  "emp009_main fs = seq_py
     (if \<not> is_file fs REDEMPTION \<or> \<not> is_file fs CREATE
      then Inr [Broken (lit ''missing concurrency integration-test source'')]
      else bind_py (read_text fs REDEMPTION) (\<lambda>redemption.
           bind_py (read_text fs CREATE) (\<lambda>create.
             Inr (flag (contains (lit ''Thread.sleep'') redemption \<or> contains (lit ''Thread.sleep'') create)
                    (Broken (lit ''Thread.sleep is forbidden in EMP-009 evidence''))
               @ redemption_evidence redemption @ create_evidence create))))
     (Inr (flag (prompt_files fs \<noteq> []) (Broken (lit ''forbidden CODEX_PROMPT.md''))))"

section \<open>The refinement of the concurrency evidence\<close>

definition EMP009_FILES :: "(string \<times> pystr list) list" where
  "EMP009_FILES =
    [(''docs/project/refinements/EMP-009.md'',
      [lit ''Task-ID: EMP-009'', lit ''Stan-Refinementu:'', lit ''Implementation-Allowed:'',
      lit ''EMP009-AC-01'', lit ''EMP009-AC-15'', lit ''Co najmniej 3'',
      lit ''100 r'' @ [243, 380] @ lit ''nych userId'', lit ''19 `COUPON_ALREADY_REDEEMED`'',
      lit ''1 `COUPON_EXHAUSTED`'', lit ''row lock coupon-A'', lit ''Thread.sleep'',
      lit ''Testcontainers'', lit ''ExecutorService'', lit ''Future'', lit ''Evidence-State:'',
      lit ''CreateCouponApiIT.concurrentCaseVariantsProduceExactlyOneCreatedCoupon'',
      lit ''CouponRedemptionApiIT.concurrentUsersRespectExactCapacityInThreeRounds'',
      lit ''CouponRedemptionApiIT.sameUserConcurrentRetriesProduceExactlyOneSuccessAndNineteenConflicts'',
      lit ''CouponRedemptionApiIT.twoDifferentUsersCompeteForTheLastSlotWithExactOutcomes'',
      lit ''CouponRedemptionApiIT.rowLockOnOneCouponDoesNotGloballySerializeAnotherCoupon'']),
     (''docs/project/refinements/EMP-009-summary.md'',
      map lit [''EVIDENCE_PARTIAL'', ''EMP-003'', ''EMP-004'', ''EMP-008'']),
     (''docs/project/refinements/EMP-009-review-checklist.md'',
      map lit [''Historyczna rekomendacja'', ''REJECT'', ''trzy exact assertions''])]"

definition EVIDENCE_SOURCES :: "(string \<times> pystr list) list" where
  "EVIDENCE_SOURCES =
    [(''src/test/java/pl/radoslawpiatek/couponservice/coupon/adapters/web/CreateCouponApiIT.java'',
      map lit [''CONCURRENT_ATTEMPTS = 24'', ''concurrentCaseVariantsProduceExactlyOneCreatedCoupon'',
      ''CountDownLatch'', ''Future<HttpStatusCode>'', ''unexpectedStatuses'',
      ''awaitTermination'']),
     (''src/test/java/pl/radoslawpiatek/couponservice/coupon/adapters/web/CouponRedemptionApiIT.java'',
      map lit [''concurrentUsersRespectExactCapacityInThreeRounds'', ''round < 3'',
      ''newFixedThreadPool(100)'',
      ''sameUserConcurrentRetriesProduceExactlyOneSuccessAndNineteenConflicts'',
      ''twoDifferentUsersCompeteForTheLastSlotWithExactOutcomes'',
      ''rowLockOnOneCouponDoesNotGloballySerializeAnotherCoupon'', ''FOR UPDATE'',
      ''CountDownLatch'', ''Future<'', ''awaitTermination''])]"

definition evidence_errors :: "fs \<Rightarrow> string \<times> pystr list \<Rightarrow> contract_result" where
  "evidence_errors fs = (\<lambda>(name, tokens).
     if is_file fs (rel name)
     then bind_py (read_text fs (rel name)) (\<lambda>text.
       Inr (lacks (lit name) tokens text
         @ flag (contains (lit ''Thread.sleep'') text) (Broken_File (lit ''forbidden Thread.sleep in'') (rel name))
         @ flag (\<not> contains (lit ''PostgreSQLContainer'') text \<or> \<not> contains (lit ''@Testcontainers'') text)
             (Broken_File (lit ''must retain PostgreSQL Testcontainers evidence'') (rel name))))
     else Inr [Missing_File (rel name)])"

definition verified_errors_009 :: "fs \<Rightarrow> pystr \<Rightarrow> check_error list" where
  "verified_errors_009 fs refinement =
     (if word_after ''Status'' refinement = Some (lit ''DONE_AND_VERIFIED'')
      then lacks (lit ''verified EMP-009'')
        ([lit ''Implementation: DONE_AND_VERIFIED'', lit ''Evidence-State: COMPLETE'',
      lit ''scripts/check_emp009.py'',
      lit ''pe'' @ [322] @ lit ''ny Maven/Testcontainers i Docker gate'']) refinement
        @ flag (\<not> is_file fs (rel ''scripts/check_emp009.py''))
            (Broken (lit ''verified EMP-009 requires scripts/check_emp009.py''))
      else [])"

definition accepted_errors_009 :: "fs \<Rightarrow> pystr \<Rightarrow> check_error list" where
  "accepted_errors_009 fs refinement =
     require_that (one_of (word_after ''Evidence-State'' refinement) [''PARTIAL'', ''COMPLETE''])
       (lit ''ACCEPTED EMP-009 must expose Evidence-State PARTIAL or COMPLETE'')
     @ lacks (lit ''ACCEPTED EMP-009'')
     ([lit ''Implementation-Allowed: YES'',
      lit ''Zaakceptowa'' @ [322] @ lit '': Rados'' @ [322] @ lit ''aw Pi'' @ [261] @ lit ''tek'',
      lit ''Data-Akceptacji: 2026-08-07'',
      lit ''Zamro'' @ [380] @ lit ''ony zakres przysz'' @ [322] @ lit ''ej implementacji'',
      lit ''wszystkie 90 konflikt'' @ [243] @ lit ''w 100/10'', lit ''10 unikalnych userId'',
      lit ''dok'' @ [322] @ lit ''adnie jednego z dw'' @ [243] @ lit ''ch konkuruj'' @ [261] @ lit ''cych userId'',
      lit ''scripts/check_emp009.py'',
      lit ''Zakazane s'' @ [261] @ lit '' nowe scenariusze biznesowe'', lit ''JaCoCo'',
      lit ''OpenAPI'', lit ''EMP-008'']) refinement
     @ require_that (one_of (word_after ''Status'' refinement) [''READY'', ''IN_PROGRESS'', ''DONE_AND_VERIFIED''])
       (lit ''ACCEPTED EMP-009 must use READY, IN_PROGRESS or DONE_AND_VERIFIED status'')
     @ require_that (one_of (word_after ''Implementation'' refinement) [''NOT_STARTED'', ''IN_PROGRESS'', ''DONE_AND_VERIFIED''])
       (lit ''ACCEPTED EMP-009 must expose an allowed implementation state'')
     @ verified_errors_009 fs refinement"

definition state_errors_009 :: "fs \<Rightarrow> pystr \<Rightarrow> check_error list" where
  "state_errors_009 fs refinement =
     (let state = word_after ''Stan-Refinementu'' refinement
      in if \<not> one_of state [''DRAFT'', ''ACCEPTED'']
         then [Broken (lit ''EMP-009 refinement must be DRAFT or ACCEPTED'')]
         else if state = Some (lit ''DRAFT'')
         then flag (word_after ''Implementation-Allowed'' refinement \<noteq> Some (lit ''NO''))
           (Broken (lit ''DRAFT EMP-009 must retain Implementation-Allowed: NO''))
         else accepted_errors_009 fs refinement)"

definition row_009 :: "string \<Rightarrow> pystr" where
  "row_009 status = lit (''| EMP-009 | EMP-001 | P0 | '' @ status @ '' | EMP-009 |'')"

definition governance_errors_009 :: "pystr \<Rightarrow> pystr \<Rightarrow> pystr \<Rightarrow> check_error list" where
  "governance_errors_009 refinement backlog current =
     flag (\<not> any_in (map row_009 [''REFINEMENT'', ''READY'', ''IN_PROGRESS'', ''DONE_AND_VERIFIED'']) backlog)
       (Broken (lit ''EMP-009 backlog must reference its own refinement in an allowed status''))
     @ flag (word_after ''Stan-Refinementu'' refinement = Some (lit ''DRAFT'')
             \<and> \<not> contains (lit ''Active task:** `EMP-009 '' @ [8212] @ lit '' refinement deterministycznego concurrency evidence`'') current)
       (Broken (lit ''draft current status must identify EMP-009 refinement as active''))
     @ flag (\<not> contains (lit ''EMP-008'') backlog) (Broken (lit ''EMP-008 must remain present in the backlog''))"

definition emp009_refinement_main :: "fs \<Rightarrow> contract_result" where
  "emp009_refinement_main fs =
     bind_py (each_py (\<lambda>(name, tokens). require_file fs (rel name) tokens) EMP009_FILES) (\<lambda>document_es.
     bind_py (each_py (evidence_errors fs) EVIDENCE_SOURCES) (\<lambda>evidence_es.
     bind_py (text_or_empty fs (rel ''docs/project/refinements/EMP-009.md'')) (\<lambda>refinement.
     bind_py (read_text fs (rel ''docs/project/backlog.md'')) (\<lambda>backlog.
     bind_py (read_text fs (rel ''docs/project/current-status.md'')) (\<lambda>current.
       Inr (document_es @ evidence_es @ state_errors_009 fs refinement
         @ governance_errors_009 refinement backlog current
         @ flag (prompt_files fs \<noteq> []) (Broken (lit ''forbidden CODEX_PROMPT.md''))))))))"

section \<open>The frame\<close>

lemma text_or_empty_frame [frame]: "same_source fs fs' \<Longrightarrow> p \<noteq> OUTPUT \<Longrightarrow> text_or_empty fs' p = text_or_empty fs p"
  by (simp add: text_or_empty_def frame)

lemma evidence_errors_frame [frame]:
  "same_source fs fs' \<Longrightarrow> each_py (evidence_errors fs') EVIDENCE_SOURCES = each_py (evidence_errors fs) EVIDENCE_SOURCES"
  by (simp add: EVIDENCE_SOURCES_def evidence_errors_def frame cong: if_cong)

lemma state_errors_009_frame [frame]: "same_source fs fs' \<Longrightarrow> state_errors_009 fs' r = state_errors_009 fs r"
  by (simp add: state_errors_009_def accepted_errors_009_def verified_errors_009_def Let_def frame cong: if_cong)

interpretation emp008_refinement: static_gate emp008_refinement_main
  by unfold_locales (simp add: emp008_refinement_main_def EMP008_FILES_def frame)

interpretation emp009: static_gate emp009_main
  by unfold_locales (simp add: emp009_main_def REDEMPTION_def CREATE_def java_test_def frame cong: if_cong)

interpretation emp009_refinement: static_gate emp009_refinement_main
  by unfold_locales (simp add: emp009_refinement_main_def EMP009_FILES_def frame)

end
