(* ===== verification/Check_Review.thy ===== *)
theory Check_Review
  imports Checks
begin

text \<open>
  \<open>scripts/check_emp011.py\<close> and \<open>scripts/check_emp011_refinement.py\<close>: the contract of the final
  review, and the contract of its refinement over the states of its life cycle.
\<close>

section \<open>The final review\<close>

definition readme_errors_011 :: "pystr \<Rightarrow> check_error list" where
  "readme_errors_011 readme =
     lacks (lit ''README.md'')
       ([lit ''POST /api/v1/coupons'', lit ''POST /api/v1/coupons/{code}/redemptions'',
      lit ''make verify'', lit ''make docker-up APP_PORT=18080'',
      lit ''http://localhost:18080/swagger-ui'', lit ''http://localhost:18080/openapi.yaml'',
      lit ''112 unit tests'', lit ''23 integration tests'', lit ''95.76% LINE / 86.39% BRANCH'',
      lit ''95.06% LINE / 88.21% BRANCH'', lit ''SELECT ... FOR UPDATE'',
      lit ''client-asserted opaque identifier'', lit ''Idempotency-Key'', lit ''ipwho.is'',
      lit ''read-only wzgl'' @ [281] @ lit ''dem `CHECKSUMS.sha256`'', lit ''make checksums'',
      lit ''Recovery / rollback'']) readme
     @ forbids (lit ''README.md'')
       ([lit ''0.0.22-emp-010-refinement-draft'', lit ''EMP-010:** `IN_PROGRESS`'',
      lit ''od'' @ [347] @ lit ''wie'' @ [380] @ lit ''a `CHECKSUMS.sha256`'']) readme"

definition api_errors_011 :: "pystr \<Rightarrow> check_error list" where
  "api_errors_011 api =
     lacks (lit ''api-contract.md'') [(lit ''POST /api/v1/coupons/{code}/redemptions'')] api
     @ forbids (lit ''api-contract.md'')
       [(lit ''Endpoint wykorzystania kuponu pozostaje niezaimplementowany''),
        (lit ''Endpoint nie istnieje jeszcze w runtime'')] api"

definition architecture_errors_011 :: "pystr \<Rightarrow> check_error list" where
  "architecture_errors_011 architecture =
     lacks (lit ''architecture/overview.md'')
       [(lit ''Przep'' @ [322] @ lit ''yw wykorzystania kuponu '' @ [8212] @ lit '' zweryfikowany EMP-004'')] architecture
     @ forbids (lit ''architecture/overview.md'')
       [(lit ''Przep'' @ [322] @ lit ''yw redemption nadal pozostaje planem''), (lit ''Planowany przep'' @ [322] @ lit ''yw wykorzystania kuponu'')] architecture"

definition testing_errors_011 :: "pystr \<Rightarrow> check_error list" where
  "testing_errors_011 testing =
     lacks (lit ''testing/test-strategy.md'')
       ([lit ''112 unit + 23 integration tests'', lit ''655/684 LINE = 95.76%'',
      lit ''292/338 BRANCH = 86.39%'', lit ''462/486 LINE = 95.06%'',
      lit ''247/280 BRANCH = 88.21%'',
      lit ''EMP-010 '' @ [8212] @ lit '' zweryfikowane CI, delivery i obserwowalno'' @ [347, 263]]) testing
     @ forbids (lit ''testing/test-strategy.md'')
       [(lit ''106 unit + 22 integration''), (lit ''zaakceptowany plan CI, delivery i obserwowalno'' @ [347] @ lit ''ci'')] testing"

definition registry_errors_011 :: "pystr \<Rightarrow> check_error list" where
  "registry_errors_011 registry =
     lacks (lit ''refinements/README.md'')
       [(lit ''EMP-010 '' @ [8212] @ lit '' CI, delivery hardening i obserwowalno'' @ [347, 263] @ lit ''](EMP-010.md) '' @ [8212] @ lit '' `ACCEPTED`, `DONE_AND_VERIFIED`''),
        (lit ''EMP-011 '' @ [8212] @ lit '' finalny review, README i closeout](EMP-011.md) '' @ [8212] @ lit '' `ACCEPTED`, `DONE_AND_VERIFIED`'')] registry
     @ forbids (lit ''refinements/README.md'') [(lit ''evidence pozostaje `NOT_MEASURED`'')] registry"

definition risk_re :: "string \<Rightarrow> string \<Rightarrow> regex" where
  "risk_re rid state = Cat [Lit ((lit ''| '') @ lit rid @ (lit '' | '')), Alt (Lit (lit ''HIGH'')) (Lit (lit ''MEDIUM'')),
     Lit ((lit '' | '') @ lit state @ (lit '' |''))]"

definition MITIGATED_RISKS :: "string list" where
  "MITIGATED_RISKS = [''R-006'', ''R-022'', ''R-023'', ''R-025'', ''R-027'', ''R-030'', ''R-031'', ''R-032'',
     ''R-033'', ''R-034'', ''R-014'', ''R-017'']"

definition OPEN_RISKS :: "string list" where
  "OPEN_RISKS = [''R-003'', ''R-009'', ''R-012'', ''R-024'', ''R-026'']"

definition risk_errors_011 :: "pystr \<Rightarrow> check_error list" where
  "risk_errors_011 risks =
     map (\<lambda>rid. Lacks (lit ''risk-register.md does not mark MITIGATED'') (lit rid))
       (filter (\<lambda>rid. \<not> matches_in (risk_re rid ''MITIGATED'') risks) MITIGATED_RISKS)
     @ map (\<lambda>rid. Lacks (lit ''risk-register.md must keep OPEN'') (lit rid))
       (filter (\<lambda>rid. \<not> matches_in (risk_re rid ''OPEN'') risks) OPEN_RISKS)"

definition trace_errors_011 :: "pystr \<Rightarrow> check_error list" where
  "trace_errors_011 trace = lacks (lit ''requirements-traceability.md'')
     [(lit ''recruiter-first README''),
      (lit ''green CI #5 on `5c7d3f5` + delivery SHA `579f4957'' @ [8230] @ lit ''` + package hygiene'')] trace"

definition refinement_errors_011 :: "pystr \<Rightarrow> check_error list" where
  "refinement_errors_011 ref =
     lacks (lit ''EMP-011.md'')
       (map lit [''Stan-Refinementu: ACCEPTED'', ''Implementation-Allowed: YES'', ''Scope-Frozen: YES'',
      ''Status: DONE_AND_VERIFIED'', ''Implementation: DONE_AND_VERIFIED'',
      ''Final-Review-Evidence: MEASURED_AND_VERIFIED'',
      ''Public-Repo-Evidence: MEASURED_AND_VERIFIED'', ''Review-Result: PASS'',
      ''5c7d3f5b9e48ff88a90f11047f45b249b4ee7e65'', ''CI #5'']) ref
     @ flag (decisions ([8212] @ lit '' ACCEPT.**'') ref \<noteq> 8)
       (Broken (lit ''EMP-011.md must retain exactly 8 accepted owner decisions''))"

text \<open>The operations of the API document, \<open>^\s{4}(get|post|put|patch|delete):\s*$\<close>.\<close>

definition operation_re :: regex where
  "operation_re = Cat [LineStart, Times 4 (Cls is_space),
     Grp 1 (Alt (Lit (lit ''get'')) (Alt (Lit (lit ''post'')) (Alt (Lit (lit ''put'')) (Alt (Lit (lit ''patch'')) (Lit (lit ''delete'')))))),
     Lit (lit '':''), Star True (Cls is_space), LineEnd]"

definition public_methods :: "pystr \<Rightarrow> pystr list" where
  "public_methods openapi = map (cap 1) (re_findall operation_re openapi)"

definition emp011_main :: "fs \<Rightarrow> contract_result" where
  "emp011_main fs = seqs_py
     [read_then fs ''README.md'' readme_errors_011,
      read_then fs ''docs/api/api-contract.md'' api_errors_011,
      read_then fs ''docs/architecture/overview.md'' architecture_errors_011,
      read_then fs ''docs/testing/test-strategy.md'' testing_errors_011,
      read_then fs ''docs/project/refinements/README.md'' registry_errors_011,
      read_then fs ''docs/project/risk-register.md'' risk_errors_011,
      read_then fs ''docs/product/requirements-traceability.md'' trace_errors_011,
      read_then fs ''docs/project/refinements/EMP-011.md'' refinement_errors_011,
      read_then fs ''docs/project/backlog.md''
        (lacks (lit ''backlog.md'') [(lit ''| EMP-011 | EMP-001 | P0 | DONE_AND_VERIFIED | EMP-011 |'')]),
      read_then fs ''docs/project/current-status.md''
        (lacks (lit ''current-status.md'') [(lit ''EMP-011:** `DONE_AND_VERIFIED`''), (lit ''GITHUB_CI_5c7d3f5_PASS'')]),
      read_then fs ''docs/project/refinements/EMP-011-review-checklist.md''
        (lacks (lit ''EMP-011-review-checklist.md'')
          [(lit ''public GitHub Actions final SHA | PASS''),
           (lit ''579f49576318bba67d8a2a553cb548b0fa6118b05058c4bd730ad83d6b897d63'')]),
      read_then fs ''docs/api/openapi.yaml'' (\<lambda>openapi.
        flag (public_methods openapi \<noteq> [(lit ''post''), (lit ''post'')])
          (Broken (lit ''canonical OpenAPI must expose exactly two POST operations''))),
      Inr (flag (prompt_files fs \<noteq> []) (Broken (lit ''CODEX_PROMPT.md is forbidden'')))]"

section \<open>The refinement of the final review\<close>

text \<open>\<open>metadata(text, key) not in {...}\<close>.\<close>

definition meta_in :: "pystr \<Rightarrow> pystr \<Rightarrow> string list \<Rightarrow> bool" where
  "meta_in text key values \<longleftrightarrow> one_of (metadata text key) values"

definition draft_expected_011 :: "(pystr \<times> pystr) list" where
  "draft_expected_011 =
     [((lit ''Status''), (lit ''REFINEMENT'')), ((lit ''Implementation''), (lit ''NOT_STARTED'')), ((lit ''Implementation-Allowed''), (lit ''NO'')),
      ((lit ''Scope-Frozen''), (lit ''NO'')), ((lit ''Zaakceptowa'' @ [322]), (lit ''N/A'')), ((lit ''Data-Akceptacji''), (lit ''N/A'')), ((lit ''Review-Result''), (lit ''DRAFT''))]"

definition accepted_expected_011 :: "(pystr \<times> pystr) list" where
  "accepted_expected_011 =
     [((lit ''Implementation-Allowed''), (lit ''YES'')), ((lit ''Scope-Frozen''), (lit ''YES'')), ((lit ''Zaakceptowa'' @ [322]), (lit ''Rados'' @ [322] @ lit ''aw Pi'' @ [261] @ lit ''tek'')),
      ((lit ''Data-Akceptacji''), (lit ''2026-08-07''))]"

definition lifecycle_011 :: "(pystr \<times> pystr \<times> pystr) list" where
  "lifecycle_011 = map (\<lambda>(s, i, r). (lit s, lit i, lit r))
     [(''READY'', ''NOT_STARTED'', ''ACCEPTED''), (''IN_PROGRESS'', ''IN_PROGRESS'', ''IN_PROGRESS''),
      (''DONE_AND_VERIFIED'', ''DONE_AND_VERIFIED'', ''PASS'')]"

definition lifecycle_errors_011 :: "pystr \<Rightarrow> check_error list" where
  "lifecycle_errors_011 text =
     (case metadata text (lit ''Status'') of
        None \<Rightarrow> [Broken (lit ''ACCEPTED EMP-011 has invalid lifecycle status'')]
      | Some status \<Rightarrow>
          (case map_of lifecycle_011 status of
             None \<Rightarrow> [Broken (lit ''ACCEPTED EMP-011 has invalid lifecycle status'')]
           | Some (expected_impl, expected_review) \<Rightarrow>
               expect ((lit ''ACCEPTED EMP-011 status '') @ status) text
                 [((lit ''Implementation''), expected_impl), ((lit ''Review-Result''), expected_review)]))"

definition validate_metadata_011 :: "pystr \<Rightarrow> check_error list" where
  "validate_metadata_011 text =
     require_that (meta_in text (lit ''Stan-Refinementu'') [''DRAFT'', ''ACCEPTED''])
       (lit ''EMP-011 refinement must be DRAFT or ACCEPTED'')
     @ require_that (meta_in text (lit ''Status'') [''REFINEMENT'', ''READY'', ''IN_PROGRESS'', ''DONE_AND_VERIFIED''])
       (lit ''EMP-011 uses unsupported Status'')
     @ require_that (meta_in text (lit ''Implementation'') [''NOT_STARTED'', ''IN_PROGRESS'', ''DONE_AND_VERIFIED''])
       (lit ''EMP-011 uses unsupported Implementation state'')
     @ require_that (meta_in text (lit ''Final-Review-Evidence'') [''NOT_MEASURED'', ''MEASURED'', ''MEASURED_AND_VERIFIED''])
       (lit ''EMP-011 Final-Review-Evidence has unsupported value'')
     @ require_that (meta_in text (lit ''Public-Repo-Evidence'') [''NOT_MEASURED'', ''MEASURED'', ''MEASURED_AND_VERIFIED''])
       (lit ''EMP-011 Public-Repo-Evidence has unsupported value'')
     @ (if metadata text (lit ''Stan-Refinementu'') = Some (lit ''DRAFT'')
        then expect (lit ''DRAFT EMP-011 requires'') text draft_expected_011
        else if metadata text (lit ''Stan-Refinementu'') = Some (lit ''ACCEPTED'')
        then expect (lit ''ACCEPTED EMP-011 requires'') text accepted_expected_011 @ lifecycle_errors_011 text
        else [])"

definition validate_content_011 :: "pystr \<Rightarrow> check_error list" where
  "validate_content_011 text =
     lacks (lit ''EMP-011 refinement'')
       (map lit [''F-01'', ''F-02'', ''F-03'', ''F-04'', ''F-05'', ''F-06'', ''F-07'', ''F-08'', ''F-09'',
      ''F-10'', ''112 unit + 23 integration'', ''95.76%'', ''86.39%'', ''95.06%'', ''88.21%'',
      ''api-contract.md'', ''architecture/overview.md'', ''testing/test-strategy.md'',
      ''Risk register'', ''CHECKSUMS.sha256'', ''Idempotency-Key'', ''IPWhois'',
      ''make verify'', ''make delivery-check'', ''make export-source'', ''GitHub Actions'',
      ''docs/api/openapi.yaml'', ''CODEX_PROMPT'', ''R-030'', ''R-034'']) text
     @ lacks (lit ''EMP-011 refinement'') (map (\<lambda>n. (lit ''**AC-'') @ padded 2 n @ (lit '':**'')) [1..<29]) text
     @ flag (metadata text (lit ''Stan-Refinementu'') = Some (lit ''DRAFT'')
             \<and> decisions ([8212] @ lit '' PENDING_OWNER_ACCEPTANCE.**'') text \<noteq> 8)
       (Broken (lit ''DRAFT EMP-011 must contain exactly 8 pending owner decisions''))
     @ flag (metadata text (lit ''Stan-Refinementu'') = Some (lit ''ACCEPTED'') \<and> decisions ([8212] @ lit '' ACCEPT.**'') text \<noteq> 8)
       (Broken (lit ''ACCEPTED EMP-011 must contain exactly 8 accepted owner decisions''))"

text \<open>\<open>%s\<close> of a value that may be \<open>None\<close>.\<close>

definition shown :: "pystr option \<Rightarrow> pystr" where
  "shown v = (case v of None \<Rightarrow> (lit ''None'') | Some s \<Rightarrow> s)"

definition draft_011 :: "pystr \<Rightarrow> bool" where
  "draft_011 text \<longleftrightarrow> metadata text (lit ''Stan-Refinementu'') = Some (lit ''DRAFT'')"

definition status_errors_011 :: "pystr \<Rightarrow> pystr \<Rightarrow> pystr \<Rightarrow> check_error list" where
  "status_errors_011 text backlog status_doc =
     (if draft_011 text
      then lacks (lit ''backlog'') [(lit ''| EMP-011 | EMP-001 | P0 | REFINEMENT | EMP-011 |'')] backlog
        @ lacks (lit ''current-status'') [(lit ''refinement `DRAFT`''), (lit ''Implementation-Allowed: NO'')] status_doc
      else lacks (lit ''backlog'')
          [(lit ''| EMP-011 | EMP-001 | P0 | '') @ shown (metadata text (lit ''Status'')) @ (lit '' | EMP-011 |'')] backlog
        @ lacks (lit ''current-status'') [(lit ''refinement `ACCEPTED`''), (lit ''Implementation-Allowed: YES'')] status_doc)"

definition decision_errors_011 :: "pystr \<Rightarrow> pystr \<Rightarrow> nat \<Rightarrow> check_error list" where
  "decision_errors_011 text decision_log number =
     lacks (lit ''decision-log'') [(lit ''| D-'') @ padded 3 number @ (lit '' |'')] decision_log
     @ flag (\<not> matches_in (Lit ((lit ''| D-'') @ padded 3 number @ (lit '' | 2026-08-07 | '')
                @ (if draft_011 text then (lit ''PROPOSED'') else (lit ''ACCEPTED'')) @ (lit '' |''))) decision_log)
       (Lacks (lit ''EMP-011 lifecycle state'') ((lit ''D-'') @ padded 3 number))"

definition validate_governance_011 :: "fs \<Rightarrow> pystr \<Rightarrow> contract_result" where
  "validate_governance_011 fs text =
     bind_py (read_text fs (rel ''docs/project/backlog.md'')) (\<lambda>backlog.
     bind_py (read_text fs (rel ''docs/project/current-status.md'')) (\<lambda>status_doc.
     bind_py (read_text fs (rel ''docs/project/decision-log.md'')) (\<lambda>decision_log.
       Inr (status_errors_011 text backlog status_doc
         @ concat (map (decision_errors_011 text decision_log) [61..<69])))))"

definition SUMMARY_011 :: path where
  "SUMMARY_011 = rel ''docs/project/refinements/EMP-011-summary.md''"

definition CHECKLIST_011 :: path where
  "CHECKLIST_011 = rel ''docs/project/refinements/EMP-011-review-checklist.md''"

definition validate_supporting_docs :: "fs \<Rightarrow> contract_result" where
  "validate_supporting_docs fs = seqs_py
     [Inr (missing_files fs [SUMMARY_011, CHECKLIST_011]),
      if_file fs SUMMARY_011 (\<lambda>summary.
        lacks (lit ''EMP-011 summary'') (map lit [''README'', ''api-contract.md'', ''112 unit + 23 integration'']) summary
        @ flag (\<not> any_in (map lit [''NOT_STARTED'', ''IN_PROGRESS'', ''DONE_AND_VERIFIED'']) summary)
            (Broken (lit ''EMP-011 summary missing lifecycle state''))),
      if_file fs CHECKLIST_011 (lacks (lit ''EMP-011 checklist'')
        (map lit [''pre-implementation boundary'', ''owner decisions'', ''CODEX_PROMPT'']))]"

definition expected_stale :: "(path \<times> pystr) list" where
  "expected_stale =
     [(rel ''README.md'', (lit ''EMP-010:** `IN_PROGRESS`'')),
      (rel ''README.md'', (lit ''od'' @ [347] @ lit ''wie'' @ [380] @ lit ''a `CHECKSUMS.sha256`'')),
      (rel ''docs/api/api-contract.md'', (lit ''Endpoint wykorzystania kuponu pozostaje niezaimplementowany.'')),
      (rel ''docs/architecture/overview.md'', (lit ''Przep'' @ [322] @ lit ''yw redemption nadal pozostaje planem'')),
      (rel ''docs/testing/test-strategy.md'', (lit ''106 unit + 22 integration'')),
      (rel ''docs/project/refinements/README.md'', (lit ''evidence pozostaje `NOT_MEASURED`''))]"

definition stale_errors :: "fs \<Rightarrow> path \<times> pystr \<Rightarrow> contract_result" where
  "stale_errors fs = (\<lambda>(p, token). bind_py (read_text fs p) (\<lambda>text.
     Inr (flag (\<not> contains token text)
       (Broken_File (lit ''Pre-implementation EMP-011 unexpectedly changed audited stale marker in'') p))))"

definition validate_boundary_011 :: "fs \<Rightarrow> pystr \<Rightarrow> contract_result" where
  "validate_boundary_011 fs text =
     (if metadata text (lit ''Implementation'') \<noteq> Some (lit ''NOT_STARTED'') then Inr []
      else seq_py
        (each_py (stale_errors fs) expected_stale)
        (Inr (flag (path_exists fs (rel ''scripts/check_emp011.py''))
          (Broken (lit ''Pre-implementation EMP-011 must not contain implementation checker scripts/check_emp011.py'')))))"

definition REF_011 :: path where
  "REF_011 = rel ''docs/project/refinements/EMP-011.md''"

definition emp011_refinement_main :: "fs \<Rightarrow> contract_result" where
  "emp011_refinement_main fs = seq_py
     (if \<not> is_file fs REF_011 then Inr [Missing_File REF_011]
      else bind_py (read_text fs REF_011) (\<lambda>text. seqs_py
        [Inr (validate_metadata_011 text), Inr (validate_content_011 text), validate_governance_011 fs text,
         validate_supporting_docs fs, validate_boundary_011 fs text]))
     (Inr (flag (prompt_files fs \<noteq> []) (Broken (lit ''CODEX_PROMPT.md is forbidden''))))"

section \<open>The frame\<close>

lemma governance_011_frame [frame]: "same_source fs fs' \<Longrightarrow> validate_governance_011 fs' t = validate_governance_011 fs t"
  by (simp add: validate_governance_011_def frame)

lemma supporting_docs_frame [frame]: "same_source fs fs' \<Longrightarrow> validate_supporting_docs fs' = validate_supporting_docs fs"
  by (simp add: validate_supporting_docs_def SUMMARY_011_def CHECKLIST_011_def frame)

lemma boundary_011_frame [frame]: "same_source fs fs' \<Longrightarrow> validate_boundary_011 fs' t = validate_boundary_011 fs t"
  by (simp add: validate_boundary_011_def expected_stale_def stale_errors_def frame)

interpretation emp011: static_gate emp011_main
  by unfold_locales (simp add: emp011_main_def frame)

interpretation emp011_refinement: static_gate emp011_refinement_main
  by unfold_locales (simp add: emp011_refinement_main_def REF_011_def frame cong: if_cong)

end
