(* ===== verification/Gates.thy ===== *)
theory Gates
  imports Check_Redemption Check_Bootstrap Check_Create Check_Geolocation Check_Openapi Check_Quality
    Check_Review Check_Delivery Jacoco_Contract Doc_Governance
begin

text \<open>
  The gates together: the documentation and the coverage gate meet the same interface as the
  contract checkers, and the contract stages of \<open>verify.sh\<close> as one verdict.
\<close>

section \<open>The documentation gate and the manifest\<close>

lemma doc_read_frame [frame]: "same_source fs fs' \<Longrightarrow> p \<noteq> OUTPUT \<Longrightarrow> doc_read fs' p = doc_read fs p"
  by (simp add: doc_read_def frame)

lemma walk_frame [frame]: "same_source fs fs' \<Longrightarrow> walk fs' seen ps = walk fs seen ps"
proof (induction fs' seen ps rule: walk.induct)
  case (2 fs' seen p ps)
  have "map_of fs' q = Some Directory \<longleftrightarrow> map_of fs q = Some Directory" for q
    using "2.prems" by (cases "q = OUTPUT") (auto simp: same_source_def is_file_def split: option.splits node.splits)
  with 2 show ?case by (cases "seen = []") auto
qed simp

lemma walk_name:
  "walk fs seen ps = Some p \<Longrightarrow> ps \<noteq> [] \<Longrightarrow> last ps \<noteq> [46, 46] \<Longrightarrow> parts p \<noteq> [] \<and> path_name p = last ps"
proof (induction fs "seen" ps rule: walk.induct)
  case (2 fs "seen" p' ps)
  show ?case
  proof (cases ps)
    case Nil
    then show ?thesis using "2.prems" by (auto simp: path_name_def split: if_splits)
  next
    case (Cons q qs)
    then show ?thesis using "2.IH" "2.prems" by (auto split: if_splits)
  qed
qed simp

lemma split_on_snoc:
  "c \<notin> set ys \<Longrightarrow> split_on c (xs @ ys) = butlast (split_on c xs) @ [last (split_on c xs) @ ys]"
proof (induction xs)
  case Nil
  then show ?case by (simp add: split_on_no_sep)
next
  case (Cons x xs)
  obtain p ps where "split_on c xs = p # ps" by (cases "split_on c xs") auto
  then show ?case using Cons by (cases ps) auto
qed

lemma last_split_on: "c \<notin> set ys \<Longrightarrow> last (split_on c (xs @ ys)) = last (split_on c xs) @ ys"
  by (simp add: split_on_snoc)

lemma last_filter_ok: "xs \<noteq> [] \<Longrightarrow> P (last xs) \<Longrightarrow> filter P xs \<noteq> [] \<and> last (filter P xs) = last xs"
  by (induction xs) (auto split: if_splits)

lemma refinement_not_output:
  assumes "refinement_file fs rid = Some p"
  shows "p \<noteq> OUTPUT"
proof
  assume o: "p = OUTPUT"
  let ?ps = "path_parts (rid @ lit ''.md'')"
  let ?l = "last (split_on 47 rid) @ lit ''.md''"
  have l: "last (split_on 47 (rid @ lit ''.md'')) = ?l" by (rule last_split_on) (simp add: lit_def)
  have ok: "?l \<noteq> [] \<and> ?l \<noteq> [46] \<and> ?l \<noteq> [46, 46]" by (auto simp: lit_def append_eq_Cons_conv)
  then have ps: "?ps \<noteq> []" "last ?ps = ?l"
    using last_filter_ok[of "split_on 47 (rid @ lit ''.md'')" "\<lambda>p. p \<noteq> [] \<and> p \<noteq> [46]"] l
    by (simp_all add: path_parts_def)
  have "walk fs [] (parts (docs ''project/refinements'') @ ?ps) = Some p"
    using assms by (auto simp: refinement_file_def refinement_path_def split: option.splits if_splits)
  then have "path_name p = ?l" using walk_name ps ok by fastforce
  moreover have "path_name OUTPUT = lit ''CHECKSUMS.sha256''" by (simp add: path_name_def)
  ultimately have "suffix (lit ''.md'') (lit ''CHECKSUMS.sha256'')" using o by (metis suffixI)
  then show False by (simp add: lit_def suffix_to_prefix)
qed

lemma refinement_file_frame [frame]: "same_source fs fs' \<Longrightarrow> refinement_file fs' rid = refinement_file fs rid"
  by (simp add: refinement_file_def refinement_path_def frame cong: option.case_cong)

lemma refinements_loop_frame [frame]:
  "same_source fs fs' \<Longrightarrow> refinements_loop fs' checked ts = refinements_loop fs checked ts"
proof (induction fs' checked ts rule: refinements_loop.induct)
  case (2 fs' checked t ts)
  show ?case
  proof (cases "refinement_file fs (task_refinement t)")
    case (Some p)
    have "doc_read fs' p = doc_read fs p"
      by (rule doc_read_frame[OF "2.prems" refinement_not_output[OF Some]])
    then show ?thesis using 2 Some
      by (auto simp: Let_def parse_refinement_metadata_def refinement_file_frame[OF "2.prems"]
          intro!: bind_py_cong)
  qed (use 2 in \<open>auto simp: Let_def refinement_file_frame[OF "2.prems"]\<close>)
qed simp

lemma docs_not_output [frame]: "docs s \<noteq> OUTPUT"
proof
  assume "docs s = OUTPUT"
  then have "parts (docs s) = [lit ''CHECKSUMS.sha256'']" by simp
  then show False by (simp add: docs_def join_rel_def rel_def path_parts_def lit_def)
qed

lemma backlog_frame [frame]: "same_source fs fs' \<Longrightarrow> validate_backlog fs' = validate_backlog fs"
  by (simp add: validate_backlog_def parse_markdown_table_def frame)

lemma current_status_frame [frame]: "same_source fs fs' \<Longrightarrow> validate_current_status fs' ts = validate_current_status fs ts"
  by (simp add: validate_current_status_def frame)

lemma refinements_frame [frame]: "same_source fs fs' \<Longrightarrow> validate_refinements fs' ts = validate_refinements fs ts"
  by (simp add: validate_refinements_def frame)

lemma required_files_frame [frame]: "same_source fs fs' \<Longrightarrow> validate_required_files fs' = validate_required_files fs"
  by (simp add: validate_required_files_def frame)

lemma markdown_not_output:
  assumes "p \<in> set (rglob (ends_with ''.md'') fs)"
  shows "p \<noteq> OUTPUT"
  by (rule ending_not_output[OF assms]) (simp add: suffix_to_prefix)

lemma link_errors_frame [frame]: "same_source fs fs' \<Longrightarrow> link_errors checkout fs' = link_errors checkout fs"
  by (intro ext) (simp add: link_errors_def frame Let_def cong: option.case_cong)

lemma links_frame [frame]:
  assumes same: "same_source fs fs'"
  shows "validate_links checkout fs' = validate_links checkout fs"
proof -
  have "file_links checkout fs' p = file_links checkout fs p" if "p \<in> set (markdown_files fs)" for p
    using markdown_not_output[of p fs] that same by (simp add: file_links_def markdown_files_def frame)
  then have "each_py (file_links checkout fs') (markdown_files fs) = each_py (file_links checkout fs) (markdown_files fs)"
    by (rule each_py_cong[OF refl])
  then show ?thesis using same by (simp add: validate_links_def markdown_files_def frame)
qed

lemma index_frame [frame]:
  "same_source fs fs' \<Longrightarrow> validate_documentation_index checkout fs' = validate_documentation_index checkout fs"
  by (simp add: validate_documentation_index_def index_path_def actual_documents_def docs_markdown_def frame)

lemma text_file_not_output: "\<not> is_text_file fs OUTPUT"
  by (simp add: is_text_file_def text_suffixes_def path_name_def) (simp add: name_suffix_def lit_def)

lemma hygiene_frame [frame]:
  assumes same: "same_source fs fs'"
  shows "validate_text_hygiene fs' = validate_text_hygiene fs"
proof -
  have sel: "is_text_file fs' = is_text_file fs" using same by (intro ext) (simp add: is_text_file_def frame)
  have "file_hygiene fs' p = file_hygiene fs p"
    if "p \<in> set (filter (is_text_file fs) (sort (rglob any_name fs)))" for p
    using text_file_not_output[of fs] that same by (cases "p = OUTPUT") (auto simp: file_hygiene_def frame)
  then have "each_py (file_hygiene fs') (filter (is_text_file fs) (sort (rglob any_name fs)))
      = each_py (file_hygiene fs) (filter (is_text_file fs) (sort (rglob any_name fs)))"
    by (rule each_py_cong[OF refl])
  then show ?thesis using same by (simp add: validate_text_hygiene_def sel frame)
qed

lemma registers_frame [frame]:
  "same_source fs fs' \<Longrightarrow> validate_unique_register_ids fs' = validate_unique_register_ids fs"
  by (simp add: validate_unique_register_ids_def register_errors_def frame)

lemma doc_errors_of_frame [frame]: "same_source fs fs' \<Longrightarrow> doc_errors_of checkout fs' = doc_errors_of checkout fs"
  by (intro ext) (simp add: doc_errors_of_def frame split_beta)

interpretation documentation: static_gate "doc_main checkout"
  by unfold_locales (simp add: doc_main_def docs_markdown_def frame cong: if_cong)

section \<open>The coverage gate and the manifest\<close>

lemma POM_not_output [frame]: "POM \<noteq> OUTPUT"
  unfolding POM_def by (rule rel_not_output) simp

lemma targets_frame [frame]:
  "same_source fs fs' \<Longrightarrow> tracked_target git fs' = tracked_target git fs"
  "same_source fs fs' \<Longrightarrow> ignored_target fs' = ignored_target fs"
  by (simp_all add: tracked_target_def ignored_target_def frame cong: if_cong)

interpretation emp008: static_gate "static_contract_errors parse_xml git"
  by unfold_locales (simp add: static_contract_errors_def frame cong: option.case_cong)

section \<open>The contract stages of \<open>verify.sh\<close>\<close>

text \<open>
  The stages up to the syntax check, in order, each with its exit code; an exception is an exit
  with a non-zero code. The script runs under \<open>set -e\<close>, so it passes them when every code is zero.
\<close>

definition static_exit :: "pyexc + static_error list \<Rightarrow> pyexc + int" where
  "static_exit r = bind_py r (\<lambda>es. Inr (if es = [] then 0 else 1))"

definition doc_exit :: "doc_exc + doc_outcome \<Rightarrow> doc_exc + int" where
  "doc_exit r = bind_py r (\<lambda>o'. Inr (doc_exit_code o'))"

definition stage_passes :: "'e + int \<Rightarrow> bool" where
  "stage_passes r = (case r of Inl e \<Rightarrow> False | Inr code \<Rightarrow> code = 0)"

definition contract_stages ::
    "pystr list \<Rightarrow> (bytes \<Rightarrow> elem option) \<Rightarrow> git \<Rightarrow> fs \<Rightarrow> bool list" where
  "contract_stages checkout parse_xml git fs =
     [stage_passes (doc_exit (doc_main checkout fs)),
      stage_passes (exit_code (bootstrap_main parse_xml fs)),
      stage_passes (exit_code (emp003_main fs)),
      stage_passes (exit_code (emp004_refinement_main fs)),
      stage_passes (exit_code (emp004_main fs)),
      stage_passes (exit_code (emp006_refinement_main fs)),
      stage_passes (exit_code (emp006_main fs)),
      stage_passes (exit_code (emp007_main fs)),
      stage_passes (exit_code (emp008_refinement_main fs)),
      stage_passes (static_exit (static_contract_errors parse_xml git fs)),
      stage_passes (exit_code (emp009_refinement_main fs)),
      stage_passes (exit_code (emp009_main fs)),
      stage_passes (exit_code (emp010_refinement_main fs)),
      stage_passes (exit_code (static_check_010 fs)),
      stage_passes (exit_code (emp011_refinement_main fs)),
      stage_passes (exit_code (emp011_main fs))]"

definition verify_contracts ::
    "pystr list \<Rightarrow> (bytes \<Rightarrow> elem option) \<Rightarrow> git \<Rightarrow> fs \<Rightarrow> bool" where
  "verify_contracts checkout parse_xml git fs = list_all id (contract_stages checkout parse_xml git fs)"

lemma stage_passes_iff: "stage_passes r \<longleftrightarrow> r = Inr 0"
  by (cases r) (auto simp: stage_passes_def)

lemma stage_exit_code [simp]: "stage_passes (exit_code r) \<longleftrightarrow> r = Inr []"
  by (simp add: stage_passes_iff exit_code_zero_iff)

interpretation stages: static_gate "\<lambda>fs. Inr (contract_stages checkout parse_xml git fs) :: unit + bool list"
  by unfold_locales (simp add: contract_stages_def documentation.stable bootstrap.stable emp003.stable
      emp004_refinement.stable emp004.stable emp006_refinement.stable emp006.stable emp007.stable
      emp008_refinement.stable emp008.stable emp009_refinement.stable emp009.stable
      emp010_refinement.stable emp010.stable emp011_refinement.stable emp011.stable)

end
