(* ===== verification/Regex_Facts.thy ===== *)
theory Regex_Facts
  imports Py_Regex
begin

text \<open>
  Facts about the matcher that do not depend on one pattern: what a match consumes, where a search
  stops, and which occurrences a scan for all matches cannot step over.
\<close>

section \<open>Consumption\<close>

definition consumes :: "mstate \<Rightarrow> mstate \<Rightarrow> bool" where
  "consumes st st' \<longleftrightarrow> (\<exists>w. fst st' = rev w @ fst st \<and> fst (snd st) = w @ fst (snd st'))"

lemma consumes_refl [simp]: "consumes st st"
  by (simp add: consumes_def)

lemma consumes_trans: "consumes a b \<Longrightarrow> consumes b c \<Longrightarrow> consumes a c"
  unfolding consumes_def by (metis append_assoc rev_append)

lemma star_consumes:
  assumes "\<And>st st'. st' \<in> set (f st) \<Longrightarrow> consumes st st'"
  shows "st' \<in> set (star_matches greedy f n st) \<Longrightarrow> consumes st st'"
proof (induction n arbitrary: st)
  case (Suc n)
  then have "st' = st \<or> (\<exists>st1 \<in> set (f st). st' \<in> set (star_matches greedy f n st1))"
    by (auto simp: Let_def split: if_splits)
  then show ?case using assms Suc.IH consumes_trans by (metis consumes_refl)
qed simp

lemma matches_consume: "st' \<in> set (matches r st) \<Longrightarrow> consumes st st'"
proof (induction r arbitrary: st st')
  case (Lit t)
  then show ?case by (cases st) (auto simp: consumes_def prefix_def split: if_splits)
next
  case (Cls P)
  then show ?case by (cases st) (auto simp: consumes_def split: list.splits if_splits)
next
  case (Seq r s)
  then obtain st1 where "st1 \<in> set (matches r st)" "st' \<in> set (matches s st1)" by auto
  then show ?case using Seq.IH consumes_trans by blast
next
  case (Alt r s)
  show ?case using Alt.prems Alt.IH[of st' st] by (simp, blast)
next
  case (Star greedy r)
  show ?case by (rule star_consumes[of "matches r"]) (use Star in auto)
next
  case (Grp k r)
  then obtain st1 where "st1 \<in> set (matches r st)" "fst st' = fst st1" "fst (snd st') = fst (snd st1)"
    by auto
  then show ?case using Grp.IH by (auto simp: consumes_def)
qed (auto split: prod.splits if_splits)

text \<open>A group at the top of a pattern captures what the match consumed.\<close>

lemma matches_group:
  assumes "(pre', post', caps') \<in> set (matches (Grp k r) (pre, post, caps))"
  shows "\<exists>w. pre' = rev w @ pre \<and> post = w @ post' \<and> cap k caps' = w
    \<and> (\<exists>caps''. (pre', post', caps'') \<in> set (matches r (pre, post, caps)))"
proof -
  obtain caps'' where m: "(pre', post', caps'') \<in> set (matches r (pre, post, caps))"
    and c: "caps' = (k, rev (take (length pre' - length pre) pre')) # caps''"
    using assms by auto
  obtain w where w: "pre' = rev w @ pre" "post = w @ post'"
    using matches_consume[OF m] by (auto simp: consumes_def)
  then show ?thesis using m c by (auto simp: cap_def)
qed

section \<open>Searching\<close>

lemma re_search_from_Some:
  "re_search_from r pre post = Some st \<Longrightarrow>
   \<exists>a b. post = a @ b \<and> st \<in> set (matches r (rev a @ pre, b, []))
     \<and> (\<forall>a' b'. post = a' @ b' \<longrightarrow> length a' < length a \<longrightarrow> matches r (rev a' @ pre, b', []) = [])"
proof (induction r pre post rule: re_search_from.induct)
  case (1 r pre)
  then show ?case by (auto split: list.splits)
next
  case (2 r pre c cs)
  show ?case
  proof (cases "matches r (pre, c # cs, [])")
    case Nil
    then obtain a b where ab: "cs = a @ b" "st \<in> set (matches r (rev a @ c # pre, b, []))"
      and least: "\<And>a' b'. cs = a' @ b' \<Longrightarrow> length a' < length a \<Longrightarrow> matches r (rev a' @ c # pre, b', []) = []"
      using 2 by auto
    have "matches r (rev a' @ pre, b', []) = []" if "c # cs = a' @ b'" "length a' < length (c # a)" for a' b'
      using that Nil least by (cases a') auto
    then show ?thesis using ab by (intro exI[of _ "c # a"] exI[of _ b]) auto
  next
    case (Cons st0 sts)
    then show ?thesis using "2.prems" by (intro exI[of _ "[]"] exI[of _ "c # cs"]) auto
  qed
qed

lemma re_search_Some:
  assumes "re_search r s = Some st"
  shows "\<exists>a b. s = a @ b \<and> st \<in> set (matches r (rev a, b, []))
     \<and> (\<forall>a' b'. s = a' @ b' \<longrightarrow> length a' < length a \<longrightarrow> matches r (rev a', b', []) = [])"
  using re_search_from_Some[of r "[]" s st] assms by (simp add: re_search_def)

lemma re_search_from_None:
  "re_search_from r pre post = None \<Longrightarrow> post = a @ b \<Longrightarrow> matches r (rev a @ pre, b, []) = []"
proof (induction r pre post arbitrary: a rule: re_search_from.induct)
  case (1 r pre)
  then show ?case by (auto split: list.splits)
next
  case (2 r pre c cs)
  then show ?case by (cases a) (auto split: list.splits)
qed

lemma re_search_None:
  "re_search r s = None \<Longrightarrow> s = a @ b \<Longrightarrow> matches r (rev a, b, []) = []"
  using re_search_from_None[of r "[]" s a b] by (simp add: re_search_def)

section \<open>A literal and runs of classes\<close>

lemma matches_Lit: "matches (Lit t) (pre, t @ post, caps) = [(rev t @ pre, post, caps)]"
  by simp

text \<open>The first match of a greedy run of a class that the text behind it cannot extend.\<close>

definition run_ends :: "(nat \<Rightarrow> bool) \<Rightarrow> pystr \<Rightarrow> bool" where
  "run_ends P post \<longleftrightarrow> post = [] \<or> \<not> P (hd post)"

lemma takeWhile_run: "(\<forall>c \<in> set w. P c) \<Longrightarrow> run_ends P post \<Longrightarrow> takeWhile P (w @ post) = w"
  by (cases post) (auto simp: run_ends_def)

lemma Star_run_in:
  assumes "\<forall>c \<in> set w. P c"
  shows "(rev w @ pre, post, caps) \<in> set (matches (Star greedy (Cls P)) (pre, w @ post, caps))"
proof -
  have "length w \<le> length (takeWhile P (w @ post))" using assms by (simp add: le_takeWhile_iff)
  then have "length w \<in> set (if greedy then rev [0..<Suc (length (takeWhile P (w @ post)))]
      else [0..<Suc (length (takeWhile P (w @ post)))])" by auto
  then show ?thesis unfolding matches_Star_Cls set_map
    by (rule image_eqI[rotated]) simp
qed

lemma Star_run_out:
  assumes "(pre', post', caps') \<in> set (matches (Star greedy (Cls P)) (pre, post, caps))"
  shows "\<exists>w. pre' = rev w @ pre \<and> post = w @ post' \<and> caps' = caps \<and> (\<forall>c \<in> set w. P c)"
proof -
  obtain k where "k \<le> length (takeWhile P post)" "pre' = rev (take k post) @ pre" "post' = drop k post"
    "caps' = caps"
    using assms unfolding matches_Star_Cls set_map
    by (elim imageE) (auto simp: less_Suc_eq_le simp del: upt_Suc split: if_splits)
  then show ?thesis by (intro exI[of _ "take k post"]) (auto simp: le_takeWhile_iff)
qed

lemma Plus_run_in:
  assumes "w \<noteq> []" "\<forall>c \<in> set w. P c"
  shows "(rev w @ pre, post, caps) \<in> set (matches (Plus greedy (Cls P)) (pre, w @ post, caps))"
  using assms Star_run_in[of "tl w" P "hd w # pre" post caps greedy] by (cases w) (auto simp: Plus_def)

lemma Plus_run_out:
  assumes "(pre', post', caps') \<in> set (matches (Plus greedy (Cls P)) (pre, post, caps))"
  shows "\<exists>w. w \<noteq> [] \<and> pre' = rev w @ pre \<and> post = w @ post' \<and> caps' = caps \<and> (\<forall>c \<in> set w. P c)"
proof (cases post)
  case (Cons c cs)
  then have "P c" and s: "(pre', post', caps') \<in> set (matches (Star greedy (Cls P)) (c # pre, cs, caps))"
    using assms by (auto simp: Plus_def simp del: matches.simps(6) split: if_splits)
  obtain w where "pre' = rev w @ c # pre" "cs = w @ post'" "caps' = caps" "\<forall>c \<in> set w. P c"
    using Star_run_out[OF s] by blast
  then show ?thesis using Cons \<open>P c\<close> by (intro exI[of _ "c # w"]) auto
qed (use assms in \<open>simp add: Plus_def\<close>)

section \<open>Finding all matches\<close>

text \<open>
  A match at the position \<open>x\<close> is reported unless the first match at an earlier position reaches
  beyond it.
\<close>

lemma findall_from_reports:
  assumes "post = x @ b" "matches r (rev x @ pre, b, []) = (pre', post', caps) # more"
    and "\<And>x1 x2 p' q' c' more'. post = x1 @ x2 \<Longrightarrow> length x1 < length x \<Longrightarrow>
      matches r (rev x1 @ pre, x2, []) = (p', q', c') # more' \<Longrightarrow> length b \<le> length q'"
  shows "caps \<in> set (re_findall_from r pre post)"
  using assms
proof (induction r pre post arbitrary: x rule: re_findall_from.induct)
  case (1 r pre post)
  note step = re_findall_from.simps[of r pre post]
  show ?case
  proof (cases x)
    case Nil
    then show ?thesis using "1.prems"(1,2) by (subst step) simp
  next
    case (Cons c x0)
    let ?cs = "x0 @ b"
    have post: "post = c # ?cs" using "1.prems"(1) Cons by simp
    have skip: "caps \<in> set (re_findall_from r (c # pre) ?cs)"
      if IH: "\<And>x. ?cs = x @ b \<Longrightarrow> matches r (rev x @ c # pre, b, []) = (pre', post', caps) # more \<Longrightarrow>
          (\<And>x1 x2 p' q' c' more'. ?cs = x1 @ x2 \<Longrightarrow> length x1 < length x \<Longrightarrow>
            matches r (rev x1 @ c # pre, x2, []) = (p', q', c') # more' \<Longrightarrow> length b \<le> length q') \<Longrightarrow>
          caps \<in> set (re_findall_from r (c # pre) ?cs)"
    proof (rule IH[of x0])
      show "matches r (rev x0 @ c # pre, b, []) = (pre', post', caps) # more"
        using "1.prems"(2) Cons by simp
      show "length b \<le> length q'"
        if "?cs = x1 @ x2" "length x1 < length x0" "matches r (rev x1 @ c # pre, x2, []) = (p', q', c') # more'"
        for x1 x2 p' q' c' more'
        using "1.prems"(3)[of "c # x1" x2] that Cons post by simp
    qed simp
    show ?thesis
    proof (cases "matches r (pre, post, [])")
      case Nil
      have "caps \<in> set (re_findall_from r (c # pre) ?cs)"
        by (rule skip, rule "1.IH"(1)[OF Nil post])
      then show ?thesis by (subst step) (simp add: Nil post[symmetric], simp add: post)
    next
      case (Cons st0 sts)
      obtain p' q' c' where st0: "st0 = (p', q', c')" by (cases st0)
      note m = Cons[unfolded st0]
      show ?thesis
      proof (cases "length q' < length post")
        case True
        obtain w where w: "p' = rev w @ pre" "post = w @ q'"
          using matches_consume[of st0 r "(pre, post, [])"] Cons st0 by (auto simp: consumes_def)
        have "length b \<le> length q'" using "1.prems"(3)[of "[]" post] m \<open>x = c # x0\<close> by simp
        moreover have eq: "w @ q' = x @ b" using w(2) "1.prems"(1) by simp
        have "length w + length q' = length x + length b" using arg_cong[OF eq, where f = length] by simp
        ultimately have "length w \<le> length x" by simp
        then obtain x' where x': "x = w @ x'" "q' = x' @ b"
          using eq by (auto simp: append_eq_append_conv2)
        have "caps \<in> set (re_findall_from r p' q')"
        proof (rule "1.IH"(2)[OF m refl refl True, of x'])
          show "matches r (rev x' @ p', b, []) = (pre', post', caps) # more"
            using "1.prems"(2) x'(1) w(1) by simp
          show "length b \<le> length q2"
            if "q' = x1 @ x2" "length x1 < length x'" "matches r (rev x1 @ p', x2, []) = (p2, q2, c2) # more2"
            for x1 x2 p2 q2 c2 more2
            using "1.prems"(3)[of "w @ x1" x2 p2 q2 c2 more2] that w x'(1) by simp
        qed (rule x'(2))
        then show ?thesis using True by (subst step) (simp add: m)
      next
        case False
        have "caps \<in> set (re_findall_from r (c # pre) ?cs)"
          by (rule skip, rule "1.IH"(3)[OF m refl refl False post])
        then show ?thesis using False by (subst step) (simp add: m post[symmetric], simp add: post)
      qed
    qed
  qed
qed

end
