(* ===== verification/Workflow_Actions.thy ===== *)
theory Workflow_Actions
  imports Check_Delivery Regex_Facts
begin

text \<open>
  Which actions of the workflow the delivery contract sees and which of them it takes for pinned.
\<close>

section \<open>The actions of the workflow\<close>

lemma action_first_match:
  assumes "\<forall>c \<in> set blanks. is_space c" "action \<noteq> []" "\<forall>c \<in> set action. not_space c"
    "run_ends not_space rest"
  shows "\<exists>pre' more. matches action_re (pre, lit ''uses:'' @ blanks @ action @ rest, [])
    = (pre', rest, [(1, action)]) # more"
proof -
  let ?post = "blanks @ action @ rest"
  have bl: "takeWhile is_space ?post = blanks"
    using assms(1-3) by (intro takeWhile_run) (auto simp: run_ends_def not_space_def neq_Nil_conv)
  have ac: "takeWhile not_space (action @ rest) = action" using assms(3,4) by (rule takeWhile_run)
  obtain n where n: "length action = Suc n" using assms(2) by (cases action) auto
  have star: "matches (Star True (Cls is_space)) (rev (lit ''uses:'') @ pre, ?post, []) =
      (rev blanks @ rev (lit ''uses:'') @ pre, action @ rest, [])
      # map (\<lambda>k. (rev (take k ?post) @ rev (lit ''uses:'') @ pre, drop k ?post, [])) (rev [0..<length blanks])"
    unfolding matches_Star_Cls bl by simp
  have grp: "\<exists>more. matches (Grp 1 (Plus True (Cls not_space))) (q, action @ rest, []) =
      (rev action @ q, rest, [(1, action)]) # more" for q
    unfolding matches_Grp_Plus_Cls ac n by (simp add: n)
  show ?thesis
    using grp[of "rev blanks @ rev (lit ''uses:'') @ pre"] star
    by (auto simp: action_re_def simp del: matches.simps(6,7))
qed

lemma action_match_shape:
  assumes "(p', q', c') \<in> set (matches action_re (p, q, []))"
  shows "\<exists>blanks action. q = lit ''uses:'' @ blanks @ action @ q' \<and> (\<forall>c \<in> set blanks. is_space c)
    \<and> (\<forall>c \<in> set action. not_space c)"
proof -
  obtain q2 where q2: "q = lit ''uses:'' @ q2"
    using assms by (auto simp: action_re_def prefix_def simp del: matches.simps(6,7) split: if_splits)
  define p2 where "p2 = rev (lit ''uses:'') @ p"
  have m: "(p', q', c') \<in> set (matches (Cat [Star True (Cls is_space), Grp 1 (Plus True (Cls not_space))]) (p2, q2, []))"
    using assms unfolding q2 p2_def by (simp add: action_re_def del: matches.simps(6,7))
  obtain p3 q3 c3 where s: "(p3, q3, c3) \<in> set (matches (Star True (Cls is_space)) (p2, q2, []))"
    and g: "(p', q', c') \<in> set (matches (Grp 1 (Plus True (Cls not_space))) (p3, q3, c3))"
    using m by (auto simp del: matches.simps(6,7))
  obtain w where w: "q2 = w @ q3" "\<forall>c \<in> set w. is_space c" using Star_run_out[OF s] by blast
  obtain c4 where pl: "(p', q', c4) \<in> set (matches (Plus True (Cls not_space)) (p3, q3, c3))"
    using matches_group[OF g] by blast
  obtain v where "q3 = v @ q'" "\<forall>c \<in> set v. not_space c" using Plus_run_out[OF pl] by blast
  then show ?thesis using q2 w by (intro exI[of _ w] exI[of _ v]) simp
qed

text \<open>
  An action named after \<open>uses:\<close> is reported when the last character before the white space in
  front of the key is neither blank nor a colon, as in a list item of the workflow.
\<close>

lemma run_before:
  assumes "w @ c # xs = gap @ d # ys" "\<forall>c \<in> set w. P c" "\<forall>c \<in> set gap. P c" "\<not> P c" "\<not> P d"
  shows "c = d"
proof -
  have "dropWhile P (w @ c # xs) = c # xs" "dropWhile P (gap @ d # ys) = d # ys"
    using assms(2-5) by (simp_all add: dropWhile_append_stop)
  then show ?thesis using assms(1) by simp
qed

lemma colon_no_space: "\<not> is_space 58" "c \<in> set (lit ''uses:'') \<Longrightarrow> \<not> is_space c"
  by (auto simp: lit_def is_space_def py_spaces_def)

lemma colon_before:
  assumes "x1 @ lit ''uses:'' @ w = a @ [d] @ gap" "\<forall>c \<in> set w. is_space c"
    "\<forall>c \<in> set gap. is_space c" "\<not> is_space d"
  shows "d = 58"
proof -
  have "rev w @ 58 # rev (lit ''uses'') @ rev x1 = rev gap @ d # rev a"
    using arg_cong[OF assms(1), where f = rev] by (simp add: lit_def)
  then have "58 = d"
    by (rule run_before[where P = is_space]) (use assms colon_no_space(1) in \<open>simp_all only: set_rev not_False_eq_True\<close>)
  then show ?thesis by (rule sym)
qed

text \<open>A prefix of a match of the action pattern that ends in white space ends in its blanks.\<close>

lemma action_prefix:
  assumes m: "lit ''uses:'' @ bl @ ac = m1 @ us" and ne: "m1 \<noteq> []" "is_space (last m1)"
    and ac: "\<forall>c \<in> set ac. not_space c" and bl: "\<forall>c \<in> set bl. is_space c"
  shows "\<exists>w. m1 = lit ''uses:'' @ w \<and> (\<forall>c \<in> set w. is_space c)"
proof -
  have "\<not> (\<exists>v. lit ''uses:'' = m1 @ v)"
  proof
    assume "\<exists>v. lit ''uses:'' = m1 @ v"
    then obtain v where "lit ''uses:'' = m1 @ v" by blast
    then have "last m1 \<in> set (lit ''uses:'')" using ne(1) by simp
    then show False using ne(2) colon_no_space(2) by blast
  qed
  then obtain w where w: "m1 = lit ''uses:'' @ w" "bl @ ac = w @ us"
    using m unfolding append_eq_append_conv2[of "lit ''uses:''"] by blast
  have "\<not> (\<exists>v. w = bl @ v \<and> v \<noteq> [])"
  proof
    assume "\<exists>v. w = bl @ v \<and> v \<noteq> []"
    then obtain v where v: "w = bl @ v" "v \<noteq> []" by blast
    then have "last m1 = last v" "last v \<in> set ac" using w by auto
    then show False using ne(2) ac by (auto simp: not_space_def)
  qed
  then have "prefix w bl" using w(2) unfolding append_eq_append_conv2[of bl] by (auto simp: prefix_def)
  then show ?thesis using w(1) bl by (auto simp: prefix_def)
qed

lemma action_reported:
  assumes wf: "workflow = a @ [d] @ gap @ lit ''uses:'' @ blanks @ action @ rest"
    and d: "\<not> is_space d" "d \<noteq> 58" and gap: "gap \<noteq> []" "\<forall>c \<in> set gap. is_space c"
    and act: "\<forall>c \<in> set blanks. is_space c" "action \<noteq> []" "\<forall>c \<in> set action. not_space c"
      "run_ends not_space rest"
  shows "action \<in> set (workflow_actions workflow)"
proof -
  let ?x = "a @ [d] @ gap" and ?b = "lit ''uses:'' @ blanks @ action @ rest"
  obtain pre' more where m: "matches action_re (rev ?x @ [], ?b, []) = (pre', rest, [(1, action)]) # more"
    using action_first_match[OF act] by blast
  have "[(1, action)] \<in> set (re_findall_from action_re [] workflow)"
  proof (rule findall_from_reports[of _ ?x ?b, OF _ m])
    fix x1 x2 p' q' c' more'
    assume w: "workflow = x1 @ x2" and l: "length x1 < length ?x"
      and m': "matches action_re (rev x1 @ [], x2, []) = (p', q', c') # more'"
    obtain bl ac where x2: "x2 = lit ''uses:'' @ bl @ ac @ q'" "\<forall>c \<in> set bl. is_space c"
      "\<forall>c \<in> set ac. not_space c"
      using action_match_shape[of p' q' c' "rev x1 @ []" x2] m' by auto
    show "length ?b \<le> length q'"
    proof (rule ccontr)
      assume short: "\<not> length ?b \<le> length q'"
      let ?m = "lit ''uses:'' @ bl @ ac"
      have eq: "x1 @ ?m @ q' = ?x @ ?b" using w wf x2(1) by simp
      define m1 where "m1 = drop (length x1) ?x"
      have "take (length x1) (?x @ ?b) = x1" using eq by (metis append_eq_conv_conj)
      then have "take (length x1) ?x = x1" using l by (simp only: take_append) simp
      then have x: "?x = x1 @ m1" unfolding m1_def by (metis append_take_drop_id)
      have m1: "m1 \<noteq> []" using l unfolding m1_def by (simp only: drop_eq_Nil not_le)
      have "x1 @ ?m @ q' = x1 @ m1 @ ?b" using eq unfolding x by (simp only: append_assoc)
      then have "?m @ q' = m1 @ ?b" by (simp only: append_same_eq same_append_eq)
      then obtain us where us: "?m = m1 @ us"
        using short unfolding append_eq_append_conv2[of ?m] by (auto simp del: append_assoc)
      have "last m1 = last gap" using arg_cong[OF x, where f = last] m1 gap(1) by simp
      then have "is_space (last m1)" using gap by simp
      then obtain v where "m1 = lit ''uses:'' @ v" "\<forall>c \<in> set v. is_space c"
        using action_prefix[OF us m1] x2 by blast
      then have "d = 58" using colon_before[of x1 v a d gap] x gap(2) d(1) by simp
      then show False using d(2) by simp
    qed
  qed (simp add: wf)
  then show ?thesis
    by (force simp: workflow_actions_def re_findall_def cap_def)
qed

section \<open>Pinned actions\<close>

lemma Times_to_end:
  "(p', [], c') \<in> set (matches (Times n (Cls P)) (p, q, c)) \<longleftrightarrow>
     length q = n \<and> list_all P q \<and> p' = rev q @ p \<and> c' = c"
proof -
  have "n \<le> length (takeWhile P q) \<and> drop n q = [] \<longleftrightarrow> length q = n \<and> length q \<le> length (takeWhile P q)"
    using length_takeWhile_le[of P q] by auto
  then have "n \<le> length (takeWhile P q) \<and> drop n q = [] \<longleftrightarrow> length q = n \<and> list_all P q"
    by (simp only: takeWhile_all_le list_all_iff)
  then show ?thesis by (auto simp: matches_Times_Cls)
qed

lemma pinned_iff:
  "pinned action \<longleftrightarrow> (\<exists>name sha. action = name @ [64] @ sha \<and> name \<noteq> [] \<and> list_all no_at_or_space name
     \<and> length sha = 40 \<and> list_all is_hex_lower sha)" (is "_ \<longleftrightarrow> ?shape")
proof -
  let ?sha = "Times 40 (Cls is_hex_lower)"
  have "pinned action \<longleftrightarrow> (\<exists>p' c'. (p', [], c') \<in> set (matches pinned_re ([], action, [])))"
    by (auto simp: pinned_def re_fullmatch_def find_None_iff)
  also have "\<dots> \<longleftrightarrow> (\<exists>p q c. (p, 64 # q, c) \<in> set (matches (Plus True (Cls no_at_or_space)) ([], action, []))
      \<and> (\<exists>p' c'. (p', [], c') \<in> set (matches ?sha (64 # p, q, c))))" (is "_ \<longleftrightarrow> ?mid")
  proof
    assume "\<exists>p' c'. (p', [], c') \<in> set (matches pinned_re ([], action, []))"
    then obtain p' c' p q c where 1: "(p, q, c) \<in> set (matches (Plus True (Cls no_at_or_space)) ([], action, []))"
      and 2: "(p', [], c') \<in> set (matches (Seq (Lit [64]) ?sha) (p, q, c))"
      unfolding pinned_re_def matches.simps(4)[of "Plus _ _"] by auto
    from 2 obtain q' where "q = 64 # q'" "(p', [], c') \<in> set (matches ?sha (64 # p, q', c))"
      by (cases q) (auto split: if_splits simp del: Times.simps)
    then show ?mid using 1 by blast
  next
    assume ?mid
    then obtain p q c p' c' where "(p, 64 # q, c) \<in> set (matches (Plus True (Cls no_at_or_space)) ([], action, []))"
      "(p', [], c') \<in> set (matches (Seq (Lit [64]) ?sha) (p, 64 # q, c))"
      by (auto simp del: Times.simps)
    then show "\<exists>p' c'. (p', [], c') \<in> set (matches pinned_re ([], action, []))"
      unfolding pinned_re_def matches.simps(4)[of "Plus _ _"] set_concat set_map by blast
  qed
  also have "\<dots> \<longleftrightarrow> ?shape"
  proof
    assume ?mid
    then obtain p q c where "(p, 64 # q, c) \<in> set (matches (Plus True (Cls no_at_or_space)) ([], action, []))"
      "length q = 40" "list_all is_hex_lower q"
      unfolding Times_to_end by blast
    then show ?shape using Plus_run_out[of p "64 # q" c] by (fastforce simp: list_all_iff)
  next
    assume ?shape
    then obtain name sha where "action = name @ 64 # sha" "name \<noteq> []" "\<forall>c \<in> set name. no_at_or_space c"
      "length sha = 40" "list_all is_hex_lower sha" by (auto simp: list_all_iff)
    then show ?mid using Plus_run_in[of name no_at_or_space "[]" "64 # sha" "[]" True]
      unfolding Times_to_end by auto
  qed
  finally show ?thesis .
qed

section \<open>What the contract refuses\<close>

text \<open>
  C30: a workflow that names an action which is not pinned to a commit after the text \<open>uses:\<close>, the
  colon right behind the key, fails the delivery contract, with that action in the messages. The key
  is preceded by white space, and the last character before that is not a colon, as in a step of a
  job; the action is the word after the key. (Other spellings of the key in YAML are not seen:
  \<open>spaced_key_unseen\<close>.)
\<close>

theorem unpinned_action_rejected:
  assumes "read_text fs (rel ''.github/workflows/ci.yml'') = Inr workflow"
    and "workflow = a @ [d] @ gap @ lit ''uses:'' @ blanks @ action @ rest"
    and "\<not> is_space d" "d \<noteq> 58" "gap \<noteq> []" "list_all is_space gap" "list_all is_space blanks"
    and "action \<noteq> []" "list_all not_space action" "run_ends not_space rest"
    and "\<And>name sha. action = name @ [64] @ sha \<Longrightarrow> length sha = 40 \<Longrightarrow> list_all is_hex_lower sha \<Longrightarrow>
      \<not> list_all no_at_or_space name"
  shows "Forbidden (lit ''mutable GitHub Action reference'') action \<in> set (workflow_errors workflow)
    \<and> static_check_010 fs \<noteq> Inr []"
proof -
  have "action \<in> set (workflow_actions workflow)"
    using action_reported[of workflow a d gap blanks action rest] assms(2-10) by (simp add: list_all_iff)
  moreover have "\<not> pinned action" using assms(11) unfolding pinned_iff by blast
  ultimately have e: "Forbidden (lit ''mutable GitHub Action reference'') action \<in> set (mutable_actions workflow)"
    by (simp add: mutable_actions_def)
  then have e': "Forbidden (lit ''mutable GitHub Action reference'') action \<in> set (workflow_errors workflow)"
    by (simp add: workflow_errors_def)
  then have "read_then fs ''.github/workflows/ci.yml'' workflow_errors \<noteq> Inr []"
    using assms(1) by (auto simp: read_then_def)
  then have "static_check_010 fs \<noteq> Inr []"
    unfolding static_check_010_def seqs_py_Nil_iff by simp
  then show ?thesis using e' by simp
qed

lemma spaced_key_unseen:
  "workflow_actions (lit ''    - uses : actions/checkout@v4'') = []"
  "workflow_actions (lit ''    - \"uses\": actions/checkout@v4'') = []"
  by code_simp+

definition tagged_workflow :: bytes where
  "tagged_workflow = ''    - uses: actions/checkout@v4'' @ [CHR 0x0A]"

lemma unpinned_action_rejected_witness:
  "static_check_010 [(rel ''.github/workflows/ci.yml'', Regular tagged_workflow False)] \<noteq> Inr []"
proof -
  have "read_text [(rel ''.github/workflows/ci.yml'', Regular tagged_workflow False)] (rel ''.github/workflows/ci.yml'')
      = Inr (lit tagged_workflow)" by code_simp
  from unpinned_action_rejected[OF this, of "lit ''    ''" 45 "[32]" "[32]" "lit ''actions/checkout@v4''" "[10]"]
  show ?thesis
    by (simp add: tagged_workflow_def lit_def is_space_def py_spaces_def not_space_def run_ends_def
        append_eq_Cons_conv Cons_eq_append_conv)
qed

end
