(* ===== verification/Test_Sections.thy ===== *)
theory Test_Sections
  imports Check_Quality Regex_Facts
begin

text \<open>
  The part of a test class that \<open>scripts/check_emp009.py\<close> takes for one test method: where it
  starts, where it ends, and that it stops at the first following test.
\<close>

section \<open>Matches of the two patterns\<close>

lemma Lit_out:
  "(p', q', c') \<in> set (matches (Lit t) (p, q, c)) \<Longrightarrow> q = t @ q' \<and> p' = rev t @ p \<and> c' = c"
  by (auto simp: prefix_def split: if_splits)

lemma Seq_out:
  assumes "st' \<in> set (matches (Seq r s) st)"
  obtains p q c where "(p, q, c) \<in> set (matches r st)" "st' \<in> set (matches s (p, q, c))"
  using assms by auto

lemma Seq_in: "st1 \<in> set (matches r st) \<Longrightarrow> st' \<in> set (matches s st1) \<Longrightarrow> st' \<in> set (matches (Seq r s) st)"
  by auto

lemma Lit_in: "(rev t @ p, q, c) \<in> set (matches (Lit t) (p, t @ q, c))"
  by simp

lemma Eps_in: "st \<in> set (matches Eps st)"
  by simp

lemma Grp_Nil_iff: "matches (Grp k r) st = [] \<longleftrightarrow> matches r st = []"
  by simp

text \<open>The head of a test method, \<open>@Test\<close>, \<open>void\<close> and its name, with white space between them.\<close>

definition test_head :: "pystr \<Rightarrow> pystr \<Rightarrow> bool" where
  "test_head name w \<longleftrightarrow> (\<exists>s1 s2. w = lit ''@Test'' @ s1 @ lit ''void'' @ s2 @ name @ lit ''()''
     \<and> s1 \<noteq> [] \<and> list_all is_space s1 \<and> s2 \<noteq> [] \<and> list_all is_space s2)"

text \<open>The text in front of the next test: a line end, white space, the annotation, white space.\<close>

definition next_test :: "pystr \<Rightarrow> bool" where
  "next_test b \<longleftrightarrow> (\<exists>s1 s2 b'. b = [10] @ s1 @ lit ''@Test'' @ s2 @ b'
     \<and> list_all is_space s1 \<and> s2 \<noteq> [] \<and> list_all is_space s2)"

lemma method_re_out:
  assumes "(p', q', c') \<in> set (matches (method_re name) (p, q, c))"
  shows "\<exists>w. q = w @ q' \<and> p' = rev w @ p \<and> cap 1 c' = w \<and> test_head name w"
proof -
  obtain w c1 where w: "p' = rev w @ p" "q = w @ q'" "cap 1 c' = w" and
    m: "(p', q', c1) \<in> set (matches (Cat [Lit (lit ''@Test''), Plus True (Cls is_space), Lit (lit ''void''),
      Plus True (Cls is_space), Lit name, Lit (lit ''()'')]) (p, q, c))"
    using matches_group[OF assms[unfolded method_re_def]] by blast
  from m[unfolded Cat.simps] obtain p2 q2 c2 p3 q3 c3 p4 q4 c4 p5 q5 c5 p6 q6 c6 p7 q7 c7 where
    1: "(p2, q2, c2) \<in> set (matches (Lit (lit ''@Test'')) (p, q, c))"
    "(p3, q3, c3) \<in> set (matches (Plus True (Cls is_space)) (p2, q2, c2))"
    "(p4, q4, c4) \<in> set (matches (Lit (lit ''void'')) (p3, q3, c3))"
    "(p5, q5, c5) \<in> set (matches (Plus True (Cls is_space)) (p4, q4, c4))"
    "(p6, q6, c6) \<in> set (matches (Lit name) (p5, q5, c5))"
    "(p7, q7, c7) \<in> set (matches (Lit (lit ''()'')) (p6, q6, c6))"
    "(p', q', c1) \<in> set (matches Eps (p7, q7, c7))"
    by (elim Seq_out)
  from 1(6,7) have 2: "(p', q', c1) \<in> set (matches (Lit (lit ''()'')) (p6, q6, c6))" by simp
  obtain s1 s2 where s: "s1 \<noteq> []" "q2 = s1 @ q3" "\<forall>x \<in> set s1. is_space x"
    "s2 \<noteq> []" "q4 = s2 @ q5" "\<forall>x \<in> set s2. is_space x"
    using Plus_run_out[OF 1(2)] Plus_run_out[OF 1(4)] by blast
  have "q = lit ''@Test'' @ s1 @ lit ''void'' @ s2 @ name @ lit ''()'' @ q'"
    using Lit_out[OF 1(1)] Lit_out[OF 1(3)] Lit_out[OF 1(5)] Lit_out[OF 2] s(2,5) by simp
  then have "w = lit ''@Test'' @ s1 @ lit ''void'' @ s2 @ name @ lit ''()''" using w(2) by simp
  then have "test_head name w" unfolding test_head_def list_all_iff using s by blast
  then show ?thesis using w by blast
qed

lemma next_test_out:
  assumes "(p', q', c') \<in> set (matches next_test_re (p, q, c))"
  shows "p' = rev (cap 1 c') @ p \<and> next_test q"
proof -
  obtain w c1 where w: "p' = rev w @ p" "q = w @ q'" "cap 1 c' = w" and
    m: "(p', q', c1) \<in> set (matches (Cat [Lit [10], Star True (Cls is_space), Lit (lit ''@Test''),
      Plus True (Cls is_space)]) (p, q, c))"
    using matches_group[OF assms[unfolded next_test_re_def]] by blast
  from m[unfolded Cat.simps] obtain p2 q2 c2 p3 q3 c3 p4 q4 c4 p5 q5 c5 where
    1: "(p2, q2, c2) \<in> set (matches (Lit [10]) (p, q, c))"
    "(p3, q3, c3) \<in> set (matches (Star True (Cls is_space)) (p2, q2, c2))"
    "(p4, q4, c4) \<in> set (matches (Lit (lit ''@Test'')) (p3, q3, c3))"
    "(p5, q5, c5) \<in> set (matches (Plus True (Cls is_space)) (p4, q4, c4))"
    "(p', q', c1) \<in> set (matches Eps (p5, q5, c5))"
    by (elim Seq_out)
  from 1(4,5) have 2: "(p', q', c1) \<in> set (matches (Plus True (Cls is_space)) (p4, q4, c4))"
    by simp
  obtain s1 s2 where "q2 = s1 @ q3" "\<forall>x \<in> set s1. is_space x"
    "s2 \<noteq> []" "q4 = s2 @ q'" "\<forall>x \<in> set s2. is_space x"
    using Star_run_out[OF 1(2)] Plus_run_out[OF 2] by blast
  then have "next_test q" unfolding next_test_def list_all_iff
    using Lit_out[OF 1(1)] Lit_out[OF 1(3)] by (intro exI[of _ s1] exI[of _ s2] exI[of _ q']) simp
  then show ?thesis using w by simp
qed

lemma next_test_in: "next_test q \<Longrightarrow> matches next_test_re (p, q, c) \<noteq> []"
proof -
  assume "next_test q"
  then obtain s1 s2 b' where q: "q = [10] @ s1 @ lit ''@Test'' @ s2 @ b'" "\<forall>x \<in> set s1. is_space x" "s2 \<noteq> []"
    "\<forall>x \<in> set s2. is_space x" by (auto simp: next_test_def list_all_iff)
  let ?p1 = "rev s1 @ rev [10] @ p" and ?q2 = "lit ''@Test'' @ s2 @ b'"
  have "(?p1, ?q2, c) \<in> set (matches (Star True (Cls is_space)) (rev [10] @ p, s1 @ ?q2, c))"
    by (rule Star_run_in[OF q(2)])
  moreover have "(rev s2 @ rev (lit ''@Test'') @ ?p1, b', c) \<in>
      set (matches (Plus True (Cls is_space)) (rev (lit ''@Test'') @ ?p1, s2 @ b', c))"
    by (rule Plus_run_in[OF q(3,4)])
  ultimately have "(rev s2 @ rev (lit ''@Test'') @ ?p1, b', c) \<in> set (matches (Cat [Lit [10],
      Star True (Cls is_space), Lit (lit ''@Test''), Plus True (Cls is_space)]) (p, q, c))"
    unfolding q(1) Cat.simps by (intro Seq_in[OF Lit_in] Seq_in[OF _ Eps_in] | elim Seq_in)+
  then show ?thesis unfolding next_test_re_def Grp_Nil_iff by (metis emptyE empty_set)
qed

section \<open>The section of a test method\<close>

lemma match_start_out: "p' = rev w @ p \<Longrightarrow> cap 1 c' = w \<Longrightarrow> match_start (p', q', c') = length p"
  by (simp add: match_start_def group_def)

text \<open>Where the next test starts in the text behind the head; the whole text when there is none.\<close>

lemma next_test_search:
  "\<exists>body after. rest = body @ after \<and> (after = [] \<or> next_test after)
     \<and> (\<forall>x y. rest = x @ y \<longrightarrow> length x < length body \<longrightarrow> \<not> next_test y)
     \<and> (case re_search next_test_re rest of None \<Rightarrow> after = [] | Some m \<Rightarrow> match_start m = length body)"
proof (cases "re_search next_test_re rest")
  case None
  have "\<not> next_test y" if "rest = x @ y" for x y
    using re_search_None[OF None that] next_test_in by blast
  then show ?thesis using None by (intro exI[of _ rest] exI[of _ "[]"]) simp
next
  case (Some m)
  obtain a b where ab: "rest = a @ b" "m \<in> set (matches next_test_re (rev a, b, []))"
    "\<And>x y. rest = x @ y \<Longrightarrow> length x < length a \<Longrightarrow> matches next_test_re (rev x, y, []) = []"
    using re_search_Some[OF Some] by blast
  obtain p' q' c' where m: "m = (p', q', c')" by (cases m)
  have "p' = rev (cap 1 c') @ rev a" "next_test b" using next_test_out ab(2) m by blast+
  moreover have "match_start m = length a" using match_start_out[OF calculation(1) refl] m by simp
  moreover have "\<not> next_test y" if "rest = x @ y" "length x < length a" for x y
    using ab(3)[OF that] next_test_in by blast
  ultimately show ?thesis using ab(1) Some by (intro exI[of _ a] exI[of _ b]) simp
qed

text \<open>
  The section that the concurrency evidence looks at starts with the head of the test method
  and ends in front of the first line end that is followed by another test, or with the source; so
  a token found in it stands in front of the next test of the class.
\<close>

theorem method_section_shape:
  assumes "method_section source name = Some s"
  shows "\<exists>before head body after. source = before @ s @ after \<and> s = head @ body \<and> test_head name head
    \<and> (after = [] \<or> next_test after)
    \<and> (\<forall>x y. body @ after = x @ y \<longrightarrow> length x < length body \<longrightarrow> \<not> next_test y)"
proof -
  obtain m where m: "re_search (method_re name) source = Some m"
    using assms by (auto simp: method_section_def split: option.splits)
  obtain a b p' rest c' where ab: "source = a @ b" "m = (p', rest, c')"
      "(p', rest, c') \<in> set (matches (method_re name) (rev a, b, []))"
    using re_search_Some[OF m] by (cases m) blast
  obtain w where w: "b = w @ rest" "p' = rev w @ rev a" "cap 1 c' = w" "test_head name w"
    using method_re_out[OF ab(3)] by blast
  have start: "match_start m = length a" using match_start_out[OF w(2,3)] ab(2) by simp
  have len: "length (fst m) = length a + length w" using ab(2) w(2) by simp
  have rest: "drop (length a + length w) source = rest" using ab(1) w(1) by simp
  obtain body after where n: "rest = body @ after" "after = [] \<or> next_test after"
    "\<forall>x y. rest = x @ y \<longrightarrow> length x < length body \<longrightarrow> \<not> next_test y"
    "case re_search next_test_re rest of None \<Rightarrow> after = [] | Some m2 \<Rightarrow> match_start m2 = length body"
    using next_test_search[of rest] by blast
  have "s = w @ body"
    using assms m start len rest n(1,4) ab(1) w(1)
    by (auto simp: method_section_def Let_def split: option.splits)
  then show ?thesis using ab(1) w(1,4) n by (intro exI[of _ a] exI[of _ w] exI[of _ body] exI[of _ after]) simp
qed

text \<open>A class of two tests.\<close>

definition two_tests :: pystr where
  "two_tests = lit ''class T { @Test void a() { one(); }'' @ [10, 9] @ lit ''@Test void b() { two(); } }''"

lemma two_tests_section: "method_section two_tests (lit ''a'') = Some (lit ''@Test void a() { one(); }'')"
  by code_simp

lemma method_section_shape_witness:
  "\<exists>before after. two_tests = before @ lit ''@Test void a() { one(); }'' @ after \<and> (after = [] \<or> next_test after)"
  using method_section_shape[OF two_tests_section] by blast

end
