(* ===== verification/Gate_Properties.thy ===== *)
theory Gate_Properties
  imports Gates Workflow_Actions Test_Sections Manifest_Cycle
begin

text \<open>
  What the contract stages of \<open>verify.sh\<close> promise together: their verdict does not depend on the
  checksum manifest, it cannot be positive while a refinement is a draft or has just been accepted,
  and where an unreadable file ends a stage with an exception.
\<close>

section \<open>The manifest leaves the verdicts alone\<close>

text \<open>
  C32: regenerating the checksum manifest, once or twice, changes the verdict of none of the
  contract stages: every gate gives on the rewritten tree what it gave before.
\<close>

theorem checksums_keep_verdicts:
  assumes "generate_main fs = Inr fs'" "is_file fs OUTPUT" "generate_main fs' = Inr fs''"
  shows "contract_stages checkout parse_xml git fs' = contract_stages checkout parse_xml git fs
    \<and> contract_stages checkout parse_xml git fs'' = contract_stages checkout parse_xml git fs"
  using stages.after_checksums[OF assms(1,2)] stages.after_checksums_twice[OF assms(1,3,2)] by simp

text \<open>The small repository with an empty manifest, before and after the generator has run.\<close>

definition outdated_fs :: fs where
  "outdated_fs = demo_fs @ [(OUTPUT, Regular [] False)]"

lemma outdated_lookup: "map_of outdated_fs OUTPUT = Some (Regular [] False)"
  "q \<noteq> OUTPUT \<Longrightarrow> map_of outdated_fs q = map_of demo_fs q"
  by (simp_all add: outdated_fs_def demo_fs_def rel_demo lit_def CHECKSUM_NAME_def)

lemma outdated_generated: "generate_main outdated_fs = Inr demo_fs'"
proof -
  have ok: "fs_ok outdated_fs"
    using demo_ok by (simp add: fs_ok_def outdated_fs_def demo_fs_def rel_demo lit_def CHECKSUM_NAME_def
        path_ok_def component_ok_def)
  have inc: "included outdated_fs q = included demo_fs q" for q
    using OUTPUT_not_included[of demo_fs] OUTPUT_not_included[of outdated_fs] outdated_lookup(2)[of q]
    by (cases "q = OUTPUT") (auto simp: included_def is_file_def)
  have "manifest_entries outdated_fs = manifest_entries demo_fs"
  proof (rule manifest_entries_eqI[OF demo_ok ok inc])
    fix q assume "included demo_fs q"
    then have "q \<noteq> OUTPUT" using OUTPUT_not_included by auto
    then show "read_bytes outdated_fs q = read_bytes demo_fs q" by (simp add: read_bytes_def outdated_lookup)
  qed
  moreover have "AList.update OUTPUT (Regular demo_manifest False) outdated_fs = demo_fs'"
    by (simp add: outdated_fs_def demo_fs'_def demo_fs_def rel_demo lit_def CHECKSUM_NAME_def)
  moreover have "utf8_encode (manifest_text (manifest_entries demo_fs)) = Some demo_manifest"
    using demo_print by (simp add: print_manifest_def)
  ultimately show ?thesis
    by (simp add: generate_main_eq write_text_def write_bytes_def outdated_lookup)
qed

lemma demo_regenerated: "generate_main demo_fs' = Inr demo_fs'"
proof -
  have "map_of demo_fs' OUTPUT = Some (Regular demo_manifest False)"
    "AList.update OUTPUT (Regular demo_manifest False) demo_fs' = demo_fs'"
    by (simp_all add: demo_fs'_def demo_fs_def rel_demo lit_def CHECKSUM_NAME_def)
  moreover have "utf8_encode (manifest_text (manifest_entries demo_fs)) = Some demo_manifest"
    using demo_print by (simp add: print_manifest_def)
  ultimately show ?thesis
    by (simp add: generate_main_eq write_text_def write_bytes_def generate_entries[OF demo_ok demo_generated])
qed

lemma checksums_keep_verdicts_witness:
  "contract_stages [] (\<lambda>data. None) demo_git demo_fs' = contract_stages [] (\<lambda>data. None) demo_git outdated_fs"
  using checksums_keep_verdicts[OF outdated_generated _ demo_regenerated, of "[]" "\<lambda>data. None" demo_git]
  by (simp add: is_file_def outdated_lookup)

section \<open>The risk register\<close>

text \<open>The rows of the risk register that the final review accepts, as plain text.\<close>

definition risk_row :: "string \<Rightarrow> string \<Rightarrow> string \<Rightarrow> pystr" where
  "risk_row rid level state = lit ''| '' @ lit rid @ lit '' | '' @ lit level @ lit '' | '' @ lit state @ lit '' |''"

lemma matches_in_iff: "matches_in r t \<longleftrightarrow> (\<exists>a b. t = a @ b \<and> matches r (rev a, b, []) \<noteq> [])"
proof
  assume "matches_in r t"
  then obtain st where "re_search r t = Some st" unfolding matches_in_def by blast
  from re_search_Some[OF this] show "\<exists>a b. t = a @ b \<and> matches r (rev a, b, []) \<noteq> []" by force
next
  assume "\<exists>a b. t = a @ b \<and> matches r (rev a, b, []) \<noteq> []"
  then show "matches_in r t" using re_search_None unfolding matches_in_def by blast
qed

lemma risk_re_prefix:
  "matches (risk_re rid state) (pre, b, []) \<noteq> [] \<longleftrightarrow>
    prefix (risk_row rid ''HIGH'' state) b \<or> prefix (risk_row rid ''MEDIUM'' state) b"
proof (cases "prefix (lit ''| '' @ lit rid @ lit '' | '') b")
  case True
  then obtain c where b: "b = (lit ''| '' @ lit rid @ lit '' | '') @ c" by (auto simp: prefix_def)
  have "matches (risk_re rid state) (pre, b, []) \<noteq> [] \<longleftrightarrow>
      prefix (lit ''HIGH'' @ lit '' | '' @ lit state @ lit '' |'') c \<or> prefix (lit ''MEDIUM'' @ lit '' | '' @ lit state @ lit '' |'') c"
    by (auto simp: risk_re_def b prefix_def)
  then show ?thesis by (simp add: risk_row_def b)
next
  case False
  then have "\<not> prefix (risk_row rid level state) b" for level
    by (auto simp: risk_row_def prefix_def)
  then show ?thesis using False by (simp add: risk_re_def)
qed

lemma risk_errors_iff:
  "risk_errors_011 risks = [] \<longleftrightarrow>
    (\<forall>(rids, state) \<in> {(MITIGATED_RISKS, ''MITIGATED''), (OPEN_RISKS, ''OPEN'')}. \<forall>rid \<in> set rids.
       contains (risk_row rid ''HIGH'' state) risks \<or> contains (risk_row rid ''MEDIUM'' state) risks)"
proof -
  have "matches_in (risk_re rid state) risks \<longleftrightarrow>
      contains (risk_row rid ''HIGH'' state) risks \<or> contains (risk_row rid ''MEDIUM'' state) risks" for rid state
    unfolding matches_in_iff risk_re_prefix contains_iff prefix_def by blast
  then show ?thesis by (simp add: risk_errors_011_def filter_empty_conv)
qed

section \<open>No phase before the implementation passes\<close>

text \<open>The refinement of the final review is accepted, and its review in progress or passed.\<close>

definition review_started :: "pystr \<Rightarrow> bool" where
  "review_started text \<longleftrightarrow> metadata text (lit ''Stan-Refinementu'') = Some (lit ''ACCEPTED'')
     \<and> metadata text (lit ''Implementation-Allowed'') = Some (lit ''YES'')
     \<and> metadata text (lit ''Scope-Frozen'') = Some (lit ''YES'')
     \<and> (metadata text (lit ''Status''), metadata text (lit ''Implementation''), metadata text (lit ''Review-Result''))
       \<in> {(Some (lit ''IN_PROGRESS''), Some (lit ''IN_PROGRESS''), Some (lit ''IN_PROGRESS'')),
          (Some (lit ''DONE_AND_VERIFIED''), Some (lit ''DONE_AND_VERIFIED''), Some (lit ''PASS''))}"

text \<open>
  The refinement of the delivery work is accepted, and past \<open>READY\<close>. Its check ties the state of
  the implementation to the status less than the one of the final review does: in progress or done,
  it may still say that the implementation has not been started, and with the status \<open>REFINEMENT\<close>
  it only has to say that it has.
\<close>

definition delivery_past_ready :: "pystr \<Rightarrow> bool" where
  "delivery_past_ready text \<longleftrightarrow> metadata text (lit ''Stan-Refinementu'') = Some (lit ''ACCEPTED'')
     \<and> metadata text (lit ''Implementation-Allowed'') = Some (lit ''YES'')
     \<and> metadata text (lit ''Scope-Frozen'') = Some (lit ''YES'')
     \<and> (one_of (metadata text (lit ''Status'')) [''IN_PROGRESS'', ''DONE_AND_VERIFIED'']
          \<and> one_of (metadata text (lit ''Implementation'')) [''NOT_STARTED'', ''IN_PROGRESS'', ''DONE_AND_VERIFIED'']
        \<or> one_of (metadata text (lit ''Status'')) [''REFINEMENT'']
          \<and> one_of (metadata text (lit ''Implementation'')) [''IN_PROGRESS'', ''DONE_AND_VERIFIED''])"

lemma contains_trans: "sublist s t \<Longrightarrow> contains (lit t) x \<Longrightarrow> contains (lit s) x"
  unfolding contains_sublist using sublist_lit sublist_order.order_trans by blast

lemma stale_marker_gone:
  assumes "emp011_main fs = Inr []" "validate_boundary_011 fs text = Inr []"
  shows "metadata text (lit ''Implementation'') \<noteq> Some (lit ''NOT_STARTED'')"
proof
  let ?api = "rel ''docs/api/api-contract.md''"
  assume "metadata text (lit ''Implementation'') = Some (lit ''NOT_STARTED'')"
  then have "each_py (stale_errors fs) expected_stale = Inr []"
    using assms(2) by (simp add: validate_boundary_011_def seq_py_Nil_iff)
  then have "stale_errors fs (?api, lit ''Endpoint wykorzystania kuponu pozostaje niezaimplementowany.'') = Inr []"
    unfolding each_py_Nil_iff expected_stale_def by simp
  then obtain api where api: "read_text fs ?api = Inr api"
    "contains (lit ''Endpoint wykorzystania kuponu pozostaje niezaimplementowany.'') api"
    by (auto simp: stale_errors_def py_ok flag_Nil_iff)
  have "read_then fs ''docs/api/api-contract.md'' api_errors_011 = Inr []"
    using assms(1) unfolding emp011_main_def seqs_py_Nil_iff by simp
  then have "api_errors_011 api = []" using api(1) by (simp add: read_then_def)
  then have "\<not> contains (lit ''Endpoint wykorzystania kuponu pozostaje niezaimplementowany'') api"
    by (simp add: api_errors_011_def)
  moreover have "sublist ''Endpoint wykorzystania kuponu pozostaje niezaimplementowany''
      ''Endpoint wykorzystania kuponu pozostaje niezaimplementowany.''"
    unfolding contains_sublist[symmetric] by code_simp
  ultimately show False using api(2) contains_trans by blast
qed

lemma review_011:
  assumes "emp011_main fs = Inr []" "emp011_refinement_main fs = Inr []"
  shows "\<exists>text. read_text fs REF_011 = Inr text \<and> review_started text"
proof -
  obtain t where t: "read_text fs REF_011 = Inr t"
    and meta: "validate_metadata_011 t = []" and boundary: "validate_boundary_011 fs t = Inr []"
    using assms(2) by (auto simp: emp011_refinement_main_def py_ok split: if_splits)
  let ?m = "\<lambda>s. metadata t (lit s)"
  have impl: "?m ''Implementation'' \<noteq> Some (lit ''NOT_STARTED'')" by (rule stale_marker_gone[OF assms(1) boundary])
  have state: "?m ''Stan-Refinementu'' = Some (lit ''ACCEPTED'')"
    using meta impl by (auto simp: validate_metadata_011_def meta_in_def one_of_def draft_expected_011_def)
  then have acc: "expect (lit ''ACCEPTED EMP-011 requires'') t accepted_expected_011 = []"
    and life: "lifecycle_errors_011 t = []"
    using meta by (auto simp: validate_metadata_011_def simp del: expect_Nil_iff)
  obtain st where st: "?m ''Status'' = Some st"
    using life by (auto simp: lifecycle_errors_011_def split: option.splits)
  have "(st, ?m ''Implementation'', ?m ''Review-Result'') \<in>
      {(lit ''IN_PROGRESS'', Some (lit ''IN_PROGRESS''), Some (lit ''IN_PROGRESS'')),
       (lit ''DONE_AND_VERIFIED'', Some (lit ''DONE_AND_VERIFIED''), Some (lit ''PASS''))}"
    using life impl st by (auto simp: lifecycle_errors_011_def lifecycle_011_def split: if_splits)
  then have "review_started t" using state acc st by (auto simp: review_started_def accepted_expected_011_def)
  then show ?thesis using t by blast
qed

lemma delivery_010:
  assumes "static_check_010 fs = Inr []" "emp010_refinement_main fs = Inr []"
  shows "\<exists>text. read_text fs REF_010 = Inr text \<and> delivery_past_ready text"
proof -
  let ?ci = "rel ''.github/workflows/ci.yml''"
  obtain t where t: "read_text fs REF_010 = Inr t"
    and meta: "validate_metadata_010 t = []" and boundary: "validate_boundary_010 fs t = Inr []"
    using assms(2) by (auto simp: emp010_refinement_main_def py_ok split: if_splits)
  let ?m = "\<lambda>s. metadata t (lit s)"
  have "read_then fs ''.github/workflows/ci.yml'' workflow_errors = Inr []"
    using assms(1) unfolding static_check_010_def seqs_py_Nil_iff by simp
  then have "is_file fs ?ci" by (auto simp: read_then_def py_ok dest: read_text_is_file)
  then have "path_exists fs ?ci" by (auto simp: is_file_def path_exists_def split: option.splits)
  then have started: "\<not> (?m ''Implementation'' = Some (lit ''NOT_STARTED'')
      \<and> one_of (?m ''Status'') [''REFINEMENT'', ''READY''])"
    using boundary by (auto simp: validate_boundary_010_def py_ok prohibited_errors_def)
  have state: "?m ''Stan-Refinementu'' = Some (lit ''ACCEPTED'')"
    using meta started by (auto simp: validate_metadata_010_def Let_def one_of_def draft_expected_010_def)
  then have "accepted_errors_010 t = []" using meta by (simp add: validate_metadata_010_def Let_def)
  then have acc: "?m ''Implementation-Allowed'' = Some (lit ''YES'')" "?m ''Scope-Frozen'' = Some (lit ''YES'')"
    "\<not> (?m ''Status'' = Some (lit ''READY'') \<and> ?m ''Implementation'' \<noteq> Some (lit ''NOT_STARTED''))"
    by (simp_all add: accepted_errors_010_def flag_Nil_iff)
  have "one_of (?m ''Status'') [''REFINEMENT'', ''READY'', ''IN_PROGRESS'', ''DONE_AND_VERIFIED'']"
    "one_of (?m ''Implementation'') [''NOT_STARTED'', ''IN_PROGRESS'', ''DONE_AND_VERIFIED'']"
    using meta by (simp_all add: validate_metadata_010_def Let_def)
  then have "delivery_past_ready t" using state acc started
    unfolding delivery_past_ready_def one_of_def list.map list.set by blast
  then show ?thesis using t by blast
qed

text \<open>
  C31: the contract stages do not pass while the refinement of the delivery work or of the final
  review is a draft, or accepted and ready: the check of the finished work and the check of the
  refinement then contradict each other, about a sentence of the API contract or about the workflow.
  What passes has two accepted, frozen refinements whose implementation is allowed; that of the
  final review is in progress or done, with its implementation and its review; that of the delivery
  work is in progress or done, or still under the status of a refinement with an implementation in
  progress or done.
\<close>

theorem no_early_pass:
  assumes "\<not> (\<exists>text. read_text fs REF_011 = Inr text \<and> review_started text)
    \<or> \<not> (\<exists>text. read_text fs REF_010 = Inr text \<and> delivery_past_ready text)"
  shows "\<not> verify_contracts checkout parse_xml git fs"
  using review_011[of fs] delivery_010[of fs] assms
  by (auto simp: verify_contracts_def contract_stages_def)

text \<open>A repository whose review is accepted and ready, but not started.\<close>

definition ready_review :: fs where
  "ready_review = [(REF_011, Regular (''Stan-Refinementu: ACCEPTED'' @ [CHR 0x0A] @ ''Status: READY'') False)]"

lemma ready_review_text:
  "read_text ready_review REF_011 = Inr (lit (''Stan-Refinementu: ACCEPTED'' @ [CHR 0x0A] @ ''Status: READY''))"
  by code_simp

lemma no_early_pass_witness: "\<not> verify_contracts [] (\<lambda>data. None) demo_git ready_review"
proof (rule no_early_pass, rule disjI1)
  have "\<not> review_started (lit (''Stan-Refinementu: ACCEPTED'' @ [CHR 0x0A] @ ''Status: READY''))" by code_simp
  then show "\<not> (\<exists>text. read_text ready_review REF_011 = Inr text \<and> review_started text)"
    by (simp add: ready_review_text)
qed

section \<open>Unreadable files\<close>

definition readable :: "fs \<Rightarrow> path \<Rightarrow> bool" where
  "readable fs p = (case read_text fs p of Inl e \<Rightarrow> False | Inr text \<Rightarrow> True)"

text \<open>The files the static check of the delivery contract reads.\<close>

definition inputs_010 :: "fs \<Rightarrow> path list" where
  "inputs_010 fs = map rel
     [''.github/workflows/ci.yml'', ''Dockerfile'', ''pom.xml'', ''src/main/resources/application.yml'',
      ''docker-compose.yml'', ''docs/api/openapi.yaml'', ''scripts/package_source.py'',
      ''scripts/docker_smoke.sh'', ''Makefile'']
   @ map java_main
     [''observability/web/RequestIdFilter.java'', ''observability/CouponServiceMetrics.java'',
      ''coupon/application/CreateCouponService.java'', ''coupon/application/RedeemCouponService.java'',
      ''coupon/application/TransactionalCouponRedemptionService.java'',
      ''geolocation/adapters/ServletClientIpResolver.java'', ''geolocation/adapters/IpWhoisGeoLocationResolver.java'']
   @ map java_test
     [''observability/web/RequestIdFilterTest.java'', ''geolocation/adapters/ServletClientIpResolverTest.java'',
      ''geolocation/adapters/IpWhoisGeoLocationResolverTest.java'', ''observability/ObservabilityApiIT.java'',
      ''geolocation/configuration/GeolocationConfigurationTest.java'']
   @ domain_files fs"

text \<open>The files the final review reads.\<close>

definition inputs_011 :: "path list" where
  "inputs_011 = map rel
     [''README.md'', ''docs/api/api-contract.md'', ''docs/architecture/overview.md'',
      ''docs/testing/test-strategy.md'', ''docs/project/refinements/README.md'', ''docs/project/risk-register.md'',
      ''docs/product/requirements-traceability.md'', ''docs/project/refinements/EMP-011.md'',
      ''docs/project/backlog.md'', ''docs/project/current-status.md'',
      ''docs/project/refinements/EMP-011-review-checklist.md'', ''docs/api/openapi.yaml'']"

lemma readable_iff: "readable fs p \<longleftrightarrow> (\<exists>t. read_text fs p = Inr t)"
  by (simp add: readable_def split: sum.splits)

lemma bind_returns: "(\<exists>y. bind_py v f = Inr y) \<longleftrightarrow> (\<exists>x. v = Inr x \<and> (\<exists>y. f x = Inr y))"
  by (cases v) auto

lemma read_then_returns: "(\<exists>es. read_then fs name errors = Inr es) \<longleftrightarrow> readable fs (rel name)"
  by (simp add: read_then_def bind_returns readable_iff)

lemma map_py_returns: "(\<exists>ys. map_py f xs = Inr ys) \<longleftrightarrow> (\<forall>x \<in> set xs. \<exists>y. f x = Inr y)"
  by (induction xs) (auto simp: bind_returns)

text \<open>
  The static check of the delivery contract and the final review return their messages exactly
  when every file they read is there and is UTF-8; one unreadable file, and the run ends with an
  exception that discards the messages collected so far.
\<close>

theorem unreadable_ends_check:
  "(\<exists>es. static_check_010 fs = Inr es) = list_all (readable fs) (inputs_010 fs)
   \<and> (\<exists>es. emp011_main fs = Inr es) = list_all (readable fs) inputs_011"
proof
  have "(\<exists>es. services_check fs = Inr es) \<longleftrightarrow> list_all (readable fs) (map java_main
      [''coupon/application/CreateCouponService.java'', ''coupon/application/RedeemCouponService.java'',
       ''coupon/application/TransactionalCouponRedemptionService.java'',
       ''geolocation/adapters/ServletClientIpResolver.java'', ''geolocation/adapters/IpWhoisGeoLocationResolver.java''])"
    by (simp add: services_check_def bind_returns readable_iff)
  moreover have "(\<exists>es. domain_sources_check fs = Inr es) \<longleftrightarrow> list_all (readable fs) (domain_files fs)"
    by (simp add: domain_sources_check_def bind_returns map_py_returns readable_iff list_all_iff)
  ultimately show "(\<exists>es. static_check_010 fs = Inr es) = list_all (readable fs) (inputs_010 fs)"
    unfolding static_check_010_def seqs_py_returns
    by (simp add: read_then_returns inputs_010_def java_main_def java_test_def) blast
  show "(\<exists>es. emp011_main fs = Inr es) = list_all (readable fs) inputs_011"
    unfolding emp011_main_def seqs_py_returns by (simp add: read_then_returns inputs_011_def)
qed

end
