(* ===== verification/Coupon_Domain.thy ===== *)
theory Coupon_Domain
  imports Prelude Py_Text
begin

text \<open>
  The values of the coupon domain (\<open>coupon/domain\<close>): coupon codes, user identifiers, country
  codes and the coupon itself, with the exceptions of the service. A Java string is the list of
  its UTF-16 code units, a string that may be \<open>null\<close> an \<open>option\<close>.
\<close>

type_synonym jstring = "nat list"

text \<open>
  The exceptions: \<open>InvalidCouponValueException\<close> with its field, the exceptions without content,
  \<open>IllegalArgumentException\<close> and \<open>IllegalStateException\<close>, and those of the persistence layer: a
  violated constraint, a result of more than one row, and any other failure of the database.
\<close>

datatype failure =
    Invalid_Value jstring
  | Illegal_Argument
  | Illegal_State
  | Coupon_Not_Found
  | Country_Not_Allowed
  | Coupon_Already_Redeemed
  | Coupon_Exhausted
  | Coupon_Code_Conflict
  | Client_Ip_Unresolved
  | Geolocation_Unavailable
  | Data_Integrity
  | Incorrect_Result_Size
  | Data_Access

section \<open>Strings\<close>

text \<open>\<open>String.trim\<close> removes everything up to the blank.\<close>

definition java_trim :: "jstring \<Rightarrow> jstring" where
  "java_trim s = strip_by (\<lambda>c. c \<le> 32) s"

text \<open>
  \<open>toUpperCase(Locale.ROOT)\<close>, with the characters outside ASCII whose upper case is ASCII. The
  upper case of any other character holds one outside ASCII; the only caller that meets such a
  character compares the result with ASCII codes, so it is left as it is.
\<close>

definition upper_unit :: "nat \<Rightarrow> jstring" where
  "upper_unit c =
     (if 97 \<le> c \<and> c \<le> 122 then [c - 32]
      else if c = 223 then lit ''SS''
      else if c = 305 then lit ''I''
      else if c = 383 then lit ''S''
      else if c = 64256 then lit ''FF''
      else if c = 64257 then lit ''FI''
      else if c = 64258 then lit ''FL''
      else if c = 64259 then lit ''FFI''
      else if c = 64260 then lit ''FFL''
      else if c = 64261 \<or> c = 64262 then lit ''ST''
      else [c])"

definition java_upper :: "jstring \<Rightarrow> jstring" where
  "java_upper s = concat (map upper_unit s)"

definition upper_letter :: "nat \<Rightarrow> bool" where
  "upper_letter c \<longleftrightarrow> 65 \<le> c \<and> c \<le> 90"

section \<open>Coupon codes\<close>

definition code_char :: "nat \<Rightarrow> bool" where
  "code_char c \<longleftrightarrow> upper_letter c \<or> (97 \<le> c \<and> c \<le> 122) \<or> (48 \<le> c \<and> c \<le> 57) \<or> c = 95 \<or> c = 45"

definition code_format :: "jstring \<Rightarrow> bool" where
  "code_format s \<longleftrightarrow> 3 \<le> length s \<and> length s \<le> 64 \<and> list_all code_char s"

record coupon_code =
  code_value :: jstring
  code_normalized :: jstring

definition coupon_code_of :: "jstring option \<Rightarrow> failure + coupon_code" where
  "coupon_code_of rawValue =
     (case rawValue of
        None \<Rightarrow> Inl (Invalid_Value (lit ''code''))
      | Some raw \<Rightarrow>
          let trimmed = java_trim raw
          in if \<not> code_format trimmed then Inl (Invalid_Value (lit ''code''))
             else Inr \<lparr>code_value = trimmed, code_normalized = java_upper trimmed\<rparr>)"

definition same_code :: "coupon_code \<Rightarrow> coupon_code \<Rightarrow> bool" where
  "same_code a b \<longleftrightarrow> code_normalized a = code_normalized b"

section \<open>User identifiers and countries\<close>

definition visible_ascii :: "jstring \<Rightarrow> bool" where
  "visible_ascii s \<longleftrightarrow> 1 \<le> length s \<and> length s \<le> 128 \<and> list_all (\<lambda>c. 33 \<le> c \<and> c \<le> 126) s"

definition user_id_of :: "jstring option \<Rightarrow> failure + jstring" where
  "user_id_of rawValue =
     (case rawValue of
        None \<Rightarrow> Inl (Invalid_Value (lit ''userId''))
      | Some raw \<Rightarrow> if visible_ascii raw then Inr raw else Inl (Invalid_Value (lit ''userId'')))"

text \<open>The list of the JDK, \<open>Locale.getISOCountries()\<close>, is the parameter \<open>countries\<close>.\<close>

definition country_code_of :: "jstring list \<Rightarrow> jstring option \<Rightarrow> failure + jstring" where
  "country_code_of countries rawValue =
     (case rawValue of
        None \<Rightarrow> Inl (Invalid_Value (lit ''countryCode''))
      | Some raw \<Rightarrow>
          let normalized = java_upper (java_trim raw)
          in if normalized \<notin> set countries then Inl (Invalid_Value (lit ''countryCode'')) else Inr normalized)"

section \<open>The coupon\<close>

record coupon =
  coupon_id :: nat
  coupon_code :: coupon_code
  created_at :: int
  max_uses :: int
  current_uses :: int
  coupon_country :: jstring

text \<open>The canonical constructor, which also runs for a coupon read from the database.\<close>

definition new_coupon ::
    "nat \<Rightarrow> coupon_code \<Rightarrow> int \<Rightarrow> int \<Rightarrow> int \<Rightarrow> jstring \<Rightarrow> failure + coupon" where
  "new_coupon ident code createdAt maxUses currentUses country =
     bind_py (guard_py (\<not> (maxUses < 1 \<or> maxUses > 1000000)) (Invalid_Value (lit ''maxUses''))) (\<lambda>_.
     bind_py (guard_py (\<not> (currentUses < 0 \<or> currentUses > maxUses)) Illegal_Argument) (\<lambda>_.
     Inr \<lparr>coupon_id = ident, coupon_code = code, created_at = createdAt, max_uses = maxUses,
          current_uses = currentUses, coupon_country = country\<rparr>))"

definition create_coupon ::
    "nat \<Rightarrow> coupon_code \<Rightarrow> int \<Rightarrow> int \<Rightarrow> jstring \<Rightarrow> failure + coupon" where
  "create_coupon ident code createdAt maxUses country = new_coupon ident code createdAt maxUses 0 country"

section \<open>Canonical codes\<close>

lemma trim_code: "code_format s \<Longrightarrow> java_trim s = s"
proof -
  assume f: "code_format s"
  then have "s \<noteq> []" by (auto simp: code_format_def)
  moreover have "\<forall>c \<in> set s. \<not> c \<le> 32"
    using f by (auto simp: code_format_def list_all_iff code_char_def upper_letter_def)
  ultimately show ?thesis
    by (metis dropWhile_eq_self_iff hd_in_set java_trim_def rev_is_Nil_conv rev_rev_ident set_rev strip_by_def)
qed

lemma upper_code_char: "code_char c \<Longrightarrow> upper_unit c = [if 97 \<le> c \<and> c \<le> 122 then c - 32 else c]"
  by (auto simp: upper_unit_def code_char_def upper_letter_def)

lemma upper_code: "list_all code_char s \<Longrightarrow> java_upper s = map (\<lambda>c. if 97 \<le> c \<and> c \<le> 122 then c - 32 else c) s"
  by (induction s) (auto simp: java_upper_def upper_code_char)

definition normal_char :: "nat \<Rightarrow> bool" where
  "normal_char c \<longleftrightarrow> code_char c \<and> \<not> (97 \<le> c \<and> c \<le> 122)"

lemma upper_normal:
  assumes "code_format s"
  shows "code_format (java_upper s)" "list_all normal_char (java_upper s)" "length (java_upper s) = length s"
  using assms
  by (auto simp: code_format_def upper_code list_all_iff normal_char_def code_char_def upper_letter_def)

lemma upper_fixed: "list_all normal_char s \<Longrightarrow> java_upper s = s"
  by (induction s) (auto simp: java_upper_def normal_char_def upper_code_char)

lemma upper_idem: "code_format s \<Longrightarrow> java_upper (java_upper s) = java_upper s"
  by (rule upper_fixed[OF upper_normal(2)])

lemma coupon_code_of_Inr_iff:
  "coupon_code_of raw = Inr c \<longleftrightarrow> (\<exists>s. raw = Some s \<and> code_format (java_trim s)
     \<and> c = \<lparr>code_value = java_trim s, code_normalized = java_upper (java_trim s)\<rparr>)"
  by (auto simp: coupon_code_of_def Let_def split: option.splits if_splits)

text \<open>
  C25: an accepted coupon code is trimmed, has 3 to 64 of the allowed characters, and a canonical
  form of the same length without lower case letters; both forms are accepted again and have that
  canonical form, so a code printed in any of them denotes the same coupon.
\<close>

theorem coupon_code_canonical:
  assumes "coupon_code_of raw = Inr c"
  shows "code_format (code_value c) \<and> code_format (code_normalized c) \<and> list_all normal_char (code_normalized c)
    \<and> length (code_normalized c) = length (code_value c)
    \<and> coupon_code_of (Some (code_value c)) = Inr c
    \<and> coupon_code_of (Some (code_normalized c)) = Inr (c\<lparr>code_value := code_normalized c\<rparr>)
    \<and> same_code c (c\<lparr>code_value := code_normalized c\<rparr>)"
proof -
  obtain s where s: "code_format (java_trim s)"
    "c = \<lparr>code_value = java_trim s, code_normalized = java_upper (java_trim s)\<rparr>"
    using assms unfolding coupon_code_of_Inr_iff by blast
  then show ?thesis
    using upper_normal[OF s(1)] upper_idem[OF s(1)] trim_code[OF s(1)] trim_code[of "java_upper (java_trim s)"]
    by (simp add: coupon_code_of_def same_code_def Let_def)
qed

lemma coupon_code_canonical_witness:
  "coupon_code_of (Some (lit ''SUMMER-24'')) = Inr \<lparr>code_value = lit ''SUMMER-24'', code_normalized = lit ''SUMMER-24''\<rparr>"
proof -
  have "coupon_code_of (Some (lit '' Summer-24 '')) = Inr \<lparr>code_value = lit ''Summer-24'', code_normalized = lit ''SUMMER-24''\<rparr>"
    by code_simp
  from coupon_code_canonical[OF this] show ?thesis by simp
qed

text \<open>The list of countries compares upper cased text, so characters that are no letters pass.\<close>

lemma sharp_s_is_a_country:
  "lit ''SS'' \<in> set countries \<Longrightarrow> country_code_of countries (Some [223]) = Inr (lit ''SS'')"
proof -
  have "java_upper (java_trim [223]) = lit ''SS''" by code_simp
  then show "lit ''SS'' \<in> set countries \<Longrightarrow> country_code_of countries (Some [223]) = Inr (lit ''SS'')"
    by (simp add: country_code_of_def Let_def)
qed

end
