(* ===== verification/Coupon_Store.thy ===== *)
theory Coupon_Store
  imports Coupon_Domain
begin

text \<open>
  The two tables of the service (\<open>db/migration\<close>, V1 and V2), the statements the adapters run on
  them, and the adapters in \<open>coupon/adapters/persistence\<close>. A table is the list of its rows; a
  statement that violates a constraint leaves the tables alone and is an error. A UUID is a
  number. A time of the program is a count of nanoseconds, the resolution of \<open>clock.instant()\<close> and
  of \<open>OffsetDateTime\<close>; a time of a table is a count of microseconds, the resolution of the columns.
\<close>

section \<open>The tables\<close>

record coupon_row =
  row_id :: nat
  row_code :: jstring
  row_normalized :: jstring
  row_created :: int
  row_max :: int
  row_current :: int
  row_country :: jstring

record redemption_row =
  red_id :: nat
  red_coupon :: nat
  red_user :: jstring
  red_country :: jstring
  red_at :: int

record db =
  coupons :: "coupon_row list"
  redemptions :: "redemption_row list"

text \<open>
  A time on its way into a \<open>TIMESTAMPTZ\<close> column and back: the column has a resolution of one
  microsecond, and a time between two is rounded to the nearer one.
\<close>

definition to_timestamptz :: "int \<Rightarrow> int" where
  "to_timestamptz t = (t + 500) div 1000"

definition from_timestamptz :: "int \<Rightarrow> int" where
  "from_timestamptz u = 1000 * u"

lemma timestamptz_round:
  "\<bar>from_timestamptz (to_timestamptz t) - t\<bar> \<le> 500"
  "1000 dvd from_timestamptz (to_timestamptz t)"
  "1000 dvd t \<Longrightarrow> from_timestamptz (to_timestamptz t) = t"
  by (auto simp: from_timestamptz_def to_timestamptz_def abs_le_iff)

text \<open>A violated constraint: a CHECK, a foreign key, or a unique index with its name.\<close>

datatype sql_error = Check_Violation | Foreign_Key_Violation | Unique_Violation jstring

definition country_format :: "jstring \<Rightarrow> bool" where
  "country_format s \<longleftrightarrow> length s = 2 \<and> list_all upper_letter s"

text \<open>\<open>upper\<close> of a text that satisfies the format of a code.\<close>

definition sql_upper :: "jstring \<Rightarrow> jstring" where
  "sql_upper s = map (\<lambda>c. if 97 \<le> c \<and> c \<le> 122 then c - 32 else c) s"

definition coupon_checks :: "coupon_row \<Rightarrow> bool" where
  "coupon_checks r \<longleftrightarrow> 0 < row_max r \<and> row_max r \<le> 1000000
     \<and> 0 \<le> row_current r \<and> row_current r \<le> row_max r
     \<and> code_format (row_code r)
     \<and> code_format (row_normalized r) \<and> list_all normal_char (row_normalized r)
     \<and> row_normalized r = sql_upper (row_code r)
     \<and> country_format (row_country r)"

definition redemption_checks :: "redemption_row \<Rightarrow> bool" where
  "redemption_checks r \<longleftrightarrow> visible_ascii (red_user r) \<and> country_format (red_country r)"

section \<open>The statements\<close>

definition insert_coupon_row :: "coupon_row \<Rightarrow> db \<Rightarrow> sql_error + db" where
  "insert_coupon_row r d =
     (if \<not> coupon_checks r then Inl Check_Violation
      else if row_id r \<in> set (map row_id (coupons d)) then Inl (Unique_Violation (lit ''coupons_pkey''))
      else if row_normalized r \<in> set (map row_normalized (coupons d))
      then Inl (Unique_Violation (lit ''uq_coupons_normalized_code''))
      else Inr (d\<lparr>coupons := coupons d @ [r]\<rparr>))"

definition insert_redemption_row :: "redemption_row \<Rightarrow> db \<Rightarrow> sql_error + db" where
  "insert_redemption_row r d =
     (if \<not> redemption_checks r then Inl Check_Violation
      else if red_id r \<in> set (map red_id (redemptions d))
      then Inl (Unique_Violation (lit ''coupon_redemptions_pkey''))
      else if (red_coupon r, red_user r) \<in> set (map (\<lambda>q. (red_coupon q, red_user q)) (redemptions d))
      then Inl (Unique_Violation (lit ''uq_coupon_redemptions_coupon_user''))
      else if red_coupon r \<notin> set (map row_id (coupons d)) then Inl Foreign_Key_Violation
      else Inr (d\<lparr>redemptions := redemptions d @ [r]\<rparr>))"

text \<open>\<open>UPDATE coupons SET current_uses=current_uses + 1 WHERE ... RETURNING current_uses\<close>.\<close>

definition has_capacity :: "nat \<Rightarrow> coupon_row \<Rightarrow> bool" where
  "has_capacity ident r \<longleftrightarrow> row_id r = ident \<and> row_current r < row_max r"

definition update_uses :: "nat \<Rightarrow> db \<Rightarrow> int list \<times> db" where
  "update_uses ident d =
     (map (\<lambda>r. row_current r + 1) (filter (has_capacity ident) (coupons d)),
      d\<lparr>coupons := map (\<lambda>r. if has_capacity ident r then r\<lparr>row_current := row_current r + 1\<rparr> else r) (coupons d)\<rparr>)"

section \<open>The adapters\<close>

text \<open>\<open>optional()\<close>: none, one, or more rows than expected.\<close>

definition optional :: "'a list \<Rightarrow> failure + 'a option" where
  "optional rows =
     (case rows of [] \<Rightarrow> Inr None | [r] \<Rightarrow> Inr (Some r) | _ \<Rightarrow> Inl Incorrect_Result_Size)"

definition map_row :: "jstring list \<Rightarrow> coupon_row \<Rightarrow> failure + coupon" where
  "map_row countries r =
     bind_py (coupon_code_of (Some (row_code r))) (\<lambda>code.
     bind_py (country_code_of countries (Some (row_country r))) (\<lambda>country.
     new_coupon (row_id r) code (from_timestamptz (row_created r)) (row_max r) (row_current r) country))"

text \<open>\<open>findSnapshot\<close> and \<open>findForUpdate\<close>; the lock of the second is in the machine.\<close>

definition find_coupon :: "jstring list \<Rightarrow> db \<Rightarrow> jstring \<Rightarrow> failure + coupon option" where
  "find_coupon countries d normalizedCode =
     bind_py (map_py (map_row countries) (filter (\<lambda>r. row_normalized r = normalizedCode) (coupons d))) optional"

definition redemption_exists :: "db \<Rightarrow> nat \<Rightarrow> jstring \<Rightarrow> bool" where
  "redemption_exists d couponId userId \<longleftrightarrow>
     0 < length (filter (\<lambda>q. red_coupon q = couponId \<and> red_user q = userId) (redemptions d))"

definition insert_redemption :: "redemption_row \<Rightarrow> db \<Rightarrow> failure + db" where
  "insert_redemption r d =
     (case insert_redemption_row r d of
        Inr d' \<Rightarrow> Inr d'
      | Inl e \<Rightarrow> if e = Unique_Violation (lit ''uq_coupon_redemptions_coupon_user'')
                then Inl Coupon_Already_Redeemed else Inl Data_Integrity)"

definition increment_if_capacity :: "nat \<Rightarrow> db \<Rightarrow> failure + int option \<times> db" where
  "increment_if_capacity couponId d =
     (let (returned, d') = update_uses couponId d
      in bind_py (optional returned) (\<lambda>uses. Inr (uses, d')))"

definition coupon_to_row :: "coupon \<Rightarrow> coupon_row" where
  "coupon_to_row c =
     \<lparr>row_id = coupon_id c, row_code = code_value (coupon_code c),
      row_normalized = code_normalized (coupon_code c), row_created = to_timestamptz (created_at c),
      row_max = max_uses c, row_current = current_uses c, row_country = coupon_country c\<rparr>"

text \<open>Every unique violation is taken for a conflict of codes.\<close>

definition insert_coupon :: "coupon \<Rightarrow> db \<Rightarrow> failure + db" where
  "insert_coupon c d =
     (case insert_coupon_row (coupon_to_row c) d of
        Inr d' \<Rightarrow> Inr d'
      | Inl (Unique_Violation name) \<Rightarrow> Inl Coupon_Code_Conflict
      | Inl e \<Rightarrow> Inl Data_Integrity)"

section \<open>Tables that satisfy the schema\<close>

definition uses :: "db \<Rightarrow> nat \<Rightarrow> nat" where
  "uses d ident = length (filter (\<lambda>q. red_coupon q = ident) (redemptions d))"

text \<open>
  The constraints of the migrations, and what the service keeps beyond them: the counter of a
  coupon is the number of its redemptions.
\<close>

definition schema_ok :: "db \<Rightarrow> bool" where
  "schema_ok d \<longleftrightarrow> list_all coupon_checks (coupons d) \<and> list_all redemption_checks (redemptions d)
     \<and> distinct (map row_id (coupons d)) \<and> distinct (map row_normalized (coupons d))
     \<and> distinct (map red_id (redemptions d))
     \<and> distinct (map (\<lambda>q. (red_coupon q, red_user q)) (redemptions d))
     \<and> list_all (\<lambda>q. red_coupon q \<in> set (map row_id (coupons d))) (redemptions d)"

definition counted :: "db \<Rightarrow> bool" where
  "counted d \<longleftrightarrow> list_all (\<lambda>r. row_current r = int (uses d (row_id r))) (coupons d)"

definition db_ok :: "db \<Rightarrow> bool" where
  "db_ok d \<longleftrightarrow> schema_ok d \<and> counted d"

lemma filter_unique:
  "distinct (map f xs) \<Longrightarrow> x \<in> set xs \<Longrightarrow> filter (\<lambda>y. f y = f x) xs = [x]"
proof (induction xs)
  case (Cons y ys)
  show ?case
  proof (cases "y = x")
    case True
    then have "\<forall>z \<in> set ys. f z \<noteq> f x" using Cons.prems(1) by (auto simp: image_iff)
    then show ?thesis using True by (simp add: filter_empty_conv)
  next
    case False
    then have "x \<in> set ys" "f y \<noteq> f x" using Cons.prems by (auto simp: image_iff)
    then show ?thesis using Cons by simp
  qed
qed simp

lemma filter_missing: "a \<notin> set (map f xs) \<Longrightarrow> filter (\<lambda>y. f y = a) xs = []"
  by (auto simp: filter_empty_conv)

text \<open>Reading a coupon of tables that satisfy the schema.\<close>

lemma find_coupon_missing:
  "code \<notin> set (map row_normalized (coupons d)) \<Longrightarrow> find_coupon countries d code = Inr None"
  using filter_missing[of code row_normalized "coupons d"] by (simp add: find_coupon_def optional_def)

lemma find_coupon_row:
  assumes "schema_ok d" "r \<in> set (coupons d)" "row_normalized r = code"
  shows "find_coupon countries d code = bind_py (map_row countries r) (\<lambda>c. Inr (Some c))"
proof -
  have "filter (\<lambda>y. row_normalized y = row_normalized r) (coupons d) = [r]"
    using assms(1,2) by (intro filter_unique) (auto simp: schema_ok_def)
  then show ?thesis using assms(3) by (cases "map_row countries r") (simp_all add: find_coupon_def optional_def)
qed

lemma map_row_Inr_iff:
  assumes "coupon_checks r"
  shows "map_row countries r = Inr c \<longleftrightarrow> java_upper (java_trim (row_country r)) \<in> set countries
    \<and> c = \<lparr>coupon_id = row_id r, coupon_code = \<lparr>code_value = row_code r, code_normalized = row_normalized r\<rparr>,
        created_at = from_timestamptz (row_created r), max_uses = row_max r, current_uses = row_current r,
        coupon_country = java_upper (java_trim (row_country r))\<rparr>"
proof -
  have code: "coupon_code_of (Some (row_code r)) = Inr \<lparr>code_value = row_code r, code_normalized = row_normalized r\<rparr>"
    using assms by (auto simp: coupon_checks_def coupon_code_of_def Let_def trim_code upper_code sql_upper_def code_format_def)
  show ?thesis
    using assms by (auto simp: map_row_def code country_code_of_def Let_def new_coupon_def guard_py_def coupon_checks_def)
qed

lemma find_coupon_Some:
  assumes "schema_ok d" "find_coupon countries d code = Inr (Some c)"
  shows "\<exists>r \<in> set (coupons d). row_normalized r = code \<and> map_row countries r = Inr c"
proof -
  have "code \<in> set (map row_normalized (coupons d))"
    using assms(2) find_coupon_missing[of code d countries] by auto
  then obtain r where r: "r \<in> set (coupons d)" "row_normalized r = code" by auto
  then show ?thesis using assms find_coupon_row[OF assms(1) r, of countries] by (auto simp: py_ok)
qed

lemma map_row_fields:
  assumes "coupon_checks r" "map_row countries r = Inr c"
  shows "coupon_id c = row_id r \<and> current_uses c = row_current r \<and> max_uses c = row_max r
    \<and> coupon_code c = \<lparr>code_value = row_code r, code_normalized = row_normalized r\<rparr>"
  using assms(2) unfolding map_row_Inr_iff[OF assms(1)] by (elim conjE) (simp only: coupon.simps)

end
