(* ===== verification/Redemption.thy ===== *)
theory Redemption
  imports Coupon_Store
begin

text \<open>
  The application services (\<open>coupon/application\<close>): the creation of a coupon, the redemption
  transaction, and the service around it, with the status the web adapter gives each exception.
  A transaction that ends with an exception is rolled back: it returns the exception and no
  tables. Identifiers and times come from the generator and the clock and are arguments.
\<close>

section \<open>Creation\<close>

datatype create_outcome = Create_Success | Create_Conflict

record create_command =
  cmd_code :: "jstring option"
  cmd_max_uses :: int
  cmd_country :: "jstring option"

text \<open>The arguments are evaluated from left to right, then the constructor runs.\<close>

definition command_coupon :: "jstring list \<Rightarrow> nat \<Rightarrow> int \<Rightarrow> create_command \<Rightarrow> failure + coupon" where
  "command_coupon countries uuid now command =
     bind_py (coupon_code_of (cmd_code command)) (\<lambda>code.
     bind_py (country_code_of countries (cmd_country command)) (\<lambda>country.
     create_coupon uuid code now (cmd_max_uses command) country))"

text \<open>The result with the outcome counted, if any.\<close>

definition create_service ::
    "jstring list \<Rightarrow> nat \<Rightarrow> int \<Rightarrow> create_command \<Rightarrow> db \<Rightarrow> (failure + coupon \<times> db) \<times> create_outcome option" where
  "create_service countries uuid now command d =
     (case command_coupon countries uuid now command of
        Inl e \<Rightarrow> (Inl e, None)
      | Inr c \<Rightarrow>
          (case insert_coupon c d of
             Inr d' \<Rightarrow> (Inr (c, d'), Some Create_Success)
           | Inl e \<Rightarrow> (Inl e, if e = Coupon_Code_Conflict then Some Create_Conflict else None)))"

section \<open>The redemption transaction\<close>

record redemption_result =
  result_id :: nat
  result_code :: jstring
  result_user :: jstring
  result_at :: int
  result_remaining :: int

text \<open>What the transaction is called with.\<close>

record attempt =
  a_code :: jstring
  a_user :: jstring
  a_country :: jstring
  a_uuid :: nat
  a_now :: int

definition or_not_found :: "coupon option \<Rightarrow> failure + coupon" where
  "or_not_found c = (case c of None \<Rightarrow> Inl Coupon_Not_Found | Some x \<Rightarrow> Inr x)"

text \<open>The repository calls of the transaction, with the tests that follow each.\<close>

definition lock_coupon :: "jstring list \<Rightarrow> db \<Rightarrow> attempt \<Rightarrow> failure + coupon" where
  "lock_coupon countries d a =
     bind_py (bind_py (find_coupon countries d (a_code a)) or_not_found) (\<lambda>c.
     bind_py (guard_py (coupon_country c = a_country a) Country_Not_Allowed) (\<lambda>_. Inr c))"

definition check_redeemable :: "db \<Rightarrow> attempt \<Rightarrow> coupon \<Rightarrow> failure + unit" where
  "check_redeemable d a c =
     bind_py (guard_py (\<not> redemption_exists d (coupon_id c) (a_user a)) Coupon_Already_Redeemed) (\<lambda>_.
     guard_py (\<not> current_uses c \<ge> max_uses c) Coupon_Exhausted)"

definition redemption_of :: "attempt \<Rightarrow> coupon \<Rightarrow> redemption_row" where
  "redemption_of a c = \<lparr>red_id = a_uuid a, red_coupon = coupon_id c, red_user = a_user a,
     red_country = a_country a, red_at = to_timestamptz (a_now a)\<rparr>"

definition count_use :: "db \<Rightarrow> coupon \<Rightarrow> failure + int \<times> db" where
  "count_use d c =
     bind_py (increment_if_capacity (coupon_id c) d) (\<lambda>(uses, d').
       case uses of None \<Rightarrow> Inl Illegal_State | Some n \<Rightarrow> Inr (n, d'))"

definition result_of :: "attempt \<Rightarrow> coupon \<Rightarrow> int \<Rightarrow> redemption_result" where
  "result_of a c currentUses =
     \<lparr>result_id = a_uuid a, result_code = code_value (coupon_code c), result_user = a_user a,
      result_at = a_now a, result_remaining = max_uses c - currentUses\<rparr>"

definition redeem_transaction :: "jstring list \<Rightarrow> attempt \<Rightarrow> db \<Rightarrow> failure + redemption_result \<times> db" where
  "redeem_transaction countries a d =
     bind_py (lock_coupon countries d a) (\<lambda>c.
     bind_py (check_redeemable d a c) (\<lambda>_.
     bind_py (insert_redemption (redemption_of a c) d) (\<lambda>d1.
     bind_py (count_use d1 c) (\<lambda>(n, d2).
     Inr (result_of a c n, d2)))))"

section \<open>The redemption service\<close>

datatype redemption_outcome =
    Success | Not_Found | Not_Allowed | Already_Redeemed | Exhausted | No_Geolocation | Internal_Error

text \<open>The outcome counted for an exception, by the catch clauses in order.\<close>

definition outcome_of :: "failure \<Rightarrow> redemption_outcome" where
  "outcome_of e =
     (case e of
        Coupon_Not_Found \<Rightarrow> Not_Found
      | Country_Not_Allowed \<Rightarrow> Not_Allowed
      | Coupon_Already_Redeemed \<Rightarrow> Already_Redeemed
      | Coupon_Exhausted \<Rightarrow> Exhausted
      | Client_Ip_Unresolved \<Rightarrow> No_Geolocation
      | Geolocation_Unavailable \<Rightarrow> No_Geolocation
      | _ \<Rightarrow> Internal_Error)"

record request =
  req_code :: "jstring option"
  req_user :: "jstring option"
  req_location :: "failure + jstring"
  req_uuid :: nat
  req_now :: int

text \<open>The validation before the \<open>try\<close>: an invalid request is not counted.\<close>

definition validate_request :: "request \<Rightarrow> failure + coupon_code \<times> jstring" where
  "validate_request r =
     bind_py (coupon_code_of (req_code r)) (\<lambda>code.
     bind_py (user_id_of (req_user r)) (\<lambda>user.
     Inr (code, user)))"

definition snapshot_coupon :: "jstring list \<Rightarrow> db \<Rightarrow> coupon_code \<Rightarrow> failure + coupon" where
  "snapshot_coupon countries d code =
     bind_py (find_coupon countries d (code_normalized code)) or_not_found"

text \<open>The country of the client, resolved only for a coupon that exists.\<close>

definition locate :: "request \<Rightarrow> coupon_code \<Rightarrow> jstring \<Rightarrow> coupon \<Rightarrow> failure + attempt" where
  "locate r code user snapshot =
     bind_py (req_location r) (\<lambda>country.
     bind_py (guard_py (coupon_country snapshot = country) Country_Not_Allowed) (\<lambda>_.
     Inr \<lparr>a_code = code_normalized code, a_user = user, a_country = country, a_uuid = req_uuid r,
          a_now = req_now r\<rparr>))"

text \<open>
  The service without other requests: the tables \<open>d\<close> are read for the snapshot and given to the
  transaction.
\<close>

definition redeem_service ::
    "jstring list \<Rightarrow> request \<Rightarrow> db \<Rightarrow> (failure + redemption_result \<times> db) \<times> redemption_outcome option" where
  "redeem_service countries r d =
     (case validate_request r of
        Inl e \<Rightarrow> (Inl e, None)
      | Inr (code, user) \<Rightarrow>
          (case bind_py (snapshot_coupon countries d code) (\<lambda>snapshot.
                bind_py (locate r code user snapshot) (\<lambda>a.
                redeem_transaction countries a d)) of
             Inr x \<Rightarrow> (Inr x, Some Success)
           | Inl e \<Rightarrow> (Inl e, Some (outcome_of e))))"

section \<open>The web adapter\<close>

text \<open>The status and the problem code of an exception.\<close>

definition problem_of :: "failure \<Rightarrow> nat \<times> jstring" where
  "problem_of e =
     (case e of
        Invalid_Value field \<Rightarrow> (400, lit ''INVALID_REQUEST'')
      | Coupon_Code_Conflict \<Rightarrow> (409, lit ''COUPON_CODE_CONFLICT'')
      | Coupon_Not_Found \<Rightarrow> (404, lit ''COUPON_NOT_FOUND'')
      | Client_Ip_Unresolved \<Rightarrow> (503, lit ''GEOLOCATION_UNAVAILABLE'')
      | Geolocation_Unavailable \<Rightarrow> (503, lit ''GEOLOCATION_UNAVAILABLE'')
      | Country_Not_Allowed \<Rightarrow> (403, lit ''COUNTRY_NOT_ALLOWED'')
      | Coupon_Already_Redeemed \<Rightarrow> (409, lit ''COUPON_ALREADY_REDEEMED'')
      | Coupon_Exhausted \<Rightarrow> (409, lit ''COUPON_EXHAUSTED'')
      | _ \<Rightarrow> (500, lit ''INTERNAL_ERROR''))"

end
