(* ===== verification/Service_Faults.thy ===== *)
theory Service_Faults
  imports Redemption
begin

text \<open>
  The services when the database fails: the points at which a call needs it, the two services with
  a set of points that fail, and what a failure can change of their answers.
\<close>

section \<open>Points of failure\<close>

text \<open>
  The statements of the adapters and the two ends of a transaction. A point that fails raises an
  exception that no adapter translates; the faults of a call are the points that fail if the call
  gets to them.
\<close>

datatype db_point =
    Snapshot_Query | Begin_Transaction | Lock_Query | Exists_Query | Insert_Statement | Update_Statement
  | Commit_Transaction

definition at_point :: "db_point list \<Rightarrow> db_point \<Rightarrow> failure + 'a \<Rightarrow> failure + 'a" where
  "at_point faults p r = (if p \<in> set faults then Inl Data_Access else r)"

lemma at_point_Inr_iff [py_ok]: "at_point faults p r = Inr x \<longleftrightarrow> p \<notin> set faults \<and> r = Inr x"
  by (simp add: at_point_def)

lemma at_point_choice: "at_point faults p r \<in> {Inl Data_Access, r}"
  by (simp add: at_point_def)

lemma bind_choice:
  "m \<in> {Inl e, n} \<Longrightarrow> (\<And>x. n = Inr x \<Longrightarrow> f x \<in> {Inl e, g x}) \<Longrightarrow> bind_py m f \<in> {Inl e, bind_py n g}"
  by (cases n) auto

lemma choice_at_point: "r \<in> {Inl Data_Access, s} \<Longrightarrow> at_point faults p r \<in> {Inl Data_Access, s}"
  by (simp add: at_point_def)

section \<open>The services\<close>

text \<open>
  The transaction of a redemption: whatever exception ends it, that of its commit included, rolls
  it back.
\<close>

definition redeem_transaction_under ::
    "db_point list \<Rightarrow> jstring list \<Rightarrow> attempt \<Rightarrow> db \<Rightarrow> failure + redemption_result \<times> db" where
  "redeem_transaction_under faults countries a d =
     at_point faults Begin_Transaction
      (bind_py (at_point faults Lock_Query (lock_coupon countries d a)) (\<lambda>c.
       bind_py (at_point faults Exists_Query (check_redeemable d a c)) (\<lambda>_.
       bind_py (at_point faults Insert_Statement (insert_redemption (redemption_of a c) d)) (\<lambda>d1.
       bind_py (at_point faults Update_Statement (count_use d1 c)) (\<lambda>(n, d2).
       at_point faults Commit_Transaction (Inr (result_of a c n, d2)))))))"

definition redeem_service_under ::
    "db_point list \<Rightarrow> jstring list \<Rightarrow> request \<Rightarrow> db
      \<Rightarrow> (failure + redemption_result \<times> db) \<times> redemption_outcome option" where
  "redeem_service_under faults countries r d =
     (case validate_request r of
        Inl e \<Rightarrow> (Inl e, None)
      | Inr (code, user) \<Rightarrow>
          (case bind_py (at_point faults Snapshot_Query (snapshot_coupon countries d code)) (\<lambda>snapshot.
                bind_py (locate r code user snapshot) (\<lambda>a.
                redeem_transaction_under faults countries a d)) of
             Inr x \<Rightarrow> (Inr x, Some Success)
           | Inl e \<Rightarrow> (Inl e, Some (outcome_of e))))"

text \<open>
  The creation of a coupon is inside its transaction from the start, its validation included, and
  counts a success before the commit.
\<close>

definition create_service_under ::
    "db_point list \<Rightarrow> jstring list \<Rightarrow> nat \<Rightarrow> int \<Rightarrow> create_command \<Rightarrow> db
      \<Rightarrow> (failure + coupon \<times> db) \<times> create_outcome option" where
  "create_service_under faults countries uuid now command d =
     (if Begin_Transaction \<in> set faults then (Inl Data_Access, None)
      else (case command_coupon countries uuid now command of
          Inl e \<Rightarrow> (Inl e, None)
        | Inr c \<Rightarrow>
            (case at_point faults Insert_Statement (insert_coupon c d) of
               Inr d' \<Rightarrow> (at_point faults Commit_Transaction (Inr (c, d')), Some Create_Success)
             | Inl e \<Rightarrow> (Inl e, if e = Coupon_Code_Conflict then Some Create_Conflict else None))))"

section \<open>What a failure can change\<close>

lemma no_faults [simp]: "at_point [] p r = r"
  by (simp add: at_point_def)

lemma services_without_faults:
  "redeem_transaction_under [] = redeem_transaction" "redeem_service_under [] = redeem_service"
  "create_service_under [] = create_service"
proof -
  show t: "redeem_transaction_under [] = redeem_transaction"
    by (intro ext) (simp add: redeem_transaction_under_def redeem_transaction_def)
  show "redeem_service_under [] = redeem_service"
    by (intro ext) (simp add: redeem_service_under_def redeem_service_def t cong: sum.case_cong)
  show "create_service_under [] = create_service"
    by (intro ext) (simp add: create_service_under_def create_service_def cong: sum.case_cong)
qed

text \<open>The answer with faults is the exception, or the answer without them.\<close>

lemma transaction_under:
  "redeem_transaction_under faults countries a d \<in> {Inl Data_Access, redeem_transaction countries a d}"
  unfolding redeem_transaction_under_def redeem_transaction_def split_beta
  by (intro choice_at_point bind_choice at_point_choice)

lemma redeem_under:
  "fst (redeem_service_under faults countries r d) \<in> {Inl Data_Access, fst (redeem_service countries r d)}"
proof (cases "validate_request r")
  case (Inr v)
  obtain code user where v: "v = (code, user)" by (cases v)
  have "bind_py (at_point faults Snapshot_Query (snapshot_coupon countries d code)) (\<lambda>snapshot.
          bind_py (locate r code user snapshot) (\<lambda>a. redeem_transaction_under faults countries a d))
      \<in> {Inl Data_Access, bind_py (snapshot_coupon countries d code) (\<lambda>snapshot.
          bind_py (locate r code user snapshot) (\<lambda>a. redeem_transaction countries a d))}"
    by (intro bind_choice at_point_choice transaction_under) simp
  then show ?thesis
    by (auto simp: redeem_service_under_def redeem_service_def Inr v split: sum.splits)
qed (simp add: redeem_service_under_def redeem_service_def)

lemma create_under:
  "fst (create_service_under faults countries uuid now command d)
    \<in> {Inl Data_Access, fst (create_service countries uuid now command d)}"
  by (auto simp: create_service_under_def create_service_def at_point_def split: sum.splits)

text \<open>A success has passed every point of its operation.\<close>

definition create_points :: "db_point list" where
  "create_points = [Begin_Transaction, Insert_Statement, Commit_Transaction]"

definition redeem_points :: "db_point list" where
  "redeem_points = [Snapshot_Query, Begin_Transaction, Lock_Query, Exists_Query, Insert_Statement, Update_Statement,
     Commit_Transaction]"

lemma redeem_passed:
  "fst (redeem_service_under faults countries r d) = Inr x \<Longrightarrow> set faults \<inter> set redeem_points = {}"
  by (auto simp: redeem_service_under_def redeem_transaction_under_def redeem_points_def py_ok split: sum.splits)

lemma create_passed:
  "fst (create_service_under faults countries uuid now command d) = Inr x \<Longrightarrow> set faults \<inter> set create_points = {}"
  by (auto simp: create_service_under_def create_points_def py_ok split: sum.splits if_splits)

text \<open>Faults at points that the operation does not have change nothing.\<close>

lemma redeem_untouched:
  assumes "set faults \<inter> set redeem_points = {}"
  shows "redeem_service_under faults = redeem_service"
proof -
  have "at_point faults p r = r" for p and r :: "failure + 'a"
    using assms by (cases p) (auto simp: at_point_def redeem_points_def)
  note calm = this
  show ?thesis
    by (intro ext) (simp add: redeem_service_under_def redeem_service_def redeem_transaction_under_def
        redeem_transaction_def calm cong: sum.case_cong)
qed

lemma create_untouched:
  assumes "set faults \<inter> set create_points = {}"
  shows "create_service_under faults = create_service"
  using assms by (intro ext) (simp add: create_service_under_def create_service_def at_point_def create_points_def
      cong: sum.case_cong)

text \<open>
  A commit that fails takes the coupon back, but its creation has been counted as a success.
\<close>

lemma failed_commit_counted:
  assumes "create_service countries uuid now command d = (Inr (c, d'), Some Create_Success)"
  shows "create_service_under [Commit_Transaction] countries uuid now command d = (Inl Data_Access, Some Create_Success)"
  using assms by (auto simp: create_service_under_def create_service_def at_point_def split: sum.splits if_splits)

end
