(* ===== verification/Redemption_Machine.thy ===== *)
theory Redemption_Machine
  imports Redemption
begin

text \<open>
  Concurrent redemptions as interleaved steps: one step per repository call of
  \<open>RedeemCouponService\<close> and \<open>TransactionalCouponRedemptionService\<close>. A transaction reads the
  committed tables (READ COMMITTED), keeps its own writes until it commits, and holds the lock of
  its coupon's row from \<open>SELECT ... FOR UPDATE\<close> to its end. A statement waits for a row that
  another transaction has locked, or for a row with the same key that another has inserted and
  not yet committed.
\<close>

section \<open>The state\<close>

text \<open>Where a request stands; its uncommitted row is \<open>redemption_of a c\<close> from \<open>Inserted\<close> on.\<close>

datatype phase =
    Arrived
  | Snapshot coupon_code jstring coupon
  | Located attempt
  | Locked attempt coupon
  | Checked attempt coupon
  | Inserted attempt coupon
  | Counted attempt coupon int
  | Finished "failure + redemption_result"

record sys =
  committed :: db
  locks :: "nat \<Rightarrow> nat option"
  phases :: "phase list"

definition start :: "db \<Rightarrow> request list \<Rightarrow> sys" where
  "start d reqs = \<lparr>committed = d, locks = (\<lambda>ident. None), phases = map (\<lambda>r. Arrived) reqs\<rparr>"

fun transaction_of :: "phase \<Rightarrow> (attempt \<times> coupon) option" where
  "transaction_of (Locked a c) = Some (a, c)"
| "transaction_of (Checked a c) = Some (a, c)"
| "transaction_of (Inserted a c) = Some (a, c)"
| "transaction_of (Counted a c n) = Some (a, c)"
| "transaction_of p = None"

fun uncommitted :: "phase \<Rightarrow> redemption_row option" where
  "uncommitted (Inserted a c) = Some (redemption_of a c)"
| "uncommitted (Counted a c n) = Some (redemption_of a c)"
| "uncommitted p = None"

fun finished :: "phase \<Rightarrow> bool" where
  "finished (Finished out) = True"
| "finished p = False"

section \<open>The steps\<close>

definition goto :: "nat \<Rightarrow> phase \<Rightarrow> sys \<Rightarrow> sys" where
  "goto i p s = s\<lparr>phases := (phases s)[i := p]\<rparr>"

text \<open>The end of a request, with the end of its transaction.\<close>

definition finish :: "nat \<Rightarrow> failure + redemption_result \<Rightarrow> sys \<Rightarrow> sys" where
  "finish i out s = (goto i (Finished out) s)
     \<lparr>locks := (\<lambda>ident. if locks s ident = Some i then None else locks s ident)\<rparr>"

definition continue_with :: "nat \<Rightarrow> failure + 'a \<Rightarrow> ('a \<Rightarrow> sys) \<Rightarrow> sys \<Rightarrow> sys" where
  "continue_with i r f s = (case r of Inl e \<Rightarrow> finish i (Inl e) s | Inr x \<Rightarrow> f x)"

definition row_locked :: "sys \<Rightarrow> jstring \<Rightarrow> bool" where
  "row_locked s code \<longleftrightarrow>
     list_ex (\<lambda>r. row_normalized r = code \<and> locks s (row_id r) \<noteq> None) (coupons (committed s))"

text \<open>Two rows of which a unique index admits one.\<close>

definition conflicting :: "redemption_row \<Rightarrow> redemption_row \<Rightarrow> bool" where
  "conflicting q r \<longleftrightarrow> red_id q = red_id r \<or> (red_coupon q = red_coupon r \<and> red_user q = red_user r)"

definition insert_waits :: "sys \<Rightarrow> nat \<Rightarrow> redemption_row \<Rightarrow> bool" where
  "insert_waits s i r \<longleftrightarrow>
     list_ex (\<lambda>j. j \<noteq> i \<and> (case uncommitted (phases s ! j) of None \<Rightarrow> False | Some q \<Rightarrow> conflicting q r))
       [0..<length (phases s)]"

text \<open>The writes of a transaction, applied when it commits.\<close>

definition commit_redemption :: "attempt \<Rightarrow> coupon \<Rightarrow> db \<Rightarrow> db" where
  "commit_redemption a c d =
     snd (update_uses (coupon_id c) (d\<lparr>redemptions := redemptions d @ [redemption_of a c]\<rparr>))"

text \<open>One step of the request \<open>i\<close>; \<open>None\<close> when it waits or has finished.\<close>

definition advance :: "jstring list \<Rightarrow> request list \<Rightarrow> sys \<Rightarrow> nat \<Rightarrow> sys option" where
  "advance countries reqs s i =
     (case phases s ! i of
        Arrived \<Rightarrow> Some (continue_with i (validate_request (reqs ! i)) (\<lambda>(code, user).
          continue_with i (snapshot_coupon countries (committed s) code) (\<lambda>c.
            goto i (Snapshot code user c) s) s) s)
      | Snapshot code user c \<Rightarrow>
          Some (continue_with i (locate (reqs ! i) code user c) (\<lambda>a. goto i (Located a) s) s)
      | Located a \<Rightarrow>
          if row_locked s (a_code a) then None
          else Some (continue_with i (lock_coupon countries (committed s) a)
                 (\<lambda>c. goto i (Locked a c) (s\<lparr>locks := (locks s)(coupon_id c \<mapsto> i)\<rparr>)) s)
      | Locked a c \<Rightarrow>
          Some (continue_with i (check_redeemable (committed s) a c) (\<lambda>_. goto i (Checked a c) s) s)
      | Checked a c \<Rightarrow>
          if insert_waits s i (redemption_of a c) then None
          else Some (continue_with i (insert_redemption (redemption_of a c) (committed s))
                 (\<lambda>_. goto i (Inserted a c) s) s)
      | Inserted a c \<Rightarrow>
          Some (continue_with i (count_use (committed s) c) (\<lambda>(n, _). goto i (Counted a c n) s) s)
      | Counted a c n \<Rightarrow>
          Some (finish i (Inr (result_of a c n)) (s\<lparr>committed := commit_redemption a c (committed s)\<rparr>))
      | Finished out \<Rightarrow> None)"

text \<open>The requests alone; and with failures at any moment and coupons created meanwhile.\<close>

inductive run_step :: "jstring list \<Rightarrow> request list \<Rightarrow> sys \<Rightarrow> sys \<Rightarrow> bool" for countries reqs where
  advances: "i < length reqs \<Longrightarrow> advance countries reqs s i = Some s' \<Longrightarrow> run_step countries reqs s s'"

inductive any_step :: "jstring list \<Rightarrow> request list \<Rightarrow> sys \<Rightarrow> sys \<Rightarrow> bool" for countries reqs where
  runs: "run_step countries reqs s s' \<Longrightarrow> any_step countries reqs s s'"
| fails: "i < length reqs \<Longrightarrow> \<not> finished (phases s ! i) \<Longrightarrow> any_step countries reqs s (finish i (Inl e) s)"
| creates: "create_service countries uuid now command (committed s) = (Inr (c, d'), out) \<Longrightarrow>
    any_step countries reqs s (s\<lparr>committed := d'\<rparr>)"

inductive_cases run_stepE: "run_step countries reqs s s'"
inductive_cases any_stepE: "any_step countries reqs s s'"

inductive reachable :: "jstring list \<Rightarrow> request list \<Rightarrow> db \<Rightarrow> sys \<Rightarrow> bool" for countries reqs d where
  starts: "reachable countries reqs d (start d reqs)"
| steps: "reachable countries reqs d s \<Longrightarrow> any_step countries reqs s s' \<Longrightarrow> reachable countries reqs d s'"

section \<open>Tables that agree on one coupon\<close>

definition agree :: "nat \<Rightarrow> db \<Rightarrow> db \<Rightarrow> bool" where
  "agree ident d d' \<longleftrightarrow> filter (\<lambda>r. row_id r = ident) (coupons d') = filter (\<lambda>r. row_id r = ident) (coupons d)
     \<and> filter (\<lambda>q. red_coupon q = ident) (redemptions d') = filter (\<lambda>q. red_coupon q = ident) (redemptions d)"

lemma agree_row: "agree ident d d' \<Longrightarrow> r \<in> set (coupons d) \<Longrightarrow> row_id r = ident \<Longrightarrow> r \<in> set (coupons d')"
proof -
  assume "agree ident d d'" "r \<in> set (coupons d)" "row_id r = ident"
  then have "r \<in> set (filter (\<lambda>r. row_id r = ident) (coupons d'))" by (simp add: agree_def)
  then show ?thesis by simp
qed

lemma lock_coupon_Inr:
  assumes "schema_ok d" "lock_coupon countries d a = Inr c"
  shows "\<exists>r \<in> set (coupons d). row_normalized r = a_code a \<and> map_row countries r = Inr c \<and> row_id r = coupon_id c"
proof -
  have "find_coupon countries d (a_code a) = Inr (Some c)"
    using assms(2) by (auto simp: lock_coupon_def py_ok or_not_found_def split: option.splits)
  then obtain r where r: "r \<in> set (coupons d)" "row_normalized r = a_code a" "map_row countries r = Inr c"
    using find_coupon_Some[OF assms(1)] by blast
  then have "row_id r = coupon_id c"
    using assms(1) map_row_fields[of r countries c] by (auto simp: schema_ok_def list_all_iff)
  then show ?thesis using r by blast
qed

lemma lock_coupon_agree:
  assumes "schema_ok d" "schema_ok d'" "agree (coupon_id c) d d'" "lock_coupon countries d a = Inr c"
  shows "lock_coupon countries d' a = Inr c"
proof -
  obtain r where r: "r \<in> set (coupons d)" "row_normalized r = a_code a" "map_row countries r = Inr c"
    "row_id r = coupon_id c"
    using lock_coupon_Inr[OF assms(1,4)] by blast
  have "r \<in> set (coupons d')" by (rule agree_row[OF assms(3) r(1,4)])
  then have "find_coupon countries d' (a_code a) = Inr (Some c)"
    using find_coupon_row[OF assms(2) _ r(2), of countries] r(3) by simp
  then show ?thesis using assms(4) by (auto simp: lock_coupon_def py_ok or_not_found_def split: option.splits)
qed

lemma exists_agree: "agree ident d d' \<Longrightarrow> redemption_exists d' ident u = redemption_exists d ident u"
proof -
  assume "agree ident d d'"
  then have "filter (\<lambda>q. red_user q = u) (filter (\<lambda>q. red_coupon q = ident) (redemptions d'))
      = filter (\<lambda>q. red_user q = u) (filter (\<lambda>q. red_coupon q = ident) (redemptions d))"
    by (simp add: agree_def)
  then show ?thesis by (simp add: redemption_exists_def conj_commute)
qed

lemma check_redeemable_agree:
  "agree (coupon_id c) d d' \<Longrightarrow> check_redeemable d' a c = check_redeemable d a c"
  by (simp add: check_redeemable_def exists_agree)

section \<open>What a commit does\<close>

lemma check_redeemable_ok:
  "check_redeemable d a c = Inr u \<longleftrightarrow> \<not> redemption_exists d (coupon_id c) (a_user a) \<and> current_uses c < max_uses c"
  by (auto simp: check_redeemable_def py_ok)

lemma insert_redemption_ok:
  "insert_redemption r d = Inr d' \<longleftrightarrow> redemption_checks r \<and> red_id r \<notin> set (map red_id (redemptions d))
     \<and> (red_coupon r, red_user r) \<notin> set (map (\<lambda>q. (red_coupon q, red_user q)) (redemptions d))
     \<and> red_coupon r \<in> set (map row_id (coupons d)) \<and> d' = d\<lparr>redemptions := redemptions d @ [r]\<rparr>"
  by (auto simp: insert_redemption_def insert_redemption_row_def split: if_splits)

text \<open>The fields of the locked coupon are those of its row.\<close>

lemma locked_row:
  assumes "schema_ok d" "lock_coupon countries d a = Inr c"
  shows "\<exists>r \<in> set (coupons d). row_id r = coupon_id c \<and> row_normalized r = a_code a
    \<and> row_current r = current_uses c \<and> row_max r = max_uses c \<and> filter (\<lambda>r. row_id r = coupon_id c) (coupons d) = [r]"
proof -
  obtain r where r: "r \<in> set (coupons d)" "row_normalized r = a_code a" "map_row countries r = Inr c"
    "row_id r = coupon_id c"
    using lock_coupon_Inr[OF assms] by blast
  have "filter (\<lambda>y. row_id y = row_id r) (coupons d) = [r]"
    using assms(1) r(1) by (intro filter_unique) (auto simp: schema_ok_def)
  moreover have "row_current r = current_uses c \<and> row_max r = max_uses c"
    using assms(1) r map_row_fields[of r countries c] by (auto simp: schema_ok_def list_all_iff)
  ultimately show ?thesis using r by auto
qed

lemma count_use_ok:
  assumes "schema_ok d" "lock_coupon countries d a = Inr c" "current_uses c < max_uses c" "coupons d' = coupons d"
  shows "count_use d' c = Inr (current_uses c + 1, snd (update_uses (coupon_id c) d'))"
proof -
  obtain r where r: "filter (\<lambda>r. row_id r = coupon_id c) (coupons d) = [r]"
    "row_current r = current_uses c" "row_max r = max_uses c"
    using locked_row[OF assms(1,2)] by blast
  have "filter (has_capacity (coupon_id c)) (coupons d)
      = filter (\<lambda>r. row_current r < row_max r) (filter (\<lambda>r. row_id r = coupon_id c) (coupons d))"
    unfolding filter_filter by (intro filter_cong refl) (auto simp: has_capacity_def)
  then have "filter (has_capacity (coupon_id c)) (coupons d') = [r]" using r assms(3,4) by simp
  then show ?thesis using r(2)
    by (simp add: count_use_def increment_if_capacity_def update_uses_def optional_def)
qed

lemma transaction_commits:
  assumes "schema_ok d" "lock_coupon countries d a = Inr c" "check_redeemable d a c = Inr ()"
    "insert_redemption (redemption_of a c) d = Inr d1"
  shows "redeem_transaction countries a d = Inr (result_of a c (current_uses c + 1), commit_redemption a c d)"
proof -
  have d1: "d1 = d\<lparr>redemptions := redemptions d @ [redemption_of a c]\<rparr>"
    using assms(4) by (simp add: insert_redemption_ok)
  have "count_use d1 c = Inr (current_uses c + 1, snd (update_uses (coupon_id c) d1))"
    using assms(3) by (intro count_use_ok[OF assms(1,2)]) (simp_all add: d1 check_redeemable_ok)
  then show ?thesis using assms by (simp add: redeem_transaction_def commit_redemption_def d1)
qed

lemma commit_simps:
  "redemptions (commit_redemption a c d) = redemptions d @ [redemption_of a c]"
  "coupons (commit_redemption a c d) =
     map (\<lambda>r. if has_capacity (coupon_id c) r then r\<lparr>row_current := row_current r + 1\<rparr> else r) (coupons d)"
  by (simp_all add: commit_redemption_def update_uses_def)

lemma commit_agree:
  assumes "ident \<noteq> coupon_id c"
  shows "agree ident d (commit_redemption a c d)"
proof -
  have "filter (\<lambda>r. row_id r = ident)
      (map (\<lambda>r. if has_capacity (coupon_id c) r then r\<lparr>row_current := row_current r + 1\<rparr> else r) rs)
    = filter (\<lambda>r. row_id r = ident) rs" for rs
    using assms by (induction rs) (auto simp: has_capacity_def)
  then show ?thesis using assms by (simp add: agree_def commit_simps redemption_of_def)
qed

lemma commit_keys:
  "map row_id (coupons (commit_redemption a c d)) = map row_id (coupons d)"
  "map row_normalized (coupons (commit_redemption a c d)) = map row_normalized (coupons d)"
  by (auto simp: commit_simps)

lemma commit_db_ok:
  assumes "db_ok d" "lock_coupon countries d a = Inr c" "check_redeemable d a c = Inr ()"
    "insert_redemption (redemption_of a c) d = Inr d1"
  shows "db_ok (commit_redemption a c d)"
proof -
  let ?d = "commit_redemption a c d"
  have s: "schema_ok d" using assms(1) by (simp add: db_ok_def)
  have "list_all coupon_checks (coupons ?d)"
    using s by (auto simp: schema_ok_def list_all_iff commit_simps has_capacity_def coupon_checks_def)
  then have "schema_ok ?d" using s assms(4)
    by (auto simp: schema_ok_def commit_keys insert_redemption_ok commit_simps(1))
  moreover have "counted ?d"
    unfolding counted_def list_all_iff
  proof
    fix r' assume "r' \<in> set (coupons ?d)"
    then obtain r where r: "r \<in> set (coupons d)"
      "r' = (if has_capacity (coupon_id c) r then r\<lparr>row_current := row_current r + 1\<rparr> else r)"
      by (auto simp: commit_simps)
    have cnt: "row_current r = int (uses d (row_id r))" using assms(1) r(1)
      by (auto simp: db_ok_def counted_def list_all_iff)
    obtain r0 where r0: "filter (\<lambda>r. row_id r = coupon_id c) (coupons d) = [r0]"
      "row_current r0 = current_uses c" "row_max r0 = max_uses c"
      using locked_row[OF s assms(2)] by blast
    have cap: "has_capacity (coupon_id c) r \<longleftrightarrow> row_id r = coupon_id c"
    proof (cases "row_id r = coupon_id c")
      case True
      then have "r \<in> set (filter (\<lambda>r. row_id r = coupon_id c) (coupons d))" using r(1) by simp
      then have "r = r0" using r0(1) by simp
      then show ?thesis using True r0 assms(3) by (simp add: has_capacity_def check_redeemable_ok)
    qed (simp add: has_capacity_def)
    show "row_current r' = int (uses ?d (row_id r'))"
      using r(2) cnt cap by (auto simp: uses_def commit_simps redemption_of_def)
  qed
  ultimately show ?thesis by (simp add: db_ok_def)
qed

section \<open>What a creation does\<close>

lemma create_rows:
  assumes "create_service countries uuid now command d = (Inr (c, d'), out)"
  shows "insert_coupon_row (coupon_to_row c) d = Inr d' \<and> current_uses c = 0"
  using assms
  by (auto simp: create_service_def command_coupon_def create_coupon_def new_coupon_def insert_coupon_def py_ok
      split: sum.splits sql_error.splits)

lemma insert_coupon_row_ok:
  "insert_coupon_row r d = Inr d' \<longleftrightarrow> coupon_checks r \<and> row_id r \<notin> set (map row_id (coupons d))
     \<and> row_normalized r \<notin> set (map row_normalized (coupons d)) \<and> d' = d\<lparr>coupons := coupons d @ [r]\<rparr>"
  by (auto simp: insert_coupon_row_def split: if_splits)

lemma create_db_ok:
  assumes "db_ok d" "create_service countries uuid now command d = (Inr (c, d'), out)"
  shows "db_ok d'"
proof -
  let ?r = "coupon_to_row c"
  have i: "coupon_checks ?r" "row_id ?r \<notin> set (map row_id (coupons d))"
    "row_normalized ?r \<notin> set (map row_normalized (coupons d))" "d' = d\<lparr>coupons := coupons d @ [?r]\<rparr>" "row_current ?r = 0"
    using create_rows[OF assms(2)] by (auto simp: insert_coupon_row_ok coupon_to_row_def)
  have "uses d (row_id ?r) = 0" using assms(1) i(2)
    unfolding uses_def db_ok_def schema_ok_def list_all_iff by (simp add: filter_empty_conv) metis
  then show ?thesis using assms(1) i
    by (auto simp: db_ok_def schema_ok_def counted_def list_all_iff uses_def)
qed

lemma create_agree:
  assumes "create_service countries uuid now command d = (Inr (c, d'), out)" "ident \<in> set (map row_id (coupons d))"
  shows "agree ident d d'"
  using create_rows[OF assms(1)] assms(2) by (auto simp: agree_def insert_coupon_row_ok)

end
