(* ===== verification/Redemption_Port.thy ===== *)
theory Redemption_Port
  imports Redemption_Machine
begin

text \<open>
  The port \<open>CouponRedemptionRepository\<close> as an interface: what the transaction relies on, the
  answer of the transaction under these laws, and the JDBC adapter as their provider.
\<close>

section \<open>The interface\<close>

text \<open>
  The steps of the transaction after the coupon is locked, over any implementation of the port.
\<close>

definition transaction_steps ::
    "('s \<Rightarrow> nat \<Rightarrow> jstring \<Rightarrow> bool) \<Rightarrow> (redemption_row \<Rightarrow> 's \<Rightarrow> failure + 's) \<Rightarrow> (nat \<Rightarrow> 's \<Rightarrow> failure + int option \<times> 's)
      \<Rightarrow> coupon \<Rightarrow> redemption_row \<Rightarrow> 's \<Rightarrow> failure + int \<times> 's" where
  "transaction_steps has_redeemed add count c row s =
     bind_py (guard_py (\<not> has_redeemed s (coupon_id c) (red_user row)) Coupon_Already_Redeemed) (\<lambda>_.
     bind_py (guard_py (\<not> current_uses c \<ge> max_uses c) Coupon_Exhausted) (\<lambda>_.
     bind_py (add row s) (\<lambda>s1.
     bind_py (count (coupon_id c) s1) (\<lambda>(uses, s2).
     case uses of None \<Rightarrow> Inl Illegal_State | Some n \<Rightarrow> Inr (n, s2)))))"

locale redemption_port =
  fixes good :: "'s \<Rightarrow> bool"
    and find_row :: "'s \<Rightarrow> jstring \<Rightarrow> failure + coupon option"
    and has_redeemed :: "'s \<Rightarrow> nat \<Rightarrow> jstring \<Rightarrow> bool"
    and fresh :: "nat \<Rightarrow> 's \<Rightarrow> bool"
    and add :: "redemption_row \<Rightarrow> 's \<Rightarrow> failure + 's"
    and count :: "nat \<Rightarrow> 's \<Rightarrow> failure + int option \<times> 's"
  assumes add_new: "good s \<Longrightarrow> find_row s code = Inr (Some c) \<Longrightarrow> redemption_checks row \<Longrightarrow> red_coupon row = coupon_id c \<Longrightarrow>
      fresh (red_id row) s \<Longrightarrow> \<not> has_redeemed s (red_coupon row) (red_user row) \<Longrightarrow> \<exists>s'. add row s = Inr s'"
    and add_twice: "has_redeemed s (red_coupon row) (red_user row) \<Longrightarrow> \<exists>e. add row s = Inl e"
    and add_recorded: "add row s = Inr s' \<Longrightarrow>
      has_redeemed s' i u \<longleftrightarrow> has_redeemed s i u \<or> (i = red_coupon row \<and> u = red_user row)"
    and count_room: "good s \<Longrightarrow> find_row s code = Inr (Some c) \<Longrightarrow> add row s = Inr s' \<Longrightarrow> current_uses c < max_uses c \<Longrightarrow>
      \<exists>s''. count (coupon_id c) s' = Inr (Some (current_uses c + 1), s'')"
    and count_recorded: "count j s = Inr (n, s') \<Longrightarrow> has_redeemed s' i u \<longleftrightarrow> has_redeemed s i u"
begin

abbreviation steps :: "coupon \<Rightarrow> redemption_row \<Rightarrow> 's \<Rightarrow> failure + int \<times> 's" where
  "steps \<equiv> transaction_steps has_redeemed add count"

text \<open>The answer is decided by the record of the user and the capacity; nothing else can go wrong.\<close>

lemma steps_answer:
  assumes "good s" "find_row s code = Inr (Some c)" "redemption_checks row" "red_coupon row = coupon_id c" "fresh (red_id row) s"
  shows "if has_redeemed s (coupon_id c) (red_user row) then steps c row s = Inl Coupon_Already_Redeemed
    else if current_uses c \<ge> max_uses c then steps c row s = Inl Coupon_Exhausted
    else \<exists>s'. steps c row s = Inr (current_uses c + 1, s')"
proof (cases "has_redeemed s (coupon_id c) (red_user row) \<or> current_uses c \<ge> max_uses c")
  case False
  then obtain s1 where s1: "add row s = Inr s1" using add_new[OF assms] assms(4) by auto
  obtain s2 where "count (coupon_id c) s1 = Inr (Some (current_uses c + 1), s2)"
    using count_room[OF assms(1,2) s1] False by auto
  then show ?thesis using False s1 by (simp add: transaction_steps_def)
qed (auto simp: transaction_steps_def)

text \<open>Whatever a transaction stored, it stored for its user, and the user cannot store another.\<close>

lemma steps_recorded:
  assumes "steps c row s = Inr (n, s')"
  shows "has_redeemed s' i u \<longleftrightarrow> has_redeemed s i u \<or> (i = red_coupon row \<and> u = red_user row)"
proof -
  obtain s1 m where "add row s = Inr s1" "count (coupon_id c) s1 = Inr (m, s')"
    using assms by (auto simp: transaction_steps_def py_ok split: option.splits)
  then show ?thesis using add_recorded count_recorded by blast
qed

lemma steps_once:
  assumes "steps c row s = Inr (n, s')" "red_coupon row' = red_coupon row" "red_user row' = red_user row"
  shows "\<exists>e. add row' s' = Inl e"
  using add_twice[of s' row'] steps_recorded[OF assms(1)] assms(2,3) by simp

end

section \<open>The adapter\<close>

lemma redeem_transaction_steps:
  "redeem_transaction countries a d =
     bind_py (lock_coupon countries d a) (\<lambda>c.
     bind_py (transaction_steps redemption_exists insert_redemption increment_if_capacity c (redemption_of a c) d) (\<lambda>(n, d2).
     Inr (result_of a c n, d2)))"
proof -
  have "bind_py (check_redeemable d a c) (\<lambda>_. bind_py (insert_redemption (redemption_of a c) d) (\<lambda>d1.
        bind_py (count_use d1 c) (\<lambda>(n, d2). Inr (result_of a c n, d2))))
      = bind_py (transaction_steps redemption_exists insert_redemption increment_if_capacity c (redemption_of a c) d)
          (\<lambda>(n, d2). Inr (result_of a c n, d2))" for c
  proof (cases "insert_redemption (redemption_of a c) d")
    case (Inr d1)
    have u: "red_user (redemption_of a c) = a_user a" by (simp add: redemption_of_def)
    show ?thesis
      by (cases "increment_if_capacity (coupon_id c) d1")
        (auto simp: transaction_steps_def check_redeemable_def count_use_def Inr u guard_py_def split: option.splits)
  qed (auto simp: transaction_steps_def check_redeemable_def redemption_of_def guard_py_def)
  then show ?thesis by (simp add: redeem_transaction_def)
qed

definition fresh_redemption :: "nat \<Rightarrow> db \<Rightarrow> bool" where
  "fresh_redemption ident d \<longleftrightarrow> ident \<notin> set (map red_id (redemptions d))"

lemma find_coupon_id:
  assumes "schema_ok d" "find_coupon countries d code = Inr (Some c)"
  shows "\<exists>r. r \<in> set (coupons d) \<and> row_id r = coupon_id c \<and> row_current r = current_uses c \<and> row_max r = max_uses c
    \<and> map_row countries r = Inr c"
proof -
  obtain r where r: "r \<in> set (coupons d)" "map_row countries r = Inr c" using find_coupon_Some[OF assms] by blast
  then have "coupon_checks r" using assms(1) by (simp add: schema_ok_def list_all_iff)
  then show ?thesis using map_row_fields[of r countries c] r by auto
qed

lemma exists_pairs:
  "redemption_exists d i u \<longleftrightarrow> (i, u) \<in> set (map (\<lambda>q. (red_coupon q, red_user q)) (redemptions d))"
  by (auto simp: redemption_exists_def filter_empty_conv)

lemma increment_found:
  assumes "schema_ok d" "find_coupon countries d code = Inr (Some c)" "coupons d' = coupons d" "current_uses c < max_uses c"
  shows "\<exists>d2. increment_if_capacity (coupon_id c) d' = Inr (Some (current_uses c + 1), d2)"
proof -
  obtain r where r: "r \<in> set (coupons d)" "row_id r = coupon_id c" "row_current r = current_uses c" "row_max r = max_uses c"
    using find_coupon_id[OF assms(1,2)] by blast
  have "filter (\<lambda>y. row_id y = row_id r) (coupons d) = [r]"
    using assms(1) r(1) by (intro filter_unique) (auto simp: schema_ok_def)
  moreover have "filter (has_capacity (coupon_id c)) (coupons d)
      = filter (\<lambda>r. row_current r < row_max r) (filter (\<lambda>y. row_id y = row_id r) (coupons d))"
    unfolding filter_filter using r(2) by (intro filter_cong refl) (auto simp: has_capacity_def)
  ultimately have "filter (has_capacity (coupon_id c)) (coupons d') = [r]" using r(3,4) assms(3,4) by simp
  then show ?thesis using r(3) by (simp add: increment_if_capacity_def update_uses_def optional_def)
qed

interpretation jdbc: redemption_port schema_ok "find_coupon countries" redemption_exists fresh_redemption
  insert_redemption increment_if_capacity
proof unfold_locales
  fix d :: db and code :: jstring and c :: coupon and row :: redemption_row
  assume "schema_ok d" "find_coupon countries d code = Inr (Some c)" "redemption_checks row" "red_coupon row = coupon_id c"
    "fresh_redemption (red_id row) d" "\<not> redemption_exists d (red_coupon row) (red_user row)"
  then show "\<exists>d'. insert_redemption row d = Inr d'"
    using find_coupon_id[of d countries code c] by (force simp: insert_redemption_ok fresh_redemption_def exists_pairs)
next
  fix d :: db and row :: redemption_row assume "redemption_exists d (red_coupon row) (red_user row)"
  then show "\<exists>e. insert_redemption row d = Inl e"
    by (cases "insert_redemption row d") (auto simp: insert_redemption_ok exists_pairs)
next
  fix d d' :: db and row :: redemption_row and i u assume "insert_redemption row d = Inr d'"
  then show "redemption_exists d' i u \<longleftrightarrow> redemption_exists d i u \<or> (i = red_coupon row \<and> u = red_user row)"
    by (auto simp: insert_redemption_ok exists_pairs)
next
  fix d d' :: db and code :: jstring and c :: coupon and row :: redemption_row
  assume "schema_ok d" "find_coupon countries d code = Inr (Some c)" "insert_redemption row d = Inr d'" "current_uses c < max_uses c"
  then show "\<exists>d''. increment_if_capacity (coupon_id c) d' = Inr (Some (current_uses c + 1), d'')"
    using increment_found[of d countries code c d'] by (simp add: insert_redemption_ok)
next
  fix d d' :: db and j n i u assume "increment_if_capacity j d = Inr (n, d')"
  then show "redemption_exists d' i u \<longleftrightarrow> redemption_exists d i u"
    by (auto simp: increment_if_capacity_def update_uses_def py_ok exists_pairs)
qed

text \<open>The transaction on tables that satisfy the schema.\<close>

lemma transaction_answer:
  assumes "schema_ok d" "lock_coupon countries d a = Inr c" "visible_ascii (a_user a)" "country_format (a_country a)"
    "fresh_redemption (a_uuid a) d"
  shows "redeem_transaction countries a d = Inl Coupon_Already_Redeemed
    \<or> redeem_transaction countries a d = Inl Coupon_Exhausted
    \<or> (\<exists>d'. redeem_transaction countries a d = Inr (result_of a c (current_uses c + 1), d'))"
proof -
  have f: "find_coupon countries d (a_code a) = Inr (Some c)"
    using assms(2) by (auto simp: lock_coupon_def py_ok or_not_found_def split: option.splits)
  have row: "redemption_checks (redemption_of a c)" "red_coupon (redemption_of a c) = coupon_id c"
    "fresh_redemption (red_id (redemption_of a c)) d"
    using assms(3-5) by (simp_all add: redemption_checks_def redemption_of_def)
  show ?thesis
    using jdbc.steps_answer[OF assms(1) f row] assms(2)
    by (auto simp: redeem_transaction_steps split: if_splits)
qed

end
