(* ===== verification/Redemption_Safety.thy ===== *)
theory Redemption_Safety
  imports Redemption_Machine
begin

text \<open>
  What holds in every state the concurrent redemptions can reach: the invariant of the machine,
  and what follows from it for the tables and the answers.
\<close>

section \<open>The invariant\<close>

text \<open>What a transaction has established about the committed tables.\<close>

fun tx_ok :: "jstring list \<Rightarrow> db \<Rightarrow> phase \<Rightarrow> bool" where
  "tx_ok countries d (Locked a c) \<longleftrightarrow> lock_coupon countries d a = Inr c"
| "tx_ok countries d (Checked a c) \<longleftrightarrow> lock_coupon countries d a = Inr c \<and> check_redeemable d a c = Inr ()"
| "tx_ok countries d (Inserted a c) \<longleftrightarrow> lock_coupon countries d a = Inr c \<and> check_redeemable d a c = Inr ()
     \<and> (\<exists>d1. insert_redemption (redemption_of a c) d = Inr d1)"
| "tx_ok countries d (Counted a c n) \<longleftrightarrow> lock_coupon countries d a = Inr c \<and> check_redeemable d a c = Inr ()
     \<and> (\<exists>d1. insert_redemption (redemption_of a c) d = Inr d1) \<and> n = current_uses c + 1"
| "tx_ok countries d p \<longleftrightarrow> True"

definition locks_ok :: "sys \<Rightarrow> bool" where
  "locks_ok s \<longleftrightarrow>
     (\<forall>i < length (phases s). \<forall>a c. transaction_of (phases s ! i) = Some (a, c) \<longrightarrow> locks s (coupon_id c) = Some i)
     \<and> (\<forall>ident i. locks s ident = Some i \<longrightarrow> i < length (phases s)
          \<and> (\<exists>a c. transaction_of (phases s ! i) = Some (a, c) \<and> coupon_id c = ident))"

definition keys_ok :: "sys \<Rightarrow> bool" where
  "keys_ok s \<longleftrightarrow> (\<forall>i < length (phases s). \<forall>j < length (phases s). \<forall>q r. i \<noteq> j \<longrightarrow>
     uncommitted (phases s ! i) = Some q \<longrightarrow> uncommitted (phases s ! j) = Some r \<longrightarrow> red_id q \<noteq> red_id r)"

definition sys_ok :: "jstring list \<Rightarrow> request list \<Rightarrow> sys \<Rightarrow> bool" where
  "sys_ok countries reqs s \<longleftrightarrow> length (phases s) = length reqs \<and> db_ok (committed s)
     \<and> (\<forall>i < length reqs. tx_ok countries (committed s) (phases s ! i)) \<and> locks_ok s \<and> keys_ok s"

lemma uncommitted_transaction:
  "uncommitted p = Some q \<Longrightarrow> \<exists>a c. transaction_of p = Some (a, c) \<and> q = redemption_of a c"
  by (cases p) auto

lemma start_ok: "db_ok d \<Longrightarrow> sys_ok countries reqs (start d reqs)"
  by (simp add: sys_ok_def start_def locks_ok_def keys_ok_def)

lemma phases_goto [simp]: "phases (goto i p s) = (phases s)[i := p]"
  and committed_goto [simp]: "committed (goto i p s) = committed s"
  and locks_goto [simp]: "locks (goto i p s) = locks s"
  by (simp_all add: goto_def)

lemma finish_simps [simp]:
  "phases (finish i out s) = (phases s)[i := Finished out]" "committed (finish i out s) = committed s"
  "locks (finish i out s) = (\<lambda>ident. if locks s ident = Some i then None else locks s ident)"
  by (simp_all add: finish_def)

lemma locks_okD:
  "locks_ok s \<Longrightarrow> i < length (phases s) \<Longrightarrow> transaction_of (phases s ! i) = Some (a, c) \<Longrightarrow> locks s (coupon_id c) = Some i"
  by (simp add: locks_ok_def)

lemma locks_okE:
  "locks_ok s \<Longrightarrow> locks s ident = Some i \<Longrightarrow>
   i < length (phases s) \<and> (\<exists>a c. transaction_of (phases s ! i) = Some (a, c) \<and> coupon_id c = ident)"
  by (simp add: locks_ok_def)

text \<open>The transactions of two requests are about different coupons.\<close>

lemma different_coupons:
  assumes "locks_ok s" "i < length (phases s)" "j < length (phases s)" "i \<noteq> j"
    "transaction_of (phases s ! i) = Some (a, c)" "transaction_of (phases s ! j) = Some (b, e)"
  shows "coupon_id c \<noteq> coupon_id e"
  using locks_okD[OF assms(1,2,5)] locks_okD[OF assms(1,3,6)] assms(4) by auto

section \<open>Steps keep the invariant\<close>

lemma keys_ok_update:
  assumes "keys_ok s" "phases s' = (phases s)[i := p]"
    "\<And>r j q. uncommitted p = Some r \<Longrightarrow> j < length (phases s) \<Longrightarrow> j \<noteq> i \<Longrightarrow> uncommitted (phases s ! j) = Some q \<Longrightarrow>
      red_id q \<noteq> red_id r"
  shows "keys_ok s'"
  unfolding keys_ok_def
proof (intro allI impI)
  fix x y q r
  assume xy: "x < length (phases s')" "y < length (phases s')" "x \<noteq> y"
    and q: "uncommitted (phases s' ! x) = Some q" and r: "uncommitted (phases s' ! y) = Some r"
  show "red_id q \<noteq> red_id r"
  proof (cases "x = i \<or> y = i")
    case True
    then show ?thesis using xy q r assms(3)[of q y r] assms(3)[of r x q] assms(2) by auto
  next
    case False
    then show ?thesis using xy q r assms(1,2) unfolding keys_ok_def by auto
  qed
qed

lemma finish_ok:
  assumes "sys_ok countries reqs s" "i < length reqs"
  shows "sys_ok countries reqs (finish i out s)"
proof -
  have len: "length (phases s) = length reqs" and l: "locks_ok s" and k: "keys_ok s"
    using assms(1) by (simp_all add: sys_ok_def)
  have "tx_ok countries (committed s) ((phases s)[i := Finished out] ! j)" if "j < length reqs" for j
    using assms(1) that len by (cases "j = i") (auto simp: sys_ok_def)
  moreover have "locks_ok (finish i out s)"
    unfolding locks_ok_def
  proof (intro conjI allI impI)
    fix j a c assume j: "j < length (phases (finish i out s))"
      and t: "transaction_of (phases (finish i out s) ! j) = Some (a, c)"
    then have "j \<noteq> i" by (cases "j = i") auto
    then show "locks (finish i out s) (coupon_id c) = Some j"
      using j t locks_okD[OF l, of j a c] by simp
  next
    fix ident j assume "locks (finish i out s) ident = Some j"
    then have "locks s ident = Some j" "j \<noteq> i" by (auto split: if_splits)
    then show "j < length (phases (finish i out s))"
      "\<exists>a c. transaction_of (phases (finish i out s) ! j) = Some (a, c) \<and> coupon_id c = ident"
      using locks_okE[OF l] by auto
  qed
  moreover have "keys_ok (finish i out s)"
    by (rule keys_ok_update[OF k, where p = "Finished out" and i = i]) simp_all
  ultimately show ?thesis using assms(1) by (simp add: sys_ok_def)
qed

lemma goto_ok:
  assumes "sys_ok countries reqs s" "i < length reqs" "transaction_of p = transaction_of (phases s ! i)"
    "tx_ok countries (committed s) p"
    "\<And>r j q. uncommitted p = Some r \<Longrightarrow> j < length reqs \<Longrightarrow> j \<noteq> i \<Longrightarrow> uncommitted (phases s ! j) = Some q \<Longrightarrow>
      red_id q \<noteq> red_id r"
  shows "sys_ok countries reqs (goto i p s)"
proof -
  have len: "length (phases s) = length reqs" and l: "locks_ok s" and k: "keys_ok s"
    using assms(1) by (simp_all add: sys_ok_def)
  have same: "transaction_of ((phases s)[i := p] ! j) = transaction_of (phases s ! j)" for j
    using assms(2,3) len by (cases "j = i") auto
  have "tx_ok countries (committed s) ((phases s)[i := p] ! j)" if "j < length reqs" for j
    using assms(1,4) that len by (cases "j = i") (auto simp: sys_ok_def)
  moreover have "locks_ok (goto i p s)" using l unfolding locks_ok_def by (simp add: same)
  moreover have "keys_ok (goto i p s)"
    by (rule keys_ok_update[OF k phases_goto]) (use assms(5) len in auto)
  ultimately show ?thesis using assms(1) by (simp add: sys_ok_def)
qed

lemma lock_ok:
  assumes "sys_ok countries reqs s" "i < length reqs" "phases s ! i = Located a"
    "\<not> row_locked s (a_code a)" "lock_coupon countries (committed s) a = Inr c"
  shows "sys_ok countries reqs (goto i (Locked a c) (s\<lparr>locks := (locks s)(coupon_id c \<mapsto> i)\<rparr>))"
proof -
  let ?s = "goto i (Locked a c) (s\<lparr>locks := (locks s)(coupon_id c \<mapsto> i)\<rparr>)"
  have len: "length (phases s) = length reqs" and l: "locks_ok s" and k: "keys_ok s" and d: "schema_ok (committed s)"
    using assms(1) by (simp_all add: sys_ok_def db_ok_def)
  obtain r where "r \<in> set (coupons (committed s))" "row_normalized r = a_code a" "row_id r = coupon_id c"
    using locked_row[OF d assms(5)] by blast
  then have free: "locks s (coupon_id c) = None" using assms(4) by (auto simp: row_locked_def list_ex_iff)
  have "tx_ok countries (committed s) ((phases s)[i := Locked a c] ! j)" if "j < length reqs" for j
    using assms(1,5) that len by (cases "j = i") (auto simp: sys_ok_def)
  moreover have "locks_ok ?s"
    unfolding locks_ok_def
  proof (intro conjI allI impI)
    fix j b e assume j: "j < length (phases ?s)" and t: "transaction_of (phases ?s ! j) = Some (b, e)"
    show "locks ?s (coupon_id e) = Some j"
    proof (cases "j = i")
      case True
      then show ?thesis using t assms(2) len by simp
    next
      case False
      then have "locks s (coupon_id e) = Some j" using j t locks_okD[OF l, of j b e] by simp
      then show ?thesis using free by auto
    qed
  next
    fix ident j assume h: "locks ?s ident = Some j"
    have "j < length (phases ?s) \<and> (\<exists>a c. transaction_of (phases ?s ! j) = Some (a, c) \<and> coupon_id c = ident)"
    proof (cases "ident = coupon_id c")
      case True
      then show ?thesis using h assms(2) len by simp
    next
      case False
      then obtain b e where be: "j < length (phases s)" "transaction_of (phases s ! j) = Some (b, e)" "coupon_id e = ident"
        using h locks_okE[OF l, of ident j] by auto
      then have "j \<noteq> i" using assms(3) by auto
      then show ?thesis using be by simp
    qed
    then show "j < length (phases ?s)" "\<exists>a c. transaction_of (phases ?s ! j) = Some (a, c) \<and> coupon_id c = ident"
      by blast+
  qed
  moreover have "keys_ok ?s"
    by (rule keys_ok_update[OF k, where p = "Locked a c" and i = i]) simp_all
  ultimately show ?thesis using assms(1) by (simp add: sys_ok_def)
qed

text \<open>Another transaction's knowledge survives a change of the tables that its coupon does not see.\<close>

lemma tx_ok_change:
  assumes "schema_ok d" "schema_ok d'" "set (map row_id (coupons d)) \<subseteq> set (map row_id (coupons d'))"
    and "\<And>a c. transaction_of p = Some (a, c) \<Longrightarrow> agree (coupon_id c) d d'"
    and "\<And>q. uncommitted p = Some q \<Longrightarrow> red_id q \<notin> set (map red_id (redemptions d'))"
    and "tx_ok countries d p"
  shows "tx_ok countries d' p"
proof -
  have ins: "\<exists>d1. insert_redemption (redemption_of a c) d' = Inr d1"
    if "agree (coupon_id c) d d'" "red_id (redemption_of a c) \<notin> set (map red_id (redemptions d'))"
      "check_redeemable d a c = Inr ()" "insert_redemption (redemption_of a c) d = Inr d1" for a c d1
  proof -
    have "\<not> redemption_exists d' (coupon_id c) (a_user a)"
      using check_redeemable_agree[OF that(1), of a] that(3) check_redeemable_ok[of d' a c "()"] by simp
    then have "(red_coupon (redemption_of a c), red_user (redemption_of a c))
        \<notin> set (map (\<lambda>q. (red_coupon q, red_user q)) (redemptions d'))"
      by (auto simp: redemption_exists_def redemption_of_def filter_empty_conv)
    then show ?thesis using that(2,4) assms(3) by (auto simp: insert_redemption_ok)
  qed
  show ?thesis
  proof (cases p)
    case (Locked a c)
    then show ?thesis using assms(6) assms(4)[of a c] lock_coupon_agree[OF assms(1,2)] by simp
  next
    case (Checked a c)
    then show ?thesis
      using assms(6) assms(4)[of a c] lock_coupon_agree[OF assms(1,2)] check_redeemable_agree by simp
  next
    case (Inserted a c)
    then show ?thesis using assms(6) assms(4)[of a c] assms(5)[of "redemption_of a c"]
        lock_coupon_agree[OF assms(1,2)] check_redeemable_agree[of c d d' a] ins[of c a] by auto
  next
    case (Counted a c n)
    then show ?thesis using assms(6) assms(4)[of a c] assms(5)[of "redemption_of a c"]
        lock_coupon_agree[OF assms(1,2)] check_redeemable_agree[of c d d' a] ins[of c a] by auto
  qed auto
qed

lemma waits_not:
  assumes "\<not> insert_waits s i r" "j < length (phases s)" "j \<noteq> i" "uncommitted (phases s ! j) = Some q"
  shows "red_id q \<noteq> red_id r"
  using assms by (auto simp: insert_waits_def list_ex_iff conflicting_def)

lemma transaction_tx_ok:
  "transaction_of p = Some (a, c) \<Longrightarrow> tx_ok countries d p \<Longrightarrow> lock_coupon countries d a = Inr c"
  by (cases p) auto

lemma committed_update [simp]:
  "locks_ok (s\<lparr>committed := d\<rparr>) = locks_ok s" "keys_ok (s\<lparr>committed := d\<rparr>) = keys_ok s"
  by (simp_all add: locks_ok_def keys_ok_def)

text \<open>A change of the tables that no transaction sees.\<close>

lemma tables_ok:
  assumes ok: "sys_ok countries reqs s" and d': "db_ok d'"
    and rows: "set (map row_id (coupons (committed s))) \<subseteq> set (map row_id (coupons d'))"
    and agree: "\<And>j a c. j < length reqs \<Longrightarrow> transaction_of (phases s ! j) = Some (a, c) \<Longrightarrow> agree (coupon_id c) (committed s) d'"
    and keys: "\<And>j q. j < length reqs \<Longrightarrow> uncommitted (phases s ! j) = Some q \<Longrightarrow> red_id q \<notin> set (map red_id (redemptions d'))"
  shows "sys_ok countries reqs (s\<lparr>committed := d'\<rparr>)"
proof -
  have "tx_ok countries d' (phases s ! j)" if j: "j < length reqs" for j
    using ok d' j rows agree[OF j] keys[OF j]
    by (intro tx_ok_change[of "committed s" d' "phases s ! j" countries]) (auto simp: sys_ok_def db_ok_def)
  then show ?thesis using ok d' by (simp add: sys_ok_def)
qed

lemma pending_new:
  assumes "sys_ok countries reqs s" "j < length reqs" "uncommitted (phases s ! j) = Some q"
  shows "red_id q \<notin> set (map red_id (redemptions (committed s)))"
proof -
  have "tx_ok countries (committed s) (phases s ! j)" using assms(1,2) by (simp add: sys_ok_def)
  then show ?thesis using assms(3) by (cases "phases s ! j") (auto simp: insert_redemption_ok)
qed

lemma create_ok:
  assumes ok: "sys_ok countries reqs s" and c: "create_service countries uuid now command (committed s) = (Inr (c, d'), out)"
  shows "sys_ok countries reqs (s\<lparr>committed := d'\<rparr>)"
proof (rule tables_ok[OF ok])
  have d: "db_ok (committed s)" using ok by (simp add: sys_ok_def)
  show "db_ok d'" by (rule create_db_ok[OF d c])
  have d': "d' = (committed s)\<lparr>coupons := coupons (committed s) @ [coupon_to_row c]\<rparr>"
    using create_rows[OF c] by (simp add: insert_coupon_row_ok)
  show "set (map row_id (coupons (committed s))) \<subseteq> set (map row_id (coupons d'))" by (auto simp: d')
  show "red_id q \<notin> set (map red_id (redemptions d'))" if "j < length reqs" "uncommitted (phases s ! j) = Some q" for j q
    using pending_new[OF ok that] by (simp add: d')
  fix j a e assume j: "j < length reqs" "transaction_of (phases s ! j) = Some (a, e)"
  have "lock_coupon countries (committed s) a = Inr e"
    using transaction_tx_ok[OF j(2)] ok j(1) by (simp add: sys_ok_def)
  then obtain r where "r \<in> set (coupons (committed s))" "row_id r = coupon_id e"
    using locked_row[of "committed s" countries a e] d unfolding db_ok_def by blast
  then have "coupon_id e \<in> set (map row_id (coupons (committed s)))" by (metis image_eqI set_map)
  then show "agree (coupon_id e) (committed s) d'" by (rule create_agree[OF c])
qed

text \<open>The commit: the transaction ends, then its writes become visible to the others.\<close>

lemma commit_ok:
  assumes ok: "sys_ok countries reqs s" and i: "i < length reqs" and p: "phases s ! i = Counted a c n"
  shows "sys_ok countries reqs (finish i out (s\<lparr>committed := commit_redemption a c (committed s)\<rparr>))"
proof -
  let ?d = "commit_redemption a c (committed s)"
  have tx: "lock_coupon countries (committed s) a = Inr c" "check_redeemable (committed s) a c = Inr ()"
    "\<exists>d1. insert_redemption (redemption_of a c) (committed s) = Inr d1"
    using ok i p by (auto simp: sys_ok_def dest!: spec[of _ i])
  have d: "db_ok (committed s)" and l: "locks_ok s" and k: "keys_ok s" and len: "length (phases s) = length reqs"
    using ok by (simp_all add: sys_ok_def)
  have "sys_ok countries reqs ((finish i out s)\<lparr>committed := ?d\<rparr>)"
  proof (rule tables_ok[OF finish_ok[OF ok i]])
    show "db_ok ?d" using commit_db_ok[OF d tx(1,2)] tx(3) by blast
    show "set (map row_id (coupons (committed (finish i out s)))) \<subseteq> set (map row_id (coupons ?d))"
      unfolding commit_keys by simp
    fix j
    show "agree (coupon_id e) (committed (finish i out s)) ?d"
      if j: "j < length reqs" "transaction_of (phases (finish i out s) ! j) = Some (b, e)" for b e
    proof -
      have "j \<noteq> i" using j len by auto
      then have "coupon_id e \<noteq> coupon_id c"
        using different_coupons[OF l, of j i b e a c] j i p len by simp
      then show ?thesis by (simp add: commit_agree)
    qed
    show "red_id q \<notin> set (map red_id (redemptions ?d))"
      if j: "j < length reqs" "uncommitted (phases (finish i out s) ! j) = Some q" for q
    proof -
      have "j \<noteq> i" using j len by auto
      then have n: "j \<noteq> i" "uncommitted (phases s ! j) = Some q" using j by simp_all
      then have "red_id q \<noteq> red_id (redemption_of a c)"
        using k j(1) i p len unfolding keys_ok_def by auto
      then show ?thesis using pending_new[OF ok j(1) n(2)] by (simp add: commit_simps)
    qed
  qed
  moreover have "(finish i out s)\<lparr>committed := ?d\<rparr> = finish i out (s\<lparr>committed := ?d\<rparr>)"
    by (cases s) (simp add: finish_def goto_def cong: if_cong)
  ultimately show ?thesis by simp
qed

lemma continue_ok:
  assumes "sys_ok countries reqs s" "i < length reqs" "\<And>x. r = Inr x \<Longrightarrow> sys_ok countries reqs (f x)"
  shows "sys_ok countries reqs (continue_with i r f s)"
  using assms finish_ok by (auto simp: continue_with_def split: sum.splits)

lemma run_step_ok:
  assumes "run_step countries reqs s s'" and ok: "sys_ok countries reqs s"
  shows "sys_ok countries reqs s'"
proof -
  obtain i where 1: "i < length reqs" "advance countries reqs s i = Some s'"
    using assms(1) by (auto elim: run_stepE)
  have d: "db_ok (committed s)" and len: "length (phases s) = length reqs"
    and tx: "tx_ok countries (committed s) (phases s ! i)" using ok 1 by (simp_all add: sys_ok_def)
  note keep = continue_ok[OF ok 1(1)] and go = goto_ok[OF ok 1(1)]
  show ?thesis
  proof (cases "phases s ! i")
    case Arrived
    then show ?thesis using 1 by (auto simp: advance_def intro!: keep go)
  next
    case (Snapshot code user c)
    then show ?thesis using 1 by (auto simp: advance_def intro!: keep go)
  next
    case (Located a)
    then show ?thesis using 1 ok by (auto simp: advance_def intro!: keep lock_ok split: if_splits)
  next
    case (Locked a c)
    then show ?thesis using 1 tx by (auto simp: advance_def intro!: keep go)
  next
    case (Checked a c)
    then show ?thesis using 1 tx len
      by (auto simp: advance_def intro!: keep go dest: waits_not split: if_splits)
  next
    case (Inserted a c)
    have "sys_ok countries reqs (goto i (Counted a c n) s)" if "count_use (committed s) c = Inr (n, d2)" for n d2
    proof (rule go)
      have "count_use (committed s) c = Inr (current_uses c + 1, snd (update_uses (coupon_id c) (committed s)))"
        using Inserted tx d by (intro count_use_ok) (auto simp: db_ok_def check_redeemable_ok)
      then show "tx_ok countries (committed s) (Counted a c n)" using Inserted tx that by simp
      show "red_id q \<noteq> red_id r" if "uncommitted (Counted a c n) = Some r" "j < length reqs" "j \<noteq> i"
        "uncommitted (phases s ! j) = Some q" for r j q
        using ok that Inserted 1(1) len by (auto simp: sys_ok_def keys_ok_def)
    qed (use Inserted in simp)
    then show ?thesis using 1 Inserted by (auto simp: advance_def intro!: keep)
  next
    case (Counted a c n)
    then show ?thesis using 1 commit_ok[OF ok 1(1) Counted] by (auto simp: advance_def)
  qed (use 1 in \<open>simp add: advance_def\<close>)
qed

lemma any_step_ok: "any_step countries reqs s s' \<Longrightarrow> sys_ok countries reqs s \<Longrightarrow> sys_ok countries reqs s'"
  by (elim any_stepE) (auto intro: run_step_ok finish_ok create_ok)

lemma reachable_ok: "reachable countries reqs d s \<Longrightarrow> db_ok d \<Longrightarrow> sys_ok countries reqs s"
  by (induction rule: reachable.induct) (auto intro: start_ok any_step_ok)

end
