(* ===== verification/Redemption_Answers.thy ===== *)
theory Redemption_Answers
  imports Redemption_Safety
begin

text \<open>
  The concurrent redemptions against the sequential service: every answer is the one
  \<open>redeem_service\<close> gives on the tables committed at that moment, so the answers are those of the
  requests served one after the other, and the outcomes of a competition for a coupon are exact.
\<close>

section \<open>What a request has found out\<close>

text \<open>The coupon with the code exists and has this country, now as at the snapshot.\<close>

definition seen :: "jstring list \<Rightarrow> db \<Rightarrow> coupon_code \<Rightarrow> jstring \<Rightarrow> bool" where
  "seen countries d code country \<longleftrightarrow> (\<exists>c. snapshot_coupon countries d code = Inr c \<and> coupon_country c = country)"

definition asked :: "jstring list \<Rightarrow> db \<Rightarrow> request \<Rightarrow> attempt \<Rightarrow> bool" where
  "asked countries d r a \<longleftrightarrow> (\<exists>code user c. validate_request r = Inr (code, user)
     \<and> snapshot_coupon countries d code = Inr c \<and> locate r code user c = Inr a)"

fun knows :: "jstring list \<Rightarrow> db \<Rightarrow> request \<Rightarrow> phase \<Rightarrow> bool" where
  "knows countries d r (Snapshot code user c) \<longleftrightarrow> validate_request r = Inr (code, user)
     \<and> seen countries d code (coupon_country c)"
| "knows countries d r (Located a) \<longleftrightarrow> asked countries d r a"
| "knows countries d r (Locked a c) \<longleftrightarrow> asked countries d r a"
| "knows countries d r (Checked a c) \<longleftrightarrow> asked countries d r a"
| "knows countries d r (Inserted a c) \<longleftrightarrow> asked countries d r a"
| "knows countries d r (Counted a c n) \<longleftrightarrow> asked countries d r a"
| "knows countries d r p \<longleftrightarrow> True"

definition all_know :: "jstring list \<Rightarrow> request list \<Rightarrow> sys \<Rightarrow> bool" where
  "all_know countries reqs s \<longleftrightarrow> (\<forall>i < length reqs. knows countries (committed s) (reqs ! i) (phases s ! i))"

lemma locate_country:
  "coupon_country c = coupon_country c' \<Longrightarrow> locate r code user c = locate r code user c'"
  by (simp add: locate_def)

lemma asked_service:
  assumes "asked countries d r a"
  shows "fst (redeem_service countries r d) = redeem_transaction countries a d"
proof -
  obtain code user c where "validate_request r = Inr (code, user)"
    "snapshot_coupon countries d code = Inr c" "locate r code user c = Inr a"
    using assms unfolding asked_def by blast
  then show ?thesis by (cases "redeem_transaction countries a d") (simp_all add: redeem_service_def)
qed

text \<open>Changes of the tables that keep every coupon's code and country keep what is known.\<close>

definition keeps_coupons :: "jstring list \<Rightarrow> db \<Rightarrow> db \<Rightarrow> bool" where
  "keeps_coupons countries d d' \<longleftrightarrow> (\<forall>code country. seen countries d code country \<longrightarrow> seen countries d' code country)"

lemma knows_change:
  assumes "keeps_coupons countries d d'" "knows countries d r p"
  shows "knows countries d' r p"
proof -
  have "asked countries d' r a" if a: "asked countries d r a" for a
  proof -
    obtain code user c where v: "validate_request r = Inr (code, user)"
      "snapshot_coupon countries d code = Inr c" "locate r code user c = Inr a"
      using a unfolding asked_def by blast
    then have "seen countries d code (coupon_country c)" by (simp add: seen_def)
    then obtain c' where "snapshot_coupon countries d' code = Inr c'" "coupon_country c' = coupon_country c"
      using assms(1) unfolding keeps_coupons_def seen_def by blast
    then show ?thesis using v locate_country[of c' c r code user] unfolding asked_def by auto
  qed
  then show ?thesis using assms by (cases p) (auto simp: keeps_coupons_def)
qed

lemma snapshot_row:
  assumes "schema_ok d" "snapshot_coupon countries d code = Inr c"
  shows "\<exists>r \<in> set (coupons d). row_normalized r = code_normalized code \<and> map_row countries r = Inr c"
  using assms find_coupon_Some[OF assms(1)]
  by (auto simp: snapshot_coupon_def py_ok or_not_found_def split: option.splits)

lemma keeps_rows:
  assumes "schema_ok d" "schema_ok d'"
    "\<And>r c. r \<in> set (coupons d) \<Longrightarrow> map_row countries r = Inr c \<Longrightarrow> \<exists>r' \<in> set (coupons d'). \<exists>c'.
      row_normalized r' = row_normalized r \<and> map_row countries r' = Inr c' \<and> coupon_country c' = coupon_country c"
  shows "keeps_coupons countries d d'"
  unfolding keeps_coupons_def seen_def
proof (intro allI impI, elim exE conjE)
  fix code country c assume c: "snapshot_coupon countries d code = Inr c" "coupon_country c = country"
  obtain r where r: "r \<in> set (coupons d)" "row_normalized r = code_normalized code" "map_row countries r = Inr c"
    using snapshot_row[OF assms(1) c(1)] by blast
  obtain r' c' where r': "r' \<in> set (coupons d')" "row_normalized r' = row_normalized r" "map_row countries r' = Inr c'"
    "coupon_country c' = coupon_country c"
    using assms(3)[OF r(1,3)] by blast
  have "find_coupon countries d' (code_normalized code) = Inr (Some c')"
    using find_coupon_row[OF assms(2) r'(1), of "code_normalized code" countries] r' r(2) by simp
  then show "\<exists>c. snapshot_coupon countries d' code = Inr c \<and> coupon_country c = country"
    using r'(4) c(2) by (simp add: snapshot_coupon_def or_not_found_def)
qed

lemma map_row_use:
  assumes "coupon_checks r" "coupon_checks (r\<lparr>row_current := n\<rparr>)" "map_row countries r = Inr c"
  shows "map_row countries (r\<lparr>row_current := n\<rparr>) = Inr (c\<lparr>current_uses := n\<rparr>)"
  using assms(3) unfolding map_row_Inr_iff[OF assms(1)] map_row_Inr_iff[OF assms(2)] by auto

lemma commit_keeps:
  assumes "schema_ok d" "schema_ok (commit_redemption a c d)"
  shows "keeps_coupons countries d (commit_redemption a c d)"
proof (rule keeps_rows[OF assms])
  fix r e assume r: "r \<in> set (coupons d)" "map_row countries r = Inr e"
  let ?r = "if has_capacity (coupon_id c) r then r\<lparr>row_current := row_current r + 1\<rparr> else r"
  have m: "?r \<in> set (coupons (commit_redemption a c d))" using r(1) by (auto simp: commit_simps)
  have "coupon_checks r" "coupon_checks ?r" using assms r(1) m by (auto simp: schema_ok_def list_all_iff)
  then have "\<exists>e'. map_row countries ?r = Inr e' \<and> coupon_country e' = coupon_country e"
    using map_row_use[of r "row_current r + 1" countries e] r(2) by auto
  then show "\<exists>r' \<in> set (coupons (commit_redemption a c d)). \<exists>c'. row_normalized r' = row_normalized r
      \<and> map_row countries r' = Inr c' \<and> coupon_country c' = coupon_country e"
    using m by (intro bexI[of _ ?r]) auto
qed

lemma create_keeps:
  assumes "db_ok d" "create_service countries uuid now command d = (Inr (c, d'), out)"
  shows "keeps_coupons countries d d'"
proof (rule keeps_rows)
  show "schema_ok d" "schema_ok d'" using assms(1) create_db_ok[OF assms] by (simp_all add: db_ok_def)
  show "\<exists>r' \<in> set (coupons d'). \<exists>c'. row_normalized r' = row_normalized r
      \<and> map_row countries r' = Inr c' \<and> coupon_country c' = coupon_country e"
    if "r \<in> set (coupons d)" "map_row countries r = Inr e" for r e
    using that create_rows[OF assms(2)] by (auto simp: insert_coupon_row_ok)
qed

section \<open>One step\<close>

text \<open>The answer of the sequential service on the tables \<open>d\<close>, and the tables it leaves.\<close>

definition answers :: "jstring list \<Rightarrow> request \<Rightarrow> db \<Rightarrow> failure + redemption_result \<Rightarrow> db \<Rightarrow> bool" where
  "answers countries r d out d' \<longleftrightarrow>
     (case out of
        Inl e \<Rightarrow> fst (redeem_service countries r d) = Inl e \<and> d' = d
      | Inr res \<Rightarrow> fst (redeem_service countries r d) = Inr (res, d'))"

definition moves :: "jstring list \<Rightarrow> request list \<Rightarrow> sys \<Rightarrow> nat \<Rightarrow> phase \<Rightarrow> sys \<Rightarrow> bool" where
  "moves countries reqs s i p s' \<longleftrightarrow> phases s' = (phases s)[i := p]
     \<and> (case p of
          Finished out \<Rightarrow> answers countries (reqs ! i) (committed s) out (committed s')
        | _ \<Rightarrow> committed s' = committed s \<and> knows countries (committed s) (reqs ! i) p)"

lemma finish_moves:
  "fst (redeem_service countries (reqs ! i) (committed s)) = Inl e \<Longrightarrow>
   moves countries reqs s i (Finished (Inl e)) (finish i (Inl e) s)"
  by (simp add: moves_def answers_def)

lemma continue_moves:
  assumes "\<And>e. r = Inl e \<Longrightarrow> fst (redeem_service countries (reqs ! i) (committed s)) = Inl e"
    and "\<And>x. r = Inr x \<Longrightarrow> \<exists>p. moves countries reqs s i p (f x)"
  shows "\<exists>p. moves countries reqs s i p (continue_with i r f s)"
  using assms by (cases r) (auto simp: continue_with_def intro: finish_moves)

lemma goto_moves:
  "\<not> finished p \<Longrightarrow> knows countries (committed s) (reqs ! i) p \<Longrightarrow> \<exists>q. moves countries reqs s i q (goto i p s)"
  by (intro exI[of _ p]) (auto simp: moves_def split: phase.splits)

lemma advance_moves:
  assumes ok: "sys_ok countries reqs s" and k: "all_know countries reqs s" and i: "i < length reqs"
    and adv: "advance countries reqs s i = Some s'"
  shows "\<exists>p. moves countries reqs s i p s'"
proof -
  let ?r = "reqs ! i" and ?d = "committed s"
  have d: "schema_ok ?d" and tx: "tx_ok countries ?d (phases s ! i)" and kn: "knows countries ?d ?r (phases s ! i)"
    using ok k i by (simp_all add: sys_ok_def db_ok_def all_know_def)
  show ?thesis
  proof (cases "phases s ! i")
    case Arrived
    have "\<exists>p. moves countries reqs s i p (continue_with i (snapshot_coupon countries ?d code)
        (\<lambda>c. goto i (Snapshot code user c) s) s)" if v: "validate_request ?r = Inr (code, user)" for code user
      by (rule continue_moves) (use v in \<open>auto simp: redeem_service_def seen_def intro!: goto_moves\<close>)
    then have "\<exists>p. moves countries reqs s i p (continue_with i (validate_request ?r) (\<lambda>(code, user).
        continue_with i (snapshot_coupon countries ?d code) (\<lambda>c. goto i (Snapshot code user c) s) s) s)"
      by (intro continue_moves) (auto simp: redeem_service_def)
    then show ?thesis using adv Arrived by (simp add: advance_def)
  next
    case (Snapshot code user c)
    obtain c' where c': "validate_request ?r = Inr (code, user)" "snapshot_coupon countries ?d code = Inr c'"
      "coupon_country c' = coupon_country c" using kn Snapshot by (auto simp: seen_def)
    have "\<exists>p. moves countries reqs s i p (continue_with i (locate ?r code user c) (\<lambda>a. goto i (Located a) s) s)"
      by (rule continue_moves)
        (use c' locate_country[of c c' ?r code user] in \<open>auto simp: redeem_service_def asked_def intro!: goto_moves\<close>)
    then show ?thesis using adv Snapshot by (simp add: advance_def)
  next
    case (Located a)
    have a: "asked countries ?d ?r a" using kn Located by simp
    have "\<exists>p. moves countries reqs s i p (continue_with i (lock_coupon countries ?d a)
        (\<lambda>c. goto i (Locked a c) (s\<lparr>locks := (locks s)(coupon_id c \<mapsto> i)\<rparr>)) s)"
      by (rule continue_moves)
        (use a in \<open>auto simp: asked_service redeem_transaction_def moves_def intro!: exI[of _ "Locked a _"]\<close>)
    then show ?thesis using adv Located by (auto simp: advance_def split: if_splits)
  next
    case (Locked a c)
    have a: "asked countries ?d ?r a" "lock_coupon countries ?d a = Inr c" using kn tx Locked by simp_all
    have "\<exists>p. moves countries reqs s i p (continue_with i (check_redeemable ?d a c) (\<lambda>_. goto i (Checked a c) s) s)"
      by (rule continue_moves) (use a in \<open>auto simp: asked_service redeem_transaction_def intro!: goto_moves\<close>)
    then show ?thesis using adv Locked by (simp add: advance_def)
  next
    case (Checked a c)
    have a: "asked countries ?d ?r a" "lock_coupon countries ?d a = Inr c" "check_redeemable ?d a c = Inr ()"
      using kn tx Checked by simp_all
    have "\<exists>p. moves countries reqs s i p (continue_with i (insert_redemption (redemption_of a c) ?d)
        (\<lambda>_. goto i (Inserted a c) s) s)"
      by (rule continue_moves) (use a in \<open>auto simp: asked_service redeem_transaction_def intro!: goto_moves\<close>)
    then show ?thesis using adv Checked by (auto simp: advance_def split: if_splits)
  next
    case (Inserted a c)
    have a: "asked countries ?d ?r a" "lock_coupon countries ?d a = Inr c" "check_redeemable ?d a c = Inr ()"
      using kn tx Inserted by simp_all
    have "count_use ?d c = Inr (current_uses c + 1, snd (update_uses (coupon_id c) ?d))"
      using a by (intro count_use_ok[OF d]) (simp_all add: check_redeemable_ok)
    then have "\<exists>p. moves countries reqs s i p (continue_with i (count_use ?d c) (\<lambda>(n, _). goto i (Counted a c n) s) s)"
      by (intro continue_moves) (use a in \<open>auto intro!: goto_moves\<close>)
    then show ?thesis using adv Inserted by (simp add: advance_def)
  next
    case (Counted a c n)
    then have a: "asked countries ?d ?r a" and t: "redeem_transaction countries a ?d = Inr (result_of a c n, commit_redemption a c ?d)"
      using kn tx transaction_commits[OF d, of countries a c] by auto
    have "moves countries reqs s i (Finished (Inr (result_of a c n))) s'"
      using adv Counted a t by (auto simp: advance_def moves_def answers_def asked_service)
    then show ?thesis by blast
  qed (use adv in \<open>simp add: advance_def\<close>)
qed

text \<open>A redemption that succeeds has committed one row and one use, whoever asked.\<close>

lemma service_commit:
  assumes "schema_ok d" "fst (redeem_service countries r d) = Inr (res, d')"
  obtains a c where "lock_coupon countries d a = Inr c" "check_redeemable d a c = Inr ()" "a_uuid a = req_uuid r"
    "insert_redemption (redemption_of a c) d = Inr (d\<lparr>redemptions := redemptions d @ [redemption_of a c]\<rparr>)"
    "d' = commit_redemption a c d"
proof -
  obtain code user c a where v: "validate_request r = Inr (code, user)" "snapshot_coupon countries d code = Inr c"
    "locate r code user c = Inr a" "redeem_transaction countries a d = Inr (res, d')"
    using assms(2) by (auto simp: redeem_service_def py_ok split: sum.splits)
  obtain e d1 where t: "lock_coupon countries d a = Inr e" "check_redeemable d a e = Inr ()"
    "insert_redemption (redemption_of a e) d = Inr d1"
    using v(4) by (auto simp: redeem_transaction_def py_ok)
  have "d1 = d\<lparr>redemptions := redemptions d @ [redemption_of a e]\<rparr>" using t(3) by (simp add: insert_redemption_ok)
  moreover have "d' = commit_redemption a e d" using transaction_commits[OF assms(1) t] v(4) by simp
  moreover have "a_uuid a = req_uuid r" using v(3) by (auto simp: locate_def py_ok)
  ultimately show ?thesis using that t by blast
qed

lemma service_tables:
  assumes "db_ok d" "fst (redeem_service countries r d) = Inr (res, d')"
  shows "db_ok d' \<and> keeps_coupons countries d d'"
proof -
  have s: "schema_ok d" using assms(1) by (simp add: db_ok_def)
  obtain a e where t: "lock_coupon countries d a = Inr e" "check_redeemable d a e = Inr ()"
    "insert_redemption (redemption_of a e) d = Inr (d\<lparr>redemptions := redemptions d @ [redemption_of a e]\<rparr>)"
    "d' = commit_redemption a e d"
    using service_commit[OF s assms(2)] by metis
  have ok: "db_ok d'" unfolding t(4) by (rule commit_db_ok[OF assms(1) t(1-3)])
  then show ?thesis using commit_keeps[OF s, of a e countries] t(4) by (simp add: db_ok_def)
qed

lemma moves_know:
  assumes "sys_ok countries reqs s" "all_know countries reqs s" "i < length reqs" "moves countries reqs s i p s'"
  shows "all_know countries reqs s'"
  unfolding all_know_def
proof (intro allI impI)
  fix j assume j: "j < length reqs"
  have d: "db_ok (committed s)" and len: "length (phases s) = length reqs" using assms(1) by (simp_all add: sys_ok_def)
  have keeps: "keeps_coupons countries (committed s) (committed s')"
    using assms(4) service_tables[OF d, of countries "reqs ! i"]
    by (auto simp: moves_def answers_def keeps_coupons_def split: phase.splits sum.splits)
  show "knows countries (committed s') (reqs ! j) (phases s' ! j)"
  proof (cases "j = i")
    case True
    then show ?thesis using assms(3,4) len by (auto simp: moves_def split: phase.splits)
  next
    case False
    then have "knows countries (committed s) (reqs ! j) (phases s' ! j)"
      using assms(2,4) j by (simp add: moves_def all_know_def)
    then show ?thesis by (rule knows_change[OF keeps])
  qed
qed

lemma any_step_know:
  assumes "sys_ok countries reqs s" "all_know countries reqs s" "any_step countries reqs s s'"
  shows "all_know countries reqs s'"
  using assms(3)
proof (rule any_stepE)
  assume "run_step countries reqs s s'"
  then obtain i where "i < length reqs" "advance countries reqs s i = Some s'" by (auto elim: run_stepE)
  then show ?thesis using advance_moves[OF assms(1,2)] moves_know[OF assms(1,2)] by blast
next
  fix i e assume "i < length reqs" "s' = finish i (Inl e) s"
  moreover have "knows countries d r ((phases s)[i := Finished (Inl e)] ! j)" if "knows countries d r (phases s ! j)" for d r j
    using that by (cases "i < length (phases s)"; cases "j = i") (auto simp: list_update_beyond)
  ultimately show ?thesis using assms(2) by (auto simp: all_know_def)
next
  fix uuid now command c d' out
  assume "create_service countries uuid now command (committed s) = (Inr (c, d'), out)" "s' = s\<lparr>committed := d'\<rparr>"
  moreover from this have "keeps_coupons countries (committed s) d'"
    using assms(1) create_keeps[of "committed s"] by (simp add: sys_ok_def)
  ultimately show ?thesis using assms(2) knows_change[of countries "committed s" d']
    by (simp add: all_know_def)
qed

lemma reachable_know:
  "reachable countries reqs d s \<Longrightarrow> db_ok d \<Longrightarrow> all_know countries reqs s"
proof (induction rule: reachable.induct)
  case starts
  then show ?case by (simp add: all_know_def start_def)
next
  case (steps s s')
  then show ?case using any_step_know reachable_ok by blast
qed

end
