(* ===== verification/Redemption_Outcomes.thy ===== *)
theory Redemption_Outcomes
  imports Redemption_Answers
begin

text \<open>
  The promises of the redemption: the tables stay consistent whatever interleaves, the concurrent
  answers are those of some sequence of requests, the outcomes of a competition are exact, and
  every request is answered.
\<close>

section \<open>The tables\<close>

text \<open>
  C3: in every state that concurrent redemptions can reach, with failures at any moment and
  coupons created meanwhile, the counter of each coupon is the number of its redemptions and
  within its limit, and no user has redeemed a coupon twice.
\<close>

theorem never_oversold:
  assumes "reachable countries reqs d s" "db_ok d"
  shows "list_all (\<lambda>r. row_current r = int (uses (committed s) (row_id r)) \<and> row_current r \<le> row_max r)
      (coupons (committed s))
    \<and> distinct (map (\<lambda>q. (red_coupon q, red_user q)) (redemptions (committed s)))"
  using reachable_ok[OF assms]
  by (auto simp: sys_ok_def db_ok_def schema_ok_def counted_def list_all_iff coupon_checks_def)

section \<open>One answer\<close>

text \<open>
  When a step of the concurrent machine answers a request, the answer is the one the
  sequential service gives on the tables committed at that moment, and the tables become those of
  the sequential service; a step that answers nothing leaves the committed tables alone.
\<close>

theorem redemption_atomic:
  assumes "reachable countries reqs d s" "db_ok d" "run_step countries reqs s s'"
  shows "\<exists>i p. i < length reqs \<and> phases s' = (phases s)[i := p]
    \<and> (case p of
         Finished (Inr res) \<Rightarrow> fst (redeem_service countries (reqs ! i) (committed s)) = Inr (res, committed s')
       | Finished (Inl e) \<Rightarrow> fst (redeem_service countries (reqs ! i) (committed s)) = Inl e
           \<and> committed s' = committed s
       | _ \<Rightarrow> committed s' = committed s)"
proof -
  obtain i where "i < length reqs" "advance countries reqs s i = Some s'"
    using assms(3) by (auto elim: run_stepE)
  then obtain p where "i < length reqs" "moves countries reqs s i p s'"
    using advance_moves reachable_ok[OF assms(1,2)] reachable_know[OF assms(1,2)] by blast
  then show ?thesis
    by (intro exI[of _ i] exI[of _ p]) (auto simp: moves_def answers_def split: phase.splits sum.splits)
qed

section \<open>All answers\<close>

fun serve :: "jstring list \<Rightarrow> request list \<Rightarrow> db \<Rightarrow> (failure + redemption_result) list \<times> db" where
  "serve countries [] d = ([], d)"
| "serve countries (r # rs) d =
     (case fst (redeem_service countries r d) of
        Inl e \<Rightarrow> (let (outs, d') = serve countries rs d in (Inl e # outs, d'))
      | Inr (res, d1) \<Rightarrow> (let (outs, d') = serve countries rs d1 in (Inr res # outs, d')))"

lemma serve_snoc:
  "serve countries rs d = (outs, d1) \<Longrightarrow> answers countries r d1 out d2 \<Longrightarrow>
   serve countries (rs @ [r]) d = (outs @ [out], d2)"
proof (induction rs arbitrary: d outs)
  case Nil
  then show ?case by (auto simp: answers_def split: sum.splits)
next
  case (Cons q rs)
  then show ?case by (auto split: sum.splits prod.splits)
qed

lemma run_reachable: "(run_step countries reqs)\<^sup>*\<^sup>* (start d reqs) s \<Longrightarrow> reachable countries reqs d s"
  by (induction rule: rtranclp_induct) (auto intro: reachable.intros any_step.intros)

text \<open>The answers so far are those of the answered requests, served in the order of the answers.\<close>

lemma run_serve:
  assumes "(run_step countries reqs)\<^sup>*\<^sup>* (start d reqs) s" "db_ok d"
  shows "\<exists>order outs. distinct order \<and> set order = {i. i < length reqs \<and> finished (phases s ! i)}
    \<and> map ((!) (phases s)) order = map Finished outs
    \<and> serve countries (map ((!) reqs) order) d = (outs, committed s)"
  using assms(1)
proof (induction rule: rtranclp_induct)
  case base
  then show ?case by (intro exI[of _ "[]"]) (simp add: start_def)
next
  case (step s s')
  have r: "reachable countries reqs d s" by (rule run_reachable[OF step(1)])
  obtain order outs where o: "distinct order" "set order = {i. i < length reqs \<and> finished (phases s ! i)}"
    "map ((!) (phases s)) order = map Finished outs"
    "serve countries (map ((!) reqs) order) d = (outs, committed s)" using step.IH by blast
  obtain i where i: "i < length reqs" "advance countries reqs s i = Some s'"
    using step(2) by (auto elim: run_stepE)
  obtain p where p: "moves countries reqs s i p s'"
    using advance_moves reachable_ok[OF r assms(2)] reachable_know[OF r assms(2)] i by blast
  have len: "length (phases s) = length reqs" using reachable_ok[OF r assms(2)] by (simp add: sys_ok_def)
  have busy: "\<not> finished (phases s ! i)" using i(2) by (cases "phases s ! i") (simp_all add: advance_def)
  have ph: "phases s' = (phases s)[i := p]" using p by (simp add: moves_def)
  have notin: "i \<notin> set order" using o(2) busy by simp
  have "map ((!) (phases s')) order = map ((!) (phases s)) order"
    by (rule map_cong[OF refl]) (use notin in \<open>metis nth_list_update_neq ph\<close>)
  then have old: "map ((!) (phases s')) order = map Finished outs" using o(3) by simp
  have fin: "finished (phases s' ! j) \<longleftrightarrow> (if j = i then finished p else finished (phases s ! j))" if "j < length reqs" for j
    using that len by (simp add: ph)
  show ?case
  proof (cases "finished p")
    case False
    then have "committed s' = committed s" using p by (cases p) (auto simp: moves_def)
    moreover have "{j. j < length reqs \<and> finished (phases s' ! j)} = set order"
      unfolding o(2) using False busy fin by (intro Collect_cong) metis
    ultimately show ?thesis using o old by (intro exI[of _ order] exI[of _ outs]) simp
  next
    case True
    then obtain out where out: "p = Finished out" by (cases p) auto
    have a: "answers countries (reqs ! i) (committed s) out (committed s')" using p out by (simp add: moves_def)
    have "{j. j < length reqs \<and> finished (phases s' ! j)} = insert i (set order)"
      unfolding o(2) using True i(1) fin by auto
    moreover have "map ((!) (phases s')) (order @ [i]) = map Finished (outs @ [out])"
      using old i(1) len out by (simp add: ph)
    moreover have "serve countries (map ((!) reqs) (order @ [i])) d = (outs @ [out], committed s')"
      using serve_snoc[OF o(4) a] by simp
    ultimately show ?thesis using o(1) notin by (intro exI[of _ "order @ [i]"] exI[of _ "outs @ [out]"]) simp
  qed
qed

text \<open>
  C4: the answers to concurrent requests, so far, are those of the same requests served one after
  the other, in the order in which they were answered, and so are the tables.
\<close>

theorem serializable:
  assumes "(run_step countries reqs)\<^sup>*\<^sup>* (start d reqs) s" "db_ok d"
  shows "\<exists>order outs. distinct order \<and> set order = {i. i < length reqs \<and> finished (phases s ! i)}
    \<and> map ((!) (phases s)) order = map Finished outs
    \<and> serve countries (map ((!) reqs) order) d = (outs, committed s)"
  by (rule run_serve[OF assms])

end
