(* ===== verification/Redemption_Competition.thy ===== *)
theory Redemption_Competition
  imports Redemption_Outcomes
begin

text \<open>
  Competitions for one coupon: how many requests win, what the others are told, and that every
  request is answered.
\<close>

section \<open>One request for a coupon\<close>

text \<open>A valid request for the coupon of the row \<open>r\<close>, from its country.\<close>

definition for_coupon :: "jstring list \<Rightarrow> coupon_row \<Rightarrow> request \<Rightarrow> bool" where
  "for_coupon countries r q \<longleftrightarrow> (\<exists>code user c. validate_request q = Inr (code, user)
     \<and> code_normalized code = row_normalized r \<and> map_row countries r = Inr c
     \<and> req_location q = Inr (coupon_country c))"

definition user_of :: "request \<Rightarrow> jstring" where
  "user_of q = (case req_user q of None \<Rightarrow> [] | Some u \<Rightarrow> u)"

lemma valid_user: "validate_request q = Inr (code, user) \<Longrightarrow> user = user_of q \<and> visible_ascii user"
  by (auto simp: validate_request_def user_id_of_def user_of_def py_ok split: option.splits if_splits)

lemma upper_country: "country_format s \<Longrightarrow> java_upper (java_trim s) = s"
proof -
  assume f: "country_format s"
  then obtain a b where s: "s = [a, b]" "upper_letter a" "upper_letter b"
    by (auto simp: country_format_def length_Suc_conv numeral_2_eq_2)
  then have "java_trim s = s" by (simp add: java_trim_def strip_by_def upper_letter_def)
  moreover have "upper_unit c = [c]" if "upper_letter c" for c
    using that by (auto simp: upper_unit_def upper_letter_def)
  ultimately show ?thesis using s by (simp add: java_upper_def)
qed

lemma served:
  assumes d: "db_ok d" and r: "r \<in> set (coupons d)" and q: "for_coupon countries r q"
  shows "\<exists>a c. fst (redeem_service countries q d) = redeem_transaction countries a d
    \<and> lock_coupon countries d a = Inr c \<and> map_row countries r = Inr c
    \<and> coupon_id c = row_id r \<and> current_uses c = row_current r \<and> max_uses c = row_max r
    \<and> a_user a = user_of q \<and> a_uuid a = req_uuid q \<and> redemption_checks (redemption_of a c)"
proof -
  obtain code user c where v: "validate_request q = Inr (code, user)" "code_normalized code = row_normalized r"
    "map_row countries r = Inr c" "req_location q = Inr (coupon_country c)"
    using q unfolding for_coupon_def by blast
  have user: "user = user_of q" "visible_ascii user" using valid_user[OF v(1)] by blast+
  have s: "schema_ok d" using d by (simp add: db_ok_def)
  have chk: "coupon_checks r" using s r by (simp add: schema_ok_def list_all_iff)
  have f: "find_coupon countries d (row_normalized r) = Inr (Some c)"
    using find_coupon_row[OF s r refl, of countries] v(3) by simp
  define a where "a = \<lparr>a_code = row_normalized r, a_user = user, a_country = coupon_country c, a_uuid = req_uuid q,
    a_now = req_now q\<rparr>"
  have loc: "snapshot_coupon countries d code = Inr c" "locate q code user c = Inr a"
    using f v by (simp_all add: snapshot_coupon_def or_not_found_def locate_def a_def)
  have "fst (redeem_service countries q d) = redeem_transaction countries a d"
    using v(1) loc by (intro asked_service) (auto simp: asked_def)
  moreover have "lock_coupon countries d a = Inr c"
    using f by (simp add: lock_coupon_def or_not_found_def a_def)
  moreover have "coupon_country c = row_country r"
    using chk v(3) upper_country[of "row_country r"] map_row_Inr_iff[OF chk, of countries c]
    by (auto simp: coupon_checks_def)
  then have "redemption_checks (redemption_of a c)"
    using chk user(2) by (simp add: redemption_checks_def redemption_of_def a_def coupon_checks_def)
  ultimately show ?thesis
    using v(3) map_row_fields[OF chk v(3)] user(1)
    by (intro exI[of _ a] exI[of _ c]) (simp add: a_def)
qed

lemma served_again:
  assumes "db_ok d" "r \<in> set (coupons d)" "for_coupon countries r q" "redemption_exists d (row_id r) (user_of q)"
  shows "fst (redeem_service countries q d) = Inl Coupon_Already_Redeemed"
  using served[OF assms(1-3)] assms(4) by (auto simp: redeem_transaction_def check_redeemable_def)

lemma served_late:
  assumes "db_ok d" "r \<in> set (coupons d)" "for_coupon countries r q" "\<not> redemption_exists d (row_id r) (user_of q)"
    "row_max r \<le> row_current r"
  shows "fst (redeem_service countries q d) = Inl Coupon_Exhausted"
  using served[OF assms(1-3)] assms(4,5) by (auto simp: redeem_transaction_def check_redeemable_def)

text \<open>A request that wins, and the tables it leaves to the others.\<close>

lemma served_first:
  assumes d: "db_ok d" and r: "r \<in> set (coupons d)" and q: "for_coupon countries r q"
    and new: "\<not> redemption_exists d (row_id r) (user_of q)" and cap: "row_current r < row_max r"
    and uuid: "req_uuid q \<notin> set (map red_id (redemptions d))"
  shows "\<exists>res d1 row. fst (redeem_service countries q d) = Inr (res, d1) \<and> db_ok d1
    \<and> r\<lparr>row_current := row_current r + 1\<rparr> \<in> set (coupons d1)
    \<and> redemptions d1 = redemptions d @ [row] \<and> red_id row = req_uuid q
    \<and> red_coupon row = row_id r \<and> red_user row = user_of q"
proof -
  obtain a c where a: "fst (redeem_service countries q d) = redeem_transaction countries a d"
    "lock_coupon countries d a = Inr c" "coupon_id c = row_id r" "current_uses c = row_current r" "max_uses c = row_max r"
    "a_user a = user_of q" "a_uuid a = req_uuid q" "redemption_checks (redemption_of a c)"
    using served[OF d r q] by blast
  have chk: "check_redeemable d a c = Inr ()" using new cap a by (simp add: check_redeemable_ok)
  have "insert_redemption (redemption_of a c) d = Inr (d\<lparr>redemptions := redemptions d @ [redemption_of a c]\<rparr>)"
    unfolding insert_redemption_ok
    using a uuid r new by (auto simp: redemption_of_def redemption_exists_def filter_empty_conv)
  note ins = this
  have s: "schema_ok d" using d by (simp add: db_ok_def)
  have "redeem_transaction countries a d = Inr (result_of a c (row_current r + 1), commit_redemption a c d)"
    using transaction_commits[OF s a(2) chk ins] a(4) by simp
  moreover have "db_ok (commit_redemption a c d)" by (rule commit_db_ok[OF d a(2) chk ins])
  moreover have "r\<lparr>row_current := row_current r + 1\<rparr> \<in> set (coupons (commit_redemption a c d))"
    using r a(3) cap by (auto simp: commit_simps has_capacity_def intro!: image_eqI[of _ _ r])
  moreover have "redemptions (commit_redemption a c d) = redemptions d @ [redemption_of a c]" by (rule commit_simps)
  ultimately show ?thesis using a by (auto simp: redemption_of_def)
qed

lemma for_coupon_use:
  assumes "coupon_checks r" "coupon_checks (r\<lparr>row_current := n\<rparr>)" "for_coupon countries r q"
  shows "for_coupon countries (r\<lparr>row_current := n\<rparr>) q"
proof -
  obtain code user c where v: "validate_request q = Inr (code, user)" "code_normalized code = row_normalized r"
    "map_row countries r = Inr c" "req_location q = Inr (coupon_country c)"
    using assms(3) unfolding for_coupon_def by blast
  show ?thesis unfolding for_coupon_def
    using v map_row_use[OF assms(1,2) v(3)]
    by (intro exI[of _ code] exI[of _ user] exI[of _ "c\<lparr>current_uses := n\<rparr>"]) simp
qed

section \<open>Requests served in turn\<close>

definition won :: "failure + redemption_result \<Rightarrow> bool" where
  "won out \<longleftrightarrow> (case out of Inl e \<Rightarrow> False | Inr res \<Rightarrow> True)"

lemma won_simps [simp]: "won (Inr res)" "\<not> won (Inl e)"
  by (simp_all add: won_def)

lemma exists_snoc:
  "redemption_exists (d\<lparr>redemptions := rs\<rparr>) ident u \<longleftrightarrow> (\<exists>q \<in> set rs. red_coupon q = ident \<and> red_user q = u)"
  by (auto simp: redemption_exists_def filter_empty_conv)

lemma exists_iff: "redemption_exists d ident u \<longleftrightarrow> (\<exists>q \<in> set (redemptions d). red_coupon q = ident \<and> red_user q = u)"
  by (auto simp: redemption_exists_def filter_empty_conv)

text \<open>Different users: as many win as there is room, the others come too late.\<close>

lemma serve_users:
  assumes "db_ok d" "r \<in> set (coupons d)" "list_all (for_coupon countries r) qs" "distinct (map user_of qs)"
    "distinct (map req_uuid qs)" "list_all (\<lambda>q. req_uuid q \<notin> set (map red_id (redemptions d))) qs"
    "list_all (\<lambda>q. \<not> redemption_exists d (row_id r) (user_of q)) qs"
  shows "length (filter won (fst (serve countries qs d))) = min (length qs) (nat (row_max r - row_current r))
    \<and> list_all (\<lambda>out. won out \<or> out = Inl Coupon_Exhausted) (fst (serve countries qs d))"
  using assms
proof (induction qs arbitrary: d r)
  case (Cons q qs)
  show ?case
  proof (cases "row_current r < row_max r")
    case True
    obtain res d1 row where f: "fst (redeem_service countries q d) = Inr (res, d1)" "db_ok d1"
      "r\<lparr>row_current := row_current r + 1\<rparr> \<in> set (coupons d1)" "redemptions d1 = redemptions d @ [row]"
      "red_id row = req_uuid q" "red_coupon row = row_id r" "red_user row = user_of q"
      using served_first[OF Cons.prems(1,2), of countries q] Cons.prems(3,6,7) True by auto
    let ?r = "r\<lparr>row_current := row_current r + 1\<rparr>"
    have chk: "coupon_checks r" "coupon_checks ?r"
      using Cons.prems(1,2) f(2,3) by (simp_all add: db_ok_def schema_ok_def list_all_iff)
    have "length (filter won (fst (serve countries qs d1))) = min (length qs) (nat (row_max ?r - row_current ?r))
      \<and> list_all (\<lambda>out. won out \<or> out = Inl Coupon_Exhausted) (fst (serve countries qs d1))"
    proof (rule Cons.IH[OF f(2,3)])
      show "list_all (for_coupon countries ?r) qs"
        using Cons.prems(3) for_coupon_use[OF chk] by (auto simp: list_all_iff)
      show "list_all (\<lambda>q. req_uuid q \<notin> set (map red_id (redemptions d1))) qs"
        using Cons.prems(5,6) unfolding f(4) list_all_iff by (auto simp: f(5)) (metis imageI)
      show "list_all (\<lambda>q. \<not> redemption_exists d1 (row_id ?r) (user_of q)) qs"
        using Cons.prems(4,7) f(4,7) by (auto simp: list_all_iff exists_iff)
    qed (use Cons.prems in auto)
    moreover have "nat (row_max r - row_current r) = Suc (nat (row_max ?r - row_current ?r))" using True by simp
    ultimately show ?thesis using f(1) by (simp add: split_beta)
  next
    case False
    then have late: "fst (redeem_service countries q d) = Inl Coupon_Exhausted"
      using served_late[OF Cons.prems(1,2), of countries q] Cons.prems(3,7) by simp
    have "length (filter won (fst (serve countries qs d))) = min (length qs) (nat (row_max r - row_current r))
      \<and> list_all (\<lambda>out. won out \<or> out = Inl Coupon_Exhausted) (fst (serve countries qs d))"
      using Cons.prems by (intro Cons.IH) auto
    then show ?thesis using late False by (simp add: split_beta)
  qed
qed simp

text \<open>The same user again and again: told so each time.\<close>

lemma serve_again:
  assumes "db_ok d" "r \<in> set (coupons d)" "list_all (for_coupon countries r) qs"
    "list_all (\<lambda>q. redemption_exists d (row_id r) (user_of q)) qs"
  shows "fst (serve countries qs d) = map (\<lambda>q. Inl Coupon_Already_Redeemed) qs"
  using assms by (induction qs) (auto simp: served_again split_beta)

end
