(* ===== verification/Coupon_Creation.thy ===== *)
theory Coupon_Creation
  imports Redemption_Competition
begin

text \<open>
  The creation of a coupon: what is stored is what is found, and the code is taken from then on.
\<close>

definition stored_coupon :: "coupon \<Rightarrow> coupon" where
  "stored_coupon c = c\<lparr>created_at := from_timestamptz (to_timestamptz (created_at c))\<rparr>"

lemma create_row_read:
  assumes "schema_ok d" "create_service countries uuid now command d = (Inr (c, d'), out)"
  shows "schema_ok d' \<and> map_row countries (coupon_to_row c) = Inr (stored_coupon c)"
proof -
  obtain code country where v: "coupon_code_of (cmd_code command) = Inr code"
    "country_code_of countries (cmd_country command) = Inr country" "create_coupon uuid code now (cmd_max_uses command) country = Inr c"
    using assms(2) by (auto simp: create_service_def command_coupon_def py_ok split: sum.splits)
  let ?r = "coupon_to_row c"
  have i: "coupon_checks ?r" "d' = d\<lparr>coupons := coupons d @ [?r]\<rparr>" "row_id ?r \<notin> set (map row_id (coupons d))"
    "row_normalized ?r \<notin> set (map row_normalized (coupons d))"
    using create_rows[OF assms(2)] by (auto simp: insert_coupon_row_ok)
  have c: "c = \<lparr>coupon_id = uuid, coupon_code = code, created_at = now, max_uses = cmd_max_uses command,
      current_uses = 0, coupon_country = country\<rparr>"
    using v(3) by (auto simp: create_coupon_def new_coupon_def py_ok)
  have "country \<in> set countries" using v(2) by (auto simp: country_code_of_def Let_def split: option.splits if_splits)
  moreover have "java_upper (java_trim country) = country"
    using i(1) upper_country[of country] by (simp add: coupon_checks_def coupon_to_row_def c)
  ultimately have "map_row countries ?r = Inr (stored_coupon c)"
    unfolding map_row_Inr_iff[OF i(1)] by (simp add: coupon_to_row_def stored_coupon_def c)
  moreover have "schema_ok d'" using assms(1) i by (auto simp: schema_ok_def list_all_iff)
  ultimately show ?thesis by blast
qed

lemma find_coupon_other:
  "code \<noteq> row_normalized r \<Longrightarrow> find_coupon countries (d\<lparr>coupons := coupons d @ [r]\<rparr>) code = find_coupon countries d code"
  by (simp add: find_coupon_def)

text \<open>
  C23: a created coupon is found under its canonical code with the values it was created with,
  except that its time of creation has been rounded to a microsecond by the column: the time found
  is a whole number of microseconds, at most 500 nanoseconds from the one in the answer, and the
  same if the clock gave whole microseconds. The coupons of other codes are found as before, and
  every later coupon with a code that differs only in case or surrounding blanks conflicts with it.
\<close>

theorem created_is_found:
  assumes "schema_ok d" "create_service countries uuid now command d = (Inr (c, d'), out)"
  shows "(\<exists>t. find_coupon countries d' (code_normalized (coupon_code c)) = Inr (Some (c\<lparr>created_at := t\<rparr>))
        \<and> 1000 dvd t \<and> \<bar>t - created_at c\<bar> \<le> 500 \<and> (1000 dvd created_at c \<longrightarrow> t = created_at c))
    \<and> (code \<noteq> code_normalized (coupon_code c) \<longrightarrow> find_coupon countries d' code = find_coupon countries d code)
    \<and> (same_code (coupon_code e) (coupon_code c) \<longrightarrow>
        (\<forall>d2. insert_coupon e d' \<noteq> Inr d2)
        \<and> (coupon_checks (coupon_to_row e) \<longrightarrow> insert_coupon e d' = Inl Coupon_Code_Conflict))"
proof -
  let ?r = "coupon_to_row c"
  let ?t = "from_timestamptz (to_timestamptz (created_at c))"
  have r: "schema_ok d'" "map_row countries ?r = Inr (stored_coupon c)" using create_row_read[OF assms] by blast+
  have d': "d' = d\<lparr>coupons := coupons d @ [?r]\<rparr>" using create_rows[OF assms(2)] by (simp add: insert_coupon_row_ok)
  have n: "row_normalized (coupon_to_row x) = code_normalized (coupon_code x)" for x by (simp add: coupon_to_row_def)
  have "find_coupon countries d' (code_normalized (coupon_code c)) = Inr (Some (c\<lparr>created_at := ?t\<rparr>))"
    using find_coupon_row[OF r(1), of ?r] r(2) by (simp add: d' n stored_coupon_def)
  then have "\<exists>t. find_coupon countries d' (code_normalized (coupon_code c)) = Inr (Some (c\<lparr>created_at := t\<rparr>))
      \<and> 1000 dvd t \<and> \<bar>t - created_at c\<bar> \<le> 500 \<and> (1000 dvd created_at c \<longrightarrow> t = created_at c)"
    using timestamptz_round[of "created_at c"] by blast
  moreover have "find_coupon countries d' code = find_coupon countries d code" if "code \<noteq> code_normalized (coupon_code c)"
    unfolding d' using that by (intro find_coupon_other) (simp add: n)
  moreover have "row_normalized (coupon_to_row e) \<in> set (map row_normalized (coupons d'))" if "same_code (coupon_code e) (coupon_code c)"
    using that by (simp add: d' n same_code_def)
  ultimately show ?thesis by (auto simp: insert_coupon_def insert_coupon_row_def)
qed

definition create_example :: "(failure + coupon \<times> db) \<times> create_outcome option" where
  "create_example = create_service [lit ''PL''] 7 1234
     \<lparr>cmd_code = Some (lit '' Summer ''), cmd_max_uses = 3, cmd_country = Some (lit ''pl'')\<rparr> \<lparr>coupons = [], redemptions = []\<rparr>"

lemma created_is_found_witness:
  "\<exists>c d'. create_example = (Inr (c, d'), Some Create_Success) \<and> created_at c = 1234
    \<and> find_coupon [lit ''PL''] d' (lit ''SUMMER'') = Inr (Some (c\<lparr>created_at := 1000\<rparr>))"
proof -
  have "case create_example of (Inr (c, d'), out) \<Rightarrow> out = Some Create_Success \<and> code_normalized (coupon_code c) = lit ''SUMMER'' \<and> created_at c = 1234
      | (Inl e, out) \<Rightarrow> False"
    by code_simp
  then obtain c d' where c: "create_example = (Inr (c, d'), Some Create_Success)" "code_normalized (coupon_code c) = lit ''SUMMER''"
    "created_at c = 1234"
    by (auto split: prod.splits sum.splits)
  have "schema_ok \<lparr>coupons = [], redemptions = []\<rparr>" by code_simp
  from created_is_found[OF this c(1)[unfolded create_example_def], THEN conjunct1] obtain t where
    t: "find_coupon [lit ''PL''] d' (lit ''SUMMER'') = Inr (Some (c\<lparr>created_at := t\<rparr>))" "1000 dvd t" "\<bar>t - 1234\<bar> \<le> 500"
    unfolding c(2,3) by (elim exE conjE)
  from t(2) obtain k where k: "t = 1000 * k" by (elim dvdE)
  have "1 \<le> k" "k \<le> 1" using t(3) unfolding k by linarith+
  then have "t = 1000" by (simp add: k)
  then show ?thesis using c t(1) by blast
qed

end
