(* ===== verification/Redemption_Progress.thy ===== *)
theory Redemption_Progress
  imports Redemption_Competition
begin

text \<open>
  Every request is answered: no deadlock, a bound on the steps, and the outcome of a competition
  when all its requests are answered.
\<close>

section \<open>No deadlock\<close>

text \<open>The steps a request has before it.\<close>

fun remaining :: "phase \<Rightarrow> nat" where
  "remaining Arrived = 7"
| "remaining (Snapshot code user c) = 6"
| "remaining (Located a) = 5"
| "remaining (Locked a c) = 4"
| "remaining (Checked a c) = 3"
| "remaining (Inserted a c) = 2"
| "remaining (Counted a c n) = 1"
| "remaining (Finished out) = 0"

lemma finished_remaining: "finished p \<longleftrightarrow> remaining p = 0"
  by (cases p) simp_all

lemma continue_phases:
  assumes "continue_with i r f s = s'" "\<And>x. \<exists>p. phases (f x) = (phases s)[i := p] \<and> remaining p < remaining (phases s ! i)"
    "\<not> finished (phases s ! i)"
  shows "\<exists>p. phases s' = (phases s)[i := p] \<and> remaining p < remaining (phases s ! i)"
proof (cases r)
  case (Inl e)
  then have "phases s' = (phases s)[i := Finished (Inl e)]" using assms(1) by (auto simp: continue_with_def)
  then show ?thesis using assms(3) by (intro exI[of _ "Finished (Inl e)"]) (simp add: finished_remaining)
next
  case (Inr x)
  then show ?thesis using assms(1,2) by (auto simp: continue_with_def)
qed

lemma advance_remaining:
  assumes "advance countries reqs s i = Some s'"
  shows "\<exists>p. phases s' = (phases s)[i := p] \<and> remaining p < remaining (phases s ! i)"
proof (cases "phases s ! i")
  case Arrived
  then have top: "continue_with i (validate_request (reqs ! i)) (\<lambda>(code, user).
      continue_with i (snapshot_coupon countries (committed s) code) (\<lambda>c. goto i (Snapshot code user c) s) s) s = s'"
    using assms by (simp add: advance_def)
  have inner: "\<exists>p. phases (continue_with i (snapshot_coupon countries (committed s) code)
      (\<lambda>c. goto i (Snapshot code user c) s) s) = (phases s)[i := p] \<and> remaining p < remaining (phases s ! i)" for code user
    by (rule continue_phases[OF refl]) (use Arrived in auto)
  show ?thesis by (rule continue_phases[OF top]) (use Arrived inner in auto)
next
  case (Snapshot code user c)
  then have "continue_with i (locate (reqs ! i) code user c) (\<lambda>a. goto i (Located a) s) s = s'"
    using assms by (simp add: advance_def)
  then show ?thesis by (rule continue_phases) (use Snapshot in auto)
next
  case (Located a)
  then have "continue_with i (lock_coupon countries (committed s) a)
      (\<lambda>c. goto i (Locked a c) (s\<lparr>locks := (locks s)(coupon_id c \<mapsto> i)\<rparr>)) s = s'"
    using assms by (simp add: advance_def split: if_splits)
  then show ?thesis by (rule continue_phases) (use Located in auto)
next
  case (Locked a c)
  then have "continue_with i (check_redeemable (committed s) a c) (\<lambda>_. goto i (Checked a c) s) s = s'"
    using assms by (simp add: advance_def)
  then show ?thesis by (rule continue_phases) (use Locked in auto)
next
  case (Checked a c)
  then have "continue_with i (insert_redemption (redemption_of a c) (committed s)) (\<lambda>_. goto i (Inserted a c) s) s = s'"
    using assms by (simp add: advance_def split: if_splits)
  then show ?thesis by (rule continue_phases) (use Checked in auto)
next
  case (Inserted a c)
  then have "continue_with i (count_use (committed s) c) (\<lambda>(n, _). goto i (Counted a c n) s) s = s'"
    using assms by (simp add: advance_def)
  then show ?thesis by (rule continue_phases) (use Inserted in auto)
next
  case (Counted a c n)
  then have "phases s' = (phases s)[i := Finished (Inr (result_of a c n))]" using assms by (auto simp: advance_def)
  then show ?thesis using Counted by (intro exI[of _ "Finished (Inr (result_of a c n))"]) simp
next
  case (Finished out)
  then show ?thesis using assms by (simp add: advance_def)
qed

text \<open>A transaction that has its row waits only for one that has inserted, and that one does not wait.\<close>

lemma writer_moves: "uncommitted (phases s ! i) = Some q \<Longrightarrow> \<exists>s'. advance countries reqs s i = Some s'"
  by (cases "phases s ! i") (simp_all add: advance_def)

lemma holder_moves:
  assumes "transaction_of (phases s ! i) = Some (a, c)" "i < length reqs" "length (phases s) = length reqs"
  shows "\<exists>s'. run_step countries reqs s s'"
proof (cases "phases s ! i")
  case (Checked a' c')
  show ?thesis
  proof (cases "insert_waits s i (redemption_of a' c')")
    case True
    then obtain j q where "j < length (phases s)" "uncommitted (phases s ! j) = Some q"
      by (auto simp: insert_waits_def list_ex_iff split: option.splits)
    then show ?thesis using writer_moves[of s j q countries reqs] assms(3) by (auto intro: run_step.intros)
  next
    case False
    then have "\<exists>s'. advance countries reqs s i = Some s'" using Checked by (simp add: advance_def)
    then show ?thesis using assms(2) by (auto intro: run_step.intros)
  qed
next
  case (Locked a' c')
  then have "\<exists>s'. advance countries reqs s i = Some s'" by (simp add: advance_def)
  then show ?thesis using assms(2) by (auto intro: run_step.intros)
next
  case (Inserted a' c')
  then have "\<exists>s'. advance countries reqs s i = Some s'" by (simp add: advance_def)
  then show ?thesis using assms(2) by (auto intro: run_step.intros)
next
  case (Counted a' c' n)
  then have "\<exists>s'. advance countries reqs s i = Some s'" by (simp add: advance_def)
  then show ?thesis using assms(2) by (auto intro: run_step.intros)
qed (use assms(1) in auto)

lemma someone_moves:
  assumes ok: "sys_ok countries reqs s" and i: "i < length reqs" and busy: "\<not> finished (phases s ! i)"
  shows "\<exists>s'. run_step countries reqs s s'"
proof (cases "transaction_of (phases s ! i)")
  case (Some ac)
  then show ?thesis using holder_moves[of s i "fst ac" "snd ac" reqs countries] ok i by (simp add: sys_ok_def)
next
  case None
  have len: "length (phases s) = length reqs" and l: "locks_ok s" using ok by (simp_all add: sys_ok_def)
  show ?thesis
  proof (cases "advance countries reqs s i")
    case (Some s')
    then show ?thesis using i by (auto intro: run_step.intros)
  next
    case stuck: None
    then obtain a where a: "phases s ! i = Located a" "row_locked s (a_code a)"
      using None busy by (cases "phases s ! i") (auto simp: advance_def split: if_splits)
    then obtain ident j where "locks s ident = Some j" by (auto simp: row_locked_def list_ex_iff)
    then obtain b e where "j < length (phases s)" "transaction_of (phases s ! j) = Some (b, e)"
      using locks_okE[OF l] by blast
    then show ?thesis using holder_moves[of s j b e reqs countries] len by simp
  qed
qed

definition steps_left :: "sys \<Rightarrow> nat" where
  "steps_left s = sum_list (map remaining (phases s))"

lemma run_step_left:
  assumes "run_step countries reqs s s'" "length (phases s) = length reqs"
  shows "steps_left s' < steps_left s"
proof -
  obtain i where i: "i < length reqs" "advance countries reqs s i = Some s'" using assms(1) by (auto elim: run_stepE)
  obtain p where p: "phases s' = (phases s)[i := p]" "remaining p < remaining (phases s ! i)"
    using advance_remaining[OF i(2)] by blast
  have l: "i < length (map remaining (phases s))" using i(1) assms(2) by simp
  have m: "map remaining (phases s') = (map remaining (phases s))[i := remaining p]" by (simp add: p(1) map_update)
  have nth: "map remaining (phases s) ! i = remaining (phases s ! i)" using i(1) assms(2) by simp
  have "remaining (phases s ! i) \<le> steps_left s"
    using member_le_sum_list[of "remaining (phases s ! i)" "map remaining (phases s)"] i(1) assms(2)
    by (simp add: steps_left_def)
  moreover have "steps_left s' = steps_left s + remaining p - remaining (phases s ! i)"
    unfolding steps_left_def m sum_list_update[OF l] nth ..
  ultimately show ?thesis using p(2) by simp
qed

lemma run_steps_left:
  "(run_step countries reqs ^^ n) s s' \<Longrightarrow> reachable countries reqs d s \<Longrightarrow> db_ok d \<Longrightarrow>
   reachable countries reqs d s' \<and> steps_left s' + n \<le> steps_left s"
proof (induction n arbitrary: s')
  case (Suc n)
  obtain t where t: "(run_step countries reqs ^^ n) s t" "run_step countries reqs t s'" using Suc.prems(1) by auto
  have r: "reachable countries reqs d t" "steps_left t + n \<le> steps_left s" using Suc.IH[OF t(1)] Suc.prems by blast+
  have "steps_left s' < steps_left t"
    using run_step_left[OF t(2)] reachable_ok[OF r(1) Suc.prems(3)] by (simp add: sys_ok_def)
  then show ?case using r t(2) reachable.steps any_step.runs by fastforce
qed simp

lemma start_left: "steps_left (start d reqs) = 7 * length reqs"
  by (induction reqs) (simp_all add: steps_left_def start_def)

text \<open>
  C6: concurrent requests run for at most seven steps each and then all are answered: a run of
  any length can go on until the last answer, and stops nowhere before it.
\<close>

theorem redemptions_finish:
  assumes "(run_step countries reqs ^^ n) (start d reqs) s" "db_ok d"
  shows "n \<le> 7 * length reqs \<and> ((\<exists>s'. run_step countries reqs s s') \<longleftrightarrow> list_ex (\<lambda>p. \<not> finished p) (phases s))"
proof -
  have r: "reachable countries reqs d s" "steps_left s + n \<le> 7 * length reqs"
    using run_steps_left[OF assms(1) reachable.starts assms(2)] start_left[of d reqs] by simp_all
  have ok: "sys_ok countries reqs s" by (rule reachable_ok[OF r(1) assms(2)])
  have len: "length (phases s) = length reqs" using ok by (simp add: sys_ok_def)
  have "list_ex (\<lambda>p. \<not> finished p) (phases s)" if step: "run_step countries reqs s s'" for s'
  proof -
    obtain i where i: "i < length reqs" "advance countries reqs s i = Some s'" using step by (auto elim: run_stepE)
    then have "\<not> finished (phases s ! i)" by (cases "phases s ! i") (simp_all add: advance_def)
    then show ?thesis using i(1) len by (auto simp: list_ex_iff)
  qed
  moreover have "\<exists>s'. run_step countries reqs s s'" if "list_ex (\<lambda>p. \<not> finished p) (phases s)"
    using that someone_moves[OF ok] len by (auto simp: list_ex_iff in_set_conv_nth)
  ultimately show ?thesis using r(2) by auto
qed

end
