(* ===== verification/Redemption_Promises.thy ===== *)
theory Redemption_Promises
  imports Redemption_Progress "HOL-Library.Multiset"
begin

text \<open>
  The outcome of a competition for one coupon, once all the requests are answered.
\<close>

section \<open>All requests answered\<close>

definition all_answered :: "sys \<Rightarrow> bool" where
  "all_answered s \<longleftrightarrow> list_all finished (phases s)"

definition answer_of :: "phase \<Rightarrow> failure + redemption_result" where
  "answer_of p = (case p of Finished out \<Rightarrow> out | _ \<Rightarrow> Inl Illegal_State)"

text \<open>Then the answers are those of the requests served in some order, all of them.\<close>

lemma answered_serve:
  assumes "(run_step countries reqs)\<^sup>*\<^sup>* (start d reqs) s" "db_ok d" "all_answered s"
  shows "\<exists>order outs. mset order = mset [0..<length reqs] \<and> mset outs = mset (map answer_of (phases s))
    \<and> serve countries (map ((!) reqs) order) d = (outs, committed s)"
proof -
  have len: "length (phases s) = length reqs"
    using reachable_ok[OF run_reachable[OF assms(1)] assms(2)] by (simp add: sys_ok_def)
  obtain order outs where o: "distinct order" "set order = {i. i < length reqs \<and> finished (phases s ! i)}"
    "map ((!) (phases s)) order = map Finished outs"
    "serve countries (map ((!) reqs) order) d = (outs, committed s)"
    using run_serve[OF assms(1,2)] by blast
  have "set order = set [0..<length reqs]"
    using o(2) assms(3) len by (auto simp: all_answered_def list_all_length)
  then have m: "mset order = mset [0..<length reqs]"
    using set_eq_iff_mset_eq_distinct[OF o(1) distinct_upt, of 0 "length reqs"] by blast
  have "outs = map answer_of (map ((!) (phases s)) order)" by (simp add: o(3) answer_of_def comp_def)
  then have "mset outs = image_mset (\<lambda>i. answer_of (phases s ! i)) (mset order)"
    by (simp add: comp_def)
  also have "\<dots> = mset (map answer_of (map ((!) (phases s)) [0..<length (phases s)]))" unfolding m len by (simp add: comp_def)
  finally have "mset outs = mset (map answer_of (phases s))" by (simp only: map_nth)
  then show ?thesis using m o(4) by blast
qed

lemma order_reqs: "mset order = mset [0..<length reqs] \<Longrightarrow> mset (map ((!) reqs) order) = mset reqs"
proof -
  assume m: "mset order = mset [0..<length reqs]"
  have "mset (map ((!) reqs) order) = image_mset ((!) reqs) (mset order)" by simp
  also have "\<dots> = mset (map ((!) reqs) [0..<length reqs])" unfolding m by simp
  finally show ?thesis by (simp only: map_nth)
qed

lemma mset_all: "mset xs = mset ys \<Longrightarrow> list_all P xs = list_all P ys"
  unfolding list_all_iff by (metis set_mset_mset)

lemma mset_count: "mset xs = mset ys \<Longrightarrow> length (filter P xs) = length (filter P ys)"
  by (metis mset_filter size_mset)

lemma mset_distinct: "mset xs = mset ys \<Longrightarrow> distinct (map f xs) = distinct (map f ys)"
  by (metis mset_eq_imp_distinct_iff mset_map)

section \<open>Different users\<close>

text \<open>
  C5: when different users compete for a coupon from its country, exactly as many of them redeem
  it as uses were left, or all of them if there are enough, and every other is told that the
  coupon is exhausted, however the requests interleave.
\<close>

theorem exact_capacity:
  assumes "(run_step countries reqs)\<^sup>*\<^sup>* (start d reqs) s" "db_ok d" "all_answered s"
    "r \<in> set (coupons d)" "list_all (for_coupon countries r) reqs" "distinct (map user_of reqs)"
    "distinct (map req_uuid reqs @ map red_id (redemptions d))"
    "list_all (\<lambda>q. \<not> redemption_exists d (row_id r) (user_of q)) reqs"
  shows "length (filter won (map answer_of (phases s))) = min (length reqs) (nat (row_max r - row_current r))
    \<and> list_all (\<lambda>out. won out \<or> out = Inl Coupon_Exhausted) (map answer_of (phases s))"
proof -
  obtain order outs where o: "mset order = mset [0..<length reqs]" "mset outs = mset (map answer_of (phases s))"
    "serve countries (map ((!) reqs) order) d = (outs, committed s)"
    using answered_serve[OF assms(1-3)] by blast
  let ?qs = "map ((!) reqs) order"
  have m: "mset ?qs = mset reqs" by (rule order_reqs[OF o(1)])
  have "list_all (for_coupon countries r) ?qs" using assms(5) mset_all[OF m] by blast
  moreover have "distinct (map user_of ?qs)" using assms(6) mset_distinct[OF m] by blast
  moreover have "distinct (map req_uuid ?qs)" using assms(7) mset_distinct[OF m, of req_uuid] by simp
  moreover have "list_all (\<lambda>q. req_uuid q \<notin> set (map red_id (redemptions d))) ?qs"
    unfolding mset_all[OF m] using assms(7) by (auto simp: list_all_iff)
  moreover have "list_all (\<lambda>q. \<not> redemption_exists d (row_id r) (user_of q)) ?qs"
    unfolding mset_all[OF m] by (rule assms(8))
  ultimately have "length (filter won outs) = min (length ?qs) (nat (row_max r - row_current r))
      \<and> list_all (\<lambda>out. won out \<or> out = Inl Coupon_Exhausted) outs"
    using serve_users[OF assms(2,4), of countries ?qs] o(3) by simp
  moreover have "length ?qs = length reqs" using m by (metis size_mset)
  ultimately show ?thesis using mset_count[OF o(2), of won] mset_all[OF o(2)] by metis
qed

section \<open>The same user\<close>

lemma serve_same_user:
  assumes "db_ok d" "r \<in> set (coupons d)" "list_all (for_coupon countries r) (q # qs)"
    "list_all (\<lambda>p. user_of p = user_of q) qs" "req_uuid q \<notin> set (map red_id (redemptions d))"
    "\<not> redemption_exists d (row_id r) (user_of q)" "row_current r < row_max r"
  shows "\<exists>res. fst (serve countries (q # qs) d) = Inr res # map (\<lambda>q. Inl Coupon_Already_Redeemed) qs"
proof -
  obtain res d1 row where f: "fst (redeem_service countries q d) = Inr (res, d1)" "db_ok d1"
    "r\<lparr>row_current := row_current r + 1\<rparr> \<in> set (coupons d1)" "redemptions d1 = redemptions d @ [row]"
    "red_coupon row = row_id r" "red_user row = user_of q"
    using served_first[OF assms(1,2), of countries q] assms(3,5,6,7) by auto
  let ?r = "r\<lparr>row_current := row_current r + 1\<rparr>"
  have chk: "coupon_checks r" "coupon_checks ?r"
    using assms(1,2) f(2,3) by (simp_all add: db_ok_def schema_ok_def list_all_iff)
  have "fst (serve countries qs d1) = map (\<lambda>q. Inl Coupon_Already_Redeemed) qs"
  proof (rule serve_again[OF f(2,3)])
    show "list_all (for_coupon countries ?r) qs"
      using assms(3) for_coupon_use[OF chk] by (auto simp: list_all_iff)
    show "list_all (\<lambda>q. redemption_exists d1 (row_id ?r) (user_of q)) qs"
      using assms(4) f(4-6) by (auto simp: list_all_iff exists_iff)
  qed
  then show ?thesis using f(1) by (simp add: split_beta)
qed

text \<open>
  C7: when one user sends several requests for a coupon that has uses left, exactly one redeems it
  and every other is told that it is already redeemed, however the requests interleave.
\<close>

theorem same_user_once:
  assumes "(run_step countries reqs)\<^sup>*\<^sup>* (start d reqs) s" "db_ok d" "all_answered s" "reqs \<noteq> []"
    "r \<in> set (coupons d)" "list_all (for_coupon countries r) reqs" "list_all (\<lambda>q. user_of q = user) reqs"
    "list_all (\<lambda>q. req_uuid q \<notin> set (map red_id (redemptions d))) reqs"
    "\<not> redemption_exists d (row_id r) user" "row_current r < row_max r"
  shows "length (filter won (map answer_of (phases s))) = 1
    \<and> list_all (\<lambda>out. won out \<or> out = Inl Coupon_Already_Redeemed) (map answer_of (phases s))"
proof -
  obtain order outs where o: "mset order = mset [0..<length reqs]" "mset outs = mset (map answer_of (phases s))"
    "serve countries (map ((!) reqs) order) d = (outs, committed s)"
    using answered_serve[OF assms(1-3)] by blast
  have m: "mset (map ((!) reqs) order) = mset reqs" by (rule order_reqs[OF o(1)])
  obtain q qs where qs: "map ((!) reqs) order = q # qs"
    using m assms(4) by (cases "map ((!) reqs) order") auto
  have all: "list_all P (q # qs) = list_all P reqs" for P using mset_all[OF m] qs by metis
  have "list_all (\<lambda>q. user_of q = user) (q # qs)" unfolding all by (rule assms(7))
  moreover have "list_all (\<lambda>q. req_uuid q \<notin> set (map red_id (redemptions d))) (q # qs)" unfolding all by (rule assms(8))
  moreover have "list_all (for_coupon countries r) (q # qs)" unfolding all by (rule assms(6))
  ultimately obtain res where "outs = Inr res # map (\<lambda>q. Inl Coupon_Already_Redeemed) qs"
    using serve_same_user[OF assms(2,5), of countries q qs] assms(9,10) o(3) qs by (auto simp: list_all_iff)
  then have "length (filter won outs) = 1 \<and> list_all (\<lambda>out. won out \<or> out = Inl Coupon_Already_Redeemed) outs"
    by (simp add: list_all_iff filter_empty_conv)
  then show ?thesis using mset_count[OF o(2), of won] mset_all[OF o(2)] by metis
qed

end
