(* ===== verification/Redemption_Examples.thy ===== *)
theory Redemption_Examples
  imports Redemption_Promises
begin

text \<open>
  A coupon with one use left and two users, or one user with two requests, run by a schedule:
  the properties of the redemption at concrete states.
\<close>

fun play :: "jstring list \<Rightarrow> request list \<Rightarrow> nat list \<Rightarrow> sys \<Rightarrow> sys option" where
  "play countries reqs [] s = Some s"
| "play countries reqs (i # sched) s =
     (if i < length reqs
      then (case advance countries reqs s i of None \<Rightarrow> None | Some s' \<Rightarrow> play countries reqs sched s')
      else None)"

lemma play_steps: "play countries reqs sched s = Some s' \<Longrightarrow> (run_step countries reqs ^^ length sched) s s'"
proof (induction sched arbitrary: s)
  case (Cons i sched)
  then obtain t where t: "i < length reqs" "advance countries reqs s i = Some t" "play countries reqs sched t = Some s'"
    by (auto split: if_splits option.splits)
  have "(run_step countries reqs ^^ Suc (length sched)) s s'"
    by (rule relpowp_Suc_I2[OF run_step.advances[OF t(1,2)] Cons.IH[OF t(3)]])
  then show ?case by simp
qed simp

lemma play_runs: "play countries reqs sched s = Some s' \<Longrightarrow> (run_step countries reqs)\<^sup>*\<^sup>* s s'"
  by (rule relpowp_imp_rtranclp[OF play_steps])

definition one_left :: db where
  "one_left = \<lparr>coupons = [\<lparr>row_id = 7, row_code = lit ''Summer'', row_normalized = lit ''SUMMER'', row_created = 0,
       row_max = 1, row_current = 0, row_country = lit ''PL''\<rparr>], redemptions = []\<rparr>"

definition asks :: "string \<Rightarrow> nat \<Rightarrow> request" where
  "asks user uuid = \<lparr>req_code = Some (lit '' summer ''), req_user = Some (lit user), req_location = Inr (lit ''PL''),
     req_uuid = uuid, req_now = 5\<rparr>"

definition two_users :: "request list" where
  "two_users = [asks ''ann'' 1, asks ''bob'' 2]"

definition twice_ann :: "request list" where
  "twice_ann = [asks ''ann'' 1, asks ''ann'' 2]"

definition in_poland :: "jstring list" where
  "in_poland = [lit ''PL'']"

lemma one_left_ok: "db_ok one_left"
  by code_simp

lemma one_left_row: "hd (coupons one_left) \<in> set (coupons one_left)"
  by (simp add: one_left_def)

text \<open>Both see the coupon, both want the lock; the first to take it wins.\<close>

definition race :: "nat list" where
  "race = [0, 1, 1, 0, 1, 1, 1, 1, 1, 0, 0]"

lemma two_users_play:
  "case play in_poland two_users race (start one_left two_users) of None \<Rightarrow> False | Some s \<Rightarrow> all_answered s"
  by code_simp

lemma twice_ann_play:
  "case play in_poland twice_ann race (start one_left twice_ann) of None \<Rightarrow> False | Some s \<Rightarrow> all_answered s"
  by code_simp

lemma for_coupon_run:
  "for_coupon countries r q \<longleftrightarrow>
     (case validate_request q of Inl e \<Rightarrow> False
      | Inr (code, user) \<Rightarrow> code_normalized code = row_normalized r
          \<and> (case map_row countries r of Inl e \<Rightarrow> False | Inr c \<Rightarrow> req_location q = Inr (coupon_country c)))"
  unfolding for_coupon_def by (auto split: sum.splits prod.splits)

lemma asked_coupon:
  "list_all (for_coupon in_poland (hd (coupons one_left))) two_users"
  "list_all (for_coupon in_poland (hd (coupons one_left))) twice_ann"
  unfolding for_coupon_run by code_simp+

section \<open>The properties there\<close>

lemma two_users_run:
  obtains s where "play in_poland two_users race (start one_left two_users) = Some s" "all_answered s"
  using two_users_play by (auto split: option.splits)

lemma twice_ann_run:
  obtains s where "play in_poland twice_ann race (start one_left twice_ann) = Some s" "all_answered s"
  using twice_ann_play by (auto split: option.splits)

lemma never_oversold_witness:
  "\<exists>s. reachable in_poland two_users one_left s \<and> all_answered s
    \<and> distinct (map (\<lambda>q. (red_coupon q, red_user q)) (redemptions (committed s)))"
proof -
  obtain s where s: "play in_poland two_users race (start one_left two_users) = Some s" "all_answered s"
    by (rule two_users_run)
  have "reachable in_poland two_users one_left s" by (rule run_reachable[OF play_runs[OF s(1)]])
  then show ?thesis using never_oversold[OF _ one_left_ok] s(2) by blast
qed

lemma redemption_atomic_witness:
  "\<exists>s s'. run_step in_poland two_users s s' \<and> (\<exists>i p. i < length two_users \<and> phases s' = (phases s)[i := p])"
proof -
  have "case play in_poland two_users [0, 1] (start one_left two_users) of None \<Rightarrow> False
      | Some s \<Rightarrow> advance in_poland two_users s 0 \<noteq> None"
    by code_simp
  then obtain s s' where s: "play in_poland two_users [0, 1] (start one_left two_users) = Some s"
    "advance in_poland two_users s 0 = Some s'"
    by (auto split: option.splits)
  have r: "run_step in_poland two_users s s'" by (rule run_step.advances[OF _ s(2)]) (simp add: two_users_def)
  then show ?thesis
    using redemption_atomic[OF run_reachable[OF play_runs[OF s(1)]] one_left_ok r] by blast
qed

lemma serializable_witness:
  "\<exists>s order outs. (run_step in_poland two_users)\<^sup>*\<^sup>* (start one_left two_users) s \<and> all_answered s
    \<and> serve in_poland (map ((!) two_users) order) one_left = (outs, committed s)"
proof -
  obtain s where s: "play in_poland two_users race (start one_left two_users) = Some s" "all_answered s"
    by (rule two_users_run)
  show ?thesis using serializable[OF play_runs[OF s(1)] one_left_ok] play_runs[OF s(1)] s(2) by blast
qed

lemma redemptions_finish_witness:
  "\<exists>s. (run_step in_poland two_users ^^ 11) (start one_left two_users) s \<and> \<not> (\<exists>s'. run_step in_poland two_users s s')"
proof -
  obtain s where s: "play in_poland two_users race (start one_left two_users) = Some s" "all_answered s"
    by (rule two_users_run)
  have "length race = 11" by (simp add: race_def)
  then have r: "(run_step in_poland two_users ^^ 11) (start one_left two_users) s"
    using play_steps[OF s(1)] by simp
  show ?thesis
    using redemptions_finish[OF r one_left_ok] r s(2) by (auto simp: all_answered_def list_all_iff list_ex_iff)
qed

lemma exact_capacity_witness:
  "\<exists>s. (run_step in_poland two_users)\<^sup>*\<^sup>* (start one_left two_users) s
    \<and> length (filter won (map answer_of (phases s))) = 1"
proof -
  obtain s where s: "play in_poland two_users race (start one_left two_users) = Some s" "all_answered s"
    by (rule two_users_run)
  note run = play_runs[OF s(1)]
  have "distinct (map user_of two_users)" by code_simp
  moreover have "distinct (map req_uuid two_users @ map red_id (redemptions one_left))" by code_simp
  moreover have "list_all (\<lambda>q. \<not> redemption_exists one_left (row_id (hd (coupons one_left))) (user_of q)) two_users"
    by code_simp
  ultimately have "length (filter won (map answer_of (phases s)))
      = min (length two_users) (nat (row_max (hd (coupons one_left)) - row_current (hd (coupons one_left))))"
    using exact_capacity[OF run one_left_ok s(2) one_left_row asked_coupon(1)] by blast
  moreover have "min (length two_users) (nat (row_max (hd (coupons one_left)) - row_current (hd (coupons one_left)))) = 1"
    by code_simp
  ultimately show ?thesis using run by (intro exI[of _ s]) simp
qed

lemma same_user_once_witness:
  "\<exists>s. (run_step in_poland twice_ann)\<^sup>*\<^sup>* (start one_left twice_ann) s
    \<and> length (filter won (map answer_of (phases s))) = 1"
proof -
  obtain s where s: "play in_poland twice_ann race (start one_left twice_ann) = Some s" "all_answered s"
    by (rule twice_ann_run)
  note run = play_runs[OF s(1)]
  have "twice_ann \<noteq> []" by (simp add: twice_ann_def)
  moreover have "list_all (\<lambda>q. user_of q = lit ''ann'') twice_ann" by code_simp
  moreover have "list_all (\<lambda>q. req_uuid q \<notin> set (map red_id (redemptions one_left))) twice_ann" by code_simp
  moreover have "\<not> redemption_exists one_left (row_id (hd (coupons one_left))) (lit ''ann'')" by code_simp
  moreover have "row_current (hd (coupons one_left)) < row_max (hd (coupons one_left))" by code_simp
  ultimately have "length (filter won (map answer_of (phases s))) = 1"
    using same_user_once[OF run one_left_ok s(2) _ one_left_row asked_coupon(2)] by blast
  then show ?thesis using run by blast
qed

end
