(* ===== verification/Web_Api.thy ===== *)
theory Web_Api
  imports Service_Faults Redemption_Port Coupon_Creation Redemption_Examples
begin

text \<open>
  The web adapter (\<open>coupon/adapters/web\<close>): the two operations of \<open>CouponController\<close>, the
  constraints on their bodies, the response records and the problems of \<open>ApiExceptionHandler\<close>, its
  catch-all for the database and the web framework included. A body that Jackson cannot read,
  \<open>null\<close> included, is \<open>None\<close>. And the identifier of a request (\<open>RequestIdFilter\<close>).
\<close>

section \<open>Bodies and replies\<close>

record create_body =
  body_code :: "jstring option"
  body_max_uses :: "int option"
  body_country :: "jstring option"

text \<open>The constraint \<open>NotBlank\<close>: something is left of the text when it is trimmed.\<close>

definition not_blank :: "jstring option \<Rightarrow> bool" where
  "not_blank s \<longleftrightarrow> (case s of None \<Rightarrow> False | Some t \<Rightarrow> java_trim t \<noteq> [])"

definition valid_create_body :: "create_body \<Rightarrow> bool" where
  "valid_create_body b \<longleftrightarrow> not_blank (body_code b)
     \<and> (case body_max_uses b of None \<Rightarrow> False | Some n \<Rightarrow> 1 \<le> n \<and> n \<le> 1000000)
     \<and> not_blank (body_country b)"

text \<open>The constraint \<open>Pattern\<close> lets a missing user pass.\<close>

definition valid_redeem_body :: "jstring option \<Rightarrow> bool" where
  "valid_redeem_body user \<longleftrightarrow> (case user of None \<Rightarrow> True | Some s \<Rightarrow> visible_ascii s)"

record coupon_response =
  response_id :: nat
  response_code :: jstring
  response_created :: int
  response_max :: int
  response_current :: int
  response_country :: jstring

definition coupon_response_from :: "coupon \<Rightarrow> coupon_response" where
  "coupon_response_from c =
     \<lparr>response_id = coupon_id c, response_code = code_value (coupon_code c), response_created = created_at c,
      response_max = max_uses c, response_current = current_uses c, response_country = coupon_country c\<rparr>"

text \<open>The record of a redemption has the fields of \<open>CouponRedemptionResult\<close>.\<close>

datatype reply = Coupon_Created coupon_response | Coupon_Redeemed redemption_result | Problem nat jstring

definition problem :: "failure \<Rightarrow> reply" where
  "problem e = Problem (fst (problem_of e)) (snd (problem_of e))"

fun reply_status :: "reply \<Rightarrow> nat" where
  "reply_status (Coupon_Created c) = 201"
| "reply_status (Coupon_Redeemed r) = 201"
| "reply_status (Problem status code) = status"

text \<open>What the handler makes of a failed validation or an unreadable body.\<close>

definition invalid_request :: reply where
  "invalid_request = Problem 400 (lit ''INVALID_REQUEST'')"

text \<open>What it makes of every exception without a handler of its own.\<close>

definition internal_error :: reply where
  "internal_error = Problem 500 (lit ''INTERNAL_ERROR'')"

section \<open>The operations\<close>

text \<open>The faults are the points of the database that fail if the operation gets to them.\<close>

definition post_coupon ::
    "jstring list \<Rightarrow> db_point list \<Rightarrow> nat \<Rightarrow> int \<Rightarrow> create_body option \<Rightarrow> db \<Rightarrow> reply \<times> db" where
  "post_coupon countries faults uuid now body d =
     (case body of
        None \<Rightarrow> (invalid_request, d)
      | Some b \<Rightarrow>
          if \<not> valid_create_body b then (invalid_request, d)
          else (case body_max_uses b of
              None \<Rightarrow> (invalid_request, d)
            | Some n \<Rightarrow>
                (case fst (create_service_under faults countries uuid now
                    \<lparr>cmd_code = body_code b, cmd_max_uses = n, cmd_country = body_country b\<rparr> d) of
                   Inl e \<Rightarrow> (problem e, d)
                 | Inr (c, d') \<Rightarrow> (Coupon_Created (coupon_response_from c), d'))))"

text \<open>The body is the user, if it has one; the location is asked for by the service.\<close>

definition post_redemption ::
    "jstring list \<Rightarrow> db_point list \<Rightarrow> jstring \<Rightarrow> jstring option option \<Rightarrow> failure + jstring \<Rightarrow> nat \<Rightarrow> int \<Rightarrow> db
      \<Rightarrow> reply \<times> db" where
  "post_redemption countries faults code body location uuid now d =
     (case body of
        None \<Rightarrow> (invalid_request, d)
      | Some user \<Rightarrow>
          if \<not> valid_redeem_body user then (invalid_request, d)
          else (case fst (redeem_service_under faults countries
              \<lparr>req_code = Some code, req_user = user, req_location = location, req_uuid = uuid, req_now = now\<rparr> d) of
             Inl e \<Rightarrow> (problem e, d)
           | Inr (res, d') \<Rightarrow> (Coupon_Redeemed res, d')))"

section \<open>Documented replies\<close>

text \<open>What the parameters are: the list of the JDK, rows that hold its codes, fresh identifiers.\<close>

definition iso_rows :: "jstring list \<Rightarrow> db \<Rightarrow> bool" where
  "iso_rows countries d \<longleftrightarrow> list_all country_format countries \<and> list_all (\<lambda>r. row_country r \<in> set countries) (coupons d)"

definition documented_location :: "failure + jstring \<Rightarrow> bool" where
  "documented_location l \<longleftrightarrow>
     (case l of Inl e \<Rightarrow> e = Client_Ip_Unresolved \<or> e = Geolocation_Unavailable | Inr country \<Rightarrow> True)"

lemma row_readable:
  assumes "schema_ok d" "iso_rows countries d" "r \<in> set (coupons d)"
  shows "\<exists>c. map_row countries r = Inr c \<and> coupon_country c = row_country r"
proof -
  have chk: "coupon_checks r" using assms(1,3) by (simp add: schema_ok_def list_all_iff)
  then have "java_upper (java_trim (row_country r)) = row_country r" by (simp add: coupon_checks_def upper_country)
  moreover have "row_country r \<in> set countries" using assms(2,3) by (simp add: iso_rows_def list_all_iff)
  ultimately show ?thesis using map_row_Inr_iff[OF chk, of countries] by simp
qed

lemma find_coupon_total:
  assumes "schema_ok d" "iso_rows countries d"
  shows "find_coupon countries d code = Inr None \<or>
    (\<exists>c. find_coupon countries d code = Inr (Some c) \<and> country_format (coupon_country c))"
proof (cases "code \<in> set (map row_normalized (coupons d))")
  case True
  then obtain r where r: "r \<in> set (coupons d)" "row_normalized r = code" by auto
  obtain c where c: "map_row countries r = Inr c" "coupon_country c = row_country r"
    using row_readable[OF assms r(1)] by blast
  have "country_format (row_country r)" using assms(1) r(1) by (simp add: schema_ok_def list_all_iff coupon_checks_def)
  then show ?thesis using find_coupon_row[OF assms(1) r, of countries] c by simp
qed (simp add: find_coupon_missing)

lemma transaction_failures:
  assumes "schema_ok d" "iso_rows countries d" "visible_ascii (a_user a)" "fresh_redemption (a_uuid a) d"
    "redeem_transaction countries a d = Inl e"
  shows "e \<in> {Coupon_Not_Found, Country_Not_Allowed, Coupon_Already_Redeemed, Coupon_Exhausted}"
proof (cases "lock_coupon countries d a")
  case (Inl f)
  then have "f \<in> {Coupon_Not_Found, Country_Not_Allowed}"
    using find_coupon_total[OF assms(1,2), of "a_code a"]
    by (auto simp: lock_coupon_def or_not_found_def guard_py_def split: if_splits)
  then show ?thesis using assms(5) Inl by (auto simp: redeem_transaction_def)
next
  case (Inr c)
  then have "country_format (a_country a)"
    using find_coupon_total[OF assms(1,2), of "a_code a"]
    by (auto simp: lock_coupon_def or_not_found_def guard_py_def split: if_splits)
  from transaction_answer[OF assms(1) Inr assms(3) this assms(4)] show ?thesis using assms(5) by auto
qed

lemma redeem_failures:
  assumes "schema_ok d" "iso_rows countries d" "fresh_redemption (req_uuid r) d" "documented_location (req_location r)"
    "fst (redeem_service countries r d) = Inl e"
  shows "(\<exists>field. e = Invalid_Value field) \<or> e \<in> {Coupon_Not_Found, Country_Not_Allowed, Coupon_Already_Redeemed,
    Coupon_Exhausted, Client_Ip_Unresolved, Geolocation_Unavailable}"
proof (cases "validate_request r")
  case (Inl f)
  then show ?thesis using assms(5)
    by (auto simp: redeem_service_def validate_request_def coupon_code_of_def user_id_of_def Let_def
        split: option.splits if_splits sum.splits)
next
  case (Inr v)
  obtain code user where v: "validate_request r = Inr (code, user)" using Inr by (cases v) simp
  then have user: "visible_ascii user"
    by (auto simp: validate_request_def user_id_of_def py_ok split: option.splits if_splits)
  have snap: "snapshot_coupon countries d code = Inl Coupon_Not_Found \<or> (\<exists>c. snapshot_coupon countries d code = Inr c)"
    using find_coupon_total[OF assms(1,2), of "code_normalized code"] by (auto simp: snapshot_coupon_def or_not_found_def)
  have loc: "f \<in> {Client_Ip_Unresolved, Geolocation_Unavailable, Country_Not_Allowed}"
    if "locate r code user c = Inl f" for c f
    using that assms(4) by (cases "req_location r") (auto simp: locate_def documented_location_def guard_py_def split: if_splits)
  have tx: "f \<in> {Coupon_Not_Found, Country_Not_Allowed, Coupon_Already_Redeemed, Coupon_Exhausted}"
    if "locate r code user c = Inr a" "redeem_transaction countries a d = Inl f" for c a f
  proof -
    have "a_user a = user" "a_uuid a = req_uuid r" using that(1) by (auto simp: locate_def py_ok)
    then show ?thesis using transaction_failures[OF assms(1,2) _ _ that(2)] user assms(3) by simp
  qed
  show ?thesis
  proof (cases "snapshot_coupon countries d code")
    case (Inl f)
    then show ?thesis using snap assms(5) v by (simp add: redeem_service_def)
  next
    case (Inr c)
    show ?thesis
    proof (cases "locate r code user c")
      case (Inl f)
      then have "e = f" using assms(5) v Inr by (simp add: redeem_service_def)
      then show ?thesis using loc[OF Inl] by blast
    next
      case a: (Inr a)
      then have "redeem_transaction countries a d = Inl e"
        using assms(5) v Inr by (simp add: redeem_service_def split: sum.splits)
      then show ?thesis using tx[OF a] by blast
    qed
  qed
qed

lemma create_failures:
  assumes "schema_ok d" "iso_rows countries d" "uuid \<notin> set (map row_id (coupons d))"
    "1 \<le> cmd_max_uses command" "cmd_max_uses command \<le> 1000000"
    "fst (create_service countries uuid now command d) = Inl e"
  shows "(\<exists>field. e = Invalid_Value field) \<or> e = Coupon_Code_Conflict"
proof (cases "command_coupon countries uuid now command")
  case (Inl f)
  then have "f = e" using assms(6) by (simp add: create_service_def)
  moreover have "\<exists>field. f = Invalid_Value field"
    using Inl assms(4,5)
    by (auto simp: command_coupon_def coupon_code_of_def country_code_of_def create_coupon_def new_coupon_def guard_py_def
        Let_def split: option.splits if_splits)
  ultimately show ?thesis by blast
next
  case (Inr c)
  then obtain code country where v: "coupon_code_of (cmd_code command) = Inr code"
    "country_code_of countries (cmd_country command) = Inr country"
    "c = \<lparr>coupon_id = uuid, coupon_code = code, created_at = now, max_uses = cmd_max_uses command,
        current_uses = 0, coupon_country = country\<rparr>"
    by (auto simp: command_coupon_def create_coupon_def new_coupon_def py_ok)
  have "country \<in> set countries" using v(2) by (auto simp: country_code_of_def Let_def split: option.splits if_splits)
  then have "country_format country" using assms(2) by (simp add: iso_rows_def list_all_iff)
  moreover obtain s where "code_format (java_trim s)"
    "code = \<lparr>code_value = java_trim s, code_normalized = java_upper (java_trim s)\<rparr>"
    using v(1) unfolding coupon_code_of_Inr_iff by blast
  ultimately have "coupon_checks (coupon_to_row c)"
    using assms(4,5) upper_normal[of "java_trim s"]
    by (auto simp: coupon_checks_def coupon_to_row_def v(3) sql_upper_def upper_code code_format_def)
  then have "insert_coupon c d = Inl e \<Longrightarrow> e = Coupon_Code_Conflict"
    using assms(3) by (auto simp: insert_coupon_def insert_coupon_row_def coupon_to_row_def v(3) split: if_splits)
  then show ?thesis using assms(6) Inr by (auto simp: create_service_def split: sum.splits)
qed

section \<open>A sequence of calls\<close>

text \<open>
  What the web framework does around an operation: it delivers, it raises an exception before the
  operation, as for a media type it does not support, or after it, when it cannot write the answer
  in a form the client accepts. Both exceptions get to the catch-all; a problem has a media type of
  its own and is always written.
\<close>

datatype transport = Delivers | Raises_Before | Raises_After

definition transported :: "transport \<Rightarrow> (db \<Rightarrow> reply \<times> db) \<Rightarrow> db \<Rightarrow> reply \<times> db" where
  "transported t operation d =
     (case t of
        Delivers \<Rightarrow> operation d
      | Raises_Before \<Rightarrow> (internal_error, d)
      | Raises_After \<Rightarrow>
          (let (r, d') = operation d in (if reply_status r = 201 then internal_error else r, d')))"

text \<open>A call, with what the framework, the database, the generator and the clock do in it.\<close>

datatype api_call =
    Create_Call transport "db_point list" nat int "create_body option"
  | Redeem_Call transport "db_point list" jstring "jstring option option" "failure + jstring" nat int

fun answer_call :: "jstring list \<Rightarrow> api_call \<Rightarrow> db \<Rightarrow> reply \<times> db" where
  "answer_call countries (Create_Call t faults uuid now body) d = transported t (post_coupon countries faults uuid now body) d"
| "answer_call countries (Redeem_Call t faults code body location uuid now) d =
     transported t (post_redemption countries faults code body location uuid now) d"

text \<open>The calls one after the other, each with the tables before it, its reply, and the tables after it.\<close>

fun answer_calls :: "jstring list \<Rightarrow> api_call list \<Rightarrow> db \<Rightarrow> (api_call \<times> db \<times> reply \<times> db) list" where
  "answer_calls countries [] d = []"
| "answer_calls countries (c # cs) d =
     (let (r, d') = answer_call countries c d in (c, d, r, d') # answer_calls countries cs d')"

fun coupon_ids :: "api_call \<Rightarrow> nat list" where
  "coupon_ids (Create_Call t faults uuid now body) = [uuid]"
| "coupon_ids call = []"

fun redemption_ids :: "api_call \<Rightarrow> nat list" where
  "redemption_ids (Redeem_Call t faults code body location uuid now) = [uuid]"
| "redemption_ids call = []"

text \<open>The statuses in the documentation of the API, and the one of them with a known cause.\<close>

fun documented :: "api_call \<Rightarrow> nat set" where
  "documented (Create_Call t faults uuid now body) = {201, 400, 409, 500}"
| "documented (Redeem_Call t faults code body location uuid now) = {201, 400, 403, 404, 409, 500, 503}"

fun located_call :: "api_call \<Rightarrow> bool" where
  "located_call (Redeem_Call t faults code body location uuid now) = documented_location location"
| "located_call call = True"

fun call_transport :: "api_call \<Rightarrow> transport" where
  "call_transport (Create_Call t faults uuid now body) = t"
| "call_transport (Redeem_Call t faults code body location uuid now) = t"

text \<open>Some point the operation may get to fails; and the same call without any trouble.\<close>

fun interrupted :: "api_call \<Rightarrow> bool" where
  "interrupted (Create_Call t faults uuid now body) = list_ex (\<lambda>p. p \<in> set create_points) faults"
| "interrupted (Redeem_Call t faults code body location uuid now) = list_ex (\<lambda>p. p \<in> set redeem_points) faults"

fun untroubled :: "api_call \<Rightarrow> api_call" where
  "untroubled (Create_Call t faults uuid now body) = Create_Call Delivers [] uuid now body"
| "untroubled (Redeem_Call t faults code body location uuid now) = Redeem_Call Delivers [] code body location uuid now"

lemma problem_status:
  "reply_status (problem (Invalid_Value field)) = 400" "reply_status (problem Coupon_Code_Conflict) = 409"
  "reply_status (problem Coupon_Not_Found) = 404" "reply_status (problem Country_Not_Allowed) = 403"
  "reply_status (problem Coupon_Already_Redeemed) = 409" "reply_status (problem Coupon_Exhausted) = 409"
  "reply_status (problem Client_Ip_Unresolved) = 503" "reply_status (problem Geolocation_Unavailable) = 503"
  "reply_status invalid_request = 400" "reply_status internal_error = 500"
  by (simp_all add: problem_def problem_of_def invalid_request_def internal_error_def)

lemma data_access_problem: "problem Data_Access = internal_error"
  by (simp add: problem_def problem_of_def internal_error_def)

text \<open>What a call may do to the tables.\<close>

definition call_effect :: "jstring list \<Rightarrow> api_call \<Rightarrow> db \<Rightarrow> db \<Rightarrow> bool" where
  "call_effect countries c d d' \<longleftrightarrow> db_ok d' \<and> iso_rows countries d'
     \<and> set (map row_id (coupons d')) \<subseteq> set (map row_id (coupons d)) \<union> set (coupon_ids c)
     \<and> set (map red_id (redemptions d')) \<subseteq> set (map red_id (redemptions d)) \<union> set (redemption_ids c)"

lemma create_call_ok:
  assumes "db_ok d" "iso_rows countries d" "uuid \<notin> set (map row_id (coupons d))"
  shows "reply_status (fst (post_coupon countries [] uuid now body d)) \<in> {201, 400, 409}
    \<and> (reply_status (fst (post_coupon countries [] uuid now body d)) \<noteq> 201 \<longrightarrow> snd (post_coupon countries [] uuid now body d) = d)
    \<and> call_effect countries (Create_Call Delivers [] uuid now body) d (snd (post_coupon countries [] uuid now body d))"
proof (cases "\<exists>b n. body = Some b \<and> valid_create_body b \<and> body_max_uses b = Some n")
  case False
  then have "post_coupon countries [] uuid now body d = (invalid_request, d)"
    by (auto simp: post_coupon_def services_without_faults valid_create_body_def split: option.splits)
  then show ?thesis using assms by (auto simp: problem_status call_effect_def)
next
  case True
  then obtain b n where b: "body = Some b" "valid_create_body b" "body_max_uses b = Some n" by blast
  define command where "command = \<lparr>cmd_code = body_code b, cmd_max_uses = n, cmd_country = body_country b\<rparr>"
  have s: "schema_ok d" using assms(1) by (simp add: db_ok_def)
  have n: "1 \<le> cmd_max_uses command" "cmd_max_uses command \<le> 1000000"
    using b by (simp_all add: valid_create_body_def command_def)
  show ?thesis
  proof (cases "fst (create_service countries uuid now command d)")
    case (Inl e)
    then have "post_coupon countries [] uuid now body d = (problem e, d)"
      using b by (simp add: post_coupon_def services_without_faults command_def)
    then show ?thesis using create_failures[OF s assms(2,3) n Inl] assms(1,2) by (auto simp: problem_status call_effect_def)
  next
    case (Inr x)
    obtain c d' where x: "x = (c, d')" by (cases x)
    obtain out where c: "create_service countries uuid now command d = (Inr (c, d'), out)"
      using Inr x by (metis prod.collapse)
    have post: "post_coupon countries [] uuid now body d = (Coupon_Created (coupon_response_from c), d')"
      using b c by (simp add: post_coupon_def services_without_faults command_def)
    have d': "d' = d\<lparr>coupons := coupons d @ [coupon_to_row c]\<rparr>" using create_rows[OF c] by (simp add: insert_coupon_row_ok)
    have "coupon_id c = uuid \<and> coupon_country c \<in> set countries"
      using c by (auto simp: create_service_def command_coupon_def create_coupon_def new_coupon_def country_code_of_def Let_def
          py_ok split: sum.splits option.splits if_splits)
    then have "iso_rows countries d' \<and> set (map row_id (coupons d')) \<subseteq> insert uuid (set (map row_id (coupons d)))"
      using assms(2) by (auto simp: iso_rows_def d' coupon_to_row_def)
    then show ?thesis using create_db_ok[OF assms(1) c] post by (auto simp: call_effect_def d')
  qed
qed

lemma redeem_effect:
  assumes "db_ok d" "iso_rows countries d" "fst (redeem_service countries r d) = Inr (res, d')"
  shows "db_ok d' \<and> iso_rows countries d' \<and> set (map row_id (coupons d')) = set (map row_id (coupons d))
    \<and> set (map red_id (redemptions d')) = insert (req_uuid r) (set (map red_id (redemptions d)))"
proof -
  have s: "schema_ok d" using assms(1) by (simp add: db_ok_def)
  obtain a c where d': "a_uuid a = req_uuid r" "d' = commit_redemption a c d" using service_commit[OF s assms(3)] by metis
  have "map row_country (coupons d') = map row_country (coupons d)" by (auto simp: d'(2) commit_simps)
  then have "set (map row_country (coupons d')) = set (map row_country (coupons d))" by metis
  then have "iso_rows countries d'" using assms(2) by (simp add: iso_rows_def list_all_iff) (metis imageE imageI)
  moreover have "set (map red_id (redemptions d')) = insert (req_uuid r) (set (map red_id (redemptions d)))"
    using d'(1) by (auto simp: d'(2) commit_simps(1) redemption_of_def)
  moreover have "set (map row_id (coupons d')) = set (map row_id (coupons d))" by (simp only: d'(2) commit_keys)
  ultimately show ?thesis using service_tables[OF assms(1,3)] by simp
qed

lemma redeem_call_ok:
  assumes "db_ok d" "iso_rows countries d" "uuid \<notin> set (map red_id (redemptions d))" "documented_location location"
  shows "reply_status (fst (post_redemption countries [] code body location uuid now d)) \<in> {201, 400, 403, 404, 409, 503}
    \<and> (reply_status (fst (post_redemption countries [] code body location uuid now d)) \<noteq> 201
        \<longrightarrow> snd (post_redemption countries [] code body location uuid now d) = d)
    \<and> call_effect countries (Redeem_Call Delivers [] code body location uuid now) d (snd (post_redemption countries [] code body location uuid now d))"
proof (cases "\<exists>user. body = Some user \<and> valid_redeem_body user")
  case False
  then have "post_redemption countries [] code body location uuid now d = (invalid_request, d)"
    by (auto simp: post_redemption_def services_without_faults split: option.splits)
  then show ?thesis using assms by (auto simp: problem_status call_effect_def)
next
  case True
  then obtain user where u: "body = Some user" "valid_redeem_body user" by blast
  define r where "r = \<lparr>req_code = Some code, req_user = user, req_location = location, req_uuid = uuid, req_now = now\<rparr>"
  have s: "schema_ok d" using assms(1) by (simp add: db_ok_def)
  show ?thesis
  proof (cases "fst (redeem_service countries r d)")
    case (Inl e)
    then have "post_redemption countries [] code body location uuid now d = (problem e, d)"
      using u by (simp add: post_redemption_def services_without_faults r_def)
    moreover have "fresh_redemption (req_uuid r) d" "documented_location (req_location r)"
      using assms(3,4) by (simp_all add: r_def fresh_redemption_def)
    ultimately show ?thesis using redeem_failures[OF s assms(2) _ _ Inl] assms(1,2) by (auto simp: problem_status call_effect_def)
  next
    case (Inr x)
    obtain res d' where x: "fst (redeem_service countries r d) = Inr (res, d')" using Inr by (cases x) simp
    have post: "post_redemption countries [] code body location uuid now d = (Coupon_Redeemed res, d')"
      using u x by (simp add: post_redemption_def services_without_faults r_def)
    have "req_uuid r = uuid" by (simp add: r_def)
    then show ?thesis using redeem_effect[OF assms(1,2) x] post by (auto simp: call_effect_def)
  qed
qed

text \<open>With trouble, the reply is an internal error or that of the untroubled call.\<close>

lemma post_coupon_under:
  "post_coupon countries faults uuid now body d \<in> {(internal_error, d), post_coupon countries [] uuid now body d}"
proof (cases "\<exists>b n. body = Some b \<and> valid_create_body b \<and> body_max_uses b = Some n")
  case True
  then obtain b n where b: "body = Some b" "valid_create_body b" "body_max_uses b = Some n" by blast
  then show ?thesis
    using create_under[of faults countries uuid now "\<lparr>cmd_code = body_code b, cmd_max_uses = n, cmd_country = body_country b\<rparr>" d]
    by (auto simp: post_coupon_def services_without_faults data_access_problem)
qed (auto simp: post_coupon_def valid_create_body_def split: option.splits)

lemma post_redemption_under:
  "post_redemption countries faults code body location uuid now d
    \<in> {(internal_error, d), post_redemption countries [] code body location uuid now d}"
proof (cases "\<exists>user. body = Some user \<and> valid_redeem_body user")
  case True
  then obtain user where "body = Some user" "valid_redeem_body user" by blast
  then show ?thesis
    using redeem_under[of faults countries
        "\<lparr>req_code = Some code, req_user = user, req_location = location, req_uuid = uuid, req_now = now\<rparr>" d]
    by (auto simp: post_redemption_def services_without_faults data_access_problem)
qed (auto simp: post_redemption_def split: option.splits)

lemma problem_not_created: "reply_status (problem e) \<noteq> 201"
  by (cases e) (simp_all add: problem_def problem_of_def)

lemma post_coupon_passed:
  assumes "reply_status (fst (post_coupon countries faults uuid now body d)) = 201"
  shows "\<not> list_ex (\<lambda>p. p \<in> set create_points) faults"
proof -
  obtain command x where "fst (create_service_under faults countries uuid now command d) = Inr x"
    using assms problem_not_created
    by (auto simp: post_coupon_def problem_status split: option.splits if_splits sum.splits)
  from create_passed[OF this] show ?thesis by (auto simp: list_ex_iff)
qed

lemma post_redemption_passed:
  assumes "reply_status (fst (post_redemption countries faults code body location uuid now d)) = 201"
  shows "\<not> list_ex (\<lambda>p. p \<in> set redeem_points) faults"
proof -
  obtain r x where "fst (redeem_service_under faults countries r d) = Inr x"
    using assms problem_not_created
    by (auto simp: post_redemption_def problem_status split: option.splits if_splits sum.splits)
  from redeem_passed[OF this] show ?thesis by (auto simp: list_ex_iff)
qed

text \<open>One call: what its reply says, and what it does to the tables.\<close>

definition reply_ok :: "jstring list \<Rightarrow> api_call \<Rightarrow> db \<Rightarrow> reply \<Rightarrow> db \<Rightarrow> bool" where
  "reply_ok countries c before r after \<longleftrightarrow>
     reply_status r \<in> documented c
     \<and> (reply_status r = 500 \<longrightarrow> r = internal_error \<and> (call_transport c \<noteq> Delivers \<or> interrupted c))
     \<and> (after \<noteq> before \<longrightarrow> reply_status r = 201 \<or> (r = internal_error \<and> call_transport c = Raises_After))
     \<and> (call_transport c = Delivers \<and> interrupted c
         \<and> reply_status (fst (answer_call countries (untroubled c) before)) = 201 \<longrightarrow> r = internal_error)"

text \<open>From the reply of the operation to that of the call.\<close>

lemma transported_ok:
  assumes op: "operation d \<in> {(internal_error, d), calm}" "\<not> troubled \<Longrightarrow> operation d = calm"
      "reply_status (fst (operation d)) = 201 \<Longrightarrow> \<not> troubled"
    and calm: "reply_status (fst calm) \<in> S" "reply_status (fst calm) \<noteq> 201 \<longrightarrow> snd calm = d" "500 \<notin> S"
    and out: "transported t operation d = (r, d')"
  shows "reply_status r \<in> insert 500 S
    \<and> (reply_status r = 500 \<longrightarrow> r = internal_error \<and> (t \<noteq> Delivers \<or> troubled))
    \<and> (d' \<noteq> d \<longrightarrow> reply_status r = 201 \<or> (r = internal_error \<and> t = Raises_After))
    \<and> (t = Delivers \<and> troubled \<and> reply_status (fst calm) = 201 \<longrightarrow> r = internal_error)
    \<and> d' \<in> {d, snd calm}"
proof -
  obtain r0 d0 where o: "operation d = (r0, d0)" by fastforce
  have "(r0 = internal_error \<and> d0 = d) \<or> (r0 = fst calm \<and> d0 = snd calm)" using op(1) o by (cases calm) auto
  moreover have "reply_status r0 = 201 \<Longrightarrow> \<not> troubled" using op(3) o by simp
  moreover have "r0 = internal_error \<Longrightarrow> troubled"
  proof (rule ccontr)
    assume "r0 = internal_error" "\<not> troubled"
    then have "reply_status (fst calm) = 500" using op(2) o by (auto simp: problem_status)
    then show False using calm(1,3) by metis
  qed
  moreover have "reply_status (fst calm) \<noteq> 500" using calm(1,3) by metis
  ultimately show ?thesis
    using out calm(1,2) o by (cases t) (auto simp: transported_def problem_status split: if_splits)
qed

lemma create_answer_ok:
  assumes "db_ok d" "iso_rows countries d" "uuid \<notin> set (map row_id (coupons d))"
    "answer_call countries (Create_Call t faults uuid now body) d = (r, d')"
  shows "reply_ok countries (Create_Call t faults uuid now body) d r d'
    \<and> call_effect countries (Create_Call t faults uuid now body) d d'"
proof -
  let ?calm = "post_coupon countries [] uuid now body d" and ?troubled = "list_ex (\<lambda>p. p \<in> set create_points) faults"
  note ok = create_call_ok[OF assms(1-3), of now body]
  have untouched: "post_coupon countries faults uuid now body d = ?calm" if "\<not> ?troubled"
  proof -
    have "set faults \<inter> set create_points = {}" using that by (auto simp: list_ex_iff)
    then show ?thesis by (simp only: post_coupon_def create_untouched services_without_faults)
  qed
  have "reply_status r \<in> insert 500 {201, 400, 409}
    \<and> (reply_status r = 500 \<longrightarrow> r = internal_error \<and> (t \<noteq> Delivers \<or> ?troubled))
    \<and> (d' \<noteq> d \<longrightarrow> reply_status r = 201 \<or> (r = internal_error \<and> t = Raises_After))
    \<and> (t = Delivers \<and> ?troubled \<and> reply_status (fst ?calm) = 201 \<longrightarrow> r = internal_error)
    \<and> d' \<in> {d, snd ?calm}"
    by (rule transported_ok[where operation = "post_coupon countries faults uuid now body", OF post_coupon_under untouched
        post_coupon_passed])
      (use ok assms(4) in \<open>simp_all only: answer_call.simps\<close>, simp_all)
  moreover have "call_effect countries (Create_Call t faults uuid now body) d d"
    using assms(1,2) by (auto simp: call_effect_def)
  moreover have "call_effect countries (Create_Call t faults uuid now body) d (snd ?calm)"
    using ok by (simp add: call_effect_def)
  ultimately show ?thesis by (auto simp: reply_ok_def transported_def)
qed

lemma redeem_answer_ok:
  assumes "db_ok d" "iso_rows countries d" "uuid \<notin> set (map red_id (redemptions d))" "documented_location location"
    "answer_call countries (Redeem_Call t faults code body location uuid now) d = (r, d')"
  shows "reply_ok countries (Redeem_Call t faults code body location uuid now) d r d'
    \<and> call_effect countries (Redeem_Call t faults code body location uuid now) d d'"
proof -
  let ?calm = "post_redemption countries [] code body location uuid now d"
    and ?troubled = "list_ex (\<lambda>p. p \<in> set redeem_points) faults"
  note ok = redeem_call_ok[OF assms(1-4), of code body now]
  have untouched: "post_redemption countries faults code body location uuid now d = ?calm" if "\<not> ?troubled"
  proof -
    have "set faults \<inter> set redeem_points = {}" using that by (auto simp: list_ex_iff)
    then show ?thesis by (simp only: post_redemption_def redeem_untouched services_without_faults)
  qed
  have "reply_status r \<in> insert 500 {201, 400, 403, 404, 409, 503}
    \<and> (reply_status r = 500 \<longrightarrow> r = internal_error \<and> (t \<noteq> Delivers \<or> ?troubled))
    \<and> (d' \<noteq> d \<longrightarrow> reply_status r = 201 \<or> (r = internal_error \<and> t = Raises_After))
    \<and> (t = Delivers \<and> ?troubled \<and> reply_status (fst ?calm) = 201 \<longrightarrow> r = internal_error)
    \<and> d' \<in> {d, snd ?calm}"
    by (rule transported_ok[where operation = "post_redemption countries faults code body location uuid now",
        OF post_redemption_under untouched post_redemption_passed])
      (use ok assms(5) in \<open>simp_all only: answer_call.simps\<close>, simp_all)
  moreover have "call_effect countries (Redeem_Call t faults code body location uuid now) d d"
    using assms(1,2) by (auto simp: call_effect_def)
  moreover have "call_effect countries (Redeem_Call t faults code body location uuid now) d (snd ?calm)"
    using ok by (simp add: call_effect_def)
  ultimately show ?thesis by (auto simp: reply_ok_def transported_def)
qed

text \<open>
  C8: in every sequence of calls to a service that starts with consistent tables, each reply has a
  status that the API documents for its operation. An internal error has a cause outside the
  program, a failure of the database at a point the operation may get to or an exception of the web
  framework: the services and adapters give none themselves. A call changes the tables only if it is
  answered with 201, or if the framework could not write that answer; so a failure of the database
  is rolled back, and it turns a call that would have succeeded into an internal error. The tables
  stay consistent. (Identifiers are fresh, and the client is located, or not, as the resolvers do.)
\<close>

theorem no_internal_error:
  assumes "db_ok d" "iso_rows countries d" "list_all located_call cs"
    "distinct (map row_id (coupons d) @ concat (map coupon_ids cs))"
    "distinct (map red_id (redemptions d) @ concat (map redemption_ids cs))"
    "(c, before, r, after) \<in> set (answer_calls countries cs d)"
  shows "reply_status r \<in> documented c
    \<and> (reply_status r = 500 \<longrightarrow> r = internal_error \<and> (call_transport c \<noteq> Delivers \<or> interrupted c))
    \<and> (after \<noteq> before \<longrightarrow> reply_status r = 201 \<or> (r = internal_error \<and> call_transport c = Raises_After))
    \<and> (call_transport c = Delivers \<and> interrupted c
        \<and> reply_status (fst (answer_call countries (untroubled c) before)) = 201 \<longrightarrow> r = internal_error)
    \<and> db_ok after"
  using assms
proof (induction cs arbitrary: d)
  case (Cons c1 cs)
  obtain r1 d1 where a: "answer_call countries c1 d = (r1, d1)" by fastforce
  have one: "reply_ok countries c1 d r1 d1 \<and> call_effect countries c1 d d1"
  proof (cases c1)
    case (Create_Call t faults uuid now body)
    then show ?thesis using create_answer_ok[OF Cons.prems(1,2)] Cons.prems(4) a by simp
  next
    case (Redeem_Call t faults code body location uuid now)
    then show ?thesis using redeem_answer_ok[OF Cons.prems(1,2)] Cons.prems(3,5) a by simp
  qed
  then have e: "db_ok d1" "iso_rows countries d1" "set (map row_id (coupons d1)) \<subseteq> set (map row_id (coupons d)) \<union> set (coupon_ids c1)"
    "set (map red_id (redemptions d1)) \<subseteq> set (map red_id (redemptions d)) \<union> set (redemption_ids c1)"
    by (simp_all add: call_effect_def)
  show ?case
  proof (cases "(c, before, r, after) = (c1, d, r1, d1)")
    case True
    then show ?thesis using one e(1) by (simp add: reply_ok_def)
  next
    case False
    have "distinct (map row_id (coupons d1)) \<and> distinct (map red_id (redemptions d1))"
      using e(1) by (simp add: db_ok_def schema_ok_def)
    then have ids: "distinct (map row_id (coupons d1) @ concat (map coupon_ids cs))"
      "distinct (map red_id (redemptions d1) @ concat (map redemption_ids cs))"
      using Cons.prems(4,5) e(3,4) by (auto simp: disjoint_iff)
    have "list_all located_call cs" "(c, before, r, after) \<in> set (answer_calls countries cs d1)"
      using Cons.prems(3,6) False a by auto
    from Cons.IH[OF e(1,2) this(1) ids this(2)] show ?thesis .
  qed
qed simp

section \<open>Concurrent replies\<close>

text \<open>The statuses of a redemption that is refused.\<close>

definition refused_ok :: "failure + redemption_result \<Rightarrow> bool" where
  "refused_ok out \<longleftrightarrow> (case out of Inl e \<Rightarrow> reply_status (problem e) \<in> {400, 403, 404, 409, 503} | Inr res \<Rightarrow> True)"

lemma serve_refused:
  assumes "db_ok d" "iso_rows countries d" "distinct (map red_id (redemptions d) @ map req_uuid rs)"
    "list_all (\<lambda>r. documented_location (req_location r)) rs"
  shows "list_all refused_ok (fst (serve countries rs d))"
  using assms
proof (induction rs arbitrary: d)
  case (Cons r rs)
  have s: "schema_ok d" using Cons.prems(1) by (simp add: db_ok_def)
  show ?case
  proof (cases "fst (redeem_service countries r d)")
    case (Inl e)
    have "fresh_redemption (req_uuid r) d" using Cons.prems(3) by (simp add: fresh_redemption_def)
    then have "refused_ok (Inl e)" using redeem_failures[OF s Cons.prems(2) _ _ Inl] Cons.prems(4)
      by (auto simp: refused_ok_def problem_status)
    moreover have "list_all refused_ok (fst (serve countries rs d))"
      using Cons.prems by (intro Cons.IH) auto
    ultimately show ?thesis using Inl by (simp add: split_beta)
  next
    case (Inr x)
    obtain res d1 where x: "fst (redeem_service countries r d) = Inr (res, d1)" using Inr by (cases x) simp
    have e: "db_ok d1" "iso_rows countries d1"
      "set (map red_id (redemptions d1)) = insert (req_uuid r) (set (map red_id (redemptions d)))"
      using redeem_effect[OF Cons.prems(1,2) x] by blast+
    have "distinct (map red_id (redemptions d1))" using e(1) by (simp add: db_ok_def schema_ok_def)
    then have "distinct (map red_id (redemptions d1) @ map req_uuid rs)"
      unfolding distinct_append e(3) using Cons.prems(3) by auto
    then have "list_all refused_ok (fst (serve countries rs d1))"
      using Cons.prems(4) by (intro Cons.IH e) auto
    moreover have "refused_ok (Inr res)" by (simp add: refused_ok_def)
    ultimately show ?thesis using x by (simp add: split_beta)
  qed
qed simp

text \<open>
  C9: concurrency adds no way to fail: in every run of concurrent requests, each answer so far is a
  redemption or a documented refusal, whatever interleaves; the guards for a lost counter and a
  violated constraint never answer.
\<close>

theorem concurrent_replies_documented:
  assumes "(run_step countries reqs)\<^sup>*\<^sup>* (start d reqs) s" "db_ok d" "iso_rows countries d"
    "distinct (map red_id (redemptions d) @ map req_uuid reqs)"
    "list_all (\<lambda>r. documented_location (req_location r)) reqs"
  shows "list_all (\<lambda>p. case p of Finished out \<Rightarrow> refused_ok out | _ \<Rightarrow> True) (phases s)"
proof -
  obtain order outs where o: "distinct order" "set order = {i. i < length reqs \<and> finished (phases s ! i)}"
    "map ((!) (phases s)) order = map Finished outs" "serve countries (map ((!) reqs) order) d = (outs, committed s)"
    using run_serve[OF assms(1,2)] by blast
  have len: "length (phases s) = length reqs"
    using reachable_ok[OF run_reachable[OF assms(1)] assms(2)] by (simp add: sys_ok_def)
  have sub: "set (map ((!) reqs) order) \<subseteq> set reqs"
  proof
    fix r assume "r \<in> set (map ((!) reqs) order)"
    then obtain i where "i \<in> set order" "r = reqs ! i" unfolding set_map by blast
    then show "r \<in> set reqs" unfolding o(2) by simp
  qed
  have "inj_on ((!) (map req_uuid reqs)) (set order)"
  proof (rule inj_on_nth)
    show "distinct (map req_uuid reqs)" using assms(4) unfolding distinct_append by blast
    show "\<forall>i \<in> set order. i < length (map req_uuid reqs)" unfolding o(2) by simp
  qed
  then have "distinct (map ((!) (map req_uuid reqs)) order)" using o(1) by (simp add: distinct_map)
  moreover have "map ((!) (map req_uuid reqs)) order = map req_uuid (map ((!) reqs) order)"
    unfolding map_map using o(2) by (intro map_cong refl) simp
  ultimately have uuids: "distinct (map req_uuid (map ((!) reqs) order))" by (simp only:)
  have "set (map req_uuid (map ((!) reqs) order)) \<subseteq> set (map req_uuid reqs)"
    unfolding set_map[of req_uuid] using sub by (rule image_mono)
  then have "distinct (map red_id (redemptions d) @ map req_uuid (map ((!) reqs) order))"
    using uuids assms(4) unfolding distinct_append by blast
  moreover have "list_all (\<lambda>r. documented_location (req_location r)) (map ((!) reqs) order)"
    using assms(5) sub by (auto simp: list_all_iff)
  ultimately have ok: "list_all refused_ok outs"
    using serve_refused[OF assms(2,3), of "map ((!) reqs) order"] o(4) by simp
  have "refused_ok out" if "i < length reqs" "phases s ! i = Finished out" for i out
  proof -
    have "i \<in> set order" using o(2) that by simp
    then have "Finished out \<in> set (map ((!) (phases s)) order)" using that(2) by force
    then show ?thesis using ok unfolding o(3) by (auto simp: list_all_iff)
  qed
  then show ?thesis using len by (auto simp: list_all_length split: phase.splits)
qed

section \<open>A concrete sequence\<close>

text \<open>
  A coupon, a conflict, a creation in a media type that is not supported, a redemption, one whose
  insert fails, one in the wrong country, one without a user, and one whose answer cannot be written.
\<close>

definition summer_body :: "string \<Rightarrow> int \<Rightarrow> string \<Rightarrow> create_body option" where
  "summer_body code n country =
     Some \<lparr>body_code = Some (lit code), body_max_uses = Some n, body_country = Some (lit country)\<rparr>"

definition redeem_by :: "transport \<Rightarrow> db_point list \<Rightarrow> string \<Rightarrow> string \<Rightarrow> nat \<Rightarrow> api_call" where
  "redeem_by t faults user country uuid =
     Redeem_Call t faults (lit ''summer'') (Some (Some (lit user))) (Inr (lit country)) uuid 5"

definition summer_calls :: "api_call list" where
  "summer_calls =
     [Create_Call Delivers [] 7 0 (summer_body '' Summer '' 2 ''pl''),
      Create_Call Delivers [] 8 0 (summer_body ''SUMMER'' 5 ''DE''),
      Create_Call Raises_Before [] 9 0 (summer_body ''winter'' 5 ''DE''),
      redeem_by Delivers [] ''ann'' ''PL'' 1,
      redeem_by Delivers [Insert_Statement] ''bob'' ''PL'' 2,
      redeem_by Delivers [] ''bob'' ''DE'' 3,
      Redeem_Call Delivers [] (lit ''summer'') (Some None) (Inr (lit ''PL'')) 4 5,
      redeem_by Raises_After [] ''bob'' ''PL'' 5]"

definition summer_run :: "(api_call \<times> db \<times> reply \<times> db) list" where
  "summer_run = answer_calls [lit ''PL'', lit ''DE''] summer_calls \<lparr>coupons = [], redemptions = []\<rparr>"

lemma no_internal_error_witness:
  "map (\<lambda>(c, before, r, after). reply_status r) summer_run = [201, 409, 500, 201, 500, 403, 400, 500]
    \<and> list_all (\<lambda>(c, before, r, after). db_ok after \<and> (reply_status r = 500 \<longrightarrow> call_transport c \<noteq> Delivers \<or> interrupted c)) summer_run"
proof -
  let ?d = "\<lparr>coupons = [], redemptions = []\<rparr>" and ?cs = "[lit ''PL'', lit ''DE'']"
  have "db_ok ?d" "iso_rows ?cs ?d" "list_all located_call summer_calls" by code_simp+
  moreover have "distinct (map row_id (coupons ?d) @ concat (map coupon_ids summer_calls))"
    "distinct (map red_id (redemptions ?d) @ concat (map redemption_ids summer_calls))" by code_simp+
  ultimately have "db_ok after \<and> (reply_status r = 500 \<longrightarrow> call_transport c \<noteq> Delivers \<or> interrupted c)"
    if "(c, before, r, after) \<in> set summer_run" for c before r after
    using no_internal_error[of ?d ?cs summer_calls c before r after] that unfolding summer_run_def by blast
  moreover have "map (\<lambda>(c, before, r, after). reply_status r) summer_run = [201, 409, 500, 201, 500, 403, 400, 500]" by code_simp
  ultimately show ?thesis by (auto simp: list_all_iff)
qed

lemma concurrent_replies_documented_witness:
  "\<exists>s. (run_step in_poland two_users)\<^sup>*\<^sup>* (start one_left two_users) s \<and> all_answered s
    \<and> list_all (\<lambda>p. case p of Finished out \<Rightarrow> refused_ok out | _ \<Rightarrow> True) (phases s)"
proof -
  obtain s where s: "play in_poland two_users race (start one_left two_users) = Some s" "all_answered s"
    by (rule two_users_run)
  have "iso_rows in_poland one_left" "distinct (map red_id (redemptions one_left) @ map req_uuid two_users)"
    "list_all (\<lambda>r. documented_location (req_location r)) two_users" by code_simp+
  then show ?thesis using concurrent_replies_documented[OF play_runs[OF s(1)] one_left_ok] play_runs[OF s(1)] s(2) by blast
qed

section \<open>The identifier of a request\<close>

definition id_head :: "nat \<Rightarrow> bool" where
  "id_head c \<longleftrightarrow> upper_letter c \<or> (97 \<le> c \<and> c \<le> 122) \<or> (48 \<le> c \<and> c \<le> 57)"

definition valid_request_id :: "jstring \<Rightarrow> bool" where
  "valid_request_id s \<longleftrightarrow> (case s of [] \<Rightarrow> False
     | c # cs \<Rightarrow> id_head c \<and> length cs \<le> 63 \<and> list_all (\<lambda>x. id_head x \<or> x = 46 \<or> x = 95 \<or> x = 45) cs)"

text \<open>The field lines of the header, and the text of a random UUID.\<close>

definition select_request_id :: "jstring list option \<Rightarrow> jstring \<Rightarrow> jstring" where
  "select_request_id lines uuid_text =
     (let physical = (case lines of None \<Rightarrow> [] | Some xs \<Rightarrow> xs)
      in if length physical = 1 \<and> valid_request_id (hd physical) then hd physical else uuid_text)"

record request_scope =
  mdc_id :: "jstring option"
  header_id :: "jstring option"

text \<open>The rest of the chain, which may end with an exception; the entry of the log is removed after it.\<close>

definition filter_internal ::
    "jstring list option \<Rightarrow> jstring \<Rightarrow> (request_scope \<Rightarrow> ('e + 'a) \<times> request_scope) \<Rightarrow> request_scope
      \<Rightarrow> ('e + 'a) \<times> request_scope" where
  "filter_internal lines uuid_text chain s =
     (let ident = select_request_id lines uuid_text;
          (out, s') = chain (s\<lparr>mdc_id := Some ident, header_id := Some ident\<rparr>)
      in (out, s'\<lparr>mdc_id := None\<rparr>))"

lemma request_id_scoped:
  assumes "valid_request_id uuid_text"
  shows "valid_request_id (select_request_id lines uuid_text)
    \<and> mdc_id (snd (filter_internal lines uuid_text chain s)) = None"
  using assms by (simp add: select_request_id_def filter_internal_def Let_def split_beta)

end
