(* ===== verification/Client_Address.thy ===== *)
theory Client_Address
  imports Coupon_Domain "HOL-Library.Word"
begin

unbundle bit_operations_syntax

text \<open>
  Numeric client addresses and networks (\<open>ClientIpAddress\<close>, \<open>CidrBlock\<close> and
  \<open>PublicIpAddressPolicy\<close> of \<open>geolocation\<close>). An address is its bytes, as \<open>getAddress()\<close> gives
  them: four for an \<open>Inet4Address\<close> and sixteen for an \<open>Inet6Address\<close>. The parameter \<open>inet\<close> is
  \<open>InetAddress.getByName\<close>, \<open>None\<close> for an \<open>UnknownHostException\<close>.
\<close>

type_synonym ip = "8 word list"

section \<open>Characters and numbers\<close>

text \<open>\<open>Character.isWhitespace\<close>, which \<open>isBlank\<close> tests.\<close>

definition java_whitespace :: "nat \<Rightarrow> bool" where
  "java_whitespace c \<longleftrightarrow> c \<in> set [9, 10, 11, 12, 13, 28, 29, 30, 31, 32, 5760, 8192, 8193, 8194, 8195, 8196,
     8197, 8198, 8200, 8201, 8202, 8232, 8233, 8287, 12288]"

definition java_blank :: "jstring \<Rightarrow> bool" where
  "java_blank s \<longleftrightarrow> list_all java_whitespace s"

text \<open>\<open>Character.digit(c, 10)\<close>: the zeros of the decimal digits of the basic plane.\<close>

definition digit_zeros :: "nat list" where
  "digit_zeros = [48, 1632, 1776, 1984, 2406, 2534, 2662, 2790, 2918, 3046, 3174, 3302, 3430, 3558, 3664,
     3792, 3872, 4160, 4240, 6112, 6160, 6470, 6608, 6784, 6800, 6992, 7088, 7232, 7248, 42528, 43216,
     43264, 43472, 43504, 43600, 44016, 65296]"

definition java_digit :: "nat \<Rightarrow> int option" where
  "java_digit c = map_option (\<lambda>z. int (c - z)) (find (\<lambda>z. z \<le> c \<and> c \<le> z + 9) digit_zeros)"

fun java_digits :: "int \<Rightarrow> jstring \<Rightarrow> int option" where
  "java_digits n [] = Some n"
| "java_digits n (c # s) = (case java_digit c of None \<Rightarrow> None | Some v \<Rightarrow> java_digits (10 * n + v) s)"

text \<open>\<open>Integer.parseInt\<close> and \<open>Long.parseLong\<close>; \<open>None\<close> is the \<open>NumberFormatException\<close>.\<close>

definition java_parse_signed :: "int \<Rightarrow> jstring \<Rightarrow> int option" where
  "java_parse_signed limit s =
     (let negative = (s \<noteq> [] \<and> hd s = 45);
          body = (if s \<noteq> [] \<and> (hd s = 45 \<or> hd s = 43) then tl s else s)
      in if body = [] then None
         else case java_digits 0 body of
           None \<Rightarrow> None
         | Some n \<Rightarrow>
             if negative then (if n \<le> limit then Some (- n) else None)
             else (if n < limit then Some n else None))"

definition java_parse_int :: "jstring \<Rightarrow> int option" where
  "java_parse_int = java_parse_signed (2 ^ 31)"

definition java_parse_long :: "jstring \<Rightarrow> int option" where
  "java_parse_long = java_parse_signed (2 ^ 63)"

definition ascii_digit :: "nat \<Rightarrow> bool" where
  "ascii_digit c \<longleftrightarrow> 48 \<le> c \<and> c \<le> 57"

section \<open>Address literals\<close>

text \<open>The pattern \<open>IPV4\<close> and the range of its numbers.\<close>

definition octet_form :: "jstring \<Rightarrow> bool" where
  "octet_form s \<longleftrightarrow> s = lit ''0'' \<or> (1 \<le> length s \<and> length s \<le> 3 \<and> list_all ascii_digit s \<and> hd s \<noteq> 48)"

definition ipv4_form :: "jstring \<Rightarrow> bool" where
  "ipv4_form s \<longleftrightarrow> length (split_on 46 s) = 4 \<and> list_all octet_form (split_on 46 s)"

definition valid_octets :: "jstring \<Rightarrow> bool" where
  "valid_octets s \<longleftrightarrow>
     list_all (\<lambda>p. case java_parse_int p of None \<Rightarrow> False | Some n \<Rightarrow> \<not> n > 255) (split_on 46 s)"

definition ipv6_char :: "nat \<Rightarrow> bool" where
  "ipv6_char c \<longleftrightarrow> ascii_digit c \<or> (65 \<le> c \<and> c \<le> 70) \<or> (97 \<le> c \<and> c \<le> 102) \<or> c = 58 \<or> c = 46"

definition parse_literal :: "(jstring \<Rightarrow> ip option) \<Rightarrow> jstring option \<Rightarrow> failure + ip" where
  "parse_literal inet literal =
     (case literal of
        None \<Rightarrow> Inl Client_Ip_Unresolved
      | Some s \<Rightarrow>
          let ipv4 = ipv4_form s \<and> valid_octets s;
              ipv6 = 58 \<in> set s \<and> s \<noteq> [] \<and> list_all ipv6_char s
          in if java_blank s \<or> 37 \<in> set s then Inl Client_Ip_Unresolved
             else if \<not> ipv4 \<and> \<not> ipv6 then Inl Client_Ip_Unresolved
             else (case inet s of
                 None \<Rightarrow> Inl Client_Ip_Unresolved
               | Some parsed \<Rightarrow>
                   let mapped = ipv6 \<and> prefix (lit ''::ffff:'') (lower_ascii s) \<and> length parsed = 4
                   in if (ipv4 \<and> length parsed \<noteq> 4) \<or> (ipv6 \<and> length parsed \<noteq> 16 \<and> \<not> mapped)
                      then Inl Client_Ip_Unresolved
                      else Inr parsed))"

text \<open>An accepted literal has only the characters of addresses.\<close>

lemma split_on_chars: "list_all (\<lambda>p. list_all P p) (split_on c s) \<Longrightarrow> list_all (\<lambda>x. x = c \<or> P x) s"
proof (induction s)
  case (Cons x s)
  then show ?case by (cases "split_on c s") (auto split: if_splits)
qed simp

lemma parse_literal_chars: "parse_literal inet (Some s) = Inr a \<Longrightarrow> list_all ipv6_char s \<and> \<not> java_blank s"
proof -
  assume h: "parse_literal inet (Some s) = Inr a"
  have "list_all ipv6_char s" if "ipv4_form s"
  proof -
    have "list_all (list_all ascii_digit) (split_on 46 s)"
      using that by (auto simp: ipv4_form_def octet_form_def list_all_iff ascii_digit_def lit_def)
    then have "list_all (\<lambda>x. x = 46 \<or> ascii_digit x) s" by (rule split_on_chars)
    then show ?thesis by (auto simp: list_all_iff ipv6_char_def)
  qed
  then show ?thesis using h by (auto simp: parse_literal_def Let_def split: if_splits)
qed

text \<open>A text that starts with a dot passes the patterns; \<open>getByName\<close> takes such a text for a name.\<close>

lemma name_reaches_inet:
  "inet (lit ''.:1'') = Some a \<Longrightarrow> length a = 16 \<Longrightarrow> parse_literal inet (Some (lit ''.:1'')) = Inr a"
proof -
  assume a: "inet (lit ''.:1'') = Some a" "length a = 16"
  have "list_all ipv6_char (lit ''.:1'') \<and> 58 \<in> set (lit ''.:1'') \<and> \<not> ipv4_form (lit ''.:1'')
      \<and> \<not> java_blank (lit ''.:1'') \<and> 37 \<notin> set (lit ''.:1'') \<and> lit ''.:1'' \<noteq> []"
    by code_simp
  then show ?thesis using a by (simp add: parse_literal_def Let_def del: lit_eq_iff)
qed

section \<open>Networks\<close>

record cidr_block =
  network :: ip
  prefix_length :: nat

definition parse_cidr :: "(jstring \<Rightarrow> ip option) \<Rightarrow> jstring option \<Rightarrow> failure + cidr_block" where
  "parse_cidr inet rawValue =
     (case rawValue of
        None \<Rightarrow> Inl Illegal_Argument
      | Some s \<Rightarrow>
          (case split_on 47 s of
             [base, len] \<Rightarrow>
               if len = [] then Inl Illegal_Argument
               else bind_py (parse_literal inet (Some base)) (\<lambda>address.
                 case java_parse_int len of
                   None \<Rightarrow> Inl Illegal_Argument
                 | Some n \<Rightarrow>
                     if n < 0 \<or> n > int (length address * 8) then Inl Illegal_Argument
                     else Inr \<lparr>network = address, prefix_length = nat n\<rparr>)
           | _ \<Rightarrow> Inl Illegal_Argument))"

text \<open>\<open>Arrays.copyOf\<close>.\<close>

definition copy_of :: "ip \<Rightarrow> nat \<Rightarrow> ip" where
  "copy_of xs n = take n xs @ replicate (n - length xs) 0"

text \<open>A byte becomes an \<open>int\<close> with its sign; the mask is an \<open>int\<close> too.\<close>

definition high_bits :: "nat \<Rightarrow> 8 word \<Rightarrow> 32 word" where
  "high_bits remainder x = (signed x :: 32 word) AND push_bit (8 - remainder) 255"

definition cidr_contains :: "cidr_block \<Rightarrow> ip \<Rightarrow> bool" where
  "cidr_contains b candidate \<longleftrightarrow>
     (if length candidate \<noteq> length (network b) then False
      else let completeBytes = prefix_length b div 8; remainder = prefix_length b mod 8
        in if copy_of (network b) completeBytes \<noteq> copy_of candidate completeBytes then False
           else if remainder = 0 then True
           else high_bits remainder (network b ! completeBytes) = high_bits remainder (candidate ! completeBytes))"

section \<open>Networks as prefixes of bits\<close>

definition byte_bits :: "8 word \<Rightarrow> bool list" where
  "byte_bits x = map (\<lambda>i. bit x (7 - i)) [0..<8]"

definition address_bits :: "ip \<Rightarrow> bool list" where
  "address_bits a = concat (map byte_bits a)"

lemma length_byte_bits [simp]: "length (byte_bits x) = 8"
  by (simp add: byte_bits_def)

lemma length_address_bits [simp]: "length (address_bits a) = 8 * length a"
  by (induction a) (simp_all add: address_bits_def)

lemma byte_bits_take: "r \<le> 8 \<Longrightarrow> take r (byte_bits x) = map (\<lambda>i. bit x (7 - i)) [0..<r]"
  by (simp add: byte_bits_def take_map)

lemma byte_bits_inj: "byte_bits x = byte_bits y \<longleftrightarrow> x = y"
proof
  assume b: "byte_bits x = byte_bits y"
  have "bit x n = bit y n" if "n < 8" for n
  proof -
    have "byte_bits x ! (7 - n) = byte_bits y ! (7 - n)" using b by simp
    moreover have "[0..<8] ! (7 - n) = 7 - n" using nth_upt[of 0 "7 - n" 8] by simp
    ultimately show ?thesis using that by (simp add: byte_bits_def)
  qed
  then show "x = y" by (intro bit_word_eqI) simp
qed simp

lemma address_bits_inj: "length a = length b \<Longrightarrow> address_bits a = address_bits b \<longleftrightarrow> a = b"
  by (induction a b rule: list_induct2) (auto simp: address_bits_def byte_bits_inj)

lemma bit_high_bits:
  "bit (high_bits r x) n \<longleftrightarrow> n < 32 \<and> 8 - r \<le> n \<and> n < 16 - r \<and> bit x (min n 7)" if "r \<le> 8"
proof -
  have m: "(255 :: 32 word) = mask 8" by (simp add: mask_eq_exp_minus_1)
  show ?thesis using that unfolding high_bits_def m
    by (auto simp: bit_and_iff bit_signed_iff bit_push_bit_iff bit_mask_iff min.commute)
qed

lemma high_bits_eq:
  assumes "r \<le> 8" "0 < r"
  shows "high_bits r x = high_bits r y \<longleftrightarrow> take r (byte_bits x) = take r (byte_bits y)"
proof
  assume h: "high_bits r x = high_bits r y"
  have "bit x (7 - i) = bit y (7 - i)" if "i < r" for i
  proof -
    have "bit (high_bits r x) (7 - i) = bit (high_bits r y) (7 - i)" by (simp add: h)
    moreover have "7 - i < 32 \<and> 8 - r \<le> 7 - i \<and> 7 - i < 16 - r" using that assms by linarith
    ultimately show ?thesis using assms(1) by (simp add: bit_high_bits min_def)
  qed
  then show "take r (byte_bits x) = take r (byte_bits y)" by (simp add: byte_bits_take[OF assms(1)])
next
  assume "take r (byte_bits x) = take r (byte_bits y)"
  then have e: "bit x (7 - i) = bit y (7 - i)" if "i < r" for i using that by (simp add: byte_bits_take[OF assms(1)])
  have "bit x (min n 7) = bit y (min n 7)" if "8 - r \<le> n" "n < 16 - r" for n
  proof -
    have "7 - min n 7 < r" using that assms unfolding min_def by (split if_split) linarith
    then show ?thesis using e[of "7 - min n 7"] by simp
  qed
  then show "high_bits r x = high_bits r y"
    by (intro bit_word_eqI) (auto simp: bit_high_bits[OF assms(1)])
qed

lemma take_bits:
  assumes "n < length a"
  shows "take (8 * n + r) (address_bits a) = address_bits (take n a) @ take r (byte_bits (a ! n) @ address_bits (drop (Suc n) a))"
proof -
  have "a = take n a @ a ! n # drop (Suc n) a" using assms by (rule id_take_nth_drop)
  then have "address_bits a = address_bits (take n a) @ byte_bits (a ! n) @ address_bits (drop (Suc n) a)"
    by (metis address_bits_def concat.simps(2) concat_append list.map(2) map_append)
  then show ?thesis using assms by (simp add: take_append)
qed

text \<open>
  C20: a network contains an address exactly when both are of the same family and the first bits of
  the address, as many as the prefix length, are those of the network; the comparison of signed
  bytes with a shifted mask decides the bits of the last, partial byte.
\<close>

theorem cidr_prefix_bits:
  assumes "prefix_length b \<le> 8 * length (network b)"
  shows "cidr_contains b a \<longleftrightarrow> length a = length (network b)
    \<and> take (prefix_length b) (address_bits a) = take (prefix_length b) (address_bits (network b))"
proof (cases "length a = length (network b)")
  case len: True
  let ?n = "prefix_length b div 8" and ?r = "prefix_length b mod 8"
  have p: "prefix_length b = 8 * ?n + ?r" by simp
  have n: "?n \<le> length (network b)" using assms by linarith
  have r: "?r \<le> 8" by (simp add: less_imp_le)
  have copies: "copy_of (network b) ?n = take ?n (network b)" "copy_of a ?n = take ?n a"
    using n len by (simp_all add: copy_of_def)
  show ?thesis
  proof (cases "?r = 0")
    case True
    have bits: "take (8 * ?n) (address_bits x) = address_bits (take ?n x)" if "length x = length (network b)" for x
    proof (cases "?n < length x")
      case True
      then show ?thesis using take_bits[of ?n x 0] by simp
    next
      case False
      then show ?thesis using n that by simp
    qed
    have "take (prefix_length b) (address_bits a) = take (prefix_length b) (address_bits (network b))
        \<longleftrightarrow> take ?n a = take ?n (network b)"
      using bits[of a] bits[of "network b"] len p True address_bits_inj[of "take ?n a" "take ?n (network b)"] by simp
    then show ?thesis using len True copies by (auto simp: cidr_contains_def Let_def)
  next
    case False
    then have m: "?n < length (network b)" using assms p by linarith
    have bits: "take (prefix_length b) (address_bits x) = address_bits (take ?n x) @ take ?r (byte_bits (x ! ?n))"
      if "length x = length (network b)" for x
      using take_bits[of ?n x ?r] m that p r by (simp add: take_append)
    have "take (prefix_length b) (address_bits a) = take (prefix_length b) (address_bits (network b))
        \<longleftrightarrow> take ?n a = take ?n (network b) \<and> take ?r (byte_bits (a ! ?n)) = take ?r (byte_bits (network b ! ?n))"
      unfolding bits[OF len] bits[OF refl] using len address_bits_inj[of "take ?n a" "take ?n (network b)"]
      by (subst append_eq_append_conv) simp_all
    moreover have "cidr_contains b a \<longleftrightarrow> take ?n (network b) = take ?n a
        \<and> high_bits ?r (network b ! ?n) = high_bits ?r (a ! ?n)"
      unfolding cidr_contains_def Let_def copies using len False by simp
    ultimately show ?thesis using len high_bits_eq[OF r, of "network b ! ?n" "a ! ?n"] False by auto
  qed
qed (simp add: cidr_contains_def)

section \<open>The policy for lookups\<close>

definition non_public_texts :: "jstring list" where
  "non_public_texts = map lit
     [''0.0.0.0/8'', ''10.0.0.0/8'', ''100.64.0.0/10'', ''127.0.0.0/8'', ''169.254.0.0/16'', ''172.16.0.0/12'',
      ''192.0.0.0/24'', ''192.0.2.0/24'', ''192.168.0.0/16'', ''198.18.0.0/15'', ''198.51.100.0/24'',
      ''203.0.113.0/24'', ''224.0.0.0/4'', ''240.0.0.0/4'', ''::/128'', ''::1/128'', ''100::/64'',
      ''2001:db8::/32'', ''fc00::/7'', ''fe80::/10'', ''ff00::/8'']"

definition non_public_ranges :: "(jstring \<Rightarrow> ip option) \<Rightarrow> failure + cidr_block list" where
  "non_public_ranges inet = map_py (\<lambda>t. parse_cidr inet (Some t)) non_public_texts"

definition permits_public_lookup :: "cidr_block list \<Rightarrow> ip \<Rightarrow> bool" where
  "permits_public_lookup ranges a \<longleftrightarrow> \<not> list_ex (\<lambda>r. cidr_contains r a) ranges"

text \<open>The octets of a dotted literal, which \<open>getByName\<close> gives for it.\<close>

definition dotted_octets :: "jstring \<Rightarrow> ip" where
  "dotted_octets s = map (\<lambda>p. case java_parse_int p of None \<Rightarrow> 0 | Some n \<Rightarrow> word_of_int n) (split_on 46 s)"

definition ipv6_bases :: "jstring list" where
  "ipv6_bases = map lit [''::'', ''::1'', ''100::'', ''2001:db8::'', ''fc00::'', ''fe80::'', ''ff00::'']"

definition inet_documented :: "(jstring \<Rightarrow> ip option) \<Rightarrow> bool" where
  "inet_documented inet \<longleftrightarrow> (\<forall>s. ipv4_form s \<and> valid_octets s \<longrightarrow> inet s = Some (dotted_octets s))
     \<and> list_all (\<lambda>s. case inet s of None \<Rightarrow> False | Some a \<Rightarrow> length a = 16) ipv6_bases"

lemma high_bits_div:
  assumes "r \<le> 8" "0 < r"
  shows "high_bits r x = high_bits r y \<longleftrightarrow> unat x div 2 ^ (8 - r) = unat y div 2 ^ (8 - r)"
proof -
  have d: "unat (drop_bit (8 - r) z) = unat z div 2 ^ (8 - r)" for z :: "8 word"
    by (simp only: unat_drop_bit_eq drop_bit_nat_def)
  have "high_bits r x = high_bits r y \<longleftrightarrow> (\<forall>i < r. bit x (7 - i) = bit y (7 - i))"
    unfolding high_bits_eq[OF assms] byte_bits_take[OF assms(1)] by (auto simp: list_eq_iff_nth_eq)
  also have "\<dots> \<longleftrightarrow> drop_bit (8 - r) x = drop_bit (8 - r) y"
  proof
    assume h: "\<forall>i < r. bit x (7 - i) = bit y (7 - i)"
    have "bit x m = bit y m" if "8 - r \<le> m" for m
    proof (cases "m < 8")
      case True
      then have "7 - (7 - m) = m" "7 - m < r" using that assms by linarith+
      then show ?thesis using h by metis
    next
      case False
      then show ?thesis using bit_imp_le_length[of x m] bit_imp_le_length[of y m] by auto
    qed
    then show "drop_bit (8 - r) x = drop_bit (8 - r) y"
      by (intro bit_word_eqI) (simp add: bit_drop_bit_eq)
  next
    assume h: "drop_bit (8 - r) x = drop_bit (8 - r) y"
    show "\<forall>i < r. bit x (7 - i) = bit y (7 - i)"
    proof (intro allI impI)
      fix i assume "i < r"
      then have "7 - i = 8 - r + (r - 1 - i)" using assms by linarith
      then show "bit x (7 - i) = bit y (7 - i)" using h by (metis bit_drop_bit_eq comp_apply)
    qed
  qed
  also have "\<dots> \<longleftrightarrow> unat x div 2 ^ (8 - r) = unat y div 2 ^ (8 - r)"
    unfolding d[symmetric] by (simp only: word_unat_eq_iff)
  finally show ?thesis .
qed

definition v4_block :: "jstring \<Rightarrow> cidr_block" where
  "v4_block s = (case split_on 47 s of
       [base, len] \<Rightarrow> \<lparr>network = dotted_octets base, prefix_length = nat (the (java_parse_int len))\<rparr>
     | _ \<Rightarrow> \<lparr>network = [], prefix_length = 0\<rparr>)"

definition v4_text :: "jstring \<Rightarrow> bool" where
  "v4_text s \<longleftrightarrow> (case split_on 47 s of
       [base, len] \<Rightarrow> len \<noteq> [] \<and> ipv4_form base \<and> valid_octets base \<and> \<not> java_blank base \<and> 37 \<notin> set base \<and> 58 \<notin> set base
         \<and> (case java_parse_int len of None \<Rightarrow> False | Some n \<Rightarrow> 0 \<le> n \<and> n \<le> 32)
     | _ \<Rightarrow> False)"

definition v6_text :: "jstring \<Rightarrow> bool" where
  "v6_text s \<longleftrightarrow> (case split_on 47 s of
       [base, len] \<Rightarrow> len \<noteq> [] \<and> base \<in> set ipv6_bases \<and> list_all ipv6_char base \<and> 58 \<in> set base \<and> \<not> java_blank base
         \<and> 37 \<notin> set base \<and> \<not> (ipv4_form base \<and> valid_octets base)
         \<and> (case java_parse_int len of None \<Rightarrow> False | Some n \<Rightarrow> 0 \<le> n \<and> n \<le> 128)
     | _ \<Rightarrow> False)"

lemma parse_v4:
  assumes "inet_documented inet" "v4_text s"
  shows "parse_cidr inet (Some s) = Inr (v4_block s)"
proof -
  obtain base len n where s: "split_on 47 s = [base, len]" "len \<noteq> []" "ipv4_form base" "valid_octets base"
    "\<not> java_blank base" "37 \<notin> set base" "58 \<notin> set base" "java_parse_int len = Some n" "0 \<le> n" "n \<le> 32"
    using assms(2) by (auto simp: v4_text_def split: list.splits option.splits)
  have l: "length (dotted_octets base) = 4" using s(3) by (simp add: dotted_octets_def ipv4_form_def)
  have "inet base = Some (dotted_octets base)" using assms(1) s(3,4) by (simp add: inet_documented_def)
  then have "parse_literal inet (Some base) = Inr (dotted_octets base)" using s l by (simp add: parse_literal_def)
  then show ?thesis using s l by (simp add: parse_cidr_def v4_block_def)
qed

lemma parse_v6:
  assumes "inet_documented inet" "v6_text s"
  shows "\<exists>b. parse_cidr inet (Some s) = Inr b \<and> length (network b) = 16"
proof -
  obtain base len n where s: "split_on 47 s = [base, len]" "len \<noteq> []" "base \<in> set ipv6_bases" "list_all ipv6_char base"
    "\<not> java_blank base" "37 \<notin> set base" "58 \<in> set base" "\<not> (ipv4_form base \<and> valid_octets base)"
    "java_parse_int len = Some n" "0 \<le> n" "n \<le> 128"
    using assms(2) by (auto simp: v6_text_def split: list.splits option.splits)
  obtain a where a: "inet base = Some a" "length a = 16"
    using assms(1) s(3) by (auto simp: inet_documented_def list_all_iff split: option.splits)
  then have "parse_literal inet (Some base) = Inr a" using s by (auto simp: parse_literal_def Let_def)
  then show ?thesis using s a(2) by (simp add: parse_cidr_def)
qed

lemma texts_split:
  "list_all v4_text (take 14 non_public_texts)" "list_all v6_text (drop 14 non_public_texts)"
  by code_simp+

lemma map_py_append:
  "map_py f xs = Inr us \<Longrightarrow> map_py f ys = Inr vs \<Longrightarrow> map_py f (xs @ ys) = Inr (us @ vs)"
  by (induction xs arbitrary: us) (auto simp: py_ok)

lemma map_py_exists:
  "list_all (\<lambda>x. \<exists>y. f x = Inr y \<and> P y) xs \<Longrightarrow> \<exists>ys. map_py f xs = Inr ys \<and> list_all P ys"
  by (induction xs) auto

lemma ranges_parsed:
  assumes "inet_documented inet"
  shows "\<exists>v6. non_public_ranges inet = Inr (map v4_block (take 14 non_public_texts) @ v6)
    \<and> list_all (\<lambda>b. length (network b) = 16) v6"
proof -
  let ?p = "\<lambda>t. parse_cidr inet (Some t)"
  have "map_py ?p (take 14 non_public_texts) = Inr (map v4_block (take 14 non_public_texts))"
    using texts_split(1) parse_v4[OF assms] by (intro map_py_total) (simp add: list_all_iff)
  moreover obtain v6 where v6: "map_py ?p (drop 14 non_public_texts) = Inr v6" "list_all (\<lambda>b. length (network b) = 16) v6"
    using map_py_exists[of ?p "\<lambda>b. length (network b) = 16" "drop 14 non_public_texts"] texts_split(2) parse_v6[OF assms]
    by (auto simp: list_all_iff)
  ultimately have "map_py ?p (take 14 non_public_texts @ drop 14 non_public_texts)
      = Inr (map v4_block (take 14 non_public_texts) @ v6)"
    by (intro map_py_append)
  then show ?thesis using v6(2) by (simp add: non_public_ranges_def)
qed

lemma v4_blocks:
  "map v4_block (take 14 non_public_texts) =
     [\<lparr>network = [0, 0, 0, 0], prefix_length = 8\<rparr>, \<lparr>network = [10, 0, 0, 0], prefix_length = 8\<rparr>,
      \<lparr>network = [100, 64, 0, 0], prefix_length = 10\<rparr>, \<lparr>network = [127, 0, 0, 0], prefix_length = 8\<rparr>,
      \<lparr>network = [169, 254, 0, 0], prefix_length = 16\<rparr>, \<lparr>network = [172, 16, 0, 0], prefix_length = 12\<rparr>,
      \<lparr>network = [192, 0, 0, 0], prefix_length = 24\<rparr>, \<lparr>network = [192, 0, 2, 0], prefix_length = 24\<rparr>,
      \<lparr>network = [192, 168, 0, 0], prefix_length = 16\<rparr>, \<lparr>network = [198, 18, 0, 0], prefix_length = 15\<rparr>,
      \<lparr>network = [198, 51, 100, 0], prefix_length = 24\<rparr>, \<lparr>network = [203, 0, 113, 0], prefix_length = 24\<rparr>,
      \<lparr>network = [224, 0, 0, 0], prefix_length = 4\<rparr>, \<lparr>network = [240, 0, 0, 0], prefix_length = 4\<rparr>]"
  by code_simp

text \<open>The bytes that the ranges of IPv4 leave out.\<close>

definition special_ipv4 :: "8 word \<Rightarrow> 8 word \<Rightarrow> 8 word \<Rightarrow> bool" where
  "special_ipv4 a b c \<longleftrightarrow> a = 0 \<or> a = 10 \<or> a = 127
     \<or> (a = 100 \<and> 64 \<le> unat b \<and> unat b < 128)
     \<or> (a = 169 \<and> b = 254)
     \<or> (a = 172 \<and> 16 \<le> unat b \<and> unat b < 32)
     \<or> (a = 192 \<and> b = 0 \<and> (c = 0 \<or> c = 2)) \<or> (a = 192 \<and> b = 168)
     \<or> (a = 198 \<and> (b = 18 \<or> b = 19)) \<or> (a = 198 \<and> b = 51 \<and> c = 100)
     \<or> (a = 203 \<and> b = 0 \<and> c = 113) \<or> 224 \<le> unat a"

lemma contains_whole:
  "cidr_contains \<lparr>network = [x, y, z, t], prefix_length = 8\<rparr> [a, b, c, d] \<longleftrightarrow> a = x"
  "cidr_contains \<lparr>network = [x, y, z, t], prefix_length = 16\<rparr> [a, b, c, d] \<longleftrightarrow> a = x \<and> b = y"
  "cidr_contains \<lparr>network = [x, y, z, t], prefix_length = 24\<rparr> [a, b, c, d] \<longleftrightarrow> a = x \<and> b = y \<and> c = z"
  by (simp_all add: cidr_contains_def copy_of_def conj_commute eq_commute)

lemma contains_partial:
  "cidr_contains \<lparr>network = [x, y, z, t], prefix_length = 10\<rparr> [a, b, c, d] \<longleftrightarrow> a = x \<and> unat b div 64 = unat y div 64"
  "cidr_contains \<lparr>network = [x, y, z, t], prefix_length = 12\<rparr> [a, b, c, d] \<longleftrightarrow> a = x \<and> unat b div 16 = unat y div 16"
  "cidr_contains \<lparr>network = [x, y, z, t], prefix_length = 15\<rparr> [a, b, c, d] \<longleftrightarrow> a = x \<and> unat b div 2 = unat y div 2"
  "cidr_contains \<lparr>network = [x, y, z, t], prefix_length = 4\<rparr> [a, b, c, d] \<longleftrightarrow> unat a div 16 = unat x div 16"
  by (auto simp: cidr_contains_def copy_of_def high_bits_div)

lemma unat_ranges:
  fixes b :: "8 word"
  shows "unat b div 64 = 1 \<longleftrightarrow> 64 \<le> unat b \<and> unat b < 128" "unat b div 16 = 1 \<longleftrightarrow> 16 \<le> unat b \<and> unat b < 32"
    "unat b div 2 = 9 \<longleftrightarrow> b = 18 \<or> b = 19" "unat b div 16 = 14 \<or> unat b div 16 = 15 \<longleftrightarrow> 224 \<le> unat b"
proof -
  have l: "unat b < 256" using unsigned_less[of b] by simp
  show "unat b div 64 = 1 \<longleftrightarrow> 64 \<le> unat b \<and> unat b < 128" by linarith
  show "unat b div 16 = 1 \<longleftrightarrow> 16 \<le> unat b \<and> unat b < 32" by linarith
  have "unat b div 2 = 9 \<longleftrightarrow> unat b = 18 \<or> unat b = 19" by linarith
  then show "unat b div 2 = 9 \<longleftrightarrow> b = 18 \<or> b = 19" by (simp add: word_unat_eq_iff)
  show "unat b div 16 = 14 \<or> unat b div 16 = 15 \<longleftrightarrow> 224 \<le> unat b" using l by linarith
qed

text \<open>
  C21: the table of the policy parses, and an IPv4 address may be looked up exactly when it is in
  none of the special-purpose ranges, written out in numbers.
\<close>

theorem public_ipv4:
  assumes "inet_documented inet"
  shows "\<exists>ranges. non_public_ranges inet = Inr ranges
    \<and> (\<forall>a b c d. permits_public_lookup ranges [a, b, c, d] \<longleftrightarrow> \<not> special_ipv4 a b c)"
proof -
  obtain v6 where v6: "non_public_ranges inet = Inr (map v4_block (take 14 non_public_texts) @ v6)"
    "list_all (\<lambda>b. length (network b) = 16) v6"
    using ranges_parsed[OF assms] by blast
  have none: "\<not> list_ex (\<lambda>r. cidr_contains r [a, b, c, d]) v6" for a b c d
    using v6(2) by (auto simp: list_all_iff list_ex_iff cidr_contains_def)
  have "list_ex (\<lambda>r. cidr_contains r [a, b, c, d]) (map v4_block (take 14 non_public_texts)) \<longleftrightarrow>
      a = 0 \<or> a = 10 \<or> (a = 100 \<and> unat b div 64 = 1) \<or> a = 127 \<or> (a = 169 \<and> b = 254) \<or> (a = 172 \<and> unat b div 16 = 1)
      \<or> (a = 192 \<and> b = 0 \<and> c = 0) \<or> (a = 192 \<and> b = 0 \<and> c = 2) \<or> (a = 192 \<and> b = 168) \<or> (a = 198 \<and> unat b div 2 = 9)
      \<or> (a = 198 \<and> b = 51 \<and> c = 100) \<or> (a = 203 \<and> b = 0 \<and> c = 113) \<or> unat a div 16 = 14 \<or> unat a div 16 = 15"
    for a b c d :: "8 word"
    unfolding v4_blocks by (simp only: list_ex_iff list.set ball_simps bex_simps contains_whole contains_partial) simp
  then have "list_ex (\<lambda>r. cidr_contains r [a, b, c, d]) (map v4_block (take 14 non_public_texts)) \<longleftrightarrow> special_ipv4 a b c"
    for a b c d :: "8 word"
    unfolding special_ipv4_def unat_ranges[symmetric] by blast
  then show ?thesis using v6(1) none by (intro exI conjI) (auto simp: permits_public_lookup_def)
qed

text \<open>A resolver of literals that is as documented, for concrete states.\<close>

definition plain_inet :: "jstring \<Rightarrow> ip option" where
  "plain_inet s = (if ipv4_form s \<and> valid_octets s then Some (dotted_octets s)
     else if 58 \<in> set s then Some (replicate 16 0) else None)"

lemma plain_inet_documented: "inet_documented plain_inet"
proof -
  have "list_all (\<lambda>s. case plain_inet s of None \<Rightarrow> False | Some a \<Rightarrow> length a = 16) ipv6_bases" by code_simp
  then show ?thesis by (simp add: inet_documented_def plain_inet_def)
qed

lemma public_ipv4_witness:
  "\<exists>ranges. non_public_ranges plain_inet = Inr ranges \<and> permits_public_lookup ranges [8, 8, 8, 8]
    \<and> \<not> permits_public_lookup ranges [172, 31, 255, 255]"
proof -
  obtain ranges where r: "non_public_ranges plain_inet = Inr ranges"
    "\<forall>a b c d. permits_public_lookup ranges [a, b, c, d] \<longleftrightarrow> \<not> special_ipv4 a b c"
    using public_ipv4[OF plain_inet_documented] by blast
  have "\<not> special_ipv4 8 8 8" "special_ipv4 172 31 255" by (simp_all add: special_ipv4_def)
  then show ?thesis using r by blast
qed

lemma cidr_prefix_bits_witness:
  "cidr_contains \<lparr>network = [172, 16, 0, 0], prefix_length = 12\<rparr> [172, 31, 1, 1]"
proof -
  have "take 12 (address_bits [172, 31, 1, 1]) = take 12 (address_bits [172, 16, 0, 0])" by code_simp
  then show ?thesis
    using cidr_prefix_bits[of "\<lparr>network = [172, 16, 0, 0], prefix_length = 12\<rparr>" "[172, 31, 1, 1]"] by simp
qed

end
