(* ===== verification/Client_Ip.thy ===== *)
theory Client_Ip
  imports Client_Address
begin

text \<open>
  The address of the client (\<open>geolocation/adapters\<close>: \<open>ForwardedHeaderParser\<close>,
  \<open>XForwardedForParser\<close>, \<open>ServletClientIpResolver\<close>, with the record \<open>ClientIpProperties\<close>): the
  peer of the connection, or the last hop of a forwarding header that no trusted proxy added.
\<close>

section \<open>Splitting a header\<close>

definition validate_header :: "jstring option \<Rightarrow> int \<Rightarrow> failure + jstring" where
  "validate_header header maximumLength =
     (case header of
        None \<Rightarrow> Inl Client_Ip_Unresolved
      | Some s \<Rightarrow> if java_blank s \<or> int (length s) > maximumLength then Inl Client_Ip_Unresolved else Inr s)"

text \<open>The elements between commas outside quotes; \<open>current\<close> is the element begun.\<close>

fun split_commas :: "bool \<Rightarrow> jstring \<Rightarrow> jstring \<Rightarrow> failure + jstring list" where
  "split_commas quoted current [] =
     (if quoted \<or> java_blank current then Inl Client_Ip_Unresolved else Inr [java_trim current])"
| "split_commas quoted current (c # s) =
     (if c = 92 then Inl Client_Ip_Unresolved
      else if c = 34 then split_commas (\<not> quoted) (current @ [c]) s
      else if c = 44 \<and> \<not> quoted
      then (if java_blank current then Inl Client_Ip_Unresolved
            else bind_py (split_commas False [] s) (\<lambda>vs. Inr (java_trim current # vs)))
      else split_commas quoted (current @ [c]) s)"

definition split_comma_separated :: "jstring \<Rightarrow> failure + jstring list" where
  "split_comma_separated header = split_commas False [] header"

section \<open>The parsers\<close>

definition within_hops :: "jstring list \<Rightarrow> int \<Rightarrow> bool" where
  "within_hops elements maximumHops \<longleftrightarrow> \<not> (elements = [] \<or> int (length elements) > maximumHops)"

definition xff_element :: "(jstring \<Rightarrow> ip option) \<Rightarrow> jstring \<Rightarrow> failure + ip" where
  "xff_element inet value =
     (if 91 \<in> set value \<or> 93 \<in> set value then Inl Client_Ip_Unresolved else parse_literal inet (Some value))"

definition parse_x_forwarded_for :: "(jstring \<Rightarrow> ip option) \<Rightarrow> jstring option \<Rightarrow> int \<Rightarrow> int \<Rightarrow> failure + ip list" where
  "parse_x_forwarded_for inet header maximumLength maximumHops =
     bind_py (validate_header header maximumLength) (\<lambda>s.
     bind_py (split_comma_separated s) (\<lambda>values.
     bind_py (guard_py (within_hops values maximumHops) Client_Ip_Unresolved) (\<lambda>_.
     map_py (xff_element inet) values)))"

text \<open>A port is written without sign, leading zero or other digits than ASCII's.\<close>

definition valid_port :: "jstring \<Rightarrow> bool" where
  "valid_port port \<longleftrightarrow>
     (case java_parse_int port of
        None \<Rightarrow> False
      | Some n \<Rightarrow> 1 \<le> n \<and> n \<le> 65535 \<and> list_all ascii_digit port \<and> hd port \<noteq> 48)"

definition unquote :: "jstring \<Rightarrow> failure + jstring" where
  "unquote value =
     (if prefix [34] value \<or> suffix [34] value
      then (if length value < 2 \<or> \<not> prefix [34] value \<or> \<not> suffix [34] value then Inl Client_Ip_Unresolved
            else Inr (take (length value - 2) (drop 1 value)))
      else Inr value)"

definition parse_for_value :: "jstring \<Rightarrow> failure + jstring" where
  "parse_for_value rawValue =
     (if 92 \<in> set rawValue \<or> lower_ascii rawValue = lit ''unknown'' \<or> prefix [95] rawValue
      then Inl Client_Ip_Unresolved
      else bind_py (unquote rawValue) (\<lambda>value.
        if prefix [91] value
        then (case split_once 93 value of
            None \<Rightarrow> Inl Client_Ip_Unresolved
          | Some (before, suff) \<Rightarrow>
              if length before < 2 then Inl Client_Ip_Unresolved
              else if suff \<noteq> [] \<and> (\<not> prefix [58] suff \<or> \<not> valid_port (drop 1 suff)) then Inl Client_Ip_Unresolved
              else Inr (drop 1 before))
        else if 91 \<in> set value \<or> 93 \<in> set value \<or> 58 \<in> set value then Inl Client_Ip_Unresolved
        else Inr value))"

text \<open>The parameters of one element, with the value of \<open>for\<close> found so far.\<close>

fun for_values :: "jstring option \<Rightarrow> jstring list \<Rightarrow> failure + jstring option" where
  "for_values found [] = Inr found"
| "for_values found (parameter # ps) =
     (case split_once 61 (java_trim parameter) of
        None \<Rightarrow> Inl Client_Ip_Unresolved
      | Some (name, value) \<Rightarrow>
          if java_blank name \<or> java_blank value then Inl Client_Ip_Unresolved
          else if lower_ascii (java_trim name) = lit ''for''
          then (if found \<noteq> None then Inl Client_Ip_Unresolved
                else bind_py (parse_for_value (java_trim value)) (\<lambda>v. for_values (Some v) ps))
          else for_values found ps)"

definition forwarded_element :: "(jstring \<Rightarrow> ip option) \<Rightarrow> jstring \<Rightarrow> failure + ip" where
  "forwarded_element inet element =
     bind_py (for_values None (split_on 59 element)) (\<lambda>found.
     case found of None \<Rightarrow> Inl Client_Ip_Unresolved | Some v \<Rightarrow> parse_literal inet (Some v))"

definition parse_forwarded :: "(jstring \<Rightarrow> ip option) \<Rightarrow> jstring option \<Rightarrow> int \<Rightarrow> int \<Rightarrow> failure + ip list" where
  "parse_forwarded inet header maximumLength maximumHops =
     bind_py (validate_header header maximumLength) (\<lambda>s.
     bind_py (split_comma_separated s) (\<lambda>elements.
     bind_py (guard_py (within_hops elements maximumHops) Client_Ip_Unresolved) (\<lambda>_.
     map_py (forwarded_element inet) elements)))"

section \<open>The configuration\<close>

datatype ip_mode = Direct | Trusted_Proxy

record ip_properties =
  ip_mode_of :: ip_mode
  trusted_proxies :: "jstring list"
  max_forwarded_hops :: int
  max_header_length :: int

definition client_ip_properties ::
    "(jstring \<Rightarrow> ip option) \<Rightarrow> ip_mode \<Rightarrow> jstring list option \<Rightarrow> int \<Rightarrow> int \<Rightarrow> failure + ip_properties" where
  "client_ip_properties inet mode trustedProxies hops len =
     (let proxies = (case trustedProxies of None \<Rightarrow> [] | Some ps \<Rightarrow> ps)
      in bind_py (guard_py (\<not> (mode = Trusted_Proxy \<and> proxies = [])) Illegal_Argument) (\<lambda>_.
         bind_py (map_py (\<lambda>p. parse_cidr inet (Some p)) proxies) (\<lambda>_.
         Inr \<lparr>ip_mode_of = mode, trusted_proxies = proxies, max_forwarded_hops = hops, max_header_length = len\<rparr>)))"

section \<open>The resolver\<close>

text \<open>A request: the peer's literal and the values of the two headers, one for each field line.\<close>

record ip_request =
  remote_addr :: "jstring option"
  forwarded_lines :: "jstring option list"
  x_forwarded_lines :: "jstring option list"

datatype ip_source = From_Peer | From_Forwarded | From_X_Forwarded_For

definition is_trusted :: "cidr_block list \<Rightarrow> ip \<Rightarrow> bool" where
  "is_trusted proxies a \<longleftrightarrow> list_ex (\<lambda>c. cidr_contains c a) proxies"

definition blank_line :: "jstring option \<Rightarrow> bool" where
  "blank_line v \<longleftrightarrow> (case v of None \<Rightarrow> True | Some s \<Rightarrow> java_blank s)"

text \<open>The chain of the header that decides.\<close>

definition header_chain ::
    "(jstring \<Rightarrow> ip option) \<Rightarrow> ip_properties \<Rightarrow> jstring option list \<Rightarrow> jstring option list \<Rightarrow> failure + ip list" where
  "header_chain inet props forwarded xForwardedFor =
     (if length forwarded > 1 \<or> length xForwardedFor > 1 \<or> list_ex blank_line forwarded \<or> list_ex blank_line xForwardedFor
      then Inl Client_Ip_Unresolved
      else if forwarded \<noteq> [] then
        parse_forwarded inet (hd forwarded) (max_header_length props) (max_forwarded_hops props)
      else if xForwardedFor \<noteq> [] then
        parse_x_forwarded_for inet (hd xForwardedFor) (max_header_length props) (max_forwarded_hops props)
      else Inl Client_Ip_Unresolved)"

text \<open>The complete chain, from its end.\<close>

definition last_untrusted :: "cidr_block list \<Rightarrow> ip list \<Rightarrow> failure + ip" where
  "last_untrusted proxies chain =
     (case find (\<lambda>a. \<not> is_trusted proxies a) (rev chain) of
        None \<Rightarrow> Inl Client_Ip_Unresolved | Some a \<Rightarrow> Inr a)"

text \<open>The address with the source that is counted for it; the blocks are those of the properties.\<close>

definition resolve_ip ::
    "(jstring \<Rightarrow> ip option) \<Rightarrow> ip_properties \<Rightarrow> cidr_block list \<Rightarrow> ip_request \<Rightarrow> (failure + ip) \<times> ip_source" where
  "resolve_ip inet props proxies r =
     (case parse_literal inet (remote_addr r) of
        Inl e \<Rightarrow> (Inl e, From_Peer)
      | Inr peer \<Rightarrow>
          if ip_mode_of props = Direct \<or> \<not> is_trusted proxies peer then (Inr peer, From_Peer)
          else
            (bind_py (header_chain inet props (forwarded_lines r) (x_forwarded_lines r))
               (\<lambda>chain. last_untrusted proxies (chain @ [peer])),
             if forwarded_lines r \<noteq> [] then From_Forwarded
             else if x_forwarded_lines r \<noteq> [] then From_X_Forwarded_For else From_Peer))"

section \<open>The boundary of trust\<close>

text \<open>
  The forwarding headers decide nothing unless the service runs behind proxies and the peer of
  the connection is one of them: two requests from the same peer that are resolved differently
  have a trusted peer.
\<close>

theorem headers_need_trusted_peer:
  assumes "remote_addr r = remote_addr r'" "resolve_ip inet props proxies r \<noteq> resolve_ip inet props proxies r'"
  shows "ip_mode_of props = Trusted_Proxy
    \<and> (\<exists>peer. parse_literal inet (remote_addr r) = Inr peer \<and> is_trusted proxies peer)"
proof (cases "parse_literal inet (remote_addr r)")
  case (Inl e)
  then show ?thesis using assms by (simp add: resolve_ip_def)
next
  case (Inr peer)
  have same: "resolve_ip inet props proxies q = (Inr peer, From_Peer)"
    if "ip_mode_of props = Direct \<or> \<not> is_trusted proxies peer" "remote_addr q = remote_addr r" for q
    using that Inr by (simp add: resolve_ip_def)
  have "\<not> (ip_mode_of props = Direct \<or> \<not> is_trusted proxies peer)"
    using same[of r] same[of r'] assms by metis
  then show ?thesis using Inr by (cases "ip_mode_of props") auto
qed

section \<open>Hops that the client adds\<close>

lemma split_commas_even: "split_commas quoted current s = Inr vs \<Longrightarrow> even (count_list s 34) \<longleftrightarrow> \<not> quoted"
  by (induction quoted current s arbitrary: vs rule: split_commas.induct) (auto simp: py_ok split: if_splits)

lemma split_commas_append:
  "split_commas quoted current (s @ 44 # h) = Inr vs \<Longrightarrow> even (count_list h 34) \<Longrightarrow>
   \<exists>us ws. split_comma_separated h = Inr ws \<and> vs = us @ ws"
proof (induction s arbitrary: quoted current vs)
  case Nil
  have "\<not> quoted"
  proof
    assume quoted
    then have "split_commas True (current @ [44]) h = Inr vs" using Nil.prems(1) by simp
    from split_commas_even[OF this] show False using Nil.prems(2) by simp
  qed
  then show ?case using Nil.prems(1)
    by (auto simp: split_comma_separated_def py_ok split: if_splits intro: exI[of _ "[_]"])
next
  case (Cons c s)
  show ?case
  proof (cases "c = 44 \<and> \<not> quoted")
    case True
    then obtain rest where "split_commas False [] (s @ 44 # h) = Inr rest" "vs = java_trim current # rest"
      using Cons.prems(1) by (auto simp: py_ok split: if_splits)
    then show ?thesis using Cons.IH[of False "[]" rest] Cons.prems(2) by (metis append_Cons)
  next
    case False
    then have "\<exists>q cur. split_commas q cur (s @ 44 # h) = Inr vs"
      using Cons.prems(1) by (auto split: if_splits)
    then show ?thesis using Cons.IH Cons.prems(2) by blast
  qed
qed

lemma dropWhile_keeps: "c \<in> set s \<Longrightarrow> \<not> P c \<Longrightarrow> c \<in> set (dropWhile P s)"
  by (induction s) auto

lemma trim_keeps: "c \<in> set s \<Longrightarrow> \<not> c \<le> 32 \<Longrightarrow> c \<in> set (java_trim s)"
  by (simp add: java_trim_def strip_by_def dropWhile_keeps)

lemma split_commas_quotes:
  "split_commas quoted current s = Inr vs \<Longrightarrow> 34 \<in> set current \<or> 34 \<in> set s \<Longrightarrow> \<exists>v \<in> set vs. 34 \<in> set v"
proof (induction quoted current s arbitrary: vs rule: split_commas.induct)
  case (1 quoted current)
  then show ?case using trim_keeps[of 34 current] by (auto split: if_splits)
next
  case (2 quoted current c s)
  show ?case
  proof (cases "c = 44 \<and> \<not> quoted")
    case True
    then obtain rest where "split_commas False [] s = Inr rest" "vs = java_trim current # rest"
      using "2.prems"(1) by (auto simp: py_ok split: if_splits)
    then show ?thesis using "2.IH" "2.prems" True trim_keeps[of 34 current] by (auto split: if_splits)
  next
    case False
    then show ?thesis using "2.IH" "2.prems" by (auto split: if_splits)
  qed
qed

lemma xff_no_quotes:
  assumes "split_comma_separated h = Inr ws" "map_py (xff_element inet) ws = Inr hops"
  shows "34 \<notin> set h"
proof
  assume "34 \<in> set h"
  then obtain v where v: "v \<in> set ws" "34 \<in> set v"
    using assms(1) split_commas_quotes[of False "[]" h ws] by (auto simp: split_comma_separated_def)
  obtain a where "xff_element inet v = Inr a" using assms(2) v(1) map_py_ex_iff[of "xff_element inet" ws] by blast
  then have "parse_literal inet (Some v) = Inr a" by (simp add: xff_element_def split: if_splits)
  from parse_literal_chars[OF this] v(2) show False
    by (auto simp: list_all_iff ipv6_char_def ascii_digit_def)
qed

lemma find_append: "find P (xs @ ys) = (case find P xs of None \<Rightarrow> find P ys | Some x \<Rightarrow> Some x)"
  by (induction xs) auto

text \<open>Behind the trusted peer, the hops of the last proxies decide.\<close>

lemma last_untrusted_hops:
  assumes "is_trusted proxies peer" "list_ex (\<lambda>a. \<not> is_trusted proxies a) hops"
  shows "last_untrusted proxies ((spoofed @ hops) @ [peer]) = last_untrusted proxies hops"
proof -
  obtain a where "find (\<lambda>a. \<not> is_trusted proxies a) (rev hops) = Some a"
    using assms(2) by (cases "find (\<lambda>a. \<not> is_trusted proxies a) (rev hops)") (auto simp: find_None_iff list_ex_iff)
  then show ?thesis using assms(1) by (simp add: last_untrusted_def find_append)
qed

text \<open>A request with one line of one of the headers.\<close>

definition one_line :: "ip_source \<Rightarrow> jstring option \<Rightarrow> jstring \<Rightarrow> ip_request" where
  "one_line source remote line =
     \<lparr>remote_addr = remote, forwarded_lines = (if source = From_Forwarded then [Some line] else []),
      x_forwarded_lines = (if source = From_X_Forwarded_For then [Some line] else [])\<rparr>"

definition hop_of :: "(jstring \<Rightarrow> ip option) \<Rightarrow> ip_source \<Rightarrow> jstring \<Rightarrow> failure + ip" where
  "hop_of inet source = (if source = From_Forwarded then forwarded_element inet else xff_element inet)"

lemma resolve_one_line:
  assumes "ip_mode_of props = Trusted_Proxy" "parse_literal inet remote = Inr peer" "is_trusted proxies peer"
    "source \<noteq> From_Peer" "resolve_ip inet props proxies (one_line source remote line) = (Inr a, src)"
  shows "\<exists>vs chain. split_comma_separated line = Inr vs \<and> map_py (hop_of inet source) vs = Inr chain
    \<and> last_untrusted proxies (chain @ [peer]) = Inr a \<and> src = source"
  using assms
  by (cases source) (auto simp: resolve_ip_def one_line_def header_chain_def parse_forwarded_def
      parse_x_forwarded_for_def validate_header_def hop_of_def py_ok split: if_splits)

text \<open>
  C16: behind a trusted proxy, what a client writes in front of the hops of the proxies does not
  change its address: the line is the client's text, a comma and the hops that proxies added, one
  of them the address of a peer that is no proxy; if the line is accepted, the answer is the last
  such hop. For \<open>Forwarded\<close> the part of the proxies has its quotes in pairs.
\<close>

theorem spoofed_hops_ignored:
  assumes "ip_mode_of props = Trusted_Proxy" "parse_literal inet remote = Inr peer" "is_trusted proxies peer"
    and "source \<noteq> From_Peer" "source = From_Forwarded \<Longrightarrow> even (count_list added 34)"
    and "split_comma_separated added = Inr elements" "map_py (hop_of inet source) elements = Inr hops"
    and "list_ex (\<lambda>a. \<not> is_trusted proxies a) hops"
    and "resolve_ip inet props proxies (one_line source remote (spoofed @ 44 # added)) = (Inr a, src)"
  shows "last_untrusted proxies hops = Inr a"
proof -
  obtain vs chain where v: "split_comma_separated (spoofed @ 44 # added) = Inr vs"
    "map_py (hop_of inet source) vs = Inr chain" "last_untrusted proxies (chain @ [peer]) = Inr a"
    using resolve_one_line[OF assms(1-4,9)] by blast
  have "even (count_list added 34)"
  proof (cases "source = From_Forwarded")
    case False
    then have "34 \<notin> set added" using xff_no_quotes[OF assms(6)] assms(7) by (simp add: hop_of_def)
    then show ?thesis by simp
  qed (rule assms(5))
  then obtain us where us: "vs = us @ elements"
    using split_commas_append[of False "[]" spoofed added vs] v(1) assms(6) by (auto simp: split_comma_separated_def)
  obtain front where "map_py (hop_of inet source) us = Inr front"
    using v(2) map_py_ex_iff[of "hop_of inet source"] unfolding us by (metis UnCI set_append)
  then have "chain = front @ hops"
    using map_py_append[of "hop_of inet source" us front elements hops] assms(7) v(2) us by simp
  then show ?thesis using v(3) last_untrusted_hops[OF assms(3,8)] by simp
qed

section \<open>Concrete requests\<close>

definition behind_proxy :: ip_properties where
  "behind_proxy = \<lparr>ip_mode_of = Trusted_Proxy, trusted_proxies = [lit ''10.0.0.0/8''], max_forwarded_hops = 5,
     max_header_length = 200\<rparr>"

definition proxy_blocks :: "cidr_block list" where
  "proxy_blocks = [\<lparr>network = [10, 0, 0, 0], prefix_length = 8\<rparr>]"

lemma spoofed_hops_ignored_witness:
  "last_untrusted proxy_blocks [[8, 8, 4, 4], [10, 0, 0, 2]] = Inr [8, 8, 4, 4]"
proof (rule spoofed_hops_ignored)
  show "ip_mode_of behind_proxy = Trusted_Proxy" by (simp add: behind_proxy_def)
  show "parse_literal plain_inet (Some (lit ''10.0.0.1'')) = Inr [10, 0, 0, 1]" by code_simp
  show "is_trusted proxy_blocks [10, 0, 0, 1]" by code_simp
  show "split_comma_separated (lit ''for=8.8.4.4; proto=https, For=10.0.0.2'')
      = Inr [lit ''for=8.8.4.4; proto=https'', lit ''For=10.0.0.2'']" by code_simp
  show "map_py (hop_of plain_inet From_Forwarded) [lit ''for=8.8.4.4; proto=https'', lit ''For=10.0.0.2'']
      = Inr [[8, 8, 4, 4], [10, 0, 0, 2]]" by code_simp
  show "list_ex (\<lambda>a. \<not> is_trusted proxy_blocks a) [[8, 8, 4, 4], [10, 0, 0, 2]]" by code_simp
  show "even (count_list (lit ''for=8.8.4.4; proto=https, For=10.0.0.2'') 34)" by code_simp
  show "resolve_ip plain_inet behind_proxy proxy_blocks (one_line From_Forwarded (Some (lit ''10.0.0.1''))
      (lit ''for=1.2.3.4'' @ 44 # lit ''for=8.8.4.4; proto=https, For=10.0.0.2'')) = (Inr [8, 8, 4, 4], From_Forwarded)"
    by code_simp
qed simp

lemma headers_need_trusted_peer_witness:
  "ip_mode_of behind_proxy = Trusted_Proxy
    \<and> (\<exists>peer. parse_literal plain_inet (Some (lit ''10.0.0.1'')) = Inr peer \<and> is_trusted proxy_blocks peer)"
proof -
  have "resolve_ip plain_inet behind_proxy proxy_blocks (one_line From_X_Forwarded_For (Some (lit ''10.0.0.1'')) (lit ''8.8.8.8''))
      \<noteq> resolve_ip plain_inet behind_proxy proxy_blocks (one_line From_X_Forwarded_For (Some (lit ''10.0.0.1'')) (lit ''9.9.9.9''))"
    by code_simp
  moreover have "remote_addr (one_line From_X_Forwarded_For (Some (lit ''10.0.0.1'')) t) = Some (lit ''10.0.0.1'')" for t
    by (simp add: one_line_def)
  ultimately show ?thesis
    using headers_need_trusted_peer[of "one_line From_X_Forwarded_For (Some (lit ''10.0.0.1'')) (lit ''8.8.8.8'')"] by metis
qed

end
