(* ===== verification/Geolocation.thy ===== *)
theory Geolocation
  imports Redemption Client_Ip Py_Codec
begin

text \<open>
  The country of a client (\<open>geolocation\<close>: \<open>IpWhoisGeoLocationResolver\<close>, the stub,
  \<open>GeolocationProperties\<close> and the choice in \<open>GeolocationConfiguration\<close>), and the redemption with the
  location it asks for. The HTTP client is the parameter \<open>send\<close>, from the URI of a request to what
  comes back; the parser of JSON is the parameter \<open>read_tree\<close>, \<open>None\<close> for its exception. Closing
  the body is taken to succeed.
\<close>

section \<open>Values\<close>

datatype geo_outcome = Geo_Success | Geo_Timeout | Rate_Limited | Provider_Error | Invalid_Response | Non_Public_Ip

text \<open>A tree of Jackson; the node for a missing one is \<open>Json_Missing\<close>.\<close>

datatype json =
    Json_Missing | Json_Null | Json_Bool bool | Json_Text jstring | Json_Number | Json_Array
  | Json_Object "(jstring \<times> json) list"

text \<open>A response: the header \<open>Content-Length\<close>, and the bytes that arrive before the body ends or breaks.\<close>

record http_response =
  http_status :: int
  content_length :: "jstring option"
  body_bytes :: bytes
  body_breaks :: bool

datatype send_result = Send_Timeout | Send_Interrupted | Send_Io_Error | Send_Runtime_Error | Sent http_response

section \<open>The request\<close>

fun hex_str :: "nat \<Rightarrow> jstring" where
  "hex_str n = (if n < 16 then [] else hex_str (n div 16)) @ [if n mod 16 < 10 then 48 + n mod 16 else 87 + n mod 16]"

declare hex_str.simps [simp del]

text \<open>\<open>getHostAddress\<close>: decimal numbers and dots, or eight hexadecimal numbers and colons.\<close>

fun byte_pairs :: "ip \<Rightarrow> nat list" where
  "byte_pairs (x # y # xs) = (unat x * 256 + unat y) # byte_pairs xs"
| "byte_pairs xs = []"

definition host_address :: "ip \<Rightarrow> jstring" where
  "host_address a = (if length a = 4 then join_with [46] (map (\<lambda>x. nat_str (unat x)) a)
     else join_with [58] (map hex_str (byte_pairs a)))"

text \<open>\<open>URLEncoder.encode\<close> on such a text changes the colons.\<close>

definition url_encoded :: "jstring \<Rightarrow> jstring" where
  "url_encoded s = concat (map (\<lambda>c. if c = 58 then lit ''%3A'' else [c]) s)"

definition provider_uri :: "jstring \<Rightarrow> ip \<Rightarrow> jstring" where
  "provider_uri base_uri a =
     (if suffix [47] base_uri then base_uri else base_uri @ [47])
       @ url_encoded (host_address a) @ lit ''?fields=success,country_code,message''"

section \<open>The response\<close>

definition json_path :: "json \<Rightarrow> string \<Rightarrow> json" where
  "json_path j name = (case j of
       Json_Object members \<Rightarrow> (case map_of members (lit name) of None \<Rightarrow> Json_Missing | Some v \<Rightarrow> v)
     | _ \<Rightarrow> Json_Missing)"

definition ascii_letter :: "nat \<Rightarrow> bool" where
  "ascii_letter c \<longleftrightarrow> upper_letter c \<or> (97 \<le> c \<and> c \<le> 122)"

text \<open>\<open>None\<close> is the \<open>InvalidProviderResponseException\<close>.\<close>

definition parse_country :: "jstring list \<Rightarrow> (bytes \<Rightarrow> json option) \<Rightarrow> bytes \<Rightarrow> (jstring option \<times> geo_outcome) option" where
  "parse_country countries read_tree body =
     (case read_tree body of
        None \<Rightarrow> None
      | Some document \<Rightarrow>
          (case json_path document ''success'' of
             Json_Bool success \<Rightarrow>
               if \<not> success then Some (None, Provider_Error)
               else (case json_path document ''country_code'' of
                   Json_Text t \<Rightarrow>
                     if length t = 2 \<and> list_all ascii_letter t
                     then (case country_code_of countries (Some t) of
                         Inl e \<Rightarrow> None | Inr country \<Rightarrow> Some (Some country, Geo_Success))
                     else None
                 | _ \<Rightarrow> None)
           | _ \<Rightarrow> None))"

text \<open>\<open>readNBytes\<close> of one byte more than is allowed.\<close>

definition body_limit :: nat where
  "body_limit = 16384"

definition answer_of_response ::
    "jstring list \<Rightarrow> (bytes \<Rightarrow> json option) \<Rightarrow> http_response \<Rightarrow> jstring option \<times> geo_outcome" where
  "answer_of_response countries read_tree r =
     (if http_status r = 429 then (None, Rate_Limited)
      else (case (case content_length r of None \<Rightarrow> Some (- 1) | Some t \<Rightarrow> java_parse_long t) of
          None \<Rightarrow> (None, Invalid_Response)
        | Some contentLength \<Rightarrow>
            let body = take (body_limit + 1) (body_bytes r)
            in if http_status r < 200 \<or> http_status r > 299 then (None, Provider_Error)
               else if contentLength > int body_limit then (None, Invalid_Response)
               else if body_breaks r \<and> length body < body_limit + 1 then (None, Provider_Error)
               else if length body > body_limit then (None, Invalid_Response)
               else (case parse_country countries read_tree body of
                   None \<Rightarrow> (None, Invalid_Response) | Some answer \<Rightarrow> answer)))"

definition answer_of_send ::
    "jstring list \<Rightarrow> (bytes \<Rightarrow> json option) \<Rightarrow> send_result \<Rightarrow> jstring option \<times> geo_outcome" where
  "answer_of_send countries read_tree result =
     (case result of
        Send_Timeout \<Rightarrow> (None, Geo_Timeout)
      | Send_Interrupted \<Rightarrow> (None, Provider_Error)
      | Send_Io_Error \<Rightarrow> (None, Provider_Error)
      | Send_Runtime_Error \<Rightarrow> (None, Invalid_Response)
      | Sent r \<Rightarrow> answer_of_response countries read_tree r)"

section \<open>The resolvers\<close>

datatype geo_adapter = Stub_Adapter jstring | Ipwhois_Adapter jstring

text \<open>The country or the exception, the outcome counted, and the requests sent.\<close>

definition resolve_country ::
    "jstring list \<Rightarrow> (bytes \<Rightarrow> json option) \<Rightarrow> (jstring \<Rightarrow> send_result) \<Rightarrow> cidr_block list \<Rightarrow> geo_adapter \<Rightarrow> ip
      \<Rightarrow> (failure + jstring) \<times> geo_outcome \<times> jstring list" where
  "resolve_country countries read_tree send ranges adapter a =
     (case adapter of
        Stub_Adapter country \<Rightarrow> (Inr country, Geo_Success, [])
      | Ipwhois_Adapter base_uri \<Rightarrow>
          if \<not> permits_public_lookup ranges a then (Inl Geolocation_Unavailable, Non_Public_Ip, [])
          else let uri = provider_uri base_uri a; (answer, outcome) = answer_of_send countries read_tree (send uri)
            in (case answer of None \<Rightarrow> Inl Geolocation_Unavailable | Some country \<Rightarrow> Inr country, outcome, [uri]))"

section \<open>The configuration\<close>

datatype geo_provider = Ipwhois | Stub

record geo_properties =
  provider :: geo_provider
  base_scheme :: "jstring option"
  base_uri_text :: jstring
  connect_timeout :: "int option"
  response_timeout :: "int option"
  maximum_body :: int
  stub_country :: jstring

text \<open>Durations are nanoseconds.\<close>

definition bad_timeout :: "int option \<Rightarrow> int \<Rightarrow> bool" where
  "bad_timeout t limit \<longleftrightarrow> (case t of None \<Rightarrow> True | Some n \<Rightarrow> n < 0 \<or> n = 0 \<or> n > limit)"

definition check_geo_properties :: "geo_properties \<Rightarrow> failure + geo_properties" where
  "check_geo_properties p =
     bind_py (guard_py (base_scheme p \<noteq> None) Illegal_Argument) (\<lambda>_.
     bind_py (guard_py (\<not> bad_timeout (connect_timeout p) 500000000) Illegal_Argument) (\<lambda>_.
     bind_py (guard_py (\<not> bad_timeout (response_timeout p) 1000000000) Illegal_Argument) (\<lambda>_.
     Inr p)))"

definition geo_location_resolver :: "jstring list \<Rightarrow> geo_properties \<Rightarrow> jstring list \<Rightarrow> failure + geo_adapter" where
  "geo_location_resolver countries p profiles =
     (if provider p = Ipwhois \<and> map_option lower_ascii (base_scheme p) \<noteq> Some (lit ''https'') then Inl Illegal_State
      else if provider p = Stub
      then (if \<not> list_ex (\<lambda>x. x = lit ''local'' \<or> x = lit ''test'') profiles then Inl Illegal_State
            else bind_py (country_code_of countries (Some (stub_country p))) (\<lambda>c. Inr (Stub_Adapter c)))
      else bind_py (guard_py (maximum_body p = int body_limit) Illegal_Argument) (\<lambda>_.
           Inr (Ipwhois_Adapter (base_uri_text p))))"

section \<open>The redemption with its location\<close>

text \<open>What stays the same from request to request.\<close>

record geo_service =
  iso_countries :: "jstring list"
  literal_parser :: "jstring \<Rightarrow> ip option"
  ip_settings :: ip_properties
  proxy_ranges :: "cidr_block list"
  denied_ranges :: "cidr_block list"
  adapter_of :: geo_adapter
  json_parser :: "bytes \<Rightarrow> json option"
  http_client :: "jstring \<Rightarrow> send_result"

definition client_ip :: "geo_service \<Rightarrow> ip_request \<Rightarrow> failure + ip" where
  "client_ip g h = fst (resolve_ip (literal_parser g) (ip_settings g) (proxy_ranges g) h)"

definition client_country :: "geo_service \<Rightarrow> ip \<Rightarrow> (failure + jstring) \<times> geo_outcome \<times> jstring list" where
  "client_country g a =
     resolve_country (iso_countries g) (json_parser g) (http_client g) (denied_ranges g) (adapter_of g) a"

definition located_request ::
    "geo_service \<Rightarrow> ip_request \<Rightarrow> jstring option \<Rightarrow> jstring option \<Rightarrow> nat \<Rightarrow> int \<Rightarrow> request" where
  "located_request g h code user uuid now =
     \<lparr>req_code = code, req_user = user, req_location = bind_py (client_ip g h) (\<lambda>a. fst (client_country g a)),
      req_uuid = uuid, req_now = now\<rparr>"

text \<open>The lookups a redemption sends: only for a valid request, a coupon that exists and a known address.\<close>

definition lookups_sent :: "geo_service \<Rightarrow> ip_request \<Rightarrow> request \<Rightarrow> db \<Rightarrow> jstring list" where
  "lookups_sent g h r d =
     (case validate_request r of
        Inl e \<Rightarrow> []
      | Inr (code, user) \<Rightarrow>
          (case snapshot_coupon (iso_countries g) d code of
             Inl e \<Rightarrow> []
           | Inr c \<Rightarrow> (case client_ip g h of Inl e \<Rightarrow> [] | Inr a \<Rightarrow> snd (snd (client_country g a)))))"

section \<open>Which answers give a country\<close>

text \<open>What an answer has to be for its country to be taken.\<close>

definition length_declared_ok :: "http_response \<Rightarrow> bool" where
  "length_declared_ok r \<longleftrightarrow> (case content_length r of
       None \<Rightarrow> True
     | Some t \<Rightarrow> (case java_parse_long t of None \<Rightarrow> False | Some n \<Rightarrow> n \<le> int body_limit))"

lemma upper_letters: "list_all ascii_letter t \<Longrightarrow> java_trim t = t \<and> length (java_upper t) = length t"
proof -
  assume l: "list_all ascii_letter t"
  have big: "\<not> c \<le> 32" if "c \<in> set t" for c
    using l that by (auto simp: list_all_iff ascii_letter_def upper_letter_def)
  have "dropWhile (\<lambda>c. c \<le> 32) t = t"
    using big hd_in_set[of t] by (auto simp: dropWhile_eq_self_iff)
  moreover have "dropWhile (\<lambda>c. c \<le> 32) (rev t) = rev t"
    using big hd_in_set[of "rev t"] by (auto simp: dropWhile_eq_self_iff)
  ultimately have "java_trim t = t" by (simp add: java_trim_def strip_by_def)
  moreover have "length (java_upper t) = length t"
    using l by (induction t) (auto simp: java_upper_def upper_unit_def ascii_letter_def upper_letter_def)
  ultimately show ?thesis by blast
qed

lemma parse_country_iff:
  "parse_country countries read_tree body = Some (Some c, out) \<longleftrightarrow>
     (\<exists>doc t. read_tree body = Some doc \<and> json_path doc ''success'' = Json_Bool True
       \<and> json_path doc ''country_code'' = Json_Text t \<and> length t = 2 \<and> list_all ascii_letter t
       \<and> java_upper t \<in> set countries \<and> c = java_upper t \<and> out = Geo_Success)"
proof (cases "read_tree body")
  case (Some doc)
  show ?thesis
  proof (cases "json_path doc ''success''")
    case (Json_Bool b)
    show ?thesis
    proof (cases "json_path doc ''country_code''")
      case (Json_Text t)
      have "parse_country countries read_tree body =
          (if \<not> b then Some (None, Provider_Error)
           else if length t = 2 \<and> list_all ascii_letter t \<and> java_upper t \<in> set countries
           then Some (Some (java_upper t), Geo_Success) else None)"
        using upper_letters[of t]
        by (simp add: parse_country_def Some Json_Bool Json_Text country_code_of_def Let_def)
      then show ?thesis by (auto simp: Some Json_Bool Json_Text)
    qed (simp_all add: parse_country_def Some Json_Bool)
  qed (simp_all add: parse_country_def Some)
qed (simp add: parse_country_def)

lemma answer_of_response_iff:
  "fst (answer_of_response countries read_tree r) = Some c \<longleftrightarrow>
     200 \<le> http_status r \<and> http_status r \<le> 299 \<and> length_declared_ok r \<and> \<not> body_breaks r
       \<and> length (body_bytes r) \<le> body_limit
       \<and> (\<exists>out. parse_country countries read_tree (body_bytes r) = Some (Some c, out))"
proof -
  have "take (body_limit + 1) (body_bytes r) = body_bytes r" if "length (body_bytes r) \<le> body_limit"
    using that by simp
  moreover have "length (take (body_limit + 1) (body_bytes r)) \<le> body_limit \<longleftrightarrow> length (body_bytes r) \<le> body_limit"
    by auto
  moreover have "length (take (body_limit + 1) (body_bytes r)) < body_limit + 1 \<longleftrightarrow> length (body_bytes r) \<le> body_limit"
    by auto
  ultimately show ?thesis
    unfolding answer_of_response_def Let_def length_declared_ok_def
    by (cases "content_length r"; cases "length (body_bytes r) \<le> body_limit")
      (auto split: option.splits)
qed

text \<open>
  C22: the provider's adapter gives a country exactly for an address that may be looked up and an
  answer with a status of success, a whole body within the declared and actual limit, and a
  document that says so with a country of two letters in the list; everything else, failures of
  the transport included, is \<open>Geolocation_Unavailable\<close>.
\<close>

theorem country_iff_good_answer:
  "(fst (resolve_country countries read_tree send ranges (Ipwhois_Adapter base) a) = Inr c \<longleftrightarrow>
     permits_public_lookup ranges a \<and> (\<exists>r doc t. send (provider_uri base a) = Sent r
       \<and> 200 \<le> http_status r \<and> http_status r \<le> 299 \<and> length_declared_ok r \<and> \<not> body_breaks r
       \<and> length (body_bytes r) \<le> 16384 \<and> read_tree (body_bytes r) = Some doc
       \<and> json_path doc ''success'' = Json_Bool True \<and> json_path doc ''country_code'' = Json_Text t
       \<and> length t = 2 \<and> list_all ascii_letter t \<and> java_upper t \<in> set countries \<and> c = java_upper t))
   \<and> (\<forall>e. fst (resolve_country countries read_tree send ranges (Ipwhois_Adapter base) a) = Inl e
        \<longrightarrow> e = Geolocation_Unavailable)"
proof -
  have sent: "fst (answer_of_send countries read_tree (send u)) = Some c \<longleftrightarrow>
      (\<exists>r. send u = Sent r \<and> fst (answer_of_response countries read_tree r) = Some c)" for u
    by (cases "send u") (simp_all add: answer_of_send_def)
  have res: "fst (resolve_country countries read_tree send ranges (Ipwhois_Adapter base) a) =
      (if \<not> permits_public_lookup ranges a then Inl Geolocation_Unavailable
       else (case fst (answer_of_send countries read_tree (send (provider_uri base a))) of
           None \<Rightarrow> Inl Geolocation_Unavailable | Some country \<Rightarrow> Inr country))"
    by (simp add: resolve_country_def split_beta Let_def)
  have "fst (resolve_country countries read_tree send ranges (Ipwhois_Adapter base) a) = Inr c \<longleftrightarrow>
      permits_public_lookup ranges a \<and> fst (answer_of_send countries read_tree (send (provider_uri base a))) = Some c"
    unfolding res by (auto split: option.splits)
  then show ?thesis
    unfolding sent answer_of_response_iff parse_country_iff using res
    by (auto simp: body_limit_def split: if_splits option.splits)
qed

section \<open>What leaves the service\<close>

lemma hex_str_chars: "list_all (\<lambda>c. ascii_digit c \<or> (97 \<le> c \<and> c \<le> 102)) (hex_str n)"
proof (induction n rule: hex_str.induct)
  case (1 n)
  then show ?case by (subst hex_str.simps) (auto simp: ascii_digit_def)
qed

lemma nat_str_chars: "list_all ascii_digit (nat_str n)"
  using nat_str_ascii by (fastforce simp: list_all_iff ascii_digit_def)

lemma join_chars: "list_all (list_all P) xs \<Longrightarrow> list_all P sep \<Longrightarrow> list_all P (join_with sep xs)"
  by (induction sep xs rule: join_with.induct) auto

definition segment_char :: "nat \<Rightarrow> bool" where
  "segment_char c \<longleftrightarrow> ascii_digit c \<or> (97 \<le> c \<and> c \<le> 102) \<or> c = 46 \<or> c = 37 \<or> c = 65"

lemma encoded_address: "list_all segment_char (url_encoded (host_address a))"
proof -
  let ?P = "\<lambda>c. ascii_digit c \<or> (97 \<le> c \<and> c \<le> 102) \<or> c = 46 \<or> c = 58"
  have d: "list_all ?P (nat_str n)" and h: "list_all ?P (hex_str n)" for n
    using nat_str_chars[of n] hex_str_chars[of n] by (auto simp: list_all_iff)
  have "list_all ?P (join_with [46] (map (\<lambda>x. nat_str (unat x)) a))"
    by (rule join_chars) (simp_all add: list_all_iff d[unfolded list_all_iff])
  moreover have "list_all ?P (join_with [58] (map hex_str (byte_pairs a)))"
    by (rule join_chars) (simp_all add: list_all_iff h[unfolded list_all_iff])
  ultimately have p: "list_all ?P (host_address a)" by (simp add: host_address_def)
  have "list_all segment_char (url_encoded s)" if "list_all ?P s" for s
    using that by (induction s) (auto simp: url_encoded_def segment_char_def lit_def ascii_digit_def)
  then show ?thesis using p by blast
qed

text \<open>
  C18: a redemption sends at most one lookup, and only for a valid request, a coupon that exists, and
  an address that was resolved and may be looked up; the URI is the configured base and the
  address, in which no character can start another segment, a query or a fragment.
\<close>

theorem lookups_are_minimal:
  assumes "lookups_sent g h r d = u # us" "adapter_of g = Ipwhois_Adapter base"
  shows "us = [] \<and> (\<exists>code user c a. validate_request r = Inr (code, user)
      \<and> snapshot_coupon (iso_countries g) d code = Inr c
      \<and> client_ip g h = Inr a \<and> permits_public_lookup (denied_ranges g) a
      \<and> u = (if suffix [47] base then base else base @ [47]) @ url_encoded (host_address a)
            @ lit ''?fields=success,country_code,message''
      \<and> list_all segment_char (url_encoded (host_address a)))"
proof -
  obtain code user where v: "validate_request r = Inr (code, user)"
    using assms(1) by (cases "validate_request r") (auto simp: lookups_sent_def)
  obtain c where c: "snapshot_coupon (iso_countries g) d code = Inr c"
    using assms(1) v by (cases "snapshot_coupon (iso_countries g) d code") (auto simp: lookups_sent_def)
  obtain a where a: "client_ip g h = Inr a"
    using assms(1) v c by (cases "client_ip g h") (auto simp: lookups_sent_def)
  have "snd (snd (client_country g a)) = u # us" using assms(1) v c a by (simp add: lookups_sent_def)
  then have "permits_public_lookup (denied_ranges g) a \<and> u = provider_uri base a \<and> us = []"
    using assms(2) by (auto simp: client_country_def resolve_country_def Let_def split_beta split: if_splits)
  then show ?thesis using v c a encoded_address[of a] by (auto simp: provider_uri_def)
qed

text \<open>
  C17: a coupon is redeemed only where its country is: when the service with the provider's adapter
  redeems, the address of the client was resolved, it may be looked up, exactly one lookup was
  sent for it, and the provider named the country of the coupon that the code denotes.
\<close>

theorem redeemed_in_its_country:
  assumes "fst (redeem_service (iso_countries g) (located_request g h code user uuid now) d) = Inr (res, d')"
    and "adapter_of g = Ipwhois_Adapter base"
  shows "\<exists>a k e c. client_ip g h = Inr a \<and> permits_public_lookup (denied_ranges g) a
    \<and> lookups_sent g h (located_request g h code user uuid now) d = [provider_uri base a]
    \<and> fst (answer_of_send (iso_countries g) (json_parser g) (http_client g (provider_uri base a))) = Some e
    \<and> coupon_code_of code = Inr k \<and> find_coupon (iso_countries g) d (code_normalized k) = Inr (Some c)
    \<and> coupon_country c = e"
proof -
  let ?r = "located_request g h code user uuid now" and ?cs = "iso_countries g"
  obtain k u c x where v: "validate_request ?r = Inr (k, u)" "snapshot_coupon ?cs d k = Inr c" "locate ?r k u c = Inr x"
    using assms(1) by (auto simp: redeem_service_def py_ok split: sum.splits)
  have k: "coupon_code_of code = Inr k" using v(1) by (auto simp: validate_request_def located_request_def py_ok)
  have find: "find_coupon ?cs d (code_normalized k) = Inr (Some c)"
    using v(2) by (auto simp: snapshot_coupon_def or_not_found_def py_ok split: option.splits)
  have "req_location ?r = Inr (coupon_country c)" using v(3) by (auto simp: locate_def py_ok)
  then obtain a where a: "client_ip g h = Inr a" "fst (client_country g a) = Inr (coupon_country c)"
    by (auto simp: located_request_def py_ok)
  have "permits_public_lookup (denied_ranges g) a \<and> snd (snd (client_country g a)) = [provider_uri base a]
      \<and> fst (answer_of_send ?cs (json_parser g) (http_client g (provider_uri base a))) = Some (coupon_country c)"
    using a(2) assms(2)
    by (auto simp: client_country_def resolve_country_def Let_def split_beta split: if_splits option.splits)
  moreover have "lookups_sent g h ?r d = snd (snd (client_country g a))"
    using v(1,2) a(1) by (simp add: lookups_sent_def)
  ultimately show ?thesis using a(1) k find by auto
qed

section \<open>A concrete service\<close>

definition poland_answers :: "jstring \<Rightarrow> send_result" where
  "poland_answers uri = Sent \<lparr>http_status = 200, content_length = Some (lit ''12''), body_bytes = ''any'', body_breaks = False\<rparr>"

definition direct_service :: geo_service where
  "direct_service = \<lparr>iso_countries = [lit ''PL''], literal_parser = plain_inet,
     ip_settings = \<lparr>ip_mode_of = Direct, trusted_proxies = [], max_forwarded_hops = 20, max_header_length = 4096\<rparr>,
     proxy_ranges = [], denied_ranges = proxy_blocks, adapter_of = Ipwhois_Adapter (lit ''https://ipwho.is''),
     json_parser = (\<lambda>b. Some (Json_Object [(lit ''success'', Json_Bool True), (lit ''country_code'', Json_Text (lit ''pl''))])),
     http_client = poland_answers\<rparr>"

definition direct_peer :: ip_request where
  "direct_peer = \<lparr>remote_addr = Some (lit ''8.8.4.4''), forwarded_lines = [], x_forwarded_lines = []\<rparr>"

definition summer_db :: db where
  "summer_db = \<lparr>coupons = [\<lparr>row_id = 7, row_code = lit ''Summer'', row_normalized = lit ''SUMMER'', row_created = 0,
     row_max = 1, row_current = 0, row_country = lit ''PL''\<rparr>], redemptions = []\<rparr>"

definition summer_request :: request where
  "summer_request = located_request direct_service direct_peer (Some (lit ''summer'')) (Some (lit ''ann'')) 1 5"

lemma direct_adapter: "adapter_of direct_service = Ipwhois_Adapter (lit ''https://ipwho.is'')"
  by (simp add: direct_service_def)

lemma lookups_are_minimal_witness:
  "permits_public_lookup (denied_ranges direct_service) [8, 8, 4, 4]
    \<and> lookups_sent direct_service direct_peer summer_request summer_db
      = [lit ''https://ipwho.is/8.8.4.4?fields=success,country_code,message'']"
proof -
  have l: "lookups_sent direct_service direct_peer summer_request summer_db
      = [lit ''https://ipwho.is/8.8.4.4?fields=success,country_code,message'']" by code_simp
  have "client_ip direct_service direct_peer = Inr [8, 8, 4, 4]" by code_simp
  then show ?thesis using lookups_are_minimal[OF l direct_adapter] l by auto
qed

lemma redeemed_in_its_country_witness:
  "\<exists>c. find_coupon [lit ''PL''] summer_db (lit ''SUMMER'') = Inr (Some c) \<and> coupon_country c = lit ''PL''"
proof -
  have "case fst (redeem_service (iso_countries direct_service) summer_request summer_db) of Inl e \<Rightarrow> False | Inr x \<Rightarrow> True"
    by code_simp
  then obtain res d' where
    "fst (redeem_service (iso_countries direct_service) summer_request summer_db) = Inr (res, d')"
    by (auto split: sum.splits)
  from redeemed_in_its_country[OF this[unfolded summer_request_def] direct_adapter]
  obtain k e c a where c: "coupon_code_of (Some (lit ''summer'')) = Inr k" "coupon_country c = e"
    "find_coupon (iso_countries direct_service) summer_db (code_normalized k) = Inr (Some c)"
    "fst (answer_of_send (iso_countries direct_service) (json_parser direct_service)
      (http_client direct_service (provider_uri (lit ''https://ipwho.is'') a))) = Some e"
    by blast
  have "coupon_code_of (Some (lit ''summer'')) = Inr \<lparr>code_value = lit ''summer'', code_normalized = lit ''SUMMER''\<rparr>"
    by code_simp
  then have k: "code_normalized k = lit ''SUMMER''" using c(1) by simp
  have "http_client direct_service u = poland_answers [] \<and> iso_countries direct_service = [lit ''PL'']" for u
    by (simp add: direct_service_def poland_answers_def)
  moreover have "fst (answer_of_send (iso_countries direct_service) (json_parser direct_service) (poland_answers [])) = Some (lit ''PL'')"
    by code_simp
  ultimately show ?thesis using c k by (intro exI[of _ c]) (auto simp del: lit_eq_iff)
qed

lemma country_iff_good_answer_witness:
  "fst (resolve_country [lit ''PL''] (json_parser direct_service) (\<lambda>uri. Send_Timeout) [] (Ipwhois_Adapter []) [8, 8, 4, 4])
    = Inl Geolocation_Unavailable"
proof -
  let ?r = "fst (resolve_country [lit ''PL''] (json_parser direct_service) (\<lambda>uri. Send_Timeout) [] (Ipwhois_Adapter []) [8, 8, 4, 4])"
  have "case ?r of Inl e \<Rightarrow> True | Inr c \<Rightarrow> False"
    by (simp add: resolve_country_def permits_public_lookup_def answer_of_send_def)
  then obtain e where e: "?r = Inl e" by (auto split: sum.splits)
  have "e = Geolocation_Unavailable"
    using country_iff_good_answer[of "[lit ''PL'']" "json_parser direct_service" "\<lambda>uri. Send_Timeout" "[]" "[]" "[8, 8, 4, 4]"] e
    by blast
  then show ?thesis using e by simp
qed

text \<open>The stub answers only where a local or test profile is active.\<close>

lemma stub_only_local:
  "geo_location_resolver countries p profiles = Inr (Stub_Adapter c) \<Longrightarrow>
   lit ''local'' \<in> set profiles \<or> lit ''test'' \<in> set profiles"
  by (auto simp: geo_location_resolver_def list_ex_iff py_ok split: if_splits)

end
