(* ===== verification/Service_Metrics.thy ===== *)
theory Service_Metrics
  imports Geolocation Redemption_Answers
begin

text \<open>
  The counters of \<open>CouponServiceMetrics\<close>, as state of the two services: what each call records,
  and that the counters agree with the tables and with the lookups sent. A timer is the number of
  its samples; how long they took is not modelled.
\<close>

section \<open>The meters\<close>

datatype transaction_outcome =
    Tx_Success | Tx_Not_Found | Tx_Country_Not_Allowed | Tx_Already_Redeemed | Tx_Exhausted | Tx_Database_Error

text \<open>The constructor registers every combination of tags with zero.\<close>

record meters =
  create_count :: "create_outcome \<Rightarrow> nat"
  redemption_count :: "redemption_outcome \<Rightarrow> nat"
  ip_count :: "ip_source \<times> bool \<Rightarrow> nat"
  geo_count :: "geo_provider \<times> geo_outcome \<Rightarrow> nat"
  geo_samples :: "geo_provider \<times> geo_outcome \<Rightarrow> nat"
  transaction_samples :: "transaction_outcome \<Rightarrow> nat"

definition no_meters :: meters where
  "no_meters = \<lparr>create_count = (\<lambda>k. 0), redemption_count = (\<lambda>k. 0), ip_count = (\<lambda>k. 0), geo_count = (\<lambda>k. 0),
     geo_samples = (\<lambda>k. 0), transaction_samples = (\<lambda>k. 0)\<rparr>"

definition bump :: "'k \<Rightarrow> ('k \<Rightarrow> nat) \<Rightarrow> 'k \<Rightarrow> nat" where
  "bump k f = f(k := f k + 1)"

definition record_create :: "create_outcome \<Rightarrow> meters \<Rightarrow> meters" where
  "record_create k m = m\<lparr>create_count := bump k (create_count m)\<rparr>"

definition record_redemption :: "redemption_outcome \<Rightarrow> meters \<Rightarrow> meters" where
  "record_redemption k m = m\<lparr>redemption_count := bump k (redemption_count m)\<rparr>"

definition record_client_ip :: "ip_source \<Rightarrow> bool \<Rightarrow> meters \<Rightarrow> meters" where
  "record_client_ip source success m = m\<lparr>ip_count := bump (source, success) (ip_count m)\<rparr>"

definition record_geolocation :: "geo_provider \<Rightarrow> geo_outcome \<Rightarrow> meters \<Rightarrow> meters" where
  "record_geolocation p k m = m\<lparr>geo_count := bump (p, k) (geo_count m)\<rparr>"

definition stop_geolocation_timer :: "geo_provider \<Rightarrow> geo_outcome \<Rightarrow> meters \<Rightarrow> meters" where
  "stop_geolocation_timer p k m = m\<lparr>geo_samples := bump (p, k) (geo_samples m)\<rparr>"

definition stop_transaction_timer :: "transaction_outcome \<Rightarrow> meters \<Rightarrow> meters" where
  "stop_transaction_timer k m = m\<lparr>transaction_samples := bump k (transaction_samples m)\<rparr>"

section \<open>The services with their meters\<close>

text \<open>The outcome of the transaction's timer, by its catch clauses.\<close>

definition transaction_outcome_of :: "failure + 'a \<Rightarrow> transaction_outcome" where
  "transaction_outcome_of r =
     (case r of
        Inr x \<Rightarrow> Tx_Success
      | Inl Coupon_Not_Found \<Rightarrow> Tx_Not_Found
      | Inl Country_Not_Allowed \<Rightarrow> Tx_Country_Not_Allowed
      | Inl Coupon_Already_Redeemed \<Rightarrow> Tx_Already_Redeemed
      | Inl Coupon_Exhausted \<Rightarrow> Tx_Exhausted
      | Inl e \<Rightarrow> Tx_Database_Error)"

definition provider_of :: "geo_adapter \<Rightarrow> geo_provider" where
  "provider_of adapter = (case adapter of Stub_Adapter c \<Rightarrow> Stub | Ipwhois_Adapter u \<Rightarrow> Ipwhois)"

text \<open>An address that may not be looked up is counted, but not timed.\<close>

definition locate_counted :: "geo_service \<Rightarrow> ip \<Rightarrow> meters \<Rightarrow> (failure + jstring) \<times> meters" where
  "locate_counted g a m =
     (let (country, outcome, sent) = client_country g a;
          p = provider_of (adapter_of g);
          m1 = record_geolocation p outcome m
      in (country, if outcome = Non_Public_Ip then m1 else stop_geolocation_timer p outcome m1))"

definition resolve_counted :: "geo_service \<Rightarrow> ip_request \<Rightarrow> meters \<Rightarrow> (failure + jstring) \<times> meters" where
  "resolve_counted g h m =
     (let (address, source) = resolve_ip (literal_parser g) (ip_settings g) (proxy_ranges g) h in
      case address of
        Inl e \<Rightarrow> (Inl e, record_client_ip source False m)
      | Inr a \<Rightarrow> locate_counted g a (record_client_ip source True m))"

text \<open>The body of the \<open>try\<close>, and the whole method.\<close>

definition try_counted ::
    "geo_service \<Rightarrow> ip_request \<Rightarrow> coupon_code \<Rightarrow> jstring \<Rightarrow> nat \<Rightarrow> int \<Rightarrow> db \<Rightarrow> meters
      \<Rightarrow> (failure + redemption_result \<times> db) \<times> meters" where
  "try_counted g h code user uuid now d m =
     (case snapshot_coupon (iso_countries g) d code of
        Inl e \<Rightarrow> (Inl e, m)
      | Inr snapshot \<Rightarrow>
          (case resolve_counted g h m of
             (Inl e, m1) \<Rightarrow> (Inl e, m1)
           | (Inr country, m1) \<Rightarrow>
               if coupon_country snapshot \<noteq> country then (Inl Country_Not_Allowed, m1)
               else let t = redeem_transaction (iso_countries g)
                          \<lparr>a_code = code_normalized code, a_user = user, a_country = country, a_uuid = uuid, a_now = now\<rparr> d
                 in (t, stop_transaction_timer (transaction_outcome_of t) m1)))"

definition redeem_counted ::
    "geo_service \<Rightarrow> ip_request \<Rightarrow> jstring option \<Rightarrow> jstring option \<Rightarrow> nat \<Rightarrow> int \<Rightarrow> db \<Rightarrow> meters
      \<Rightarrow> (failure + redemption_result \<times> db) \<times> meters" where
  "redeem_counted g h rawCode rawUser uuid now d m =
     (case bind_py (coupon_code_of rawCode) (\<lambda>code. bind_py (user_id_of rawUser) (\<lambda>user. Inr (code, user))) of
        Inl e \<Rightarrow> (Inl e, m)
      | Inr (code, user) \<Rightarrow>
          let (result, m') = try_counted g h code user uuid now d m
          in (result, record_redemption (case result of Inl e \<Rightarrow> outcome_of e | Inr x \<Rightarrow> Success) m'))"

definition create_counted ::
    "jstring list \<Rightarrow> nat \<Rightarrow> int \<Rightarrow> create_command \<Rightarrow> db \<Rightarrow> meters \<Rightarrow> (failure + coupon \<times> db) \<times> meters" where
  "create_counted countries uuid now command d m =
     (let (result, outcome) = create_service countries uuid now command d
      in (result, case outcome of None \<Rightarrow> m | Some k \<Rightarrow> record_create k m))"

section \<open>The same answers\<close>

lemma resolve_counted_fst: "fst (resolve_counted g h m) = bind_py (client_ip g h) (\<lambda>a. fst (client_country g a))"
  by (cases "fst (resolve_ip (literal_parser g) (ip_settings g) (proxy_ranges g) h)")
    (simp_all add: resolve_counted_def locate_counted_def client_ip_def split_beta Let_def)

text \<open>Counting changes no answer: the service with meters answers as the service without.\<close>

lemma redeem_counted_fst:
  "fst (redeem_counted g h code user uuid now d m)
    = fst (redeem_service (iso_countries g) (located_request g h code user uuid now) d)"
proof (cases "validate_request (located_request g h code user uuid now)")
  case (Inl e)
  then show ?thesis by (simp add: redeem_counted_def try_counted_def redeem_service_def validate_request_def located_request_def)
next
  case (Inr v)
  obtain k u where v: "v = (k, u)" by (cases v)
  have bind: "bind_py (coupon_code_of code) (\<lambda>code. bind_py (user_id_of user) (\<lambda>user. Inr (code, user))) = Inr (k, u)"
    using Inr v by (simp add: validate_request_def located_request_def)
  show ?thesis
  proof (cases "snapshot_coupon (iso_countries g) d k")
    case (Inl e)
    then show ?thesis using Inr v bind by (simp add: redeem_counted_def try_counted_def redeem_service_def)
  next
    case c: (Inr c)
    obtain l m1 where l: "resolve_counted g h m = (l, m1)" by fastforce
    then have "bind_py (client_ip g h) (\<lambda>a. fst (client_country g a)) = l" using resolve_counted_fst[of g h m] by simp
    then have loc: "locate (located_request g h code user uuid now) k u c =
        bind_py l (\<lambda>country. bind_py (guard_py (coupon_country c = country) Country_Not_Allowed) (\<lambda>_.
          Inr \<lparr>a_code = code_normalized k, a_user = u, a_country = country, a_uuid = uuid, a_now = now\<rparr>))"
      by (simp add: locate_def located_request_def)
    show ?thesis
    proof (cases l)
      case (Inl e)
      then show ?thesis using Inr v bind c l loc by (simp add: redeem_counted_def try_counted_def redeem_service_def)
    next
      case country: (Inr country)
      show ?thesis
      proof (cases "coupon_country c = country")
        case True
        then show ?thesis using Inr v bind c l loc country
          by (simp add: redeem_counted_def try_counted_def redeem_service_def Let_def guard_py_def split: sum.splits)
      next
        case False
        then show ?thesis using Inr v bind c l loc country
          by (simp add: redeem_counted_def try_counted_def redeem_service_def guard_py_def)
      qed
    qed
  qed
qed

section \<open>What a call records\<close>

definition redemption_outcomes :: "redemption_outcome list" where
  "redemption_outcomes = [Success, Not_Found, Not_Allowed, Already_Redeemed, Exhausted, No_Geolocation, Internal_Error]"

definition geo_outcomes :: "geo_outcome list" where
  "geo_outcomes = [Geo_Success, Geo_Timeout, Rate_Limited, Provider_Error, Invalid_Response, Non_Public_Ip]"

definition redemptions_counted :: "meters \<Rightarrow> nat" where
  "redemptions_counted m = sum_list (map (redemption_count m) redemption_outcomes)"

definition lookups_timed :: "meters \<Rightarrow> nat" where
  "lookups_timed m = sum_list (map (\<lambda>k. geo_samples m (Ipwhois, k)) geo_outcomes)"

lemma bump_total: "sum_list (map (bump k f) redemption_outcomes) = sum_list (map f redemption_outcomes) + 1"
  by (cases k) (simp_all add: redemption_outcomes_def bump_def)

lemma bump_timed:
  "sum_list (map (\<lambda>k. bump (p, o') f (Ipwhois, k)) geo_outcomes)
    = sum_list (map (\<lambda>k. f (Ipwhois, k)) geo_outcomes) + (if p = Ipwhois then 1 else 0)"
  by (cases o'; cases p) (simp_all add: geo_outcomes_def bump_def)

lemmas record_defs = record_create_def record_redemption_def record_client_ip_def record_geolocation_def
  stop_geolocation_timer_def stop_transaction_timer_def

lemma outcome_public: "snd (answer_of_send countries read_tree r) \<noteq> Non_Public_Ip"
proof -
  have p: "snd x \<noteq> Non_Public_Ip" if "parse_country countries read_tree body = Some x" for body x
    using that by (auto simp: parse_country_def split: option.splits json.splits if_splits sum.splits)
  have "snd (answer_of_response countries read_tree q) \<noteq> Non_Public_Ip" for q
    unfolding answer_of_response_def Let_def using p by (simp split: option.split)
  then show ?thesis by (simp add: answer_of_send_def split: send_result.split)
qed

text \<open>The parts of the meters that a location leaves alone, and the sample for each lookup.\<close>

lemma locate_counted_meters:
  "create_count (snd (locate_counted g a m)) = create_count m"
  "redemption_count (snd (locate_counted g a m)) = redemption_count m"
  "transaction_samples (snd (locate_counted g a m)) = transaction_samples m"
  by (simp_all add: locate_counted_def split_beta Let_def record_defs)

lemma locate_counted_timed:
  "lookups_timed (snd (locate_counted g a m)) = lookups_timed m + length (snd (snd (client_country g a)))"
proof (cases "adapter_of g")
  case (Stub_Adapter c)
  then show ?thesis
    by (simp add: locate_counted_def client_country_def resolve_country_def provider_of_def lookups_timed_def record_defs bump_timed)
next
  case (Ipwhois_Adapter u)
  then show ?thesis using outcome_public
    by (simp add: locate_counted_def client_country_def resolve_country_def provider_of_def lookups_timed_def record_defs
        bump_timed split_beta Let_def)
qed

lemma resolve_counted_meters:
  "create_count (snd (resolve_counted g h m)) = create_count m"
  "redemption_count (snd (resolve_counted g h m)) = redemption_count m"
  "transaction_samples (snd (resolve_counted g h m)) = transaction_samples m"
  by (cases "fst (resolve_ip (literal_parser g) (ip_settings g) (proxy_ranges g) h)",
      simp_all add: resolve_counted_def split_beta Let_def locate_counted_meters record_defs)+

lemma resolve_counted_timed:
  "lookups_timed (snd (resolve_counted g h m))
    = lookups_timed m + length (case client_ip g h of Inl e \<Rightarrow> [] | Inr a \<Rightarrow> snd (snd (client_country g a)))"
  by (cases "fst (resolve_ip (literal_parser g) (ip_settings g) (proxy_ranges g) h)")
    (simp_all add: resolve_counted_def client_ip_def split_beta Let_def locate_counted_timed, simp_all add: lookups_timed_def record_defs)

definition won_result :: "failure + 'a \<Rightarrow> nat" where
  "won_result r = (case r of Inl e \<Rightarrow> 0 | Inr x \<Rightarrow> 1)"

lemma transaction_success: "transaction_outcome_of r = Tx_Success \<longleftrightarrow> won_result r = 1"
  by (auto simp: transaction_outcome_of_def won_result_def split: sum.splits failure.splits)

lemma outcome_not_success: "outcome_of e \<noteq> Success"
  by (simp add: outcome_of_def split: failure.split)

text \<open>One call of the redemption: what it adds to each meter.\<close>

lemma redeem_counted_meters:
  fixes g h code user uuid now d m
  defines "r \<equiv> located_request g h code user uuid now"
  defines "m' \<equiv> snd (redeem_counted g h code user uuid now d m)"
  defines "res \<equiv> fst (redeem_counted g h code user uuid now d m)"
  shows "create_count m' = create_count m
    \<and> redemption_count m' Success = redemption_count m Success + won_result res
    \<and> transaction_samples m' Tx_Success = transaction_samples m Tx_Success + won_result res
    \<and> redemptions_counted m' = redemptions_counted m + won_result (validate_request r)
    \<and> lookups_timed m' = lookups_timed m + length (lookups_sent g h r d)"
proof (cases "validate_request r")
  case (Inl e)
  then have "redeem_counted g h code user uuid now d m = (Inl e, m)"
    by (simp add: redeem_counted_def r_def validate_request_def located_request_def)
  then show ?thesis using Inl by (simp add: m'_def res_def won_result_def lookups_sent_def)
next
  case (Inr v)
  obtain k u where v: "v = (k, u)" by (cases v)
  have bind: "bind_py (coupon_code_of code) (\<lambda>code. bind_py (user_id_of user) (\<lambda>user. Inr (code, user))) = Inr (k, u)"
    using Inr v by (simp add: validate_request_def located_request_def r_def)
  obtain x m1 where x: "try_counted g h k u uuid now d m = (x, m1)" by fastforce
  have m: "redeem_counted g h code user uuid now d m
      = (x, record_redemption (case x of Inl e \<Rightarrow> outcome_of e | Inr y \<Rightarrow> Success) m1)"
    unfolding redeem_counted_def bind by (simp add: x)
  have one: "create_count m1 = create_count m \<and> redemption_count m1 = redemption_count m
      \<and> transaction_samples m1 Tx_Success = transaction_samples m Tx_Success + won_result x
      \<and> lookups_timed m1 = lookups_timed m + length (lookups_sent g h r d)"
  proof (cases "snapshot_coupon (iso_countries g) d k")
    case (Inl e)
    then show ?thesis using x Inr v by (auto simp: try_counted_def won_result_def lookups_sent_def)
  next
    case c: (Inr c)
    obtain l m2 where l: "resolve_counted g h m = (l, m2)" by fastforce
    have m2: "create_count m2 = create_count m" "redemption_count m2 = redemption_count m"
      "transaction_samples m2 = transaction_samples m" "lookups_timed m2 = lookups_timed m + length (lookups_sent g h r d)"
      using resolve_counted_meters[of g h m] resolve_counted_timed[of g h m] l Inr v c by (simp_all add: lookups_sent_def)
    show ?thesis
    proof (cases l)
      case (Inl e)
      then show ?thesis using x c l m2 by (auto simp: try_counted_def won_result_def)
    next
      case country: (Inr country)
      show ?thesis
      proof (cases "coupon_country c = country")
        case False
        then show ?thesis using x c l m2 country by (auto simp: try_counted_def won_result_def)
      next
        case True
        then have "m1 = stop_transaction_timer (transaction_outcome_of x) m2" using x c l country by (auto simp: try_counted_def Let_def)
        moreover have "won_result x = (if transaction_outcome_of x = Tx_Success then 1 else 0)"
          using transaction_success[of x] by (auto simp: won_result_def split: sum.splits)
        ultimately show ?thesis using m2 by (simp add: stop_transaction_timer_def bump_def lookups_timed_def)
      qed
    qed
  qed
  have "redemptions_counted (record_redemption q m1) = redemptions_counted m1 + 1" for q
    by (simp add: redemptions_counted_def record_redemption_def bump_total)
  then show ?thesis
    using one m Inr outcome_not_success outcome_not_success[symmetric]
    by (cases x) (auto simp: m'_def res_def won_result_def record_redemption_def bump_def redemptions_counted_def lookups_timed_def)
qed

section \<open>Counters and tables\<close>

datatype counted_call =
    Count_Create nat int create_command
  | Count_Redeem ip_request "jstring option" "jstring option" nat int

text \<open>The lookups sent so far, the tables and the meters, after one more call.\<close>

fun after_call :: "geo_service \<Rightarrow> counted_call \<Rightarrow> jstring list \<times> db \<times> meters \<Rightarrow> jstring list \<times> db \<times> meters" where
  "after_call g (Count_Create uuid now command) (sent, d, m) =
     (case create_counted (iso_countries g) uuid now command d m of
        (Inl e, m') \<Rightarrow> (sent, d, m') | (Inr (c, d'), m') \<Rightarrow> (sent, d', m'))"
| "after_call g (Count_Redeem h code user uuid now) (sent, d, m) =
     (case redeem_counted g h code user uuid now d m of
        (Inl e, m') \<Rightarrow> (sent @ lookups_sent g h (located_request g h code user uuid now) d, d, m')
      | (Inr (res, d'), m') \<Rightarrow> (sent @ lookups_sent g h (located_request g h code user uuid now) d, d', m'))"

fun counted_request :: "geo_service \<Rightarrow> counted_call \<Rightarrow> bool" where
  "counted_request g (Count_Create uuid now command) \<longleftrightarrow> False"
| "counted_request g (Count_Redeem h code user uuid now) \<longleftrightarrow>
     won_result (validate_request (located_request g h code user uuid now)) = 1"

text \<open>The books are balanced: the counters that have a counterpart agree with it.\<close>

definition balanced :: "jstring list \<times> db \<times> meters \<Rightarrow> jstring list \<times> db \<times> meters \<Rightarrow> nat \<Rightarrow> bool" where
  "balanced s s' n \<longleftrightarrow> (case s of (sent, d, m) \<Rightarrow> case s' of (sent', d', m') \<Rightarrow>
     length (redemptions d') + redemption_count m Success = length (redemptions d) + redemption_count m' Success
     \<and> redemption_count m' Success + transaction_samples m Tx_Success = redemption_count m Success + transaction_samples m' Tx_Success
     \<and> length (coupons d') + create_count m Create_Success = length (coupons d) + create_count m' Create_Success
     \<and> redemptions_counted m' = redemptions_counted m + n
     \<and> length sent' + lookups_timed m = length sent + lookups_timed m')"

lemma balanced_refl: "balanced s s 0"
  by (simp add: balanced_def split: prod.split)

lemma balanced_trans: "balanced s t a \<Longrightarrow> balanced t u b \<Longrightarrow> balanced s u (a + b)"
  by (auto simp: balanced_def split: prod.splits)

lemma after_call_balanced:
  assumes "db_ok d"
  shows "db_ok (fst (snd (after_call g c (sent, d, m))))
    \<and> balanced (sent, d, m) (after_call g c (sent, d, m)) (if counted_request g c then 1 else 0)"
proof (cases c)
  case (Count_Create uuid now command)
  obtain r out where r: "create_service (iso_countries g) uuid now command d = (r, out)" by fastforce
  show ?thesis
  proof (cases r)
    case (Inl e)
    then have "out \<noteq> Some Create_Success"
      using r by (auto simp: create_service_def split: sum.splits if_splits)
    then show ?thesis using assms Count_Create r Inl
      by (auto simp: create_counted_def balanced_def record_create_def bump_def redemptions_counted_def lookups_timed_def
          split: option.splits)
  next
    case (Inr x)
    obtain e d' where x: "x = (e, d')" by (cases x)
    then have cr: "create_service (iso_countries g) uuid now command d = (Inr (e, d'), out)" using r Inr by simp
    have "out = Some Create_Success" using cr by (auto simp: create_service_def split: sum.splits if_splits)
    moreover have "length (coupons d') = length (coupons d) + 1" "redemptions d' = redemptions d"
      using create_rows[OF cr] by (simp_all add: insert_coupon_row_ok)
    ultimately show ?thesis using create_db_ok[OF assms cr] Count_Create cr
      by (simp add: create_counted_def balanced_def record_create_def bump_def redemptions_counted_def lookups_timed_def)
  qed
next
  case (Count_Redeem h code user uuid now)
  let ?r = "located_request g h code user uuid now"
  obtain x m' where x: "redeem_counted g h code user uuid now d m = (x, m')" by fastforce
  have ms: "create_count m' = create_count m" "redemption_count m' Success = redemption_count m Success + won_result x"
    "transaction_samples m' Tx_Success = transaction_samples m Tx_Success + won_result x"
    "redemptions_counted m' = redemptions_counted m + won_result (validate_request ?r)"
    "lookups_timed m' = lookups_timed m + length (lookups_sent g h ?r d)"
    using redeem_counted_meters[of g h code user uuid now d m] x by simp_all
  have v: "won_result (validate_request ?r) = (if counted_request g c then 1 else 0)"
    using Count_Redeem by (simp add: won_result_def split: sum.splits)
  show ?thesis
  proof (cases x)
    case (Inl e)
    then show ?thesis using assms Count_Redeem x ms v by (simp add: balanced_def won_result_def)
  next
    case (Inr y)
    obtain res d' where y: "y = (res, d')" by (cases y)
    have s: "fst (redeem_service (iso_countries g) ?r d) = Inr (res, d')"
      using redeem_counted_fst[of g h code user uuid now d m] x Inr y by simp
    have sch: "schema_ok d" using assms by (simp add: db_ok_def)
    obtain a e where "d' = commit_redemption a e d" using service_commit[OF sch s] by metis
    then have "length (redemptions d') = length (redemptions d) + 1" "length (coupons d') = length (coupons d)"
      by (simp_all add: commit_simps)
    then show ?thesis using service_tables[OF assms s] Count_Redeem x Inr y ms v
      by (simp add: balanced_def won_result_def)
  qed
qed

lemma calls_balanced:
  "db_ok (fst (snd s)) \<Longrightarrow> db_ok (fst (snd (fold (after_call g) cs s)))
    \<and> balanced s (fold (after_call g) cs s) (length (filter (counted_request g) cs))"
proof (induction cs arbitrary: s)
  case Nil
  then show ?case by (simp add: balanced_refl)
next
  case (Cons c cs)
  obtain sent d m where s: "s = (sent, d, m)" by (cases s)
  have one: "db_ok (fst (snd (after_call g c s)))" "balanced s (after_call g c s) (if counted_request g c then 1 else 0)"
    using after_call_balanced[of d g c sent m] Cons.prems s by simp_all
  show ?case using balanced_trans[OF one(2)] Cons.IH[OF one(1)] by fastforce
qed

text \<open>
  C24: the meters tell the truth. After any calls in which the database does not fail, started with
  consistent tables and no counts, the
  counted successes are the new rows of each table, and the samples of the transaction's timer
  with a success are the same number; every valid redemption request is counted under exactly one
  outcome and no invalid one is; and the samples of the provider's timer are the lookups that were
  sent.
\<close>

theorem meters_match_tables:
  assumes "db_ok d" "fold (after_call g) cs ([], d, no_meters) = (sent, d', m)"
  shows "length (redemptions d') = length (redemptions d) + redemption_count m Success
    \<and> transaction_samples m Tx_Success = redemption_count m Success
    \<and> length (coupons d') = length (coupons d) + create_count m Create_Success
    \<and> redemptions_counted m = length (filter (counted_request g) cs)
    \<and> lookups_timed m = length sent"
proof -
  have "balanced ([], d, no_meters) (sent, d', m) (length (filter (counted_request g) cs))"
    using calls_balanced[of "([], d, no_meters)" g cs] assms by simp
  then show ?thesis
    by (simp add: balanced_def no_meters_def redemptions_counted_def lookups_timed_def sum_list_triv)
qed

definition summer_count :: "counted_call list" where
  "summer_count =
     [Count_Create 9 0 \<lparr>cmd_code = Some (lit ''winter''), cmd_max_uses = 2, cmd_country = Some (lit ''PL'')\<rparr>,
      Count_Redeem direct_peer (Some (lit ''summer'')) (Some (lit ''ann'')) 1 5,
      Count_Redeem direct_peer (Some (lit ''summer'')) (Some (lit ''bob'')) 2 5,
      Count_Redeem direct_peer (Some (lit ''spring'')) (Some (lit ''bob'')) 3 5,
      Count_Redeem direct_peer (Some (lit ''summer'')) None 4 5]"

lemma meters_match_tables_witness:
  "\<exists>sent d m. fold (after_call direct_service) summer_count ([], summer_db, no_meters) = (sent, d, m)
    \<and> redemptions_counted m = 3 \<and> redemption_count m Success = 1 \<and> lookups_timed m = length sent"
proof -
  have "case fold (after_call direct_service) summer_count ([], summer_db, no_meters) of (sent, d, m) \<Rightarrow>
      redemption_count m Success = 1"
    by code_simp
  then obtain sent d m where f: "fold (after_call direct_service) summer_count ([], summer_db, no_meters) = (sent, d, m)"
    "redemption_count m Success = 1"
    by (auto split: prod.splits)
  have "db_ok summer_db" by code_simp
  note t = meters_match_tables[OF this f(1)]
  have "length (filter (counted_request direct_service) summer_count) = 3" by code_simp
  then show ?thesis using t f by auto
qed

end
