(* ===== verification/Spec2Isabelle.thy ===== *)
theory Spec2Isabelle
  imports Jacoco_Examples Doc_Examples Delivery_Gate Gate_Properties Web_Api Service_Metrics
begin

text \<open>
  The coupon service and its delivery program. The delivery program is the Python under
  \<open>scripts/\<close> that checks the repository, measures the coverage of its tests, writes its checksum
  manifest and builds its source archive, and the part of \<open>verify.sh\<close> that runs it. The service is
  the Java under \<open>src/main\<close>: coupons with a limit of uses and a country, redeemed concurrently over
  a PostgreSQL database.

  The parts of the delivery program and how they interact. \<open>generate_checksums.py\<close> writes \<open>CHECKSUMS.sha256\<close>: the digest
  of every file of the tree that is not excluded. \<open>package_source.py\<close> takes the tracked files from
  the index of Git, checks each tracked blob against the tracked manifest, and builds an archive
  that depends on the tracked source alone. \<open>check_emp010.py\<close> checks the workflow, the image and
  the observability code, exports twice, compares the archives, looks for forbidden names, and
  tries the packager on a clone with a changed file. \<open>check_documentation.py\<close> keeps the backlog,
  the refinements, the status page, the links and the index of the documents consistent.
  \<open>check_emp008.py\<close> checks the coverage configuration of the POM and a JaCoCo report. The other
  scripts are contract checkers: each reads fixed files and appends a message for every token
  that is missing or forbidden. \<open>verify.sh\<close> runs them in order and stops at the first failure.

  The parts of the service (below \<open>pl/radoslawpiatek/couponservice\<close>). \<open>CreateCouponService\<close> inserts a
  coupon; the unique index on its canonical code decides conflicts. \<open>RedeemCouponService\<close> reads a
  snapshot of the coupon, asks \<open>ServletClientIpResolver\<close> for the address of the client and the
  provider for its country, and calls the transaction of \<open>TransactionalCouponRedemptionService\<close>:
  lock the row of the coupon, check the user and the capacity, insert the redemption, count the
  use. The adapters in \<open>coupon/adapters/persistence\<close> run the statements and translate violated
  constraints; \<open>PublicIpAddressPolicy\<close> and \<open>CidrBlock\<close> keep special addresses from the provider.

  The model. A script or a method is a function of its inputs that returns the messages it prints, or the
  exception that ends it (\<open>e + 'a\<close>, with \<open>Inl\<close> the exception); the operators that run such steps
  one after the other are in \<open>Prelude\<close>. The file tree is an association list from paths to nodes
  (\<open>Py_Path\<close>), in the order in which the system lists it. A message is a constructor with the
  values the script prints, not the printed line; the constant text of a message is kept where it
  tells two messages apart.

  The theories, in the order of their imports.
  The library, for what the scripts take from Python: \<open>Prelude\<close> (runs that may raise, loops that
  collect messages); \<open>Py_Text\<close>, \<open>Py_Codec\<close>, \<open>Unicode_Tables\<close> (strings as lists of code points,
  UTF-8, the newline translation, \<open>splitlines\<close>, \<open>int\<close>); \<open>Py_Regex\<close> and \<open>Regex_Facts\<close> (the part of
  \<open>re\<close> in use, as a backtracking matcher that lists its matches in the order of the module);
  \<open>Py_Path\<close> (\<open>pathlib\<close> and the tree); \<open>Py_Float\<close> (division as a rounded double); \<open>Sha256\<close>;
  \<open>Xml_Tree\<close> (elements as \<open>ElementTree\<close> shows them).
  Delivery: \<open>Checksum_Manifest\<close> is \<open>generate_checksums.py\<close>, \<open>Source_Package\<close> is
  \<open>package_source.py\<close>, \<open>Delivery_Check\<close> the run of \<open>check_emp010.py\<close>. \<open>Source_Delivery\<close>,
  \<open>Manifest_Cycle\<close> and \<open>Delivery_Gate\<close> hold their properties: the index is read exactly, the
  verification of the source is characterised, a generated manifest satisfies the packager, the
  printer and the parser of the manifest are inverse, the generator is idempotent, and the
  delivery check accepts what it should and nothing else.
  Coverage: \<open>Jacoco_Report\<close> (the report, its thresholds and the self-test) and \<open>Jacoco_Contract\<close>
  (the POM and the run) are \<open>check_emp008.py\<close>; \<open>Jacoco_Examples\<close> applies them to small reports.
  Documentation: \<open>Doc_Text\<close>, \<open>Doc_Metadata\<close>, \<open>Doc_Governance\<close> are \<open>check_documentation.py\<close>, with
  the properties in \<open>Doc_Metadata\<close> and \<open>Doc_Properties\<close> and a governed repository in
  \<open>Doc_Examples\<close>.
  Contracts: \<open>Checks\<close> has the helpers the checkers copy, and the interface \<open>static_gate\<close>: a gate
  whose verdict does not read the manifest. \<open>Check_Bootstrap\<close>, \<open>Check_Create\<close> (\<open>check_emp003.py\<close>),
  \<open>Check_Redemption\<close> (004), \<open>Check_Geolocation\<close> (006), \<open>Check_Openapi\<close> (007), \<open>Check_Quality\<close>
  (008 refinement, 009), \<open>Check_Delivery\<close> (010, static) and \<open>Check_Review\<close> (011) are the scripts
  with those numbers and their \<open>_refinement\<close> partners, one definition per validator; each ends with
  the interpretation of \<open>static_gate\<close> on its runs. \<open>Gates\<close> has the same for the other gates and
  the contract stages of \<open>verify.sh\<close>; \<open>Workflow_Actions\<close>, \<open>Test_Sections\<close> and \<open>Gate_Properties\<close>
  say what the contracts let through.

  The service: \<open>Coupon_Domain\<close> is \<open>coupon/domain\<close>, \<open>Coupon_Store\<close> the tables of \<open>db/migration\<close> with the
  adapters, \<open>Redemption\<close> the services of \<open>coupon/application\<close> and the status of each exception.
  \<open>Redemption_Machine\<close> splits a redemption into a step for each call of the repository, as
  PostgreSQL interleaves them at READ COMMITTED: reads see the committed tables, the writes of a
  transaction wait in its phase until it commits, a row lock is held to the end, and a statement
  waits for a locked row or an uncommitted row with the same key; \<open>any_step\<close> adds failures at any
  moment and coupons created meanwhile. \<open>Redemption_Safety\<close> has the invariant of the machine,
  \<open>Redemption_Answers\<close> what each phase knows of the answer, \<open>Redemption_Outcomes\<close> that the tables
  stay consistent and that the answers are those of some sequence of requests (the refinement of
  the sequential service), \<open>Redemption_Competition\<close> what a sequence of requests for one coupon is
  told, \<open>Redemption_Progress\<close> that every request is answered, \<open>Redemption_Promises\<close> the outcome of a
  competition, \<open>Redemption_Examples\<close> two races, and \<open>Coupon_Creation\<close> that a created coupon is
  found. \<open>Client_Address\<close> has addresses, networks and the policy of \<open>geolocation\<close>, \<open>Client_Ip\<close>
  the header parsers and the resolver with its boundary of trust, and \<open>Geolocation\<close> the adapter of
  the provider, the configuration that chooses it, and the redemption with the location it asks
  for: what is looked up, and that a coupon is redeemed only where its country is.
  \<open>Redemption_Port\<close> has the repository of the redemption as an interface, the answer of the
  transaction under its laws, and the adapter as their provider. \<open>Service_Faults\<close> has the two
  services again, with a set of the points at which they need the database that fail: a failure
  replaces the answer by an exception and leaves the tables. \<open>Web_Api\<close> is
  \<open>coupon/adapters/web\<close> from the body of a request to its reply, with the identifier of a request
  (\<open>RequestIdFilter\<close>): for calls in sequence, an internal error is always the work of the database
  or of the web framework, and for concurrent redemptions on a database that works there is none.
  \<open>Service_Metrics\<close> is \<open>observability/CouponServiceMetrics\<close> as state of the services:
  the counters agree with the tables and with the lookups sent, when the database does not fail.

  What is outside the repository is a parameter, and what is relied on is a hypothesis of the
  properties that need it. Git is a function from an argument list to the bytes printed; the
  properties say what the commands print for a given index and commit. The parser of XML, the
  encoding of an archive by \<open>zipfile\<close>, and the text of a traceback are parameters without any
  assumption beyond reading back the names of an archive. For the service, the list of countries
  of the JDK, \<open>InetAddress.getByName\<close>, the HTTP client, the parser of JSON, the generated
  identifiers and the times are parameters, with what fails in a call of the database and of the web
  framework, and for the concurrent runs the country of a client; that fresh identifiers differ is a hypothesis of the theorems that count
  winners and find causes of internal errors, what \<open>getByName\<close> gives for literals one of the theorem on
  the policy, and that the codes of the JDK are two capital letters one of those on replies. SHA-256 is defined, so nothing is
  assumed of it: a property that would need it to be injective names the two texts whose digests
  would have to be equal.

  Bounds and recursion. The repetition of a pattern takes the length of the remaining text as
  fuel; every further round consumes a character, so the fuel never ends a match (an empty round
  stops it, as in the module). The scan for all matches and the hashing by chunks recurse on the
  length of what is left. Word arithmetic is 32 bits wide in \<open>Sha256\<close> and in the attributes of an
  archive entry, where the bound is proved. Quotients are exact rationals rounded to 53 bits; the
  exactness of the coverage verdict is proved for counters below \<open>2 ^ 47\<close>; for larger ones it is
  proved up to \<open>2 ^ -52\<close>, and shown to need some slack. A time of the service is a number of
  nanoseconds, a time of a table one of microseconds (\<open>to_timestamptz\<close>, to the nearest).
  A redemption has seven steps, so a run of \<open>n\<close> requests ends after at most \<open>7 * n\<close>; no fuel is
  needed. Bytes of addresses are 8 bits wide, and their comparison is on 32 bits with sign
  extension, as Java does it. The counters of coupons are integers: the limit of a million keeps
  them far inside an \<open>int\<close>.

  Not modelled: of the service, the transport of HTTP, the durations of the timers, how Jackson
  and Spring bind bodies and properties, and the start of the application; the parts of \<open>verify.sh\<close> after the
  contract stages, which call Maven, Docker, make and the Java compiler; the other shell scripts;
  the printed wording of messages. Printing, the creation and removal of temporary directories,
  and errors of the operating system other than a missing, unreadable or misplaced file are left
  out. Sets and dictionaries whose order the scripts do not fix are lists in the order of the
  text. The data the gates read (POM, workflow, documents) are files of the tree they are given.
\<close>

end
